(* ===== verification/Prelude.thy ===== *)
theory Prelude
  imports Main "HOL-Library.Word" "HOL-Library.Sublist" "HOL-Library.Monad_Syntax"
begin

text \<open>
  Shared by every theory of the development: the collections the component proofs pass to
  the simplifier, generic facts on lists, options and prefixes, and the two contracts that
  several components share: a codec (an encoder with a decoder that undoes it) and a
  handler machine (a partial step function with an invariant under which no step fails).
\<close>

named_theorems js_eval \<open>evaluation of string primitives on literals\<close>
named_theorems dom_simps \<open>rewriting of document accesses\<close>
named_theorems world_simps \<open>frame facts of the page handlers\<close>

section \<open>Lists, options, prefixes\<close>

lemma take_length_eq_iff_prefix: "take (length s) t = s \<longleftrightarrow> prefix s t"
  by (metis append_eq_conv_conj prefix_def)

lemma prefix_test_iff:
  "(length s \<le> length t \<and> take (length s) t = s) \<longleftrightarrow> prefix s t"
  using take_length_eq_iff_prefix prefix_length_le by blast

lemma list_all_dropWhile [intro]: "list_all P xs \<Longrightarrow> list_all P (dropWhile Q xs)"
  by (induction xs) auto

lemma dropWhile_none: "list_all (\<lambda>x. \<not> P x) xs \<Longrightarrow> dropWhile P xs = xs"
  by (cases xs) auto

lemma bind_Some_iff: "(Option.bind m f = Some y) \<longleftrightarrow> (\<exists>x. m = Some x \<and> f x = Some y)"
  by (cases m) auto

lemma bind_not_None_iff: "(Option.bind m f \<noteq> None) \<longleftrightarrow> (\<exists>x. m = Some x \<and> f x \<noteq> None)"
  by (cases m) auto

lemma distinct_map_filter_nth:
  "inj_on f (set xs) \<Longrightarrow> distinct xs \<Longrightarrow> distinct (map f xs)"
  by (simp add: distinct_map)

section \<open>Codecs\<close>

text \<open>
  The search page hands text to another page through encodings: the query part of a URL and
  the identifiers of result rows. What a client relies on is that a decoder undoes the
  encoder and that the image of the encoder respects prefixes.
\<close>

locale codec =
  fixes enc :: "'a \<Rightarrow> 'b" and dec :: "'b \<Rightarrow> 'a"
  assumes dec_enc: "dec (enc x) = x"
begin

lemma enc_inj: "enc x = enc y \<longleftrightarrow> x = y"
  by (metis dec_enc)

lemma inj_enc: "inj enc"
  by (auto simp: inj_def enc_inj)

lemma distinct_enc: "distinct (map enc xs) \<longleftrightarrow> distinct xs"
  using inj_enc by (simp add: distinct_map inj_on_def inj_def)

end

text \<open>A token code: every letter has a non-empty code word, and no code word is a proper
  prefix of another; the code of a list is the concatenation.\<close>

locale token_code =
  fixes tok :: "'a \<Rightarrow> 'b list"
  assumes tok_nonempty: "tok x \<noteq> []"
    and tok_prefix_free: "prefix (tok x) (tok y) \<Longrightarrow> x = y"
begin

definition code :: "'a list \<Rightarrow> 'b list" where
  "code xs = concat (map tok xs)"

lemma code_Cons: "code (x # xs) = tok x @ code xs"
  by (simp add: code_def)

lemma code_Nil: "code [] = []"
  by (simp add: code_def)

lemma code_append: "code (xs @ ys) = code xs @ code ys"
  by (simp add: code_def)

lemma tok_eq: "tok x @ u = tok y @ v \<Longrightarrow> x = y \<and> u = v"
proof -
  assume eq: "tok x @ u = tok y @ v"
  have "prefix (tok x) (tok y) \<or> prefix (tok y) (tok x)"
    using eq by (metis prefixI prefix_same_cases)
  then have "x = y"
    using tok_prefix_free by metis
  with eq show "x = y \<and> u = v" by simp
qed

lemma prefix_code_iff: "prefix (code xs) (code ys) \<longleftrightarrow> prefix xs ys"
proof
  show "prefix (code xs) (code ys) \<Longrightarrow> prefix xs ys"
  proof (induction xs arbitrary: ys)
    case Nil
    then show ?case by simp
  next
    case (Cons x xs)
    then obtain z where z: "code ys = tok x @ code xs @ z"
      by (auto simp: code_Cons prefix_def)
    then obtain y ys' where ys: "ys = y # ys'"
      using tok_nonempty by (cases ys) (auto simp: code_Nil)
    with z have "x = y" "code ys' = code xs @ z"
      using tok_eq[of y "code ys'" x "code xs @ z"] by (auto simp: code_Cons)
    with Cons.IH ys show ?case by (auto simp: prefix_def)
  qed
next
  show "prefix xs ys \<Longrightarrow> prefix (code xs) (code ys)"
    by (auto simp: prefix_def code_append)
qed

lemma code_eq_iff: "code xs = code ys \<longleftrightarrow> xs = ys"
  by (metis prefix_code_iff prefix_order.eq_iff)

end

section \<open>Partial computations that return\<close>

text \<open>
  A handler written in the option monad succeeds with a postcondition. The introduction rules
  follow the structure of the code, so a safety proof is one call of the classical reasoner
  over the rules of the operations it uses.
\<close>

named_theorems safe_intros \<open>rules to show that a partial computation returns\<close>

definition succeeds :: "'a option \<Rightarrow> ('a \<Rightarrow> bool) \<Rightarrow> bool" where
  "succeeds m P = (\<exists>x. m = Some x \<and> P x)"

lemma succeeds_Some [safe_intros]: "P x \<Longrightarrow> succeeds (Some x) P"
  by (simp add: succeeds_def)

lemma succeeds_bind [safe_intros]: "succeeds m (\<lambda>x. succeeds (f x) P) \<Longrightarrow> succeeds (Option.bind m f) P"
  by (auto simp: succeeds_def)

lemma succeeds_if [safe_intros]:
  "(b \<Longrightarrow> succeeds m P) \<Longrightarrow> (\<not> b \<Longrightarrow> succeeds n P) \<Longrightarrow> succeeds (if b then m else n) P"
  by simp

lemma succeeds_map_option [safe_intros]: "succeeds m (\<lambda>x. P (f x)) \<Longrightarrow> succeeds (map_option f m) P"
  by (auto simp: succeeds_def)

lemma succeeds_weaken: "succeeds m P \<Longrightarrow> (\<And>x. P x \<Longrightarrow> Q x) \<Longrightarrow> succeeds m Q"
  by (auto simp: succeeds_def)

lemma succeeds_not_None: "succeeds m P \<Longrightarrow> m \<noteq> None"
  by (auto simp: succeeds_def)

text \<open>The partial reading: whatever a computation returns satisfies the postcondition.\<close>

named_theorems frame_intros \<open>rules for what a partial computation leaves unchanged\<close>

definition yields :: "'a option \<Rightarrow> ('a \<Rightarrow> bool) \<Rightarrow> bool" where
  "yields m P = (\<forall>x. m = Some x \<longrightarrow> P x)"

lemma yields_Some [frame_intros]: "P x \<Longrightarrow> yields (Some x) P"
  by (simp add: yields_def)

lemma yields_None [frame_intros]: "yields None P"
  by (simp add: yields_def)

lemma yields_bind [frame_intros]: "yields m (\<lambda>x. yields (f x) P) \<Longrightarrow> yields (Option.bind m f) P"
  by (auto simp: yields_def bind_Some_iff)

lemma yields_if [frame_intros]:
  "(b \<Longrightarrow> yields m P) \<Longrightarrow> (\<not> b \<Longrightarrow> yields n P) \<Longrightarrow> yields (if b then m else n) P"
  by simp

lemma yields_map_option [frame_intros]: "yields m (\<lambda>x. P (f x)) \<Longrightarrow> yields (map_option f m) P"
  by (auto simp: yields_def)

lemma yields_any: "(\<And>x. P x) \<Longrightarrow> yields m P"
  by (simp add: yields_def)

lemma yields_weaken: "yields m P \<Longrightarrow> (\<And>x. P x \<Longrightarrow> Q x) \<Longrightarrow> yields m Q"
  by (auto simp: yields_def)

lemma yieldsD: "yields m P \<Longrightarrow> m = Some x \<Longrightarrow> P x"
  by (simp add: yields_def)

section \<open>Handler machines\<close>

text \<open>
  Event handlers are partial functions on the page state: \<open>None\<close> is an uncaught exception.
  Where an invariant rules the exceptions out and every handler keeps it, whole sessions of
  events run without an exception.
\<close>

fun run :: "('s \<Rightarrow> 'e \<Rightarrow> 's option) \<Rightarrow> 's \<Rightarrow> 'e list \<Rightarrow> 's option" where
  "run step s [] = Some s"
| "run step s (e # es) = (case step s e of None \<Rightarrow> None | Some s' \<Rightarrow> run step s' es)"

lemma run_append: "run step s (es @ fs) = Option.bind (run step s es) (\<lambda>t. run step t fs)"
  by (induction es arbitrary: s) (auto split: option.splits)

text \<open>A session is feasible when each event is enabled in the state it meets.\<close>

fun feasible :: "('s \<Rightarrow> 'e \<Rightarrow> 's option) \<Rightarrow> ('s \<Rightarrow> 'e \<Rightarrow> bool) \<Rightarrow> 's \<Rightarrow> 'e list \<Rightarrow> bool" where
  "feasible step enabled s [] = True"
| "feasible step enabled s (e # es) =
     (enabled s e \<and> (case step s e of None \<Rightarrow> True | Some t \<Rightarrow> feasible step enabled t es))"

lemma feasible_prefix:
  "feasible step enabled s (pre @ x # post) \<Longrightarrow> run step s pre = Some t \<Longrightarrow> enabled t x"
  by (induction pre arbitrary: s) (auto split: option.splits)

locale handler_machine =
  fixes step :: "'s \<Rightarrow> 'e \<Rightarrow> 's option"
    and ok :: "'s \<Rightarrow> bool"
    and enabled :: "'s \<Rightarrow> 'e \<Rightarrow> bool"
  assumes step_ok: "ok s \<Longrightarrow> enabled s e \<Longrightarrow> succeeds (step s e) ok"
begin

lemma run_ok: "ok s \<Longrightarrow> feasible step enabled s es \<Longrightarrow> \<exists>t. run step s es = Some t \<and> ok t"
proof (induction es arbitrary: s)
  case Nil
  then show ?case by simp
next
  case (Cons e es)
  then obtain t where "step s e = Some t" "ok t"
    using step_ok [of s e] by (auto simp: succeeds_def)
  with Cons show ?case by simp
qed

text \<open>Progress up to the first event that is not enabled, whatever the session is.\<close>

lemma run_ok_or_disabled:
  "ok s \<Longrightarrow> (\<exists>t. run step s es = Some t \<and> ok t) \<or>
     (\<exists>pre x post t. es = pre @ x # post \<and> run step s pre = Some t \<and> ok t \<and> \<not> enabled t x)"
proof (induction es arbitrary: s)
  case (Cons e es)
  show ?case
  proof (cases "enabled s e")
    case True
    then obtain t where t: "step s e = Some t" "ok t"
      using step_ok [OF Cons.prems] by (auto simp: succeeds_def)
    from Cons.IH [OF t(2)] show ?thesis
    proof (elim disjE exE conjE)
      fix pre x post u
      assume "es = pre @ x # post" "run step t pre = Some u" "ok u" "\<not> enabled u x"
      then have "e # es = (e # pre) @ x # post \<and> run step s (e # pre) = Some u \<and> ok u \<and> \<not> enabled u x"
        using t(1) by simp
      then show ?thesis by blast
    qed (use t(1) in simp)
  next
    case False
    then have "e # es = [] @ e # es \<and> run step s [] = Some s \<and> ok s \<and> \<not> enabled s e"
      using Cons.prems by simp
    then show ?thesis by blast
  qed
qed simp

lemma run_never_fails: "ok s \<Longrightarrow> feasible step enabled s es \<Longrightarrow> run step s es \<noteq> None"
  using run_ok by fastforce

end

end
