(* ===== verification/JsString.thy ===== *)
theory JsString
  imports Prelude
begin

text \<open>
  The string operations of the page scripts. A JavaScript string is a list of UTF-16 code
  units; the operations below are the ones \<^verbatim>\<open>search.js\<close> calls: \<open>toString\<close> of numbers,
  the regular-expression replacements, \<open>toLowerCase\<close>, \<open>substr\<close>, \<open>indexOf\<close>, \<open>escape\<close>
  and \<open>unescape\<close>. Case folding outside ASCII needs the Unicode tables and is a parameter.
\<close>

section \<open>Code units and literals\<close>

type_synonym cunit = "16 word"
type_synonym jsstr = "cunit list"

definition cu :: "nat \<Rightarrow> cunit" where
  "cu n = word_of_nat n"

lemma unat_cu [simp]: "n < 65536 \<Longrightarrow> unat (cu n) = n"
  by (simp add: cu_def unat_of_nat take_bit_eq_mod)

lemma cu_unat [simp]: "cu (unat c) = c"
  by (simp add: cu_def)

lemma unat_cunit_less [simp]: "unat (c :: cunit) < 65536"
  using unsigned_less [of c] by simp

lemma cu_inject: "m < 65536 \<Longrightarrow> n < 65536 \<Longrightarrow> cu m = cu n \<longleftrightarrow> m = n"
  by (metis unat_cu)

lemma cunit_eqI: "unat c = unat d \<Longrightarrow> c = (d :: cunit)"
  by (metis cu_unat)

definition js :: "string \<Rightarrow> jsstr" where
  "js s = map (\<lambda>c. cu (of_char c)) s"

lemma unat_cu_of_char: "unat (cu (of_char c)) = (of_char c :: nat)"
proof -
  have "(of_char c :: nat) < 65536"
    using nat_of_char_less_256 [of c] by linarith
  then show ?thesis by (rule unat_cu)
qed

lemma js_Nil [simp]: "js [] = []"
  by (simp add: js_def)

lemma js_append: "js (s @ t) = js s @ js t"
  by (simp add: js_def)

lemma js_inject [simp]: "js s = js t \<longleftrightarrow> s = t"
proof
  assume "js s = js t"
  then have "map unat (js s) = map unat (js t)" by simp
  then have "map (of_char :: char \<Rightarrow> nat) s = map of_char t"
    by (simp add: js_def comp_def unat_cu_of_char)
  then show "s = t"
    by (rule map_injective) (simp add: inj_on_def)
qed simp

lemma js_eq_Nil [simp]: "js s = [] \<longleftrightarrow> s = []"
  by (simp add: js_def)

lemma Nil_eq_js [simp]: "[] = js s \<longleftrightarrow> s = []"
  by (auto simp: js_def)

lemma length_js [simp]: "length (js s) = length s"
  by (simp add: js_def)

section \<open>Numbers as strings\<close>

text \<open>\<open>n.toString(radix)\<close> for a natural number: lower-case digits, no leading zeros.\<close>

fun to_digits :: "nat \<Rightarrow> nat \<Rightarrow> nat list" where
  "to_digits b n = (if n < b \<or> b \<le> 1 then [n] else to_digits b (n div b) @ [n mod b])"

declare to_digits.simps [simp del]

definition digit_cu :: "nat \<Rightarrow> cunit" where
  "digit_cu d = cu (if d < 10 then 48 + d else 87 + d)"

definition num_to_string :: "nat \<Rightarrow> nat \<Rightarrow> jsstr" where
  "num_to_string radix n = map digit_cu (to_digits radix n)"

text \<open>The implicit conversion of an integer in \<open>'Item'+index\<close>.\<close>

definition int_to_string :: "int \<Rightarrow> jsstr" where
  "int_to_string i = (if i < 0 then cu 45 # num_to_string 10 (nat (- i)) else num_to_string 10 (nat i))"

fun undigits :: "nat \<Rightarrow> nat list \<Rightarrow> nat" where
  "undigits b ds = foldl (\<lambda>a d. a * b + d) 0 ds"

lemma undigits_to_digits: "2 \<le> b \<Longrightarrow> undigits b (to_digits b n) = n"
proof (induction b n rule: to_digits.induct)
  case (1 b n)
  then show ?case
    by (cases "n < b") (auto simp: to_digits.simps [of b n])
qed

lemma to_digits_bound: "2 \<le> b \<Longrightarrow> list_all (\<lambda>d. d < b) (to_digits b n)"
proof (induction b n rule: to_digits.induct)
  case (1 b n)
  then show ?case
    by (cases "n < b") (auto simp: to_digits.simps [of b n])
qed

lemma unat_digit_cu: "d < 36 \<Longrightarrow> unat (digit_cu d) = (if d < 10 then 48 + d else 87 + d)"
  by (simp add: digit_cu_def)

lemma digit_cu_inject:
  assumes "d < 36" "e < 36"
  shows "digit_cu d = digit_cu e \<longleftrightarrow> d = e"
proof
  assume "digit_cu d = digit_cu e"
  then have "unat (digit_cu d) = unat (digit_cu e)" by simp
  then show "d = e" using assms by (simp add: unat_digit_cu split: if_splits)
qed simp

lemma inj_on_digit_cu: "inj_on digit_cu {d. d < 36}"
  by (auto simp: inj_on_def digit_cu_inject)

lemma num_to_string_inject:
  assumes "2 \<le> b" "b \<le> 36"
  shows "num_to_string b m = num_to_string b n \<longleftrightarrow> m = n"
proof
  assume eq: "num_to_string b m = num_to_string b n"
  have "set (to_digits b k) \<subseteq> {d. d < 36}" for k
    using to_digits_bound [of b k] assms by (auto simp: list_all_iff)
  then have "inj_on digit_cu (set (to_digits b m) \<union> set (to_digits b n))"
    by (intro inj_on_subset [OF inj_on_digit_cu] Un_least)
  with eq have "to_digits b m = to_digits b n"
    unfolding num_to_string_def by (rule map_inj_on)
  then show "m = n" using undigits_to_digits assms by metis
qed simp

lemma to_digits_nonempty: "to_digits b n \<noteq> []"
  by (subst to_digits.simps) simp

lemma num_to_string_nonempty: "num_to_string b n \<noteq> []"
  by (simp add: num_to_string_def to_digits_nonempty)

lemma set_num_to_string:
  assumes "2 \<le> b" "b \<le> 36" "c \<in> set (num_to_string b n)"
  shows "(48 \<le> unat c \<and> unat c \<le> 57) \<or> (97 \<le> unat c \<and> unat c \<le> 122)"
proof -
  from assms(3) obtain d where d: "d \<in> set (to_digits b n)" "c = digit_cu d"
    by (auto simp: num_to_string_def)
  with to_digits_bound [of b n] assms have "d < 36" by (auto simp: list_all_iff)
  with d show ?thesis by (auto simp: unat_digit_cu)
qed

lemma set_num_to_string10:
  assumes "c \<in> set (num_to_string 10 n)"
  shows "48 \<le> unat c \<and> unat c \<le> 57"
proof -
  from assms obtain d where d: "d \<in> set (to_digits 10 n)" "c = digit_cu d"
    by (auto simp: num_to_string_def)
  with to_digits_bound [of 10 n] have "d < 10" by (auto simp: list_all_iff)
  with d show ?thesis by (auto simp: unat_digit_cu)
qed

lemma int_to_string_inject: "int_to_string i = int_to_string j \<longleftrightarrow> i = j"
proof -
  have neg: "cu 45 # u \<noteq> num_to_string 10 n" for u n
  proof
    assume "cu 45 # u = num_to_string 10 n"
    then have "cu 45 \<in> set (num_to_string 10 n)" by (metis list.set_intros(1))
    from set_num_to_string10 [OF this] show False by simp
  qed
  then show ?thesis
    by (auto simp: int_to_string_def num_to_string_inject neg [symmetric] neg)
qed

section \<open>Regular-expression replacements\<close>

text \<open>\<open>s.replace(/^ +/, "")\<close>, \<open>s.replace(/ +$/, "")\<close> and \<open>s.replace(/ +/g, "")\<close>.\<close>

definition strip_leading :: "jsstr \<Rightarrow> jsstr" where
  "strip_leading s = dropWhile (\<lambda>c. unat c = 32) s"

definition strip_trailing :: "jsstr \<Rightarrow> jsstr" where
  "strip_trailing s = rev (dropWhile (\<lambda>c. unat c = 32) (rev s))"

definition strip_all :: "jsstr \<Rightarrow> jsstr" where
  "strip_all s = filter (\<lambda>c. unat c \<noteq> 32) s"

definition is_digit_cu :: "cunit \<Rightarrow> bool" where
  "is_digit_cu c = (48 \<le> unat c \<and> unat c \<le> 57)"

text \<open>\<open>s.replace(/^sr\d*_/, '')\<close>\<close>

fun strip_row_prefix :: "jsstr \<Rightarrow> jsstr" where
  "strip_row_prefix (s # r # t) =
     (if unat s = 115 \<and> unat r = 114
      then (case dropWhile is_digit_cu t of
              [] \<Rightarrow> s # r # t
            | u # rest \<Rightarrow> if unat u = 95 then rest else s # r # t)
      else s # r # t)"
| "strip_row_prefix t = t"

lemma strip_leading_idem: "strip_leading (strip_leading s) = strip_leading s"
  by (simp add: strip_leading_def)

lemma strip_all_eq_Nil_iff: "strip_all s = [] \<longleftrightarrow> list_all (\<lambda>c. unat c = 32) s"
  by (auto simp: strip_all_def filter_empty_conv list_all_iff)

lemma strip_leading_eq_Nil_iff: "strip_leading s = [] \<longleftrightarrow> strip_all s = []"
  by (simp add: strip_leading_def strip_all_eq_Nil_iff list_all_iff)

section \<open>Lower case\<close>

definition is_ascii :: "jsstr \<Rightarrow> bool" where
  "is_ascii s = list_all (\<lambda>c. unat c < 128) s"

definition lower_cu :: "cunit \<Rightarrow> cunit" where
  "lower_cu c = (if 65 \<le> unat c \<and> unat c \<le> 90 then cu (unat c + 32) else c)"

text \<open>\<open>toLowerCase\<close>: explicit on ASCII; \<open>u\<close> stands for the Unicode mapping elsewhere.\<close>

definition to_lower :: "(jsstr \<Rightarrow> jsstr) \<Rightarrow> jsstr \<Rightarrow> jsstr" where
  "to_lower u s = (if is_ascii s then map lower_cu s else u s)"

lemma is_ascii_Nil [simp]: "is_ascii []"
  by (simp add: is_ascii_def)

lemma is_ascii_Cons [simp]: "is_ascii (c # s) \<longleftrightarrow> unat c < 128 \<and> is_ascii s"
  by (simp add: is_ascii_def)

lemma is_ascii_append [simp]: "is_ascii (s @ t) \<longleftrightarrow> is_ascii s \<and> is_ascii t"
  by (simp add: is_ascii_def)

lemma unat_lower_cu: "unat (lower_cu c) = (if 65 \<le> unat c \<and> unat c \<le> 90 then unat c + 32 else unat c)"
  by (simp add: lower_cu_def)

lemma lower_cu_idem [simp]: "lower_cu (lower_cu c) = lower_cu c"
  by (auto simp: lower_cu_def)

lemma is_ascii_map_lower [simp]: "is_ascii (map lower_cu s) \<longleftrightarrow> is_ascii s"
  by (induction s) (auto simp: unat_lower_cu)

lemma to_lower_idem_ascii: "is_ascii s \<Longrightarrow> to_lower u (to_lower u s) = to_lower u s"
  by (simp add: to_lower_def comp_def)

section \<open>Searching in strings\<close>

text \<open>\<open>s.indexOf(p)\<close>: the first position at which \<open>p\<close> occurs, \<open>-1\<close> when there is none.\<close>

fun index_of :: "jsstr \<Rightarrow> jsstr \<Rightarrow> int" where
  "index_of [] p = (if p = [] then 0 else -1)"
| "index_of (c # s) p =
     (if take (length p) (c # s) = p then 0
      else let i = index_of s p in if i = -1 then -1 else i + 1)"

lemma index_of_ge: "-1 \<le> index_of s p"
  by (induction s) (auto simp: Let_def)

lemma index_of_single:
  "index_of s [c] = (if c \<in> set s then int (length (takeWhile (\<lambda>d. d \<noteq> c) s)) else -1)"
  by (induction s) (auto simp: Let_def)

lemma index_of_single_less:
  "c \<in> set s \<Longrightarrow> nat (index_of s [c]) < length s \<and> s ! nat (index_of s [c]) = c"
proof -
  assume "c \<in> set s"
  then obtain as bs where s: "s = as @ c # bs" "c \<notin> set as"
    by (meson split_list_first)
  then have "takeWhile (\<lambda>d. d \<noteq> c) s = as" by (auto simp: takeWhile_append)
  with s show ?thesis by (simp add: index_of_single)
qed

end
