(* ===== verification/Dom.thy ===== *)
theory Dom
  imports JsString
begin

text \<open>
  The document of a result page as a tree. A reference to a node is its path from the
  document node, the list of child positions; the scripts change attributes and append
  rows, neither of which moves an existing node. \<open>None\<close> stands for \<open>null\<close> in the results of
  the accessors, and for an exception where a property of \<open>null\<close> is read.
\<close>

record attrs =
  nodeName :: string
  node_id :: jsstr
  className :: string
  display :: string
  href :: jsstr
  target :: string
  onkeydown :: jsstr
  onkeypress :: jsstr
  onkeyup :: jsstr
  innerHTML :: jsstr

datatype dnode = Text jsstr | Elem attrs "dnode list"

type_synonym path = "nat list"

section \<open>Nodes at paths\<close>

fun subtree :: "dnode \<Rightarrow> path \<Rightarrow> dnode option" where
  "subtree t [] = Some t"
| "subtree (Text s) (i # p) = None"
| "subtree (Elem a ts) (i # p) = (if i < length ts then subtree (ts ! i) p else None)"

fun node_attrs :: "dnode \<Rightarrow> attrs option" where
  "node_attrs (Text s) = None"
| "node_attrs (Elem a ts) = Some a"

fun children :: "dnode \<Rightarrow> dnode list" where
  "children (Text s) = []"
| "children (Elem a ts) = ts"

definition attrs_at :: "dnode \<Rightarrow> path \<Rightarrow> attrs option" where
  "attrs_at d p = Option.bind (subtree d p) node_attrs"

fun update_at :: "(attrs \<Rightarrow> attrs) \<Rightarrow> path \<Rightarrow> dnode \<Rightarrow> dnode" where
  "update_at f p (Text s) = Text s"
| "update_at f [] (Elem a ts) = Elem (f a) ts"
| "update_at f (i # p) (Elem a ts) =
     Elem a (if i < length ts then ts[i := update_at f p (ts ! i)] else ts)"

fun append_child :: "path \<Rightarrow> dnode \<Rightarrow> dnode \<Rightarrow> dnode" where
  "append_child p n (Text s) = Text s"
| "append_child [] n (Elem a ts) = Elem a (ts @ [n])"
| "append_child (i # p) n (Elem a ts) =
     Elem a (if i < length ts then ts[i := append_child p n (ts ! i)] else ts)"

lemma subtree_append: "subtree d (p @ q) = Option.bind (subtree d p) (\<lambda>t. subtree t q)"
  by (induction d p rule: subtree.induct) auto

lemma subtree_snoc:
  "subtree d p = Some (Elem a ts) \<Longrightarrow>
   subtree d (p @ [i]) = (if i < length ts then Some (ts ! i) else None)"
  by (simp add: subtree_append)

lemma attrs_at_root [simp]: "attrs_at d [] = node_attrs d"
  by (simp add: attrs_at_def)

lemma attrs_at_Text [simp]: "attrs_at (Text s) p = None"
  by (cases p) (simp_all add: attrs_at_def)

lemma attrs_at_Cons [simp]:
  "attrs_at (Elem a ts) (i # p) = (if i < length ts then attrs_at (ts ! i) p else None)"
  by (simp add: attrs_at_def)

lemma attrs_at_update [dom_simps]:
  "attrs_at (update_at f p d) q = (if q = p then map_option f (attrs_at d q) else attrs_at d q)"
proof (induction f p d arbitrary: q rule: update_at.induct)
  case (2 f a ts)
  then show ?case by (cases q) auto
next
  case (3 f i p a ts)
  then show ?case by (cases q) (auto simp: nth_list_update)
qed simp

lemma length_children_update [simp]: "length (children (update_at f p d)) = length (children d)"
  by (induction f p d rule: update_at.induct) auto

text \<open>The shape of a tree: which paths exist. Attribute updates keep it.\<close>

definition has_node :: "dnode \<Rightarrow> path \<Rightarrow> bool" where
  "has_node d p = (subtree d p \<noteq> None)"

lemma has_node_Cons [simp]:
  "has_node (Elem a ts) (i # p) \<longleftrightarrow> i < length ts \<and> has_node (ts ! i) p"
  "\<not> has_node (Text s) (i # p)"
  "has_node d []"
  by (auto simp: has_node_def)

lemma has_node_update [dom_simps]: "has_node (update_at f p d) q = has_node d q"
proof (induction f p d arbitrary: q rule: update_at.induct)
  case (2 f a ts)
  then show ?case by (cases q) auto
next
  case (3 f i p a ts)
  then show ?case by (cases q) (auto simp: nth_list_update)
qed simp

section \<open>Moving in the tree\<close>

definition firstChild :: "dnode \<Rightarrow> path \<Rightarrow> path option" where
  "firstChild d p = (if has_node d (p @ [0]) then Some (p @ [0]) else None)"

definition nextSibling :: "dnode \<Rightarrow> path \<Rightarrow> path option" where
  "nextSibling d p =
     (if p = [] then None
      else let q = butlast p @ [Suc (last p)] in if has_node d q then Some q else None)"

definition parentNode :: "path \<Rightarrow> path option" where
  "parentNode p = (if p = [] then None else Some (butlast p))"

definition hasChildNodes :: "dnode \<Rightarrow> path \<Rightarrow> bool" where
  "hasChildNodes d p = has_node d (p @ [0])"

text \<open>\<open>style.display\<close>; text nodes and the document node have no \<open>style\<close>.\<close>

definition style_display :: "dnode \<Rightarrow> path \<Rightarrow> string option" where
  "style_display d p = (if p = [] then None else map_option display (attrs_at d p))"

definition set_display :: "string \<Rightarrow> path \<Rightarrow> dnode \<Rightarrow> dnode" where
  "set_display v p d = update_at (\<lambda>a. a\<lparr>display := v\<rparr>) p d"

section \<open>Lookup by identifier and by tag\<close>

fun find_id :: "jsstr \<Rightarrow> dnode \<Rightarrow> path option"
  and find_ids :: "jsstr \<Rightarrow> nat \<Rightarrow> dnode list \<Rightarrow> path option" where
  "find_id x (Text s) = None"
| "find_id x (Elem a ts) = (if node_id a = x then Some [] else find_ids x 0 ts)"
| "find_ids x i [] = None"
| "find_ids x i (t # ts) =
     (case find_id x t of Some p \<Rightarrow> Some (i # p) | None \<Rightarrow> find_ids x (Suc i) ts)"

definition getElementById :: "dnode \<Rightarrow> jsstr \<Rightarrow> path option" where
  "getElementById d x = (if x = [] then None else find_id x d)"

fun by_tag :: "string \<Rightarrow> dnode \<Rightarrow> path list"
  and by_tags :: "string \<Rightarrow> nat \<Rightarrow> dnode list \<Rightarrow> path list" where
  "by_tag n (Text s) = []"
| "by_tag n (Elem a ts) = (if nodeName a = n then [[]] else []) @ by_tags n 0 ts"
| "by_tags n i [] = []"
| "by_tags n i (t # ts) = map (Cons i) (by_tag n t) @ by_tags n (Suc i) ts"

definition getElementsByTagName :: "dnode \<Rightarrow> string \<Rightarrow> path list" where
  "getElementsByTagName d n = by_tag n d"

text \<open>The identifiers of a tree.\<close>

fun ids :: "dnode \<Rightarrow> jsstr set" where
  "ids (Text s) = {}"
| "ids (Elem a ts) = insert (node_id a) (\<Union>t \<in> set ts. ids t)"

lemma find_id_None:
  "find_id x t = None \<longleftrightarrow> x \<notin> ids t"
  "find_ids x i ts = None \<longleftrightarrow> (\<forall>t \<in> set ts. x \<notin> ids t)"
  by (induction x t and x i ts rule: find_id_find_ids.induct) (auto split: option.splits)

lemma finite_ids: "finite (ids d)"
  by (induction d) auto

lemma find_ids_append:
  "find_ids x i (ts @ us) =
     (case find_ids x i ts of Some p \<Rightarrow> Some p | None \<Rightarrow> find_ids x (i + length ts) us)"
  by (induction ts arbitrary: i) (auto split: option.splits)

lemma find_ids_shift:
  "find_ids x i ts = Some q \<Longrightarrow> \<exists>j p. q = (i + j) # p \<and> j < length ts \<and> find_id x (ts ! j) = Some p"
proof (induction ts arbitrary: i)
  case (Cons t ts)
  show ?case
  proof (cases "find_id x t")
    case None
    with Cons obtain j p where "q = (Suc i + j) # p" "j < length ts" "find_id x (ts ! j) = Some p"
      by fastforce
    then show ?thesis by (intro exI [of _ "Suc j"] exI [of _ p]) simp
  next
    case (Some p)
    with Cons show ?thesis by (intro exI [of _ 0] exI [of _ p]) simp
  qed
qed simp

lemma find_ids_nth:
  assumes "j < length ts" "find_id x (ts ! j) = Some p" "\<forall>k < j. x \<notin> ids (ts ! k)"
  shows "find_ids x i ts = Some ((i + j) # p)"
  using assms
proof (induction ts arbitrary: i j)
  case (Cons t ts)
  show ?case
  proof (cases j)
    case 0
    with Cons.prems show ?thesis by simp
  next
    case (Suc k)
    with Cons.prems have "find_id x t = None"
      using find_id_None(1) by (metis nth_Cons_0 zero_less_Suc)
    moreover have "find_ids x (Suc i) ts = Some ((Suc i + k) # p)"
      using Cons.prems Suc by (intro Cons.IH) auto
    ultimately show ?thesis using Suc by simp
  qed
qed simp

text \<open>A node that is found carries the identifier.\<close>

lemma find_id_attrs: "find_id x d = Some p \<Longrightarrow> \<exists>a. attrs_at d p = Some a \<and> node_id a = x"
proof (induction d arbitrary: p)
  case (Elem a ts)
  show ?case
  proof (cases "node_id a = x")
    case False
    with Elem.prems have "find_ids x 0 ts = Some p" by simp
    then obtain j q where "p = j # q" "j < length ts" "find_id x (ts ! j) = Some q"
      by (auto dest: find_ids_shift)
    with Elem.IH show ?thesis by auto
  qed (use Elem.prems in auto)
qed simp

lemma getElementById_attrs:
  "getElementById d x = Some p \<Longrightarrow> \<exists>a. attrs_at d p = Some a \<and> node_id a = x"
  by (auto simp: getElementById_def find_id_attrs split: if_splits)

lemma getElementById_None: "x \<noteq> [] \<Longrightarrow> getElementById d x = None \<longleftrightarrow> x \<notin> ids d"
  by (simp add: getElementById_def find_id_None)

text \<open>Updates that keep identifiers and tags keep every lookup.\<close>

definition keeps_name :: "(attrs \<Rightarrow> attrs) \<Rightarrow> bool" where
  "keeps_name f = (\<forall>a. node_id (f a) = node_id a \<and> nodeName (f a) = nodeName a \<and> className (f a) = className a)"

lemma keeps_name_display [simp]: "keeps_name (\<lambda>a. a\<lparr>display := v\<rparr>)"
  by (simp add: keeps_name_def)

lemma find_ids_cong:
  "length ts = length us \<Longrightarrow> (\<forall>k < length ts. find_id x (ts ! k) = find_id x (us ! k)) \<Longrightarrow>
   find_ids x i ts = find_ids x i us"
proof (induction ts us arbitrary: i rule: list_induct2)
  case (Cons t ts u us)
  from Cons.prems have "find_id x t = find_id x u" by (metis length_Cons nth_Cons_0 zero_less_Suc)
  moreover have "find_ids x (Suc i) ts = find_ids x (Suc i) us"
    using Cons.prems by (intro Cons.IH) fastforce
  ultimately show ?case by (simp split: option.split)
qed simp

lemma by_tags_cong:
  "length ts = length us \<Longrightarrow> (\<forall>k < length ts. by_tag n (ts ! k) = by_tag n (us ! k)) \<Longrightarrow>
   by_tags n i ts = by_tags n i us"
proof (induction ts us arbitrary: i rule: list_induct2)
  case (Cons t ts u us)
  from Cons.prems have "by_tag n t = by_tag n u" by (metis length_Cons nth_Cons_0 zero_less_Suc)
  moreover have "by_tags n (Suc i) ts = by_tags n (Suc i) us"
    using Cons.prems by (intro Cons.IH) fastforce
  ultimately show ?case by simp
qed simp

lemma find_id_update [dom_simps]: "keeps_name f \<Longrightarrow> find_id x (update_at f p d) = find_id x d"
proof (induction f p d rule: update_at.induct)
  case (3 f i p a ts)
  then show ?case by (auto simp: nth_list_update intro!: find_ids_cong)
qed (auto simp: keeps_name_def)

lemma by_tag_update [dom_simps]: "keeps_name f \<Longrightarrow> by_tag n (update_at f p d) = by_tag n d"
proof (induction f p d rule: update_at.induct)
  case (3 f i p a ts)
  then show ?case by (auto simp: nth_list_update intro!: by_tags_cong)
qed (auto simp: keeps_name_def)

lemma getElementById_set_display [simp]: "getElementById (set_display v p d) x = getElementById d x"
  by (simp add: getElementById_def set_display_def find_id_update)

lemma by_tag_set_display [simp]: "by_tag n (set_display v p d) = by_tag n d"
  by (simp add: set_display_def by_tag_update)

lemma has_node_set_display [simp]: "has_node (set_display v p d) q = has_node d q"
  by (simp add: set_display_def has_node_update)

lemma attrs_at_set_display:
  "attrs_at (set_display v p d) q =
     (if q = p then map_option (\<lambda>a. a\<lparr>display := v\<rparr>) (attrs_at d q) else attrs_at d q)"
  by (simp add: set_display_def attrs_at_update)

lemma style_display_set_display [simp]:
  "style_display (set_display v p d) q =
     (if q = p \<and> style_display d p \<noteq> None then Some v else style_display d q)"
  by (auto simp: style_display_def attrs_at_set_display split: option.splits)

text \<open>Nodes listed by tag: exactly the elements with that tag, each once.\<close>

lemma by_tags_mem:
  "q \<in> set (by_tags n i ts) \<longleftrightarrow> (\<exists>j p. j < length ts \<and> q = (i + j) # p \<and> p \<in> set (by_tag n (ts ! j)))"
proof (induction ts arbitrary: i)
  case (Cons t ts)
  show ?case (is "?L \<longleftrightarrow> ?R")
  proof
    assume ?L
    then consider p where "p \<in> set (by_tag n t)" "q = i # p" | "q \<in> set (by_tags n (Suc i) ts)"
      by auto
    then show ?R
    proof cases
      case 1
      then show ?thesis by (intro exI [of _ 0] exI [of _ p]) simp
    next
      case 2
      then obtain j p where "j < length ts" "q = (Suc i + j) # p" "p \<in> set (by_tag n (ts ! j))"
        using Cons.IH by auto
      then show ?thesis by (intro exI [of _ "Suc j"] exI [of _ p]) simp
    qed
  next
    assume ?R
    then obtain j p where j: "j < length (t # ts)" "q = (i + j) # p" "p \<in> set (by_tag n ((t # ts) ! j))"
      by blast
    show ?L
    proof (cases j)
      case 0
      with j show ?thesis by auto
    next
      case (Suc k)
      with j Cons.IH show ?thesis by auto
    qed
  qed
qed simp

lemma mem_by_tag: "p \<in> set (by_tag n d) \<longleftrightarrow> (\<exists>a. attrs_at d p = Some a \<and> nodeName a = n)"
proof (induction d arbitrary: p)
  case (Elem a ts)
  then show ?case
    by (cases p) (auto simp: by_tags_mem)
qed simp

lemma distinct_by_tag:
  "distinct (by_tag n d)"
  "distinct (by_tags n i ts)"
  by (induction n d and n i ts rule: by_tag_by_tags.induct)
    (auto simp: by_tags_mem distinct_map)

end
