(* ===== verification/SearchId.thy ===== *)
theory SearchId
  imports JsString
begin

text \<open>
  Identifiers of result rows: \<open>convertToId\<close> of \<^verbatim>\<open>search.js\<close>. Lower-case letters, digits and
  everything from code unit 128 on stand for themselves; every other code unit becomes an
  underscore and two hexadecimal digits. The conversion is a token code, so comparing
  identifiers by prefix is comparing the texts by prefix.
\<close>

text \<open>The class \<open>[a-z0-9\u0080-\uFFFF]\<close> of the regular expression.\<close>

definition id_char :: "cunit \<Rightarrow> bool" where
  "id_char c =
     ((97 \<le> unat c \<and> unat c \<le> 122) \<or> (48 \<le> unat c \<and> unat c \<le> 57) \<or> 128 \<le> unat c)"

definition id_token :: "cunit \<Rightarrow> jsstr" where
  "id_token c =
     (if id_char c then [c]
      else if unat c < 16 then js ''_0'' @ num_to_string 16 (unat c)
      else js ''_'' @ num_to_string 16 (unat c))"

fun convert_loop :: "jsstr \<Rightarrow> jsstr \<Rightarrow> jsstr" where
  "convert_loop result [] = result"
| "convert_loop result (c # rest) = convert_loop (result @ id_token c) rest"

definition convertToId :: "jsstr \<Rightarrow> jsstr" where
  "convertToId search = convert_loop [] search"

lemma convert_loop_concat: "convert_loop r s = r @ concat (map id_token s)"
  by (induction s arbitrary: r) auto

lemma convertToId_concat: "convertToId s = concat (map id_token s)"
  by (simp add: convertToId_def convert_loop_concat)

text \<open>Escaped code units have exactly two digits.\<close>

lemma num_to_string16_two:
  assumes "16 \<le> n" "n < 256"
  shows "num_to_string 16 n = [digit_cu (n div 16), digit_cu (n mod 16)]"
  using assms by (simp add: num_to_string_def to_digits.simps [of 16 n] to_digits.simps [of 16 "n div 16"])

lemma num_to_string16_one: "n < 16 \<Longrightarrow> num_to_string 16 n = [digit_cu n]"
  by (simp add: num_to_string_def to_digits.simps [of 16 n])

lemma id_token_escaped:
  assumes "\<not> id_char c"
  shows "id_token c = [cu 95, digit_cu (unat c div 16), digit_cu (unat c mod 16)]"
proof -
  have lt: "unat c < 128" using assms by (auto simp: id_char_def)
  show ?thesis
  proof (cases "unat c < 16")
    case True
    then show ?thesis
      using assms by (simp add: id_token_def num_to_string16_one js_def digit_cu_def)
  next
    case False
    then show ?thesis
      using assms lt by (simp add: id_token_def num_to_string16_two js_def)
  qed
qed

lemma id_token_plain: "id_char c \<Longrightarrow> id_token c = [c]"
  by (simp add: id_token_def)

lemma id_char_not_underscore: "id_char c \<Longrightarrow> c \<noteq> cu 95"
  by (auto simp: id_char_def)

lemma id_token_prefix_free: "prefix (id_token c) (id_token d) \<Longrightarrow> c = d"
proof (cases "id_char c"; cases "id_char d")
  assume p: "prefix (id_token c) (id_token d)" and c: "\<not> id_char c" and d: "\<not> id_char d"
  then have lt: "unat c < 128" "unat d < 128" by (auto simp: id_char_def)
  from p c d have "digit_cu (unat c div 16) = digit_cu (unat d div 16)"
    and "digit_cu (unat c mod 16) = digit_cu (unat d mod 16)"
    by (simp_all add: id_token_escaped)
  with lt have "unat c div 16 = unat d div 16" "unat c mod 16 = unat d mod 16"
    by (simp_all add: digit_cu_inject)
  then have "unat c = unat d" by (metis div_mult_mod_eq)
  then show "c = d" by (rule cunit_eqI)
qed (auto simp: id_token_plain id_token_escaped dest: id_char_not_underscore)

interpretation ident: token_code id_token
proof unfold_locales
  show "id_token c \<noteq> []" for c
    by (cases "id_char c") (simp_all add: id_token_plain id_token_escaped)
qed (rule id_token_prefix_free)

lemma convertToId_code: "convertToId s = ident.code s"
  by (simp add: convertToId_concat ident.code_def)

lemma prefix_convertToId: "prefix (convertToId s) (convertToId t) \<longleftrightarrow> prefix s t"
  by (simp add: convertToId_code ident.prefix_code_iff)

lemma convertToId_inject: "convertToId s = convertToId t \<longleftrightarrow> s = t"
  by (simp add: convertToId_code ident.code_eq_iff)

text \<open>Shape of an identifier: only identifier characters and underscores, no upper case.\<close>

lemma id_char_digit_cu: "d < 16 \<Longrightarrow> id_char (digit_cu d)"
  by (simp add: id_char_def unat_digit_cu)

lemma set_id_token: "x \<in> set (id_token c) \<Longrightarrow> id_char x \<or> x = cu 95"
proof (cases "id_char c")
  case False
  then have "unat c < 128" by (auto simp: id_char_def)
  then have "unat c div 16 < 16" by simp
  moreover assume "x \<in> set (id_token c)"
  ultimately show ?thesis
    using False id_char_digit_cu by (auto simp: id_token_escaped)
qed (simp add: id_token_plain)

lemma set_convertToId: "x \<in> set (convertToId s) \<Longrightarrow> id_char x \<or> x = cu 95"
  using set_id_token by (auto simp: convertToId_concat)

lemma lower_cu_id_char: "id_char c \<or> c = cu 95 \<Longrightarrow> lower_cu c = c"
  by (auto simp: lower_cu_def id_char_def)

lemma map_lower_convertToId: "map lower_cu (convertToId s) = convertToId s"
  by (rule map_idI) (auto intro: lower_cu_id_char dest: set_convertToId)

lemma is_ascii_id_token: "unat c < 128 \<Longrightarrow> is_ascii (id_token c)"
proof (cases "id_char c")
  case False
  assume "unat c < 128"
  then have "unat (digit_cu (unat c div 16)) < 128" "unat (digit_cu (unat c mod 16)) < 128"
    using mod_less_divisor [of 16 "unat c"] by (auto simp: unat_digit_cu)
  with False show ?thesis by (simp add: id_token_escaped)
qed (simp add: id_token_plain)

lemma is_ascii_convertToId: "is_ascii s \<Longrightarrow> is_ascii (convertToId s)"
  by (induction s) (simp_all add: convertToId_concat is_ascii_id_token)

text \<open>The identifier is idempotent on plain names and never longer than three times the text.\<close>

lemma length_id_token: "length (id_token c) \<le> 3"
  by (cases "id_char c") (simp_all add: id_token_plain id_token_escaped)

lemma length_convertToId: "length (convertToId s) \<le> 3 * length s"
proof (induction s)
  case (Cons c s)
  then show ?case using length_id_token [of c] by (simp add: convertToId_concat)
qed (simp add: convertToId_concat)

text \<open>
  C37: The conversion of names to identifiers respects prefixes in both directions: comparing
  converted prefixes selects exactly the names that start with the text, and two names have
  the same identifier only when they are equal.
\<close>

theorem row_ids_respect_prefixes:
  "(prefix (convertToId s) (convertToId t) \<longleftrightarrow> prefix s t) \<and> (convertToId s = convertToId t \<longleftrightarrow> s = t)"
  using prefix_convertToId convertToId_inject by simp

end
