(* ===== verification/UrlCodec.thy ===== *)
theory UrlCodec
  imports JsString
begin

text \<open>
  How the search text travels from the search box to the result page: the box appends
  \<open>'?' + escape(text)\<close> to the page it opens, the page reads \<open>window.location.search\<close>, drops
  the question mark and applies \<open>unescape\<close>. This theory models \<open>escape\<close> and \<open>unescape\<close>
  (ECMA-262, annex B) and the query part of a location, and shows that they are a codec.
\<close>

section \<open>Hexadecimal digits\<close>

definition hex_cu :: "nat \<Rightarrow> cunit" where
  "hex_cu d = cu (if d < 10 then 48 + d else 55 + d)"

definition hex_val :: "cunit \<Rightarrow> nat option" where
  "hex_val c =
     (let n = unat c in
      if 48 \<le> n \<and> n \<le> 57 then Some (n - 48)
      else if 65 \<le> n \<and> n \<le> 70 then Some (n - 55)
      else if 97 \<le> n \<and> n \<le> 102 then Some (n - 87)
      else None)"

lemma unat_hex_cu: "d < 16 \<Longrightarrow> unat (hex_cu d) = (if d < 10 then 48 + d else 55 + d)"
  by (simp add: hex_cu_def)

lemma hex_val_hex_cu [simp]: "d < 16 \<Longrightarrow> hex_val (hex_cu d) = Some d"
  by (simp add: hex_val_def unat_hex_cu Let_def)

definition hex2 :: "nat \<Rightarrow> jsstr" where
  "hex2 n = [hex_cu (n div 16), hex_cu (n mod 16)]"

definition hex4 :: "nat \<Rightarrow> jsstr" where
  "hex4 n = hex2 (n div 256) @ hex2 (n mod 256)"

fun read_hex :: "nat \<Rightarrow> jsstr \<Rightarrow> nat option" where
  "read_hex a [] = Some a"
| "read_hex a (c # s) = (case hex_val c of None \<Rightarrow> None | Some d \<Rightarrow> read_hex (16 * a + d) s)"

lemma read_hex2: "n < 256 \<Longrightarrow> read_hex a (hex2 n @ s) = read_hex (256 * a + n) s"
  by (simp add: hex2_def less_mult_imp_div_less algebra_simps)

lemma read_hex4: "n < 65536 \<Longrightarrow> read_hex 0 (hex4 n) = Some n"
  using read_hex2 [of "n div 256" 0 "hex2 (n mod 256)"] read_hex2 [of "n mod 256" "n div 256" "[]"]
  by (simp add: hex4_def less_mult_imp_div_less)

section \<open>escape and unescape\<close>

text \<open>The characters \<open>escape\<close> leaves alone: letters, digits and \<open>@*_+-./\<close>.\<close>

definition unreserved :: "cunit \<Rightarrow> bool" where
  "unreserved c =
     (let n = unat c in
      (65 \<le> n \<and> n \<le> 90) \<or> (97 \<le> n \<and> n \<le> 122) \<or> (48 \<le> n \<and> n \<le> 57) \<or>
      n = 64 \<or> n = 42 \<or> n = 95 \<or> n = 43 \<or> n = 45 \<or> n = 46 \<or> n = 47)"

definition escape_cu :: "cunit \<Rightarrow> jsstr" where
  "escape_cu c =
     (if unreserved c then [c]
      else if unat c < 256 then cu 37 # hex2 (unat c)
      else cu 37 # cu 117 # hex4 (unat c))"

definition escape :: "jsstr \<Rightarrow> jsstr" where
  "escape s = concat (map escape_cu s)"

text \<open>What follows a percent sign: \<open>u\<close> and four digits, or two digits, or neither.\<close>

definition read_u :: "jsstr \<Rightarrow> nat option" where
  "read_u s = (if 5 \<le> length s \<and> unat (hd s) = 117 then read_hex 0 (take 4 (tl s)) else None)"

definition read_x :: "jsstr \<Rightarrow> nat option" where
  "read_x s = (if 2 \<le> length s then read_hex 0 (take 2 s) else None)"

fun unescape :: "jsstr \<Rightarrow> jsstr" where
  "unescape [] = []"
| "unescape (c # s) =
     (if unat c = 37
      then (case read_u s of
              Some n \<Rightarrow> cu n # unescape (drop 5 s)
            | None \<Rightarrow>
                (case read_x s of
                   Some n \<Rightarrow> cu n # unescape (drop 2 s)
                 | None \<Rightarrow> c # unescape s))
      else c # unescape s)"

lemma length_hex2 [simp]: "length (hex2 n) = 2"
  by (simp add: hex2_def)

lemma length_hex4 [simp]: "length (hex4 n) = 4"
  by (simp add: hex4_def)

lemma read_u_hex2: "n < 256 \<Longrightarrow> read_u (hex2 n @ s) = None"
proof -
  assume "n < 256"
  then have "n div 16 < 16" by (simp add: less_mult_imp_div_less)
  then show ?thesis by (simp add: read_u_def hex2_def unat_hex_cu)
qed

lemma read_x_hex2: "n < 256 \<Longrightarrow> read_x (hex2 n @ s) = Some n"
  using read_hex2 [of n 0 "[]"] by (simp add: read_x_def)

lemma read_u_hex4: "n < 65536 \<Longrightarrow> read_u (cu 117 # hex4 n @ s) = Some n"
  by (simp add: read_u_def read_hex4)

lemma unreserved_not_percent: "unreserved c \<Longrightarrow> unat c \<noteq> 37"
  by (auto simp: unreserved_def Let_def)

lemma unescape_escape_cu: "unescape (escape_cu c @ s) = c # unescape s"
  by (simp add: escape_cu_def unreserved_not_percent read_u_hex2 read_x_hex2 read_u_hex4)

lemma unescape_escape: "unescape (escape s) = s"
  by (induction s) (simp_all add: escape_def unescape_escape_cu)

interpretation url: codec escape unescape
  by unfold_locales (rule unescape_escape)

text \<open>An escaped text holds only characters that a URL query takes unchanged.\<close>

lemma unreserved_hex_cu: "d < 16 \<Longrightarrow> unreserved (hex_cu d)"
  by (simp add: unreserved_def unat_hex_cu)

lemma set_hex2: "n < 256 \<Longrightarrow> list_all unreserved (hex2 n)"
  by (simp add: hex2_def unreserved_hex_cu less_mult_imp_div_less)

lemma set_hex4: "n < 65536 \<Longrightarrow> list_all unreserved (hex4 n)"
  by (simp add: hex4_def set_hex2 less_mult_imp_div_less)

lemma set_escape_cu: "list_all (\<lambda>c. unreserved c \<or> unat c = 37) (escape_cu d)"
proof -
  have "list_all unreserved s \<Longrightarrow> list_all (\<lambda>c. unreserved c \<or> unat c = 37) s" for s
    by (auto simp: list_all_iff)
  then show ?thesis
    using set_hex2 set_hex4 by (simp add: escape_cu_def unreserved_def [of "cu 117"])
qed

lemma set_escape: "c \<in> set (escape s) \<Longrightarrow> unreserved c \<or> unat c = 37"
  using set_escape_cu by (auto simp: escape_def list_all_iff)

section \<open>The query part of a location\<close>

text \<open>\<open>window.location.search\<close>: the query with its question mark, empty for an empty query;
  the fragment is no part of it.\<close>

definition location_search :: "jsstr \<Rightarrow> jsstr" where
  "location_search url =
     (case dropWhile (\<lambda>c. unat c \<noteq> 63) (takeWhile (\<lambda>c. unat c \<noteq> 35) url) of
        [] \<Rightarrow> []
      | q # query \<Rightarrow> if query = [] then [] else q # query)"

text \<open>A path that may stand before the query.\<close>

definition plain_path :: "jsstr \<Rightarrow> bool" where
  "plain_path p = list_all (\<lambda>c. unat c \<noteq> 63 \<and> unat c \<noteq> 35) p"

lemma escape_no_fragment: "takeWhile (\<lambda>c. unat c \<noteq> 35) (escape s) = escape s"
proof -
  have "unat c \<noteq> 35" if "c \<in> set (escape s)" for c
    using set_escape [OF that] by (auto simp: unreserved_def Let_def)
  then show ?thesis by (simp add: takeWhile_eq_all_conv)
qed

lemma dropWhile_plain_path: "plain_path p \<Longrightarrow> dropWhile (\<lambda>c. unat c \<noteq> 63) (p @ s) = dropWhile (\<lambda>c. unat c \<noteq> 63) s"
  by (induction p) (auto simp: plain_path_def)

lemma takeWhile_plain_path:
  "plain_path p \<Longrightarrow> takeWhile (\<lambda>c. unat c \<noteq> 35) (p @ s) = p @ takeWhile (\<lambda>c. unat c \<noteq> 35) s"
  by (induction p) (auto simp: plain_path_def)

lemma escape_eq_Nil_iff [simp]: "escape s = [] \<longleftrightarrow> s = []"
  by (metis unescape_escape unescape.simps(1) concat.simps(1) escape_def list.simps(8))

lemma location_search_escape:
  "plain_path p \<Longrightarrow>
   location_search (p @ cu 63 # escape s) = (if s = [] then [] else cu 63 # escape s)"
  by (simp add: location_search_def takeWhile_plain_path dropWhile_plain_path escape_no_fragment)

lemma location_search_plain: "plain_path p \<Longrightarrow> location_search p = []"
proof -
  assume p: "plain_path p"
  from takeWhile_plain_path [OF p, of "[]"] dropWhile_plain_path [OF p, of "[]"]
  have "takeWhile (\<lambda>c. unat c \<noteq> 35) p = p" "dropWhile (\<lambda>c. unat c \<noteq> 63) p = []"
    by (simp_all only: append_Nil2 takeWhile.simps dropWhile.simps)
  then show ?thesis by (simp only: location_search_def list.case)
qed

text \<open>The text the result page searches for is the text the box put into the URL.\<close>

lemma query_text_roundtrip:
  "plain_path p \<Longrightarrow> unescape (drop 1 (location_search (p @ cu 63 # escape s))) = s"
  by (simp add: location_search_escape unescape_escape)

end
