(* ===== verification/ResultsPage.thy ===== *)
theory ResultsPage
  imports Dom SearchId UrlCodec
begin

text \<open>
  The page inside the results frame: \<open>createResults\<close> builds one row per entry of the index
  table, \<open>FindChildElement\<close> walks to the list of members of a row, \<open>Toggle\<close> folds it, and
  \<open>SearchResults.Search\<close> shows the rows whose identifier starts with the search text.
\<close>

section \<open>Index tables\<close>

text \<open>One element of \<open>searchData\<close>: \<open>[id, [name, [url, parent, scope], ...]]\<close>.\<close>

record link =
  link_url :: jsstr
  link_parent :: bool
  link_scope :: jsstr

record entry =
  ent_id :: jsstr
  ent_name :: jsstr
  ent_links :: "link list"

section \<open>Building the rows\<close>

text \<open>\<open>document.createElement\<close>; an HTML document reports tag names in upper case.\<close>

definition createElement :: "string \<Rightarrow> attrs" where
  "createElement tag =
     \<lparr>nodeName = tag, node_id = [], className = [], display = [], href = [], target = [],
      onkeydown = [], onkeypress = [], onkeyup = [], innerHTML = []\<rparr>"

definition setKeyActions :: "jsstr \<Rightarrow> attrs \<Rightarrow> attrs" where
  "setKeyActions action a = a\<lparr>onkeydown := action, onkeypress := action, onkeyup := action\<rparr>"

definition setClassAttr :: "string \<Rightarrow> attrs \<Rightarrow> attrs" where
  "setClassAttr v a = a\<lparr>className := v\<rparr>"

definition row_id :: "jsstr \<Rightarrow> jsstr" where
  "row_id i = js ''SR_'' @ i"

definition item_id :: "int \<Rightarrow> jsstr" where
  "item_id e = js ''Item'' @ int_to_string e"

definition item_child_id :: "int \<Rightarrow> int \<Rightarrow> jsstr" where
  "item_child_id e c = js ''Item'' @ int_to_string e @ js ''_c'' @ int_to_string c"

definition result_child :: "nat \<Rightarrow> nat \<Rightarrow> link \<Rightarrow> dnode" where
  "result_child e c l =
     (let a0 = (createElement ''A'')\<lparr>node_id := item_child_id (int e) (int c)\<rparr>;
          a1 = setKeyActions (js ''return searchResults.NavChild(event,'' @ int_to_string (int e)
                  @ js '','' @ int_to_string (int c) @ js '')'') a0;
          a2 = (setClassAttr ''SRScope'' a1)\<lparr>href := link_url l\<rparr>;
          a3 = (if link_parent l then a2\<lparr>target := ''_parent''\<rparr> else a2)
      in Elem (a3\<lparr>innerHTML := link_scope l\<rparr>) [])"

fun result_children :: "nat \<Rightarrow> nat \<Rightarrow> link list \<Rightarrow> dnode list" where
  "result_children e c [] = []"
| "result_children e c (l # ls) = result_child e c l # result_children e (Suc c) ls"

definition result_link :: "nat \<Rightarrow> entry \<Rightarrow> attrs" where
  "result_link e ent =
     (let a0 = (createElement ''A'')\<lparr>node_id := item_id (int e)\<rparr>;
          a1 = setKeyActions (js ''return searchResults.Nav(event,'' @ int_to_string (int e) @ js '')'') a0;
          a2 = (setClassAttr ''SRSymbol'' a1)\<lparr>innerHTML := ent_name ent\<rparr>
      in case ent_links ent of
           [l] \<Rightarrow> (if link_parent l then a2\<lparr>href := link_url l, target := ''_parent''\<rparr>
                   else a2\<lparr>href := link_url l\<rparr>)
         | _ \<Rightarrow> a2\<lparr>href := js ''javascript:searchResults.Toggle('' @ [cu 34] @ row_id (ent_id ent)
                       @ [cu 34] @ js '')''\<rparr>)"

definition result_entry :: "nat \<Rightarrow> entry \<Rightarrow> dnode list" where
  "result_entry e ent =
     (case ent_links ent of
        [l] \<Rightarrow> [Elem (result_link e ent) [],
                Elem ((setClassAttr ''SRScope'' (createElement ''SPAN''))\<lparr>innerHTML := link_scope l\<rparr>) []]
      | ls \<Rightarrow> [Elem (result_link e ent) [],
               Elem (setClassAttr ''SRChildren'' (createElement ''DIV'')) (result_children e 0 ls)])"

definition result_row :: "nat \<Rightarrow> entry \<Rightarrow> dnode" where
  "result_row e ent =
     Elem (setClassAttr ''SRResult'' ((createElement ''DIV'')\<lparr>node_id := row_id (ent_id ent)\<rparr>))
       [Elem (setClassAttr ''SREntry'' (createElement ''DIV'')) (result_entry e ent)]"

fun create_loop :: "path \<Rightarrow> nat \<Rightarrow> entry list \<Rightarrow> dnode \<Rightarrow> dnode" where
  "create_loop results e [] d = d"
| "create_loop results e (ent # data) d =
     create_loop results (Suc e) data (append_child results (result_row e ent) d)"

text \<open>\<open>results.appendChild\<close> raises when the page has no \<open>SRResults\<close>, unless no row is made.\<close>

definition createResults :: "entry list \<Rightarrow> dnode \<Rightarrow> dnode option" where
  "createResults searchData d =
     (case getElementById d (js ''SRResults'') of
        None \<Rightarrow> if searchData = [] then Some d else None
      | Some results \<Rightarrow> Some (create_loop results 0 searchData d))"

section \<open>Walking to the members of a row\<close>

text \<open>The inner \<open>do ... while\<close>: up to the parent, or to an ancestor with a next sibling.\<close>

function climb :: "dnode \<Rightarrow> path \<Rightarrow> path \<Rightarrow> path option" where
  "climb d parent element =
     (case parentNode element of
        None \<Rightarrow> None
      | Some e \<Rightarrow> if e \<noteq> parent \<and> nextSibling d e = None then climb d parent e else Some e)"
  by pat_completeness auto
termination
  by (relation "measure (\<lambda>(d, p, e). length e)") (auto simp: parentNode_def split: if_splits)

declare climb.simps [simp del]

definition is_srchildren :: "dnode \<Rightarrow> path \<Rightarrow> bool" where
  "is_srchildren d p =
     (case attrs_at d p of None \<Rightarrow> False
      | Some a \<Rightarrow> nodeName a = ''DIV'' \<and> className a = ''SRChildren'')"

definition is_div :: "dnode \<Rightarrow> path \<Rightarrow> bool" where
  "is_div d p = (case attrs_at d p of None \<Rightarrow> False | Some a \<Rightarrow> nodeName a = ''DIV'')"

text \<open>The next position of the walk after a node and all below it.\<close>

definition after_node :: "dnode \<Rightarrow> path \<Rightarrow> path \<Rightarrow> path option" where
  "after_node d parent element =
     (case nextSibling d element of
        Some s \<Rightarrow> Some s
      | None \<Rightarrow>
          (case climb d parent element of
             None \<Rightarrow> None
           | Some e \<Rightarrow> if e \<noteq> parent then nextSibling d e else Some e))"

definition advance :: "dnode \<Rightarrow> path \<Rightarrow> path \<Rightarrow> path option" where
  "advance d parent element =
     (if is_div d element \<and> hasChildNodes d element then firstChild d element
      else after_node d parent element)"

text \<open>The outer \<open>while\<close>; \<open>Some None\<close> is the undefined result, \<open>None\<close> a walk that never ends.\<close>

partial_function (option) find_child_loop :: "dnode \<Rightarrow> path \<Rightarrow> path option \<Rightarrow> path option option" where
  "find_child_loop d parent element =
     (case element of
        None \<Rightarrow> Some None
      | Some e \<Rightarrow>
          if e = parent then Some None
          else if is_srchildren d e then Some (Some e)
          else find_child_loop d parent (advance d parent e))"

declare find_child_loop.simps [code]

definition FindChildElement :: "dnode \<Rightarrow> jsstr \<Rightarrow> path option option" where
  "FindChildElement d x =
     (case getElementById d x of
        None \<Rightarrow> None
      | Some parent \<Rightarrow> find_child_loop d parent (firstChild d parent))"

text \<open>What the walk computes: the first member list in document order, through \<open>DIV\<close>s only.\<close>

fun first_srchildren :: "dnode \<Rightarrow> path option"
  and first_srchildren_list :: "nat \<Rightarrow> dnode list \<Rightarrow> path option" where
  "first_srchildren (Text s) = None"
| "first_srchildren (Elem a ts) =
     (if nodeName a \<noteq> ''DIV'' then None
      else if className a = ''SRChildren'' then Some []
      else first_srchildren_list 0 ts)"
| "first_srchildren_list i [] = None"
| "first_srchildren_list i (t # ts) =
     (case first_srchildren t of
        Some p \<Rightarrow> Some (i # p)
      | None \<Rightarrow> first_srchildren_list (Suc i) ts)"

definition Toggle :: "jsstr \<Rightarrow> dnode \<Rightarrow> dnode option" where
  "Toggle x d =
     (case FindChildElement d x of
        None \<Rightarrow> None
      | Some None \<Rightarrow> Some d
      | Some (Some e) \<Rightarrow>
          if style_display d e = Some ''block'' then Some (set_display ''none'' e d)
          else Some (set_display ''block'' e d))"

section \<open>The search\<close>

record SearchResults =
  lastMatchCount :: nat
  lastKey :: int
  repeatOn :: bool

definition new_SearchResults :: SearchResults where
  "new_SearchResults = \<lparr>lastMatchCount = 0, lastKey = 0, repeatOn = False\<rparr>"

record rpage =
  rdoc :: dnode
  searchResults :: SearchResults

definition row_matches :: "(jsstr \<Rightarrow> jsstr) \<Rightarrow> jsstr \<Rightarrow> attrs \<Rightarrow> bool" where
  "row_matches u search a =
     (let rowMatchName = strip_row_prefix (to_lower u (node_id a)) in
      length search \<le> length rowMatchName \<and> take (length search) rowMatchName = search)"

fun search_rows :: "(jsstr \<Rightarrow> jsstr) \<Rightarrow> jsstr \<Rightarrow> path list \<Rightarrow> dnode \<Rightarrow> nat \<Rightarrow> dnode \<times> nat" where
  "search_rows u search [] d matches = (d, matches)"
| "search_rows u search (p # ps) d matches =
     (case attrs_at d p of
        None \<Rightarrow> search_rows u search ps d matches
      | Some a \<Rightarrow>
          if className a = ''SRResult''
          then (if row_matches u search a
                then search_rows u search ps (set_display ''block'' p d) (Suc matches)
                else search_rows u search ps (set_display ''none'' p d) matches)
          else search_rows u search ps d matches)"

definition search_key :: "(jsstr \<Rightarrow> jsstr) \<Rightarrow> jsstr \<Rightarrow> jsstr" where
  "search_key u search = convertToId (to_lower u (strip_trailing (strip_leading search)))"

definition results_Search :: "(jsstr \<Rightarrow> jsstr) \<Rightarrow> jsstr \<Rightarrow> jsstr \<Rightarrow> rpage \<Rightarrow> rpage option" where
  "results_Search u url search pg =
     (let text = (if search = [] then unescape (drop 1 (location_search url)) else search);
          key = search_key u text;
          (d, matches) = search_rows u key (getElementsByTagName (rdoc pg) ''DIV'') (rdoc pg) 0
      in do {
        searching \<leftarrow> getElementById d (js ''Searching'');
        nomatches \<leftarrow> getElementById d (js ''NoMatches'');
        let d1 = set_display ''none'' searching d;
        let d2 = set_display (if matches = 0 then ''block'' else ''none'') nomatches d1;
        Some (pg\<lparr>rdoc := d2,
                 searchResults := (searchResults pg)\<lparr>lastMatchCount := matches\<rparr>\<rparr>)
      })"

section \<open>The page around the rows\<close>

definition named_div :: "string \<Rightarrow> string \<Rightarrow> dnode list \<Rightarrow> dnode" where
  "named_div i c ts = Elem (setClassAttr c ((createElement ''DIV'')\<lparr>node_id := js i\<rparr>)) ts"

definition page_with :: "dnode list \<Rightarrow> dnode" where
  "page_with rows =
     Elem (createElement ''#document'')
       [Elem (createElement ''HTML'')
          [Elem (createElement ''HEAD'') [],
           Elem (setClassAttr ''SRPage'' (createElement ''BODY''))
             [named_div ''SRIndex'' []
                [named_div ''Loading'' ''SRStatus'' [Text (js ''Loading...'')],
                 named_div ''SRResults'' [] rows,
                 Elem (createElement ''SCRIPT'') [],
                 named_div ''Searching'' ''SRStatus'' [Text (js ''Searching...'')],
                 named_div ''NoMatches'' ''SRStatus'' [Text (js ''No Matches'')],
                 Elem (createElement ''SCRIPT'') []]]]]"

definition load_results_page :: "(jsstr \<Rightarrow> jsstr) \<Rightarrow> entry list \<Rightarrow> jsstr \<Rightarrow> rpage option" where
  "load_results_page u searchData url = do {
     d \<leftarrow> createResults searchData (page_with []);
     loading \<leftarrow> getElementById d (js ''Loading'');
     let d1 = set_display ''none'' loading d;
     nomatches \<leftarrow> getElementById d1 (js ''NoMatches'');
     let d2 = set_display ''none'' nomatches d1;
     results_Search u url [] \<lparr>rdoc = d2, searchResults = new_SearchResults\<rparr>
   }"

end
