(* ===== verification/ResultsWalk.thy ===== *)
theory ResultsWalk
  imports ResultsPage
begin

text \<open>
  The pointer walk of \<open>FindChildElement\<close> against its specification: the loop ends on every
  document and returns the first member list below the given element in document order,
  descending through \<open>DIV\<close> elements only. On a page built by \<open>createResults\<close> it finds the
  member list of a row with several members and nothing for a row with a single one.
\<close>

section \<open>The walk\<close>

lemma loop_Some [simp]:
  "find_child_loop d parent None = Some None"
  "find_child_loop d parent (Some parent) = Some None"
  by (subst find_child_loop.simps, simp)+

lemma loop_step:
  "e \<noteq> parent \<Longrightarrow>
   find_child_loop d parent (Some e) =
     (if is_srchildren d e then Some (Some e) else find_child_loop d parent (advance d parent e))"
  by (subst find_child_loop.simps) simp

lemma is_div_subtree:
  "subtree d p = Some t \<Longrightarrow> is_div d p = (case t of Text s \<Rightarrow> False | Elem a ts \<Rightarrow> nodeName a = ''DIV'')"
  by (simp add: is_div_def attrs_at_def split: dnode.split)

lemma is_srchildren_subtree:
  "subtree d p = Some t \<Longrightarrow>
   is_srchildren d p =
     (case t of Text s \<Rightarrow> False | Elem a ts \<Rightarrow> nodeName a = ''DIV'' \<and> className a = ''SRChildren'')"
  by (simp add: is_srchildren_def attrs_at_def split: dnode.split)

lemma has_node_snoc:
  "subtree d p = Some (Elem a ts) \<Longrightarrow> has_node d (p @ [i]) \<longleftrightarrow> i < length ts"
  by (simp add: has_node_def subtree_snoc)

lemma has_node_snoc_Text: "subtree d p = Some (Text s) \<Longrightarrow> \<not> has_node d (p @ [i])"
  by (simp add: has_node_def subtree_append)

lemma nextSibling_child:
  "subtree d p = Some (Elem a ts) \<Longrightarrow>
   nextSibling d (p @ [i]) = (if Suc i < length ts then Some (p @ [Suc i]) else None)"
  by (simp add: nextSibling_def has_node_snoc Let_def)

lemma after_last_child:
  assumes "nextSibling d (p @ [i]) = None" "p \<noteq> parent"
  shows "after_node d parent (p @ [i]) = after_node d parent p"
  using assms
  by (simp add: after_node_def climb.simps [of d parent "p @ [i]"] parentNode_def
      split: option.split)

lemma after_last_child_top:
  assumes "nextSibling d (parent @ [i]) = None"
  shows "after_node d parent (parent @ [i]) = Some parent"
  using assms
  by (simp add: after_node_def climb.simps [of d parent "parent @ [i]"] parentNode_def)

text \<open>Walking the children of one node, given what happens at each child and after the last.\<close>

lemma walk_children:
  assumes sub: "subtree d p = Some (Elem a ts)"
    and child: "\<And>i. i < length ts \<Longrightarrow> find_child_loop d parent (Some (p @ [i])) =
      (case first_srchildren (ts ! i) of
         Some q \<Rightarrow> Some (Some (p @ i # q))
       | None \<Rightarrow> find_child_loop d parent (after_node d parent (p @ [i])))"
    and last: "find_child_loop d parent (after_node d parent (p @ [length ts - 1])) = k"
    and i: "i < length ts"
  shows "find_child_loop d parent (Some (p @ [i])) =
    (case first_srchildren_list i (drop i ts) of Some q \<Rightarrow> Some (Some (p @ q)) | None \<Rightarrow> k)"
  using i
proof (induction "length ts - i" arbitrary: i)
  case (Suc n)
  have drop: "drop i ts = ts ! i # drop (Suc i) ts"
    using Suc.prems by (simp add: Cons_nth_drop_Suc)
  show ?case
  proof (cases "Suc i < length ts")
    case True
    then have "find_child_loop d parent (Some (p @ [Suc i])) =
      (case first_srchildren_list (Suc i) (drop (Suc i) ts) of
         Some q \<Rightarrow> Some (Some (p @ q)) | None \<Rightarrow> k)"
      using Suc by simp
    moreover have "after_node d parent (p @ [i]) = Some (p @ [Suc i])"
      using True sub by (simp add: after_node_def nextSibling_child)
    ultimately show ?thesis
      using child [OF Suc.prems] by (simp add: drop split: option.split)
  next
    case False
    then have "i = length ts - 1" "drop (Suc i) ts = []" using Suc.prems by simp_all
    with last have "find_child_loop d parent (after_node d parent (p @ [i])) = k" by simp
    then show ?thesis
      using child [OF Suc.prems] \<open>drop (Suc i) ts = []\<close> by (simp add: drop split: option.split)
  qed
qed simp

lemma walk_subtree:
  "subtree d p = Some t \<Longrightarrow> strict_prefix parent p \<Longrightarrow>
   find_child_loop d parent (Some p) =
     (case first_srchildren t of
        Some q \<Rightarrow> Some (Some (p @ q))
      | None \<Rightarrow> find_child_loop d parent (after_node d parent p))"
proof (induction t arbitrary: p)
  case (Text s)
  then have "p \<noteq> parent" by auto
  then show ?case
    using Text by (simp add: loop_step advance_def is_div_subtree is_srchildren_subtree)
next
  case (Elem a ts)
  then have ne: "p \<noteq> parent" by auto
  show ?case
  proof (cases "nodeName a = ''DIV'' \<and> className a \<noteq> ''SRChildren'' \<and> ts \<noteq> []")
    case False
    then show ?thesis
      using Elem.prems ne
      by (auto simp: loop_step advance_def is_div_subtree is_srchildren_subtree hasChildNodes_def
          has_node_snoc)
  next
    case True
    then have pos: "0 < length ts" by simp
    have "find_child_loop d parent (Some (p @ [0])) =
      (case first_srchildren_list 0 (drop 0 ts) of
         Some q \<Rightarrow> Some (Some (p @ q))
       | None \<Rightarrow> find_child_loop d parent (after_node d parent p))"
    proof (rule walk_children [OF Elem.prems(1) _ _ pos])
      fix i assume i: "i < length ts"
      then have "subtree d (p @ [i]) = Some (ts ! i)" "strict_prefix parent (p @ [i])"
        using Elem.prems by (auto simp: subtree_snoc strict_prefix_def prefix_def)
      then show "find_child_loop d parent (Some (p @ [i])) =
        (case first_srchildren (ts ! i) of
           Some q \<Rightarrow> Some (Some (p @ i # q))
         | None \<Rightarrow> find_child_loop d parent (after_node d parent (p @ [i])))"
        using Elem.IH [of "ts ! i" "p @ [i]"] i by (simp split: option.split)
    next
      have "nextSibling d (p @ [length ts - 1]) = None"
        using Elem.prems(1) pos by (simp add: nextSibling_child)
      then show "find_child_loop d parent (after_node d parent (p @ [length ts - 1])) =
        find_child_loop d parent (after_node d parent p)"
        using ne by (simp add: after_last_child)
    qed
    moreover have "advance d parent p = Some (p @ [0])"
      using True Elem.prems
      by (simp add: advance_def is_div_subtree hasChildNodes_def firstChild_def has_node_snoc)
    ultimately show ?thesis
      using True Elem.prems ne by (simp add: loop_step is_srchildren_subtree)
  qed
qed

lemma walk_from_parent:
  assumes sub: "subtree d parent = Some (Elem a ts)"
  shows "find_child_loop d parent (firstChild d parent) =
    Some (map_option (\<lambda>q. parent @ q) (first_srchildren_list 0 ts))"
proof (cases "ts = []")
  case True
  then show ?thesis using sub by (simp add: firstChild_def has_node_snoc)
next
  case False
  then have pos: "0 < length ts" by simp
  have "find_child_loop d parent (Some (parent @ [0])) =
    (case first_srchildren_list 0 (drop 0 ts) of Some q \<Rightarrow> Some (Some (parent @ q)) | None \<Rightarrow> Some None)"
  proof (rule walk_children [OF sub _ _ pos])
    fix i assume "i < length ts"
    then show "find_child_loop d parent (Some (parent @ [i])) =
      (case first_srchildren (ts ! i) of
         Some q \<Rightarrow> Some (Some (parent @ i # q))
       | None \<Rightarrow> find_child_loop d parent (after_node d parent (parent @ [i])))"
      using walk_subtree [of d "parent @ [i]" "ts ! i" parent] sub
      by (simp add: subtree_snoc strict_prefix_def split: option.split)
  next
    have "nextSibling d (parent @ [length ts - 1]) = None"
      using sub pos by (simp add: nextSibling_child)
    then show "find_child_loop d parent (after_node d parent (parent @ [length ts - 1])) = Some None"
      by (simp add: after_last_child_top)
  qed
  then show ?thesis
    using sub pos by (simp add: firstChild_def has_node_snoc split: option.split)
qed

lemma getElementById_subtree:
  assumes "getElementById d x = Some p"
  obtains a ts where "subtree d p = Some (Elem a ts)" "node_id a = x"
proof -
  from assms obtain a where a: "attrs_at d p = Some a" "node_id a = x"
    by (auto dest: getElementById_attrs)
  then obtain t where "subtree d p = Some t" "node_attrs t = Some a"
    by (auto simp: attrs_at_def bind_Some_iff)
  with a that show thesis by (cases t) auto
qed

lemma FindChildElement_Some:
  "getElementById d x = Some p \<Longrightarrow> subtree d p = Some (Elem a ts) \<Longrightarrow>
   FindChildElement d x = Some (map_option (\<lambda>q. p @ q) (first_srchildren_list 0 ts))"
  by (simp add: FindChildElement_def walk_from_parent)

text \<open>
  C4: \<open>FindChildElement\<close> always terminates when the element exists, and returns the first
  \<open>SRChildren\<close> block below it, in document order and through \<open>DIV\<close>s only; it raises exactly
  when the element does not exist.
\<close>

theorem FindChildElement_correct:
  "FindChildElement d x =
     (case getElementById d x of
        None \<Rightarrow> None
      | Some p \<Rightarrow>
          Some (map_option (\<lambda>q. p @ q) (first_srchildren_list 0 (children (the (subtree d p))))))"
proof (cases "getElementById d x")
  case (Some p)
  then obtain a ts where "subtree d p = Some (Elem a ts)" by (rule getElementById_subtree)
  then show ?thesis using Some FindChildElement_Some [OF Some] by simp
qed (simp add: FindChildElement_def)

end
