(* ===== verification/ResultsShape.thy ===== *)
theory ResultsShape
  imports ResultsWalk
begin

text \<open>
  The structure of a result page. Scripts only change the \<open>display\<close> of its nodes once the
  rows are made, so every lookup by identifier is computed once, on the page as built:
  where the rows, their links and their members are, and that no two nodes share a name.
\<close>

section \<open>Shape: the document without its visibility\<close>

fun shape :: "dnode \<Rightarrow> dnode" where
  "shape (Text s) = Text s"
| "shape (Elem a ts) = Elem (a\<lparr>display := []\<rparr>) (map shape ts)"

lemma shape_set_display [dom_simps]: "shape (set_display v p d) = shape d"
  unfolding set_display_def
proof (induction "\<lambda>a::attrs. a\<lparr>display := v\<rparr>" p d rule: update_at.induct)
  case (3 i p a ts)
  then show ?case
    by (auto simp: map_update intro!: nth_equalityI)
      (metis list_update_id length_map nth_list_update_eq nth_map list_update_same_conv)
qed auto

lemma find_id_shape:
  "find_id x (shape t) = find_id x t"
  "find_ids x i (map shape ts) = find_ids x i ts"
  by (induction x t and x i ts rule: find_id_find_ids.induct) (auto split: option.split)

lemma getElementById_shape: "shape d = shape d' \<Longrightarrow> getElementById d x = getElementById d' x"
  by (metis find_id_shape(1) getElementById_def)

lemma subtree_shape: "subtree (shape d) p = map_option shape (subtree d p)"
  by (induction d p rule: subtree.induct) auto

lemma attrs_at_shape: "attrs_at (shape d) p = map_option (\<lambda>a. a\<lparr>display := []\<rparr>) (attrs_at d p)"
proof -
  have "node_attrs (shape t) = map_option (\<lambda>a. a\<lparr>display := []\<rparr>) (node_attrs t)" for t
    by (cases t) auto
  then show ?thesis
    by (cases "subtree d p") (simp_all add: attrs_at_def subtree_shape)
qed

lemma first_srchildren_shape:
  "first_srchildren (shape t) = first_srchildren t"
  "first_srchildren_list i (map shape ts) = first_srchildren_list i ts"
  by (induction t and i ts rule: first_srchildren_first_srchildren_list.induct)
    (auto split: option.split)

lemma children_shape: "children (shape t) = map shape (children t)"
  by (cases t) auto

lemma FindChildElement_shape_eq: "FindChildElement (shape d) x = FindChildElement d x"
proof (cases "getElementById d x")
  case None
  then show ?thesis
    using find_id_shape(1) by (simp add: FindChildElement_def getElementById_def split: if_splits)
next
  case (Some p)
  then obtain a ts where t: "subtree d p = Some (Elem a ts)" by (rule getElementById_subtree)
  then have "subtree (shape d) p = Some (Elem (a\<lparr>display := []\<rparr>) (map shape ts))"
    by (simp add: subtree_shape)
  moreover have "getElementById (shape d) x = Some p"
    using Some find_id_shape(1) by (simp add: getElementById_def split: if_splits)
  ultimately show ?thesis
    using Some t by (simp add: FindChildElement_Some first_srchildren_shape)
qed

lemma FindChildElement_shape: "shape d = shape d' \<Longrightarrow> FindChildElement d x = FindChildElement d' x"
  by (metis FindChildElement_shape_eq)

section \<open>The rows of a page\<close>

fun rows :: "nat \<Rightarrow> entry list \<Rightarrow> dnode list" where
  "rows e [] = []"
| "rows e (ent # data) = result_row e ent # rows (Suc e) data"

lemma length_rows [simp]: "length (rows e data) = length data"
  by (induction e data rule: rows.induct) auto

lemma nth_rows [simp]: "i < length data \<Longrightarrow> rows e data ! i = result_row (e + i) (data ! i)"
  by (induction e data arbitrary: i rule: rows.induct) (auto simp: nth_Cons split: nat.split)

lemma length_result_children [simp]: "length (result_children e c ls) = length ls"
  by (induction e c ls rule: result_children.induct) auto

lemma nth_result_children [simp]:
  "i < length ls \<Longrightarrow> result_children e c ls ! i = result_child e (c + i) (ls ! i)"
  by (induction e c ls arbitrary: i rule: result_children.induct) (auto simp: nth_Cons split: nat.split)

text \<open>Where the rows hang: document, \<open>HTML\<close>, \<open>BODY\<close>, \<open>SRIndex\<close>, \<open>SRResults\<close>.\<close>

definition rows_path :: path where
  "rows_path = [0, 1, 0, 1]"

lemma page_SRResults: "getElementById (page_with rs) (js ''SRResults'') = Some rows_path"
  by (simp add: getElementById_def page_with_def named_div_def setClassAttr_def createElement_def
      rows_path_def)

lemma append_child_page: "append_child rows_path n (page_with rs) = page_with (rs @ [n])"
  by (simp add: page_with_def named_div_def setClassAttr_def createElement_def rows_path_def)

lemma create_loop_page:
  "create_loop rows_path e data (page_with rs) = page_with (rs @ rows e data)"
  by (induction data arbitrary: e rs) (simp_all add: append_child_page)

lemma createResults_page: "createResults data (page_with []) = Some (page_with (rows 0 data))"
  by (simp add: createResults_def page_SRResults create_loop_page)

section \<open>Names are not shared\<close>

lemma cu_neq: "m < 65536 \<Longrightarrow> n < 65536 \<Longrightarrow> m \<noteq> n \<Longrightarrow> cu m \<noteq> cu n"
  by (simp add: cu_inject)

lemma item_id_inject [simp]: "item_id i = item_id j \<longleftrightarrow> i = j"
  by (simp add: item_id_def int_to_string_inject)

lemma row_id_inject [simp]: "row_id x = row_id y \<longleftrightarrow> x = y"
  by (simp add: row_id_def)

lemma underscore_not_in_number: "cu 95 \<notin> set (int_to_string i)"
proof
  assume "cu 95 \<in> set (int_to_string i)"
  then have "cu 95 = cu 45 \<or> (\<exists>n. cu 95 \<in> set (num_to_string 10 n))"
    by (auto simp: int_to_string_def split: if_splits)
  then show False using set_num_to_string10 [of "cu 95"] by (auto simp: cu_inject)
qed

lemma split_at_underscore:
  assumes "int_to_string i @ cu 95 # s = int_to_string j @ cu 95 # t"
  shows "i = j \<and> s = t"
proof -
  have "takeWhile (\<lambda>c. c \<noteq> cu 95) (int_to_string i @ cu 95 # s) = int_to_string i" for i s
    using underscore_not_in_number [of i] by (subst takeWhile_append2) auto
  with assms have "int_to_string i = int_to_string j" by metis
  with assms show ?thesis by (simp add: int_to_string_inject)
qed

lemma item_child_id_inject [simp]:
  "item_child_id i c = item_child_id j k \<longleftrightarrow> i = j \<and> c = k"
  using split_at_underscore [of i "cu 99 # int_to_string c" j "cu 99 # int_to_string k"]
  by (auto simp: item_child_id_def js_def int_to_string_inject)

lemma item_child_id_not_item [simp]: "item_child_id i c \<noteq> item_id j" "item_id j \<noteq> item_child_id i c"
proof -
  have "cu 95 \<notin> set (int_to_string j)" by (rule underscore_not_in_number)
  moreover have "item_child_id i c = item_id j \<Longrightarrow> cu 95 \<in> set (int_to_string j)"
    by (drule arg_cong [of _ _ "\<lambda>s. cu 95 \<in> set s"])
      (auto simp: item_child_id_def item_id_def js_def cu_inject)
  ultimately show "item_child_id i c \<noteq> item_id j" by blast
  then show "item_id j \<noteq> item_child_id i c" by metis
qed

text \<open>First letters tell the three kinds of names and the page's own names apart.\<close>

lemma literal_neq:
  "s \<noteq> [] \<Longrightarrow> t \<noteq> [] \<Longrightarrow> hd s \<noteq> hd t \<Longrightarrow> js s @ u \<noteq> js t @ v"
  by (cases s; cases t) (auto simp: js_def dest!: arg_cong [of _ _ unat] simp: unat_cu_of_char)

lemma row_not_item [simp]:
  "row_id x \<noteq> item_id i" "row_id x \<noteq> item_child_id i c"
  "item_id i \<noteq> row_id x" "item_child_id i c \<noteq> row_id x"
  unfolding row_id_def item_id_def item_child_id_def by (rule literal_neq; simp)+

definition page_names :: "jsstr set" where
  "page_names = {[], js ''SRIndex'', js ''Loading'', js ''SRResults'', js ''Searching'', js ''NoMatches''}"

lemma names_fresh [simp]:
  "row_id x \<notin> page_names" "item_id i \<notin> page_names" "item_child_id i c \<notin> page_names"
  by (auto simp: page_names_def row_id_def item_id_def item_child_id_def js_def cu_inject)

lemma names_nonempty [simp]: "row_id x \<noteq> []" "item_id i \<noteq> []" "item_child_id i c \<noteq> []"
  "[] \<noteq> row_id x" "[] \<noteq> item_id i" "[] \<noteq> item_child_id i c"
  by (simp_all add: row_id_def item_id_def item_child_id_def)

lemma getElementById_row:
  "x \<notin> page_names \<Longrightarrow>
   getElementById (page_with rs) x = map_option (\<lambda>q. rows_path @ q) (find_ids x 0 rs)"
  by (auto simp: getElementById_def page_with_def named_div_def setClassAttr_def createElement_def
      page_names_def rows_path_def split: option.split)

section \<open>Looking rows, links and members up\<close>

lemma ids_result_child [simp]: "ids (result_child e c l) = {item_child_id (int e) (int c)}"
  by (simp add: result_child_def Let_def setKeyActions_def setClassAttr_def createElement_def)

lemma ids_result_children:
  "(\<Union>t \<in> set (result_children e c ls). ids t) = {item_child_id (int e) (int k) |k. c \<le> k \<and> k < c + length ls}"
proof (induction e c ls rule: result_children.induct)
  case (2 e c l ls)
  then show ?case by (auto simp: le_Suc_eq Suc_le_eq)
qed auto

lemma result_link_simps [simp]:
  "node_id (result_link e ent) = item_id (int e)"
  "nodeName (result_link e ent) = ''A''"
  "className (result_link e ent) = ''SRSymbol''"
  by (auto simp: result_link_def Let_def setKeyActions_def setClassAttr_def createElement_def
      split: list.split)

definition members :: "entry \<Rightarrow> nat" where
  "members ent = (if length (ent_links ent) = 1 then 0 else length (ent_links ent))"

lemma result_entry_single:
  "length (ent_links ent) = 1 \<Longrightarrow> \<exists>a. node_id a = [] \<and> nodeName a = ''SPAN'' \<and>
     result_entry e ent = [Elem (result_link e ent) [], Elem a []]"
  by (cases "ent_links ent")
    (auto simp: result_entry_def setClassAttr_def createElement_def)

lemma result_entry_multi:
  "length (ent_links ent) \<noteq> 1 \<Longrightarrow>
   result_entry e ent =
     [Elem (result_link e ent) [],
      Elem (setClassAttr ''SRChildren'' (createElement ''DIV'')) (result_children e 0 (ent_links ent))]"
  by (auto simp: result_entry_def split: list.split)

lemma ids_result_row:
  "ids (result_row e ent) =
     {row_id (ent_id ent), [], item_id (int e)} \<union> {item_child_id (int e) (int c) |c. c < members ent}"
proof (cases "length (ent_links ent) = 1")
  case True
  then obtain a where "node_id a = []" "result_entry e ent = [Elem (result_link e ent) [], Elem a []]"
    using result_entry_single by blast
  then show ?thesis
    using True by (auto simp: result_row_def setClassAttr_def createElement_def members_def)
next
  case False
  then show ?thesis
    using ids_result_children [of e 0 "ent_links ent"]
    by (auto simp: result_row_def result_entry_multi setClassAttr_def createElement_def members_def)
qed

lemma find_item_in_row: "find_id (item_id (int e)) (result_row e ent) = Some [0, 0]"
proof -
  have "\<exists>rest. result_entry e ent = Elem (result_link e ent) [] # rest"
    by (auto simp: result_entry_def split: list.split)
  then show ?thesis
    by (auto simp: result_row_def setClassAttr_def createElement_def)
qed

lemma find_child_list:
  "c < length ls \<Longrightarrow>
   find_ids (item_child_id (int e) (int (b + c))) i (result_children e b ls) = Some [i + c]"
proof (rule find_ids_nth [where p = "[]", simplified])
  assume "c < length ls"
  then show "find_id (item_child_id (int e) (int (b + c))) (result_children e b ls ! c) = Some []"
    by (simp add: result_child_def Let_def setKeyActions_def setClassAttr_def createElement_def)
qed auto

lemma find_child_in_row:
  assumes "c < members ent"
  shows "find_id (item_child_id (int e) (int c)) (result_row e ent) = Some [0, 1, c]"
proof -
  have len: "length (ent_links ent) \<noteq> 1" "c < length (ent_links ent)"
    using assms by (auto simp: members_def split: if_splits)
  then show ?thesis
    using find_child_list [of c "ent_links ent" e 0 0]
    by (simp add: result_row_def result_entry_multi setClassAttr_def createElement_def)
qed

lemma not_in_other_row:
  "k < length data \<Longrightarrow> k \<noteq> e \<Longrightarrow>
   item_id (int e) \<notin> ids (rows 0 data ! k) \<and> item_child_id (int e) c \<notin> ids (rows 0 data ! k)"
  by (auto simp: ids_result_row)

text \<open>The link of row \<open>e\<close>, its members, and the absence of any other item.\<close>

lemma item_lookup:
  assumes "e < length data"
  shows "getElementById (page_with (rows 0 data)) (item_id (int e)) = Some (rows_path @ [e, 0, 0])"
proof -
  have "find_ids (item_id (int e)) 0 (rows 0 data) = Some ((0 + e) # [0, 0])"
    using assms not_in_other_row [of _ data e]
    by (intro find_ids_nth) (auto simp: find_item_in_row)
  then show ?thesis by (simp add: getElementById_row)
qed

lemma item_child_lookup:
  assumes "e < length data" "c < members (data ! e)"
  shows "getElementById (page_with (rows 0 data)) (item_child_id (int e) (int c)) =
    Some (rows_path @ [e, 0, 1, c])"
proof -
  have "find_ids (item_child_id (int e) (int c)) 0 (rows 0 data) = Some ((0 + e) # [0, 1, c])"
    using assms not_in_other_row [of _ data e]
    by (intro find_ids_nth) (auto simp: find_child_in_row)
  then show ?thesis by (simp add: getElementById_row)
qed

lemma item_lookup_None:
  assumes "\<not> (0 \<le> i \<and> i < int (length data))"
  shows "getElementById (page_with (rows 0 data)) (item_id i) = None"
proof -
  have "find_ids (item_id i) 0 (rows 0 data) = None"
    using assms by (auto simp: find_id_None in_set_conv_nth ids_result_row)
  then show ?thesis by (simp add: getElementById_row)
qed

lemma item_child_lookup_None:
  assumes "e < length data" "\<not> (0 \<le> c \<and> c < int (members (data ! e)))"
  shows "getElementById (page_with (rows 0 data)) (item_child_id (int e) c) = None"
proof -
  have "find_ids (item_child_id (int e) c) 0 (rows 0 data) = None"
    using assms by (auto simp: find_id_None in_set_conv_nth ids_result_row)
  then show ?thesis by (simp add: getElementById_row)
qed

lemma row_lookup:
  assumes "e < length data" "distinct (map ent_id data)"
  shows "getElementById (page_with (rows 0 data)) (row_id (ent_id (data ! e))) = Some (rows_path @ [e])"
proof -
  have "find_ids (row_id (ent_id (data ! e))) 0 (rows 0 data) = Some ((0 + e) # [])"
  proof (rule find_ids_nth)
    show "find_id (row_id (ent_id (data ! e))) (rows 0 data ! e) = Some []"
      using assms by (simp add: result_row_def setClassAttr_def createElement_def)
    show "\<forall>k < e. row_id (ent_id (data ! e)) \<notin> ids (rows 0 data ! k)"
      using assms by (auto simp: ids_result_row distinct_conv_nth)
  qed (use assms in simp)
  then show ?thesis by (simp add: getElementById_row)
qed

text \<open>The page's own elements are not hidden by a row.\<close>

lemma page_element_lookup:
  "getElementById (page_with (rows 0 data)) (js ''Loading'') = Some [0, 1, 0, 0]"
  "getElementById (page_with (rows 0 data)) (js ''Searching'') = Some [0, 1, 0, 3]"
  "getElementById (page_with (rows 0 data)) (js ''NoMatches'') = Some [0, 1, 0, 4]"
proof -
  have "find_ids x i (rows e data) = None" if "x \<in> page_names" "x \<noteq> []" for x i e
    using that names_fresh by (auto simp: find_id_None in_set_conv_nth ids_result_row)
  then have "find_ids (js ''Searching'') 0 (rows 0 data) = None"
    "find_ids (js ''NoMatches'') 0 (rows 0 data) = None"
    by (simp_all add: page_names_def)
  then show
    "getElementById (page_with (rows 0 data)) (js ''Loading'') = Some [0, 1, 0, 0]"
    "getElementById (page_with (rows 0 data)) (js ''Searching'') = Some [0, 1, 0, 3]"
    "getElementById (page_with (rows 0 data)) (js ''NoMatches'') = Some [0, 1, 0, 4]"
    by (simp_all add: getElementById_def page_with_def named_div_def setClassAttr_def
        createElement_def)
qed

section \<open>The node of a row and the walk from it\<close>

lemma subtree_rows:
  "e < length rs \<Longrightarrow> subtree (page_with rs) (rows_path @ e # q) = subtree (rs ! e) q"
  by (simp add: page_with_def named_div_def rows_path_def)

lemma subtree_row:
  "e < length data \<Longrightarrow>
   subtree (page_with (rows 0 data)) (rows_path @ [e]) = Some (result_row e (data ! e))"
  using subtree_rows [of e "rows 0 data" "[]"] by simp

lemma first_srchildren_row:
  "first_srchildren_list 0 (children (result_row e ent)) =
     (if length (ent_links ent) = 1 then None else Some [0, 1])"
proof (cases "length (ent_links ent) = 1")
  case True
  then obtain a where "nodeName a = ''SPAN''" "result_entry e ent = [Elem (result_link e ent) [], Elem a []]"
    using result_entry_single by blast
  then show ?thesis using True by (simp add: result_row_def setClassAttr_def createElement_def)
next
  case False
  then show ?thesis
    by (simp add: result_row_def result_entry_multi setClassAttr_def createElement_def)
qed

lemma FindChildElement_row:
  assumes "e < length data" "distinct (map ent_id data)"
  shows "FindChildElement (page_with (rows 0 data)) (row_id (ent_id (data ! e))) =
    Some (if length (ent_links (data ! e)) = 1 then None else Some (rows_path @ [e, 0, 1]))"
proof -
  have "subtree (page_with (rows 0 data)) (rows_path @ [e]) =
      Some (Elem (the (node_attrs (result_row e (data ! e)))) (children (result_row e (data ! e))))"
    using assms(1) by (simp add: subtree_row result_row_def)
  from FindChildElement_Some [OF row_lookup [OF assms] this] show ?thesis
    by (simp add: first_srchildren_row)
qed

end
