(* ===== verification/ResultsSearch.thy ===== *)
theory ResultsSearch
  imports ResultsShape
begin

text \<open>
  What a search shows. The loop over the rows is one marking pass over the document; on a
  page whose row identifiers are the converted names of the entries, a row is visible after
  the search exactly when its name starts with the (trimmed, lower-cased) search text.
\<close>

section \<open>The loop over the rows\<close>

definition mark_row :: "(jsstr \<Rightarrow> jsstr) \<Rightarrow> jsstr \<Rightarrow> attrs \<Rightarrow> attrs" where
  "mark_row u s a =
     (if className a = ''SRResult''
      then a\<lparr>display := (if row_matches u s a then ''block'' else ''none'')\<rparr> else a)"

definition is_hit :: "(jsstr \<Rightarrow> jsstr) \<Rightarrow> jsstr \<Rightarrow> dnode \<Rightarrow> path \<Rightarrow> bool" where
  "is_hit u s d p =
     (case attrs_at d p of
        None \<Rightarrow> False
      | Some a \<Rightarrow> className a = ''SRResult'' \<and> row_matches u s a)"

lemma row_matches_display [simp]: "row_matches u s (a\<lparr>display := v\<rparr>) = row_matches u s a"
  by (simp add: row_matches_def)

lemma mark_row_idem [simp]: "mark_row u s (mark_row u s a) = mark_row u s a"
  by (simp add: mark_row_def)

lemma mark_row_display [simp]:
  "className a = ''SRResult'' \<Longrightarrow> mark_row u s (a\<lparr>display := v\<rparr>) = mark_row u s a"
  by (simp add: mark_row_def)

lemma is_hit_set_display [simp]: "is_hit u s (set_display v p d) q = is_hit u s d q"
  by (auto simp: is_hit_def attrs_at_set_display split: option.split)

lemma search_rows_step:
  "search_rows u s (p # ps) d m =
     (case attrs_at d p of
        Some a \<Rightarrow>
          if className a = ''SRResult''
          then search_rows u s ps (set_display (if row_matches u s a then ''block'' else ''none'') p d)
                 (if row_matches u s a then Suc m else m)
          else search_rows u s ps d m
      | None \<Rightarrow> search_rows u s ps d m)"
  by (simp split: option.split)

lemma attrs_search_rows:
  "attrs_at (fst (search_rows u s ps d m)) q =
     (if q \<in> set ps then map_option (mark_row u s) (attrs_at d q) else attrs_at d q)"
proof (induction ps arbitrary: d m q)
  case (Cons p ps)
  show ?case
    by (cases "attrs_at d p")
      (auto simp: search_rows_step Cons.IH attrs_at_set_display mark_row_def map_option_case
        simp del: search_rows.simps split: option.split)
qed simp

lemma count_search_rows:
  "snd (search_rows u s ps d m) = m + length (filter (is_hit u s d) ps)"
proof (induction ps arbitrary: d m)
  case (Cons p ps)
  show ?case
    by (cases "attrs_at d p")
      (auto simp: search_rows_step Cons.IH is_hit_def [of u s d p] simp del: search_rows.simps)
qed simp

lemma shape_search_rows: "shape (fst (search_rows u s ps d m)) = shape d"
proof (induction ps arbitrary: d m)
  case (Cons p ps)
  then show ?case
    by (cases "attrs_at d p")
      (auto simp: search_rows_step shape_set_display simp del: search_rows.simps)
qed simp

lemma mem_divs:
  "p \<in> set (getElementsByTagName d ''DIV'') \<longleftrightarrow> (\<exists>a. attrs_at d p = Some a \<and> nodeName a = ''DIV'')"
  by (simp add: getElementsByTagName_def mem_by_tag)

text \<open>The text a search uses: its argument, or the query of the page's location.\<close>

definition search_text :: "jsstr \<Rightarrow> jsstr \<Rightarrow> jsstr" where
  "search_text url search = (if search = [] then unescape (drop 1 (location_search url)) else search)"

definition hits :: "(jsstr \<Rightarrow> jsstr) \<Rightarrow> jsstr \<Rightarrow> dnode \<Rightarrow> path list" where
  "hits u key d = filter (is_hit u key d) (getElementsByTagName d ''DIV'')"

text \<open>
  The result of a search as one expression: the marked document with the two status lines
  switched, and the number of hits.
\<close>

lemma results_Search_eq:
  assumes "getElementById (rdoc pg) (js ''Searching'') = Some sp"
    and "getElementById (rdoc pg) (js ''NoMatches'') = Some np"
    and key: "key = search_key u (search_text url search)"
  shows "results_Search u url search pg =
    Some (pg\<lparr>rdoc := set_display (if hits u key (rdoc pg) = [] then ''block'' else ''none'') np
                       (set_display ''none'' sp
                         (fst (search_rows u key (getElementsByTagName (rdoc pg) ''DIV'') (rdoc pg) 0))),
             searchResults := (searchResults pg)\<lparr>lastMatchCount := length (hits u key (rdoc pg))\<rparr>\<rparr>)"
proof -
  obtain d m where r: "search_rows u key (getElementsByTagName (rdoc pg) ''DIV'') (rdoc pg) 0 = (d, m)"
    by fastforce
  then have "shape d = shape (rdoc pg)" by (metis fst_conv shape_search_rows)
  then have "getElementById d x = getElementById (rdoc pg) x" for x
    by (rule getElementById_shape)
  with assms(1,2) have lookups: "getElementById d (js ''Searching'') = Some sp"
    "getElementById d (js ''NoMatches'') = Some np"
    by simp_all
  have "m = length (hits u key (rdoc pg))"
    using arg_cong [OF r, of snd] unfolding count_search_rows hits_def snd_conv add_0 by (rule sym)
  with lookups show ?thesis
    unfolding results_Search_def Let_def search_text_def [symmetric] key [symmetric] r prod.case fst_conv
    by simp
qed

lemma shape_results_Search: "results_Search u url search pg = Some pg' \<Longrightarrow> shape (rdoc pg') = shape (rdoc pg)"
  by (auto simp: results_Search_def Let_def bind_Some_iff shape_set_display split: prod.splits)
    (metis fst_conv shape_search_rows)

section \<open>Rows of converted names\<close>

lemma strip_row_prefix_sr: "strip_row_prefix (js ''sr_'' @ s) = s"
  by (simp add: js_def is_digit_cu_def)

lemma lower_row_id:
  "is_ascii name \<Longrightarrow> to_lower u (row_id (convertToId name)) = js ''sr_'' @ convertToId name"
proof -
  assume "is_ascii name"
  then have "is_ascii (row_id (convertToId name))"
    by (simp add: row_id_def is_ascii_convertToId js_def)
  moreover have "map lower_cu (js ''SR_'') = js ''sr_''"
    by (simp add: js_def lower_cu_def)
  ultimately show ?thesis
    by (simp add: to_lower_def row_id_def map_lower_convertToId)
qed

lemma row_matches_name:
  assumes "is_ascii name" "node_id a = row_id (convertToId name)"
  shows "row_matches u (convertToId s) a \<longleftrightarrow> prefix s name"
  using assms
  by (simp add: row_matches_def lower_row_id strip_row_prefix_sr prefix_test_iff prefix_convertToId)

text \<open>An index table lists lower-case ASCII names under their identifiers.\<close>

definition lists_names :: "entry list \<Rightarrow> jsstr list \<Rightarrow> bool" where
  "lists_names data names =
     (map ent_id data = map convertToId names \<and> list_all is_ascii names)"

definition wanted :: "(jsstr \<Rightarrow> jsstr) \<Rightarrow> jsstr \<Rightarrow> jsstr" where
  "wanted u text = to_lower u (strip_trailing (strip_leading text))"

lemma search_key_wanted: "search_key u text = convertToId (wanted u text)"
  by (simp add: search_key_def wanted_def)

lemma attrs_row:
  "e < length data \<Longrightarrow>
   \<exists>a. attrs_at (page_with (rows 0 data)) (rows_path @ [e]) = Some a \<and> nodeName a = ''DIV'' \<and>
       className a = ''SRResult'' \<and> node_id a = row_id (ent_id (data ! e))"
  by (simp add: attrs_at_def subtree_row result_row_def setClassAttr_def createElement_def)

lemma nth_lists_names:
  "lists_names data names \<Longrightarrow> e < length data \<Longrightarrow>
   ent_id (data ! e) = convertToId (names ! e) \<and> is_ascii (names ! e)"
  by (metis (no_types, lifting) length_map list_all_length lists_names_def nth_map)

section \<open>The result rows are the only nodes of their class\<close>

fun classes :: "dnode \<Rightarrow> string set" where
  "classes (Text s) = {}"
| "classes (Elem a ts) = insert (className a) (\<Union>t \<in> set ts. classes t)"

lemma className_classes: "attrs_at t p = Some a \<Longrightarrow> className a \<in> classes t"
proof (induction t arbitrary: p)
  case (Elem b ts)
  show ?case
  proof (cases p)
    case Nil
    then show ?thesis using Elem.prems by simp
  next
    case (Cons i q)
    with Elem.prems have "i < length ts" "attrs_at (ts ! i) q = Some a" by (auto split: if_splits)
    with Elem.IH [of "ts ! i" q] show ?thesis by auto
  qed
qed simp

lemma classes_result_child [simp]: "classes (result_child e c l) = {''SRScope''}"
  by (simp add: result_child_def Let_def setKeyActions_def setClassAttr_def createElement_def)

lemma classes_result_children: "t \<in> set (result_children e b ls) \<Longrightarrow> classes t = {''SRScope''}"
  by (induction e b ls rule: result_children.induct) auto

lemma classes_result_entry: "t \<in> set (result_entry e ent) \<Longrightarrow> ''SRResult'' \<notin> classes t"
proof (cases "length (ent_links ent) = 1")
  case True
  then obtain l where "ent_links ent = [l]" by (cases "ent_links ent") auto
  moreover assume "t \<in> set (result_entry e ent)"
  ultimately show ?thesis
    by (auto simp: result_entry_def setClassAttr_def createElement_def)
next
  case False
  moreover assume "t \<in> set (result_entry e ent)"
  ultimately show ?thesis
    by (auto simp: result_entry_multi setClassAttr_def createElement_def classes_result_children
        split: if_splits)
qed

lemma srresult_in_row:
  "attrs_at (result_row e ent) p = Some a \<Longrightarrow> className a = ''SRResult'' \<Longrightarrow> p = []"
proof (rule ccontr)
  assume a: "attrs_at (result_row e ent) p = Some a" "className a = ''SRResult''" and "p \<noteq> []"
  then obtain q where q: "p = 0 # q"
    and aq: "attrs_at (Elem (setClassAttr ''SREntry'' (createElement ''DIV'')) (result_entry e ent)) q = Some a"
    by (cases p) (auto simp: result_row_def split: if_splits)
  then obtain i r where "i < length (result_entry e ent)" "attrs_at (result_entry e ent ! i) r = Some a"
    using a(2) by (cases q) (auto simp: setClassAttr_def split: if_splits)
  with a(2) classes_result_entry show False
    by (metis className_classes nth_mem)
qed

lemma only_child:
  assumes "attrs_at (Elem b ts) p = Some a" "className a = c" "className b \<noteq> c"
    and "\<forall>i < length ts. i \<noteq> k \<longrightarrow> c \<notin> classes (ts ! i)"
  shows "\<exists>q. p = k # q \<and> k < length ts \<and> attrs_at (ts ! k) q = Some a"
proof (cases p)
  case Nil
  with assms show ?thesis by auto
next
  case (Cons i q)
  with assms(1) have i: "i < length ts" "attrs_at (ts ! i) q = Some a"
    by (auto split: if_splits)
  then have "c \<in> classes (ts ! i)" using className_classes assms(2) by metis
  with assms(4) i have "i = k" by blast
  with i Cons show ?thesis by simp
qed

lemma srresult_in_page:
  assumes p: "attrs_at (page_with rs) p = Some a" and c: "className a = ''SRResult''"
  shows "\<exists>e q. p = rows_path @ e # q \<and> e < length rs \<and> attrs_at (rs ! e) q = Some a"
proof -
  note defs = named_div_def createElement_def setClassAttr_def
  obtain p1 where p1: "p = 0 # p1" and a1: "attrs_at (children (page_with rs) ! 0) p1 = Some a"
    using only_child [OF p [unfolded page_with_def] c, of 0]
    by (auto simp: page_with_def defs)
  obtain p2 where p2: "p1 = 1 # p2"
    and a2: "attrs_at (children (children (page_with rs) ! 0) ! 1) p2 = Some a"
    using only_child [OF a1 [unfolded page_with_def children.simps nth_Cons_0] c, of 1]
    by (auto simp: page_with_def defs less_Suc_eq)
  obtain p3 where p3: "p2 = 0 # p3"
    and a3: "attrs_at (children (children (children (page_with rs) ! 0) ! 1) ! 0) p3 = Some a"
    using only_child [OF a2 [unfolded page_with_def setClassAttr_def, simplified] c, of 0]
    by (auto simp: page_with_def defs less_Suc_eq)
  obtain p4 where p4: "p3 = 1 # p4" and a4: "attrs_at (named_div ''SRResults'' [] rs) p4 = Some a"
    using only_child [OF a3 [unfolded page_with_def named_div_def, simplified] c, of 1]
    by (auto simp: defs less_Suc_eq nth_Cons split: nat.splits)
  then show ?thesis
    using p1 p2 p3 c by (cases p4) (auto simp: defs rows_path_def split: if_splits)
qed

lemma hit_iff_row:
  assumes "lists_names data names" "shape d = shape (page_with (rows 0 data))"
  shows "p \<in> set (hits u (convertToId s) d) \<longleftrightarrow>
    (\<exists>e < length data. p = rows_path @ [e] \<and> prefix s (names ! e))"
proof -
  let ?pg = "page_with (rows 0 data)"
  have attrs: "map_option (\<lambda>a. a\<lparr>display := []\<rparr>) (attrs_at d q) =
      map_option (\<lambda>a. a\<lparr>display := []\<rparr>) (attrs_at ?pg q)" for q
    using assms(2) by (metis attrs_at_shape)
  have matches: "row_matches u (convertToId s) b \<longleftrightarrow> prefix s (names ! e)"
    if "e < length data" "node_id b = row_id (ent_id (data ! e))" for e b
    using that row_matches_name nth_lists_names [OF assms(1)] by metis
  show ?thesis
  proof
    assume "p \<in> set (hits u (convertToId s) d)"
    then obtain b where b: "attrs_at d p = Some b" "className b = ''SRResult''"
      "row_matches u (convertToId s) b"
      by (auto simp: hits_def is_hit_def split: option.splits)
    with attrs [of p] obtain a where a: "attrs_at ?pg p = Some a" "a\<lparr>display := []\<rparr> = b\<lparr>display := []\<rparr>"
      by (cases "attrs_at ?pg p") auto
    then have same: "className a = ''SRResult''" "node_id a = node_id b"
      using b by (cases a; cases b; simp)+
    obtain e q where e: "p = rows_path @ e # q" "e < length data" "attrs_at (rows 0 data ! e) q = Some a"
      using srresult_in_page [OF a(1) same(1)] by auto
    then have "q = []" using srresult_in_row same(1) by simp
    with e have "node_id a = row_id (ent_id (data ! e))"
      by (auto simp: result_row_def setClassAttr_def createElement_def)
    with e \<open>q = []\<close> same b matches show "\<exists>e < length data. p = rows_path @ [e] \<and> prefix s (names ! e)"
      by metis
  next
    assume "\<exists>e < length data. p = rows_path @ [e] \<and> prefix s (names ! e)"
    then obtain e where e: "e < length data" "p = rows_path @ [e]" "prefix s (names ! e)" by blast
    obtain a where a: "attrs_at ?pg p = Some a" "nodeName a = ''DIV''" "className a = ''SRResult''"
      "node_id a = row_id (ent_id (data ! e))"
      using attrs_row [OF e(1)] e(2) by auto
    with attrs [of p] obtain b where b: "attrs_at d p = Some b" "a\<lparr>display := []\<rparr> = b\<lparr>display := []\<rparr>"
      by (cases "attrs_at d p") auto
    then have "nodeName b = ''DIV''" "className b = ''SRResult''" "node_id b = row_id (ent_id (data ! e))"
      using a by (cases a; cases b; simp)+
    with b e matches show "p \<in> set (hits u (convertToId s) d)"
      by (auto simp: hits_def is_hit_def mem_divs)
  qed
qed

section \<open>A page that is loaded\<close>

lemma page_lookups:
  assumes "shape d = shape (page_with (rows 0 data))"
  shows "getElementById d (js ''Loading'') = Some [0, 1, 0, 0]"
    and "getElementById d (js ''Searching'') = Some [0, 1, 0, 3]"
    and "getElementById d (js ''NoMatches'') = Some [0, 1, 0, 4]"
  using getElementById_shape [OF assms] page_element_lookup by simp_all

text \<open>The page the frame shows after a search, as far as it can be seen.\<close>

definition shows_search :: "(jsstr \<Rightarrow> jsstr) \<Rightarrow> entry list \<Rightarrow> jsstr list \<Rightarrow> jsstr \<Rightarrow> rpage \<Rightarrow> bool" where
  "shows_search u data names text pg =
     (shape (rdoc pg) = shape (page_with (rows 0 data)) \<and>
      (\<forall>e < length data. style_display (rdoc pg) (rows_path @ [e]) =
         Some (if prefix (wanted u text) (names ! e) then ''block'' else ''none'')) \<and>
      lastMatchCount (searchResults pg) = length (filter (prefix (wanted u text)) names) \<and>
      style_display (rdoc pg) [0, 1, 0, 4] =
        Some (if \<exists>name \<in> set names. prefix (wanted u text) name then ''none'' else ''block''))"

lemma length_lists_names: "lists_names data names \<Longrightarrow> length names = length data"
  by (metis length_map lists_names_def)

lemma count_hits:
  assumes "lists_names data names" "shape d = shape (page_with (rows 0 data))"
  shows "length (hits u (convertToId s) d) = length (filter (prefix s) names)"
proof -
  let ?I = "{e. e < length data \<and> prefix s (names ! e)}"
  have "distinct (hits u (convertToId s) d)"
    by (simp add: hits_def getElementsByTagName_def distinct_by_tag)
  then have "length (hits u (convertToId s) d) = card (set (hits u (convertToId s) d))"
    by (simp add: distinct_card)
  also have "set (hits u (convertToId s) d) = (\<lambda>e. rows_path @ [e]) ` ?I"
    using hit_iff_row [OF assms] by auto
  also have "card \<dots> = card ?I"
    by (rule card_image) (simp add: inj_on_def)
  finally show ?thesis
    by (simp add: length_filter_conv_card length_lists_names [OF assms(1)])
qed

lemma no_hits_iff:
  assumes "lists_names data names" "shape d = shape (page_with (rows 0 data))"
  shows "hits u (convertToId s) d = [] \<longleftrightarrow> \<not> (\<exists>name \<in> set names. prefix s name)"
  unfolding length_0_conv [symmetric] count_hits [OF assms] by (simp add: filter_empty_conv)

lemma attrs_at_same_shape:
  assumes "shape d = shape d'" "attrs_at d' p = Some a"
  obtains b where "attrs_at d p = Some b" "a\<lparr>display := []\<rparr> = b\<lparr>display := []\<rparr>"
    "nodeName b = nodeName a" "className b = className a" "node_id b = node_id a"
proof -
  have "map_option (\<lambda>a. a\<lparr>display := []\<rparr>) (attrs_at d p) = Some (a\<lparr>display := []\<rparr>)"
    using assms by (metis attrs_at_shape option.simps(9))
  then obtain b where b: "attrs_at d p = Some b" "b\<lparr>display := []\<rparr> = a\<lparr>display := []\<rparr>"
    by (cases "attrs_at d p") auto
  then have "nodeName b = nodeName a" "className b = className a" "node_id b = node_id a"
    by (cases a; cases b; simp)+
  with b that show thesis by metis
qed

lemma row_display_after:
  assumes names: "lists_names data names" and sh: "shape d = shape (page_with (rows 0 data))"
    and e: "e < length data"
  shows "style_display (fst (search_rows u (convertToId s) (getElementsByTagName d ''DIV'') d 0)) (rows_path @ [e]) =
    Some (if prefix s (names ! e) then ''block'' else ''none'')"
proof -
  obtain a where "attrs_at (page_with (rows 0 data)) (rows_path @ [e]) = Some a"
    "nodeName a = ''DIV''" "className a = ''SRResult''" "node_id a = row_id (ent_id (data ! e))"
    using attrs_row [OF e] by blast
  then obtain b where b: "attrs_at d (rows_path @ [e]) = Some b" "nodeName b = ''DIV''"
    "className b = ''SRResult''" "node_id b = row_id (ent_id (data ! e))"
    using attrs_at_same_shape [OF sh] by metis
  moreover have "row_matches u (convertToId s) b \<longleftrightarrow> prefix s (names ! e)"
    using row_matches_name nth_lists_names [OF names e] b(4) by metis
  ultimately show ?thesis
    by (simp add: style_display_def attrs_search_rows mem_divs mark_row_def)
qed

lemma search_on_page:
  assumes names: "lists_names data names" and sh: "shape (rdoc pg) = shape (page_with (rows 0 data))"
  shows "\<exists>pg'. results_Search u url search pg = Some pg' \<and>
    shows_search u data names (search_text url search) pg' \<and>
    lastKey (searchResults pg') = lastKey (searchResults pg) \<and>
    repeatOn (searchResults pg') = repeatOn (searchResults pg)"
proof -
  let ?s = "wanted u (search_text url search)"
  let ?d = "fst (search_rows u (convertToId ?s) (getElementsByTagName (rdoc pg) ''DIV'') (rdoc pg) 0)"
  note eq = results_Search_eq [OF page_lookups(2,3) [OF sh] search_key_wanted [symmetric]]
  have "attrs_at (page_with (rows 0 data)) [0, 1, 0, 4] \<noteq> None"
    using getElementById_attrs [OF page_element_lookup(3) [of data]] by auto
  moreover have shd: "shape ?d = shape (page_with (rows 0 data))"
    using sh by (simp add: shape_search_rows)
  ultimately have "attrs_at ?d [0, 1, 0, 4] \<noteq> None"
    using attrs_at_same_shape by (metis not_None_eq)
  then have "style_display ?d [0, 1, 0, 4] \<noteq> None" by (simp add: style_display_def)
  moreover have "rows_path \<noteq> [0, 1, 0]"
    by (simp add: rows_path_def)
  ultimately show ?thesis
    using shd row_display_after [OF names sh]
    by (simp add: eq shows_search_def shape_set_display count_hits [OF names sh]
        no_hits_iff [OF names sh])
qed

lemma load_page:
  assumes "lists_names data names"
  shows "\<exists>pg. load_results_page u data url = Some pg \<and>
    shows_search u data names (search_text url []) pg \<and> lastKey (searchResults pg) = 0"
proof -
  let ?p = "page_with (rows 0 data)"
  let ?d1 = "set_display ''none'' [0, 1, 0, 0] ?p"
  let ?d2 = "set_display ''none'' [0, 1, 0, 4] ?d1"
  have "getElementById ?d1 (js ''NoMatches'') = Some [0, 1, 0, 4]"
    by (simp add: page_element_lookup)
  then have "load_results_page u data url =
      results_Search u url [] \<lparr>rdoc = ?d2, searchResults = new_SearchResults\<rparr>"
    by (simp add: load_results_page_def createResults_page page_element_lookup)
  moreover have "shape (rdoc \<lparr>rdoc = ?d2, searchResults = new_SearchResults\<rparr>) = shape ?p"
    by (simp add: shape_set_display)
  from search_on_page [OF assms this, of u url "[]"] obtain pg where
    "results_Search u url [] \<lparr>rdoc = ?d2, searchResults = new_SearchResults\<rparr> = Some pg"
    "shows_search u data names (search_text url []) pg" "lastKey (searchResults pg) = 0"
    by (auto simp: new_SearchResults_def)
  ultimately show ?thesis by (intro exI [of _ pg]) simp
qed

section \<open>Properties\<close>

text \<open>
  C3: From the search box to the rows. Opening a result page with the query the box builds
  from a text shows exactly the rows whose name starts with that text (trimmed and
  lower-cased), counts them in \<open>lastMatchCount\<close>, and shows the line "No Matches" exactly when
  there is none. No step raises, whatever the text is.
\<close>

theorem typed_text_selects_rows:
  assumes "lists_names data names" and "plain_path page"
  shows "\<exists>pg. load_results_page u data (page @ cu 63 # escape text) = Some pg \<and>
    shows_search u data names text pg"
proof -
  have "search_text (page @ cu 63 # escape text) [] = text"
    using query_text_roundtrip [OF assms(2)] by (simp add: search_text_def)
  with load_page [OF assms(1), of u "page @ cu 63 # escape text"] show ?thesis by auto
qed

text \<open>
  A later call of \<open>Search\<close> with a text of its own, on a page in any state of visibility,
  again shows exactly the rows that start with it; it replaces the previous selection
  completely and leaves the keyboard state alone.
\<close>

theorem search_again_replaces:
  assumes "lists_names data names" and "shape (rdoc pg) = shape (page_with (rows 0 data))"
    and "text \<noteq> []"
  shows "\<exists>pg'. results_Search u url text pg = Some pg' \<and> shows_search u data names text pg' \<and>
    lastKey (searchResults pg') = lastKey (searchResults pg) \<and>
    repeatOn (searchResults pg') = repeatOn (searchResults pg)"
  using search_on_page [OF assms(1,2), of u url "text"] assms(3) by (simp add: search_text_def)

end
