(* ===== verification/ResultsNav.thy ===== *)
theory ResultsNav
  imports ResultsSearch
begin

text \<open>
  Keyboard navigation inside the results frame, as far as it stays inside: \<open>NavNext\<close> and
  \<open>NavPrev\<close> look for the nearest visible row, \<open>ProcessKeys\<close> is the little state machine that
  turns key-down, key-press and key-up events into single or repeated moves.
\<close>

section \<open>The nearest visible row\<close>

text \<open>\<open>focusItem.parentNode.parentNode.style.display\<close>\<close>

definition row_display :: "dnode \<Rightarrow> path \<Rightarrow> string option" where
  "row_display d p = do {
     q \<leftarrow> parentNode p;
     r \<leftarrow> parentNode q;
     style_display d r
   }"

text \<open>The outer \<open>option\<close> is \<open>None\<close> for an exception or an endless loop, the inner one for \<open>null\<close>.\<close>

partial_function (option) NavNext :: "dnode \<Rightarrow> int \<Rightarrow> path option option" where
  "NavNext d index =
     (case getElementById d (item_id index) of
        None \<Rightarrow> Some None
      | Some focusItem \<Rightarrow>
          (case row_display d focusItem of
             None \<Rightarrow> None
           | Some v \<Rightarrow> if v = ''block'' then Some (Some focusItem) else NavNext d (index + 1)))"

partial_function (option) NavPrev :: "dnode \<Rightarrow> int \<Rightarrow> path option option" where
  "NavPrev d index =
     (case getElementById d (item_id index) of
        None \<Rightarrow> Some None
      | Some focusItem \<Rightarrow>
          (case row_display d focusItem of
             None \<Rightarrow> None
           | Some v \<Rightarrow> if v = ''block'' then Some (Some focusItem) else NavPrev d (index - 1)))"

declare NavNext.simps [code] NavPrev.simps [code]

text \<open>The document of a result page with \<open>data\<close>, in any state of visibility.\<close>

definition page_of :: "entry list \<Rightarrow> dnode \<Rightarrow> bool" where
  "page_of data d = (shape d = shape (page_with (rows 0 data)))"

definition row_visible :: "dnode \<Rightarrow> nat \<Rightarrow> bool" where
  "row_visible d e = (style_display d (rows_path @ [e]) = Some ''block'')"

definition item_path :: "nat \<Rightarrow> path" where
  "item_path e = rows_path @ [e, 0, 0]"

lemma page_of_set_display [simp]: "page_of data (set_display v p d) = page_of data d"
  by (simp add: page_of_def shape_set_display)

lemma page_item:
  "page_of data d \<Longrightarrow>
   getElementById d (item_id i) =
     (if 0 \<le> i \<and> i < int (length data) then Some (item_path (nat i)) else None)"
  using getElementById_shape [of d "page_with (rows 0 data)" "item_id i"]
    item_lookup [of "nat i" data] item_lookup_None [of i data]
  by (auto simp: page_of_def item_path_def)

lemma page_item_child:
  "page_of data d \<Longrightarrow> e < length data \<Longrightarrow>
   getElementById d (item_child_id (int e) i) =
     (if 0 \<le> i \<and> i < int (members (data ! e)) then Some (rows_path @ [e, 0, 1, nat i]) else None)"
  using getElementById_shape [of d "page_with (rows 0 data)" "item_child_id (int e) i"]
    item_child_lookup [of e data "nat i"] item_child_lookup_None [of e data i]
  by (auto simp: page_of_def)

text \<open>
  \<open>createResults\<close> builds a page on which every link of the index is found by its name and no
  other: the link of each row, and the members of each row with several links.
\<close>

theorem createResults_names_links:
  "\<exists>d. createResults data (page_with []) = Some d \<and> page_of data d \<and>
    (\<forall>i. getElementById d (item_id i) =
       (if 0 \<le> i \<and> i < int (length data) then Some (item_path (nat i)) else None)) \<and>
    list_all (\<lambda>e. \<forall>i. getElementById d (item_child_id (int e) i) =
       (if 0 \<le> i \<and> i < int (members (data ! e)) then Some (rows_path @ [e, 0, 1, nat i]) else None))
      [0..<length data]"
  using page_item [of data "page_with (rows 0 data)"] page_item_child [of data "page_with (rows 0 data)"]
  by (simp add: createResults_page page_of_def list_all_iff)

lemma row_display_item:
  assumes "page_of data d" "e < length data"
  shows "\<exists>v. row_display d (item_path e) = Some v \<and> (v = ''block'' \<longleftrightarrow> row_visible d e)"
proof -
  obtain a where "attrs_at (page_with (rows 0 data)) (rows_path @ [e]) = Some a"
    using attrs_row [OF assms(2)] by blast
  then obtain b where "attrs_at d (rows_path @ [e]) = Some b"
    using attrs_at_same_shape assms(1) page_of_def by metis
  then have "style_display d (rows_path @ [e]) \<noteq> None" by (simp add: style_display_def)
  moreover have "row_display d (item_path e) = style_display d (rows_path @ [e])"
    by (simp add: row_display_def parentNode_def item_path_def butlast_append)
  ultimately show ?thesis by (auto simp: row_visible_def)
qed

lemma NavNext_out: "page_of data d \<Longrightarrow> \<not> (0 \<le> i \<and> i < int (length data)) \<Longrightarrow> NavNext d i = Some None"
  by (subst NavNext.simps) (simp only: page_item if_False option.case)

lemma NavNext_step:
  assumes "page_of data d" "e < length data"
  shows "NavNext d (int e) = (if row_visible d e then Some (Some (item_path e)) else NavNext d (int (Suc e)))"
proof -
  obtain v where v: "row_display d (item_path e) = Some v" "v = ''block'' \<longleftrightarrow> row_visible d e"
    using row_display_item [OF assms] by blast
  then show ?thesis
    using assms by (subst NavNext.simps) (simp add: page_item [OF assms(1)] add.commute)
qed

lemma NavNext_find:
  assumes "page_of data d" "e \<le> length data"
  shows "NavNext d (int e) = Some (map_option item_path (find (row_visible d) [e..<length data]))"
  using assms(2)
proof (induction "length data - e" arbitrary: e)
  case 0
  then show ?case using NavNext_out [OF assms(1)] by simp
next
  case (Suc n)
  then have "e < length data" by simp
  then have "[e..<length data] = e # [Suc e..<length data]" by (rule upt_conv_Cons)
  moreover have "NavNext d (int (Suc e)) = Some (map_option item_path (find (row_visible d) [Suc e..<length data]))"
    using Suc.hyps \<open>e < length data\<close> by (simp del: of_nat_Suc)
  ultimately show ?case
    using NavNext_step [OF assms(1) \<open>e < length data\<close>] by (simp del: of_nat_Suc)
qed

lemma NavPrev_out: "page_of data d \<Longrightarrow> \<not> (0 \<le> i \<and> i < int (length data)) \<Longrightarrow> NavPrev d i = Some None"
  by (subst NavPrev.simps) (simp only: page_item if_False option.case)

lemma NavPrev_step:
  assumes "page_of data d" "e < length data"
  shows "NavPrev d (int e) = (if row_visible d e then Some (Some (item_path e)) else NavPrev d (int e - 1))"
proof -
  obtain v where v: "row_display d (item_path e) = Some v" "v = ''block'' \<longleftrightarrow> row_visible d e"
    using row_display_item [OF assms] by blast
  then show ?thesis
    using assms by (subst NavPrev.simps) (simp add: page_item [OF assms(1)])
qed

lemma NavPrev_find:
  assumes "page_of data d" "k \<le> length data"
  shows "NavPrev d (int k - 1) = Some (map_option item_path (find (row_visible d) (rev [0..<k])))"
  using assms(2)
proof (induction k)
  case 0
  then show ?case using NavPrev_out [OF assms(1)] by simp
next
  case (Suc k)
  then show ?case using NavPrev_step [OF assms(1), of k] by simp
qed

text \<open>
  C15: \<open>NavNext\<close> ends on every result page and from every index, and returns the link of the
  first visible row at or after the index, or \<open>null\<close> when there is none.
\<close>

theorem NavNext_finds_next_visible:
  assumes "page_of data d"
  shows "NavNext d i =
    Some (if i < 0 then None
          else map_option item_path (find (row_visible d) [nat i..<length data]))"
proof (cases "0 \<le> i \<and> i < int (length data)")
  case True
  then have "nat i \<le> length data" by linarith
  with True show ?thesis using NavNext_find [OF assms, of "nat i"] by simp
next
  case False
  then show ?thesis using NavNext_out [OF assms False] by auto
qed

text \<open>
  \<open>NavPrev\<close> ends on every result page and from every index, and returns the link of the
  last visible row at or before the index, or \<open>null\<close>; an index past the last row gives \<open>null\<close>
  at once.
\<close>

theorem NavPrev_finds_previous_visible:
  assumes "page_of data d"
  shows "NavPrev d i =
    Some (if i < int (length data)
          then map_option item_path (find (row_visible d) (rev [0..<nat (i + 1)]))
          else None)"
proof (cases "0 \<le> i \<and> i < int (length data)")
  case True
  then have "nat (i + 1) \<le> length data" by linarith
  with True show ?thesis using NavPrev_find [OF assms, of "nat (i + 1)"] by simp
next
  case False
  then show ?thesis using NavPrev_out [OF assms False] by auto
qed

section \<open>Key events\<close>

record key_event =
  ev_type :: string
  keyCode :: int
  shiftKey :: bool

definition ProcessKeys :: "key_event \<Rightarrow> SearchResults \<Rightarrow> bool \<times> SearchResults" where
  "ProcessKeys e r =
     (if ev_type e = ''keydown''
      then let r' = r\<lparr>repeatOn := False, lastKey := keyCode e\<rparr> in (lastKey r' \<noteq> 0, r')
      else if ev_type e = ''keypress''
      then if \<not> repeatOn r
           then (False, if lastKey r \<noteq> 0 then r\<lparr>repeatOn := True\<rparr> else r)
           else (lastKey r \<noteq> 0, r)
      else if ev_type e = ''keyup''
      then let r' = r\<lparr>lastKey := 0, repeatOn := False\<rparr> in (lastKey r' \<noteq> 0, r')
      else (lastKey r \<noteq> 0, r))"

fun process_all :: "key_event list \<Rightarrow> SearchResults \<Rightarrow> bool list \<times> SearchResults" where
  "process_all [] r = ([], r)"
| "process_all (e # es) r =
     (let (b, r') = ProcessKeys e r; (bs, r'') = process_all es r' in (b # bs, r''))"

definition is_keypress :: "key_event \<Rightarrow> bool" where
  "is_keypress e = (ev_type e = ''keypress'')"

lemma process_keypresses:
  "list_all is_keypress es \<Longrightarrow> repeatOn r \<Longrightarrow> lastKey r \<noteq> 0 \<Longrightarrow>
   process_all es r = (replicate (length es) True, r)"
  by (induction es) (auto simp: is_keypress_def ProcessKeys_def)

text \<open>
  One key stroke moves once. For a key held down, the key-down event is acted on, the first
  key-press after it is ignored, every further (repeated) key-press is acted on, and the
  key-up event is not and leaves no key pending.
\<close>

theorem key_stroke_protocol:
  assumes "ev_type down = ''keydown''" and "keyCode down \<noteq> 0"
    and "list_all is_keypress presses" and "ev_type up = ''keyup''"
  shows "process_all (down # presses @ [up]) r =
    (True # (if presses = [] then [] else False # replicate (length presses - 1) True) @ [False],
     r\<lparr>lastKey := 0, repeatOn := False\<rparr>)"
proof -
  let ?r1 = "r\<lparr>repeatOn := False, lastKey := keyCode down\<rparr>"
  have append: "process_all (es @ [up]) s =
      (fst (process_all es s) @ [False], (snd (process_all es s))\<lparr>lastKey := 0, repeatOn := False\<rparr>)" for es s
    using assms(4)
    by (induction es arbitrary: s) (auto simp: ProcessKeys_def Let_def split: prod.splits)
  have down: "ProcessKeys down r = (True, ?r1)"
    using assms(1,2) by (simp add: ProcessKeys_def Let_def)
  show ?thesis
  proof (cases presses)
    case Nil
    then show ?thesis using append [of "[]" ?r1] by (simp add: down)
  next
    case (Cons p ps)
    then have "ProcessKeys p ?r1 = (False, ?r1\<lparr>repeatOn := True\<rparr>)"
      using assms by (simp add: ProcessKeys_def is_keypress_def)
    moreover have "process_all ps (?r1\<lparr>repeatOn := True\<rparr>) = (replicate (length ps) True, ?r1\<lparr>repeatOn := True\<rparr>)"
      using assms Cons by (intro process_keypresses) simp_all
    ultimately show ?thesis
      using append [of presses ?r1] Cons by (simp add: down)
  qed
qed

end
