(* ===== verification/Geometry.thy ===== *)
theory Geometry
  imports Prelude
begin

text \<open>
  Page positions: \<open>getXPos\<close> and \<open>getYPos\<close> add up the offsets along the chain of offset
  parents, up to the body. An offset parent is an ancestor of its element, so the chain is
  finite; it is the inductive type \<open>obox\<close>.
\<close>

datatype obox =
    Body
  | Obox (offsetLeft: int) (offsetTop: int) (offsetWidth: int) (offsetParent: "obox option")

fun x_loop :: "obox option \<Rightarrow> int \<Rightarrow> int" where
  "x_loop None x = x"
| "x_loop (Some Body) x = x"
| "x_loop (Some (Obox l t w parent)) x = x_loop parent (x + l)"

definition getXPos :: "obox \<Rightarrow> int" where
  "getXPos item =
     (case item of
        Body \<Rightarrow> 0
      | Obox l t w parent \<Rightarrow> if w \<noteq> 0 then x_loop (Some item) 0 else 0)"

fun y_loop :: "obox option \<Rightarrow> int \<Rightarrow> int" where
  "y_loop None y = y"
| "y_loop (Some Body) y = y"
| "y_loop (Some (Obox l t w parent)) y = y_loop parent (y + t)"

definition getYPos :: "obox \<Rightarrow> int" where
  "getYPos item =
     (case item of
        Body \<Rightarrow> 0
      | Obox l t w parent \<Rightarrow> if w \<noteq> 0 then y_loop (Some item) 0 else 0)"

text \<open>The boxes from an element up to, and without, the body.\<close>

fun chain :: "obox option \<Rightarrow> obox list" where
  "chain None = []"
| "chain (Some Body) = []"
| "chain (Some (Obox l t w parent)) = Obox l t w parent # chain parent"

lemma x_loop_chain: "x_loop b x = x + sum_list (map offsetLeft (chain b))"
  by (induction b x rule: x_loop.induct) auto

lemma y_loop_chain: "y_loop b y = y + sum_list (map offsetTop (chain b))"
  by (induction b y rule: y_loop.induct) auto

text \<open>
  The position of a displayed element (one with a width) is the sum of the offsets of its
  chain of offset parents below the body; an element without a width is at the origin.
\<close>

theorem position_is_sum_of_offsets:
  "getXPos b = (if b = Body \<or> offsetWidth b = 0 then 0 else sum_list (map offsetLeft (chain (Some b)))) \<and>
   getYPos b = (if b = Body \<or> offsetWidth b = 0 then 0 else sum_list (map offsetTop (chain (Some b))))"
  by (cases b) (simp_all add: getXPos_def getYPos_def x_loop_chain y_loop_chain)

end
