(* ===== verification/JsNumber.thy ===== *)
theory JsNumber
  imports Complex_Main JsString
begin

text \<open>
  The comparison of a string with a number, \<open>searchValue > 1\<close>: the string is converted by
  the numeric-literal grammar of ECMA-262 (white space on both sides, signs, \<open>Infinity\<close>,
  decimal, exponent, binary, octal and hexadecimal forms), and anything else is \<open>NaN\<close>, which
  compares as false. Values are exact rationals; a value is greater than one as a double when
  it lies above the midpoint between 1 and the next double.
\<close>

datatype number = NaN | Infinite bool | Finite rat

definition js_space :: "cunit \<Rightarrow> bool" where
  "js_space c =
     (let n = unat c in
      n \<in> {9, 10, 11, 12, 13, 32, 160, 5760, 8232, 8233, 8239, 8287, 12288, 65279} \<or>
      (8192 \<le> n \<and> n \<le> 8202))"

definition js_trim :: "jsstr \<Rightarrow> jsstr" where
  "js_trim s = rev (dropWhile js_space (rev (dropWhile js_space s)))"

definition radix_val :: "nat \<Rightarrow> cunit \<Rightarrow> nat option" where
  "radix_val b c =
     (let n = unat c;
          d = (if 48 \<le> n \<and> n \<le> 57 then n - 48
               else if 97 \<le> n \<and> n \<le> 102 then n - 87
               else if 65 \<le> n \<and> n \<le> 70 then n - 55 else 16)
      in if d < b then Some d else None)"

fun radix_number :: "nat \<Rightarrow> nat \<Rightarrow> jsstr \<Rightarrow> nat option" where
  "radix_number b a [] = Some a"
| "radix_number b a (c # s) =
     (case radix_val b c of None \<Rightarrow> None | Some d \<Rightarrow> radix_number b (a * b + d) s)"

definition digits_val :: "jsstr \<Rightarrow> nat" where
  "digits_val s = foldl (\<lambda>a c. a * 10 + (unat c - 48)) 0 s"

text \<open>The exponent part: empty, or \<open>e\<close>, an optional sign, and digits to the end.\<close>

definition exponent :: "jsstr \<Rightarrow> int option" where
  "exponent s =
     (case s of
        [] \<Rightarrow> Some 0
      | c # t \<Rightarrow>
          if unat c = 101 \<or> unat c = 69
          then (let neg = (t \<noteq> [] \<and> unat (hd t) = 45);
                    ds = (if t \<noteq> [] \<and> (unat (hd t) = 45 \<or> unat (hd t) = 43) then tl t else t)
                in if ds \<noteq> [] \<and> list_all is_digit_cu ds
                   then Some (if neg then - int (digits_val ds) else int (digits_val ds))
                   else None)
          else None)"

definition power10 :: "int \<Rightarrow> rat" where
  "power10 k = (if 0 \<le> k then 10 ^ nat k else 1 / 10 ^ nat (- k))"

definition unsigned_decimal :: "jsstr \<Rightarrow> number" where
  "unsigned_decimal s =
     (if s = js ''Infinity'' then Infinite True
      else let ip = takeWhile is_digit_cu s;
               r = dropWhile is_digit_cu s;
               dot = (r \<noteq> [] \<and> unat (hd r) = 46);
               fp = (if dot then takeWhile is_digit_cu (tl r) else []);
               r2 = (if dot then dropWhile is_digit_cu (tl r) else r)
           in if ip = [] \<and> fp = [] then NaN
              else (case exponent r2 of
                      None \<Rightarrow> NaN
                    | Some k \<Rightarrow>
                        Finite ((of_nat (digits_val ip) + of_nat (digits_val fp) / 10 ^ length fp)
                                * power10 k)))"

fun negate :: "number \<Rightarrow> number" where
  "negate NaN = NaN"
| "negate (Infinite b) = Infinite (\<not> b)"
| "negate (Finite q) = Finite (- q)"

definition prefixed :: "jsstr \<Rightarrow> nat option" where
  "prefixed s =
     (if 2 \<le> length s \<and> unat (hd s) = 48
      then (let c = unat (s ! 1) in
            if c = 98 \<or> c = 66 then Some 2
            else if c = 111 \<or> c = 79 then Some 8
            else if c = 120 \<or> c = 88 then Some 16
            else None)
      else None)"

definition string_to_number :: "jsstr \<Rightarrow> number" where
  "string_to_number str =
     (let s = js_trim str in
      if s = [] then Finite 0
      else case prefixed s of
        Some b \<Rightarrow>
          (if length s = 2 then NaN
           else case radix_number b 0 (drop 2 s) of None \<Rightarrow> NaN | Some n \<Rightarrow> Finite (of_nat n))
      | None \<Rightarrow>
          if unat (hd s) = 43 then unsigned_decimal (tl s)
          else if unat (hd s) = 45 then negate (unsigned_decimal (tl s))
          else unsigned_decimal s)"

fun number_gt_1 :: "number \<Rightarrow> bool" where
  "number_gt_1 NaN = False"
| "number_gt_1 (Infinite b) = b"
| "number_gt_1 (Finite q) = (q > 1 + 1 / 2 ^ 53)"

definition string_gt_1 :: "jsstr \<Rightarrow> bool" where
  "string_gt_1 s = number_gt_1 (string_to_number s)"

text \<open>A string that starts with a surrogate is no number.\<close>

lemma js_trim_Cons:
  assumes "\<not> js_space c"
  shows "\<exists>t. js_trim (c # s) = c # t"
proof -
  have "\<exists>t. dropWhile js_space (rev s @ [c]) = t @ [c]"
    using assms by (induction "rev s" arbitrary: s) (auto simp: dropWhile_append)
  then obtain t where "dropWhile js_space (rev s @ [c]) = t @ [c]" by blast
  then show ?thesis using assms by (intro exI [of _ "rev t"]) (simp add: js_trim_def)
qed

lemma surrogate_not_number:
  assumes "55296 \<le> unat c" "unat c \<le> 57343"
  shows "string_to_number (c # s) = NaN"
proof -
  have "\<not> js_space c" using assms by (auto simp: js_space_def Let_def)
  then obtain t where t: "js_trim (c # s) = c # t" using js_trim_Cons by blast
  have "\<not> is_digit_cu c" using assms by (simp add: is_digit_cu_def)
  moreover have "c # t \<noteq> js ''Infinity''"
    using assms by (auto simp: js_def)
  ultimately have "unsigned_decimal (c # t) = NaN"
    using assms by (simp add: unsigned_decimal_def)
  then show ?thesis
    using assms by (simp add: string_to_number_def t prefixed_def)
qed

end
