(* ===== verification/SearchBox.thy ===== *)
theory SearchBox
  imports ResultsNav Geometry JsNumber
begin

text \<open>
  The search box of a documentation page: the object \<open>SearchBox\<close> with its timers, the elements
  of the page it reads and writes, the focus, and the results frame. Every method is a partial
  function on this state; \<open>None\<close> is an uncaught exception (reading a property of \<open>null\<close> or of
  \<open>undefined\<close>). Layout, window size and Unicode case folding belong to the browser and are the
  parameter \<open>env\<close>, together with the tables of \<^verbatim>\<open>searchdata.js\<close>.
\<close>

section \<open>State\<close>

record SearchBox =
  sb_name :: jsstr
  resultsPath :: jsstr
  keyTimeout :: nat
  keyTimeoutLength :: nat
  closeSelectionTimeout :: nat
  lastSearchValue :: jsstr
  lastResultsPage :: jsstr
  hideTimeout :: nat
  searchIndex :: nat
  searchActive :: bool
  insideFrame :: bool
  searchLabel :: jsstr

definition new_SearchBox :: "jsstr \<Rightarrow> jsstr \<Rightarrow> bool \<Rightarrow> jsstr \<Rightarrow> SearchBox" where
  "new_SearchBox name path inFrame label =
     \<lparr>sb_name = name, resultsPath = path, keyTimeout = 0, keyTimeoutLength = 500,
      closeSelectionTimeout = 300, lastSearchValue = [], lastResultsPage = [], hideTimeout = 0,
      searchIndex = 0, searchActive = False, insideFrame = inFrame, searchLabel = label\<rparr>"

text \<open>A child of the selection window; \<open>item_mark\<close> is the content of its first child, if any.\<close>

record item =
  item_class :: string
  item_onclick :: jsstr
  item_href :: jsstr
  item_mark :: "jsstr option"
  item_label :: jsstr

text \<open>An element of the page: its value, class, style properties and children.\<close>

record element =
  el_value :: jsstr
  el_class :: string
  el_display :: string
  el_position :: string
  el_left :: jsstr
  el_top :: jsstr
  el_width :: jsstr
  el_items :: "item list"

type_synonym document = "jsstr \<Rightarrow> element option"

definition DOMSearchField :: jsstr where "DOMSearchField = js ''MSearchField''"
definition DOMSearchSelect :: jsstr where "DOMSearchSelect = js ''MSearchSelect''"
definition DOMSearchSelectWindow :: jsstr where "DOMSearchSelectWindow = js ''MSearchSelectWindow''"
definition DOMPopupSearchResults :: jsstr where "DOMPopupSearchResults = js ''MSearchResults''"
definition DOMPopupSearchResultsWindow :: jsstr where
  "DOMPopupSearchResultsWindow = js ''MSearchResultsWindow''"
definition DOMSearchClose :: jsstr where "DOMSearchClose = js ''MSearchClose''"
definition DOMSearchBox :: jsstr where "DOMSearchBox = js ''MSearchBox''"

datatype focus = NoFocus | FocusField | FocusItem nat | FocusResult path

datatype timer = SearchTimer | CloseSelectionTimer

record world =
  sb :: SearchBox
  doc :: document
  focused :: focus
  timers :: "(nat \<times> timer \<times> nat) list"
  last_timer :: nat
  location :: jsstr
  frame :: "rpage option"

record env =
  unicode_lower :: "jsstr \<Rightarrow> jsstr"
  box_of :: "document \<Rightarrow> jsstr \<Rightarrow> obox"
  width_of :: "document \<Rightarrow> jsstr \<Rightarrow> int"
  height_of :: "document \<Rightarrow> jsstr \<Rightarrow> int"
  client_width :: "document \<Rightarrow> int"
  indexSectionsWithContent :: "jsstr list"
  indexSectionNames :: "jsstr list"

text \<open>Reading and writing a property of an element; both raise when the element is \<open>null\<close>.\<close>

definition get_el :: "jsstr \<Rightarrow> world \<Rightarrow> element option" where
  "get_el x w = doc w x"

definition put_el :: "jsstr \<Rightarrow> (element \<Rightarrow> element) \<Rightarrow> world \<Rightarrow> world option" where
  "put_el x f w = (case doc w x of None \<Rightarrow> None | Some el \<Rightarrow> Some (w\<lparr>doc := (doc w)(x \<mapsto> f el)\<rparr>))"

definition set_timer :: "timer \<Rightarrow> nat \<Rightarrow> world \<Rightarrow> nat \<times> world" where
  "set_timer t delay w =
     (let i = Suc (last_timer w) in (i, w\<lparr>timers := timers w @ [(i, t, delay)], last_timer := i\<rparr>))"

definition clear_timer :: "nat \<Rightarrow> world \<Rightarrow> world" where
  "clear_timer i w = w\<lparr>timers := filter (\<lambda>(j, t, d). j \<noteq> i) (timers w)\<rparr>"

definition px :: "int \<Rightarrow> jsstr" where
  "px n = int_to_string n @ js ''px''"

definition nth_opt :: "'a list \<Rightarrow> nat \<Rightarrow> 'a option" where
  "nth_opt xs i = (if i < length xs then Some (xs ! i) else None)"

section \<open>Activation and focus\<close>

definition Activate :: "bool \<Rightarrow> world \<Rightarrow> world option" where
  "Activate isActive w = do {
     open_it \<leftarrow> (if isActive then Some True
                 else map_option (\<lambda>el. el_display el = ''block'') (get_el DOMPopupSearchResultsWindow w));
     if open_it then do {
       w1 \<leftarrow> put_el DOMSearchBox (\<lambda>el. el\<lparr>el_class := ''MSearchBoxActive''\<rparr>) w;
       searchField \<leftarrow> get_el DOMSearchField w1;
       if el_value searchField = searchLabel (sb w1) then do {
         w2 \<leftarrow> put_el DOMSearchField (\<lambda>el. el\<lparr>el_value := []\<rparr>) w1;
         Some (w2\<lparr>sb := (sb w2)\<lparr>searchActive := True\<rparr>\<rparr>)
       } else Some w1
     } else do {
       w1 \<leftarrow> put_el DOMSearchBox (\<lambda>el. el\<lparr>el_class := ''MSearchBoxInactive''\<rparr>) w;
       w2 \<leftarrow> put_el DOMSearchField (\<lambda>el. el\<lparr>el_value := searchLabel (sb w)\<rparr>) w1;
       Some (w2\<lparr>sb := (sb w2)\<lparr>searchActive := False, lastSearchValue := [], lastResultsPage := []\<rparr>\<rparr>)
     }
   }"

definition OnSearchFieldFocus :: "bool \<Rightarrow> world \<Rightarrow> world option" where
  "OnSearchFieldFocus isActive w = Activate isActive w"

text \<open>
  \<open>blur()\<close> and \<open>focus()\<close> run the handlers the page attaches to the search field
  (\<open>onfocus\<close> and \<open>onblur\<close>) at once, when the field loses or gains the focus.
\<close>

definition blur_field :: "world \<Rightarrow> world option" where
  "blur_field w =
     (if doc w DOMSearchField = None then None
      else if focused w = FocusField then OnSearchFieldFocus False (w\<lparr>focused := NoFocus\<rparr>)
      else Some w)"

definition focus_field :: "world \<Rightarrow> world option" where
  "focus_field w =
     (if doc w DOMSearchField = None then None
      else if focused w = FocusField then Some w
      else OnSearchFieldFocus True (w\<lparr>focused := FocusField\<rparr>))"

definition focus_other :: "focus \<Rightarrow> world \<Rightarrow> world option" where
  "focus_other new_focus w =
     (if focused w = FocusField
      then map_option (\<lambda>w'. w'\<lparr>focused := new_focus\<rparr>) (OnSearchFieldFocus False (w\<lparr>focused := NoFocus\<rparr>))
      else Some (w\<lparr>focused := new_focus\<rparr>))"

section \<open>The selection window\<close>

definition OnSearchSelectShow :: "env \<Rightarrow> world \<Rightarrow> world option" where
  "OnSearchSelectShow e w = do {
     _ \<leftarrow> get_el DOMSearchSelectWindow w;
     _ \<leftarrow> get_el DOMSearchSelect w;
     w1 \<leftarrow> (if insideFrame (sb w) then do {
             let left = getXPos (box_of e (doc w) DOMSearchSelect) + width_of e (doc w) DOMSearchSelect + 6;
             let top = getYPos (box_of e (doc w) DOMSearchSelect) + height_of e (doc w) DOMSearchSelect;
             w' \<leftarrow> put_el DOMSearchSelectWindow (\<lambda>el. el\<lparr>el_display := ''block''\<rparr>) w;
             let left2 = left - width_of e (doc w') DOMSearchSelectWindow;
             put_el DOMSearchSelectWindow (\<lambda>el. el\<lparr>el_left := px left2, el_top := px top\<rparr>) w'
           } else do {
             let left = getXPos (box_of e (doc w) DOMSearchSelect);
             let top = getYPos (box_of e (doc w) DOMSearchSelect) + height_of e (doc w) DOMSearchSelect;
             w' \<leftarrow> put_el DOMSearchSelectWindow (\<lambda>el. el\<lparr>el_display := ''block''\<rparr>) w;
             put_el DOMSearchSelectWindow (\<lambda>el. el\<lparr>el_left := px left, el_top := px top\<rparr>) w'
           });
     Some (if hideTimeout (sb w1) \<noteq> 0
           then (clear_timer (hideTimeout (sb w1)) w1)\<lparr>sb := (sb w1)\<lparr>hideTimeout := 0\<rparr>\<rparr>
           else w1)
   }"

definition OnSearchSelectHide :: "world \<Rightarrow> world" where
  "OnSearchSelectHide w =
     (let (i, w1) = set_timer CloseSelectionTimer (closeSelectionTimeout (sb w)) w
      in w1\<lparr>sb := (sb w1)\<lparr>hideTimeout := i\<rparr>\<rparr>)"

definition CloseSelectionWindow :: "world \<Rightarrow> world option" where
  "CloseSelectionWindow w = put_el DOMSearchSelectWindow (\<lambda>el. el\<lparr>el_display := ''none''\<rparr>) w"

definition CloseResultsWindow :: "world \<Rightarrow> world option" where
  "CloseResultsWindow w = do {
     w1 \<leftarrow> put_el DOMPopupSearchResultsWindow (\<lambda>el. el\<lparr>el_display := ''none''\<rparr>) w;
     w2 \<leftarrow> put_el DOMSearchClose (\<lambda>el. el\<lparr>el_display := ''none''\<rparr>) w1;
     Activate False w2
   }"

definition is_select_item :: "item \<Rightarrow> bool" where
  "is_select_item i = (item_class i = ''SelectItem'')"

definition SelectItemCount :: "world \<Rightarrow> nat option" where
  "SelectItemCount w = do {
     win \<leftarrow> get_el DOMSearchSelectWindow w;
     Some (length (filter is_select_item (el_items win)))
   }"

text \<open>The loop of \<open>SelectItemSet\<close>; \<open>j\<close> counts the items seen so far.\<close>

fun set_marks :: "nat \<Rightarrow> nat \<Rightarrow> item list \<Rightarrow> item list option" where
  "set_marks chosen j [] = Some []"
| "set_marks chosen j (it # its) =
     (if is_select_item it
      then (case item_mark it of
              None \<Rightarrow> None
            | Some m \<Rightarrow>
                map_option
                  (\<lambda>rest. it\<lparr>item_mark := Some (if j = chosen then js ''&#8226;'' else js ''&#160;'')\<rparr> # rest)
                  (set_marks chosen (Suc j) its))
      else map_option (\<lambda>rest. it # rest) (set_marks chosen j its))"

definition SelectItemSet :: "nat \<Rightarrow> world \<Rightarrow> world option" where
  "SelectItemSet chosen w = do {
     win \<leftarrow> get_el DOMSearchSelectWindow w;
     its \<leftarrow> set_marks chosen 0 (el_items win);
     put_el DOMSearchSelectWindow (\<lambda>el. el\<lparr>el_items := its\<rparr>) w
   }"

section \<open>Searching\<close>

text \<open>The character under which the text is indexed.\<close>

definition search_idx_char :: "env \<Rightarrow> jsstr \<Rightarrow> jsstr" where
  "search_idx_char e searchValue =
     (let code = (case to_lower (unicode_lower e) searchValue of [] \<Rightarrow> None | c # _ \<Rightarrow> Some (unat c))
      in if (case code of None \<Rightarrow> False | Some n \<Rightarrow> 55296 \<le> n \<and> n \<le> 56319) \<and> string_gt_1 searchValue
         then take 2 searchValue
         else to_lower (unicode_lower e) (take 1 searchValue))"

definition section_name :: "env \<Rightarrow> nat \<Rightarrow> jsstr" where
  "section_name e i = (case nth_opt (indexSectionNames e) i of None \<Rightarrow> js ''undefined'' | Some s \<Rightarrow> s)"

definition results_page :: "env \<Rightarrow> SearchBox \<Rightarrow> int \<Rightarrow> jsstr" where
  "results_page e s idx =
     (if idx \<noteq> -1
      then resultsPath s @ js ''/'' @ section_name e (searchIndex s) @ js ''_''
             @ num_to_string 16 (nat idx) @ js ''.html''
      else resultsPath s @ js ''/nomatches.html'')"

text \<open>Opening the results window, when it is not open.\<close>

definition show_results_window :: "env \<Rightarrow> world \<Rightarrow> world option" where
  "show_results_window e w = do {
     w1 \<leftarrow> put_el DOMSearchClose (\<lambda>el. el\<lparr>el_display := ''inline''\<rparr>) w;
     if insideFrame (sb w1) then do {
       w2 \<leftarrow> put_el DOMPopupSearchResultsWindow
              (\<lambda>el. el\<lparr>el_position := ''relative'', el_display := ''block''\<rparr>) w1;
       let width = client_width e (doc w2) - 8;
       w3 \<leftarrow> put_el DOMPopupSearchResultsWindow (\<lambda>el. el\<lparr>el_width := px width\<rparr>) w2;
       put_el DOMPopupSearchResults (\<lambda>el. el\<lparr>el_width := px width\<rparr>) w3
     } else do {
       _ \<leftarrow> get_el DOMSearchBox w1;
       let left = getXPos (box_of e (doc w1) DOMSearchBox) + 150;
       let top = getYPos (box_of e (doc w1) DOMSearchBox) + 20;
       w2 \<leftarrow> put_el DOMPopupSearchResultsWindow (\<lambda>el. el\<lparr>el_display := ''block''\<rparr>) w1;
       _ \<leftarrow> get_el DOMPopupSearchResults w2;
       let left2 = left - width_of e (doc w2) DOMPopupSearchResults;
       put_el DOMPopupSearchResultsWindow (\<lambda>el. el\<lparr>el_top := px top, el_left := px left2\<rparr>) w2
     }
   }"

definition Search :: "env \<Rightarrow> world \<Rightarrow> world option" where
  "Search e w0 = do {
     let w = w0\<lparr>sb := (sb w0)\<lparr>keyTimeout := 0\<rparr>\<rparr>;
     field \<leftarrow> get_el DOMSearchField w;
     let searchValue = strip_leading (el_value field);
     content \<leftarrow> nth_opt (indexSectionsWithContent e) (searchIndex (sb w));
     let idx = index_of content (search_idx_char e searchValue);
     let resultsPage = results_page e (sb w) idx;
     let w1 = w\<lparr>location := (if idx \<noteq> -1 then resultsPage @ js ''?'' @ escape searchValue else resultsPage)\<rparr>;
     popup \<leftarrow> get_el DOMPopupSearchResultsWindow w1;
     w2 \<leftarrow> (if el_display popup \<noteq> ''block'' then show_results_window e w1 else Some w1);
     Some (w2\<lparr>sb := (sb w2)\<lparr>lastSearchValue := searchValue, lastResultsPage := resultsPage\<rparr>\<rparr>)
   }"

section \<open>Handlers\<close>

definition OnSelectItem :: "env \<Rightarrow> nat \<Rightarrow> world \<Rightarrow> world option" where
  "OnSelectItem e i w = do {
     let w1 = w\<lparr>sb := (sb w)\<lparr>searchIndex := i\<rparr>\<rparr>;
     w2 \<leftarrow> SelectItemSet i w1;
     field \<leftarrow> get_el DOMSearchField w2;
     if strip_all (el_value field) \<noteq> [] \<and> searchActive (sb w2) then Search e w2 else Some w2
   }"

definition OnSearchSelectKey :: "env \<Rightarrow> key_event \<Rightarrow> world \<Rightarrow> world option" where
  "OnSearchSelectKey e k w = do {
     down \<leftarrow> (if keyCode k = 40 then map_option (\<lambda>n. searchIndex (sb w) < n) (SelectItemCount w)
             else Some False);
     if down then OnSelectItem e (Suc (searchIndex (sb w))) w
     else if keyCode k = 38 \<and> searchIndex (sb w) > 0 then OnSelectItem e (searchIndex (sb w) - 1) w
     else if keyCode k = 13 \<or> keyCode k = 27 then do {
       w1 \<leftarrow> OnSelectItem e (searchIndex (sb w)) w;
       w2 \<leftarrow> CloseSelectionWindow w1;
       focus_field w2
     }
     else Some w
   }"

text \<open>The position of the first child of the selection window that is an item.\<close>

fun first_select_item :: "nat \<Rightarrow> item list \<Rightarrow> nat option" where
  "first_select_item i [] = None"
| "first_select_item i (it # its) = (if is_select_item it then Some i else first_select_item (Suc i) its)"

text \<open>The last part of \<open>OnSearchFieldChange\<close>: schedule a search, or close the results.\<close>

definition field_value_changed :: "world \<Rightarrow> world option" where
  "field_value_changed w = do {
     field \<leftarrow> get_el DOMSearchField w;
     let searchValue = strip_all (el_value field);
     if searchValue \<noteq> lastSearchValue (sb w) then
       if searchValue \<noteq> [] then
         let (i, w1) = set_timer SearchTimer (keyTimeoutLength (sb w)) w
         in Some (w1\<lparr>sb := (sb w1)\<lparr>keyTimeout := i\<rparr>\<rparr>)
       else do {
         w1 \<leftarrow> put_el DOMPopupSearchResultsWindow (\<lambda>el. el\<lparr>el_display := ''none''\<rparr>) w;
         w2 \<leftarrow> put_el DOMSearchClose (\<lambda>el. el\<lparr>el_display := ''none''\<rparr>) w1;
         Some (w2\<lparr>sb := (sb w2)\<lparr>lastSearchValue := []\<rparr>\<rparr>)
       }
     else Some w
   }"

definition stop_key_timer :: "world \<Rightarrow> world" where
  "stop_key_timer w =
     (if keyTimeout (sb w) \<noteq> 0
      then (clear_timer (keyTimeout (sb w)) w)\<lparr>sb := (sb w)\<lparr>keyTimeout := 0\<rparr>\<rparr>
      else w)"

definition OnSearchFieldChange :: "env \<Rightarrow> key_event \<Rightarrow> world \<Rightarrow> world option" where
  "OnSearchFieldChange e k w0 =
     (let w = stop_key_timer w0 in
      if keyCode k = 40 \<or> keyCode k = 13 then
        if shiftKey k then do {
          w1 \<leftarrow> OnSearchSelectShow e w;
          win \<leftarrow> get_el DOMSearchSelectWindow w1;
          case first_select_item 0 (el_items win) of
            None \<Rightarrow> Some w1
          | Some i \<Rightarrow> focus_other (FocusItem i) w1
        }
        else (case frame w of
                None \<Rightarrow> field_value_changed w
              | Some pg \<Rightarrow>
                  (case NavNext (rdoc pg) 0 of
                     None \<Rightarrow> None
                   | Some None \<Rightarrow> field_value_changed w
                   | Some (Some p) \<Rightarrow> Option.bind (focus_other (FocusResult p) w) field_value_changed))
      else if keyCode k = 27 then do {
        w1 \<leftarrow> blur_field w;
        w2 \<leftarrow> put_el DOMPopupSearchResultsWindow (\<lambda>el. el\<lparr>el_display := ''none''\<rparr>) w1;
        w3 \<leftarrow> put_el DOMSearchClose (\<lambda>el. el\<lparr>el_display := ''none''\<rparr>) w2;
        Activate False (w3\<lparr>sb := (sb w3)\<lparr>lastSearchValue := []\<rparr>\<rparr>)
      }
      else field_value_changed w)"

section \<open>Sessions\<close>

text \<open>What can happen to the page: the user's actions, a timer that fires, a frame that loads.\<close>

datatype ui_event =
    EnterField
  | LeaveField
  | EditField jsstr
  | FieldKeyUp key_event
  | SelectOver
  | SelectOut
  | SelectKey key_event
  | SelectClick nat
  | CloseClick
  | TimerFires nat
  | FrameLoads rpage

fun pending :: "nat \<Rightarrow> (nat \<times> timer \<times> nat) list \<Rightarrow> timer option" where
  "pending i [] = None"
| "pending i ((j, t, d) # ts) = (if i = j then Some t else pending i ts)"

definition fire :: "env \<Rightarrow> nat \<Rightarrow> world \<Rightarrow> world option" where
  "fire e i w =
     (case pending i (timers w) of
        None \<Rightarrow> Some w
      | Some SearchTimer \<Rightarrow> Search e (clear_timer i w)
      | Some CloseSelectionTimer \<Rightarrow> CloseSelectionWindow (clear_timer i w))"

fun ui_step :: "env \<Rightarrow> world \<Rightarrow> ui_event \<Rightarrow> world option" where
  "ui_step e w EnterField = focus_field w"
| "ui_step e w LeaveField = blur_field w"
| "ui_step e w (EditField v) = put_el DOMSearchField (\<lambda>el. el\<lparr>el_value := v\<rparr>) w"
| "ui_step e w (FieldKeyUp k) = OnSearchFieldChange e k w"
| "ui_step e w SelectOver = OnSearchSelectShow e w"
| "ui_step e w SelectOut = Some (OnSearchSelectHide w)"
| "ui_step e w (SelectKey k) = OnSearchSelectKey e k w"
| "ui_step e w (SelectClick i) = OnSelectItem e i w"
| "ui_step e w CloseClick = CloseResultsWindow w"
| "ui_step e w (TimerFires i) = fire e i w"
| "ui_step e w (FrameLoads pg) = Some (w\<lparr>frame := Some pg\<rparr>)"

end
