(* ===== verification/SearchBoxSafety.thy ===== *)
theory SearchBoxSafety
  imports SearchBox
begin

text \<open>
  No handler of the search box raises on a page that has the seven elements it uses, while the
  selected section is one of the index: the invariant \<open>box_ok\<close>, kept by every handler. The one
  event that can leave it is the Down key on the last filter.
\<close>

section \<open>The invariant\<close>

definition widget_ids :: "jsstr set" where
  "widget_ids = {DOMSearchField, DOMSearchSelect, DOMSearchSelectWindow, DOMPopupSearchResults,
     DOMPopupSearchResultsWindow, DOMSearchClose, DOMSearchBox}"

definition marked_items :: "item list \<Rightarrow> bool" where
  "marked_items its = list_all (\<lambda>it. is_select_item it \<longrightarrow> item_mark it \<noteq> None) its"

definition page_ok :: "document \<Rightarrow> bool" where
  "page_ok d =
     ((\<forall>x \<in> widget_ids. d x \<noteq> None) \<and>
      (case d DOMSearchSelectWindow of None \<Rightarrow> False | Some win \<Rightarrow> marked_items (el_items win)))"

definition frame_ok :: "rpage option \<Rightarrow> bool" where
  "frame_ok f = (case f of None \<Rightarrow> True | Some pg \<Rightarrow> \<exists>data. page_of data (rdoc pg))"

definition box_ok :: "env \<Rightarrow> world \<Rightarrow> bool" where
  "box_ok e w =
     (page_ok (doc w) \<and> frame_ok (frame w) \<and>
      searchIndex (sb w) < length (indexSectionsWithContent e))"

lemma widget_ids_mem [simp]:
  "DOMSearchField \<in> widget_ids" "DOMSearchSelect \<in> widget_ids" "DOMSearchSelectWindow \<in> widget_ids"
  "DOMPopupSearchResults \<in> widget_ids" "DOMPopupSearchResultsWindow \<in> widget_ids"
  "DOMSearchClose \<in> widget_ids" "DOMSearchBox \<in> widget_ids"
  by (simp_all add: widget_ids_def)

lemma widget_ids_distinct [simp]:
  "distinct [DOMSearchField, DOMSearchSelect, DOMSearchSelectWindow, DOMPopupSearchResults,
     DOMPopupSearchResultsWindow, DOMSearchClose, DOMSearchBox]"
  by (simp add: DOMSearchField_def DOMSearchSelect_def DOMSearchSelectWindow_def
      DOMPopupSearchResults_def DOMPopupSearchResultsWindow_def DOMSearchClose_def DOMSearchBox_def)

lemma page_ok_get: "page_ok d \<Longrightarrow> x \<in> widget_ids \<Longrightarrow> \<exists>el. d x = Some el"
  by (auto simp: page_ok_def)

lemma page_ok_update:
  "page_ok d \<Longrightarrow> d x = Some el \<Longrightarrow> marked_items (el_items el) \<longrightarrow> marked_items (el_items el') \<Longrightarrow>
   page_ok (d(x \<mapsto> el'))"
  by (auto simp: page_ok_def split: option.splits)

section \<open>Rules for the operations\<close>

lemma box_ok_update [simp]:
  "box_ok e (w\<lparr>focused := f\<rparr>) = box_ok e w"
  "box_ok e (w\<lparr>timers := ts\<rparr>) = box_ok e w"
  "box_ok e (w\<lparr>last_timer := i\<rparr>) = box_ok e w"
  "box_ok e (w\<lparr>location := l\<rparr>) = box_ok e w"
  "searchIndex s = searchIndex (sb w) \<Longrightarrow> box_ok e (w\<lparr>sb := s\<rparr>) = box_ok e w"
  by (simp_all add: box_ok_def)

lemma clear_timer_simps [simp]:
  "doc (clear_timer i w) = doc w" "frame (clear_timer i w) = frame w" "sb (clear_timer i w) = sb w"
  "focused (clear_timer i w) = focused w" "location (clear_timer i w) = location w"
  "box_ok e (clear_timer i w) = box_ok e w"
  by (simp_all add: clear_timer_def)

lemma box_ok_stop_key_timer [simp]: "box_ok e (stop_key_timer w) = box_ok e w"
  by (simp add: stop_key_timer_def)

lemma box_ok_page: "box_ok e w \<Longrightarrow> page_ok (doc w)"
  by (simp add: box_ok_def)

lemma box_ok_section: "box_ok e w \<Longrightarrow> searchIndex (sb w) < length (indexSectionsWithContent e)"
  by (simp add: box_ok_def)

lemma get_el_safe [safe_intros]:
  "box_ok e w \<Longrightarrow> x \<in> widget_ids \<Longrightarrow> (\<And>el. doc w x = Some el \<Longrightarrow> P el) \<Longrightarrow> succeeds (get_el x w) P"
  using page_ok_get [of "doc w" x] by (auto simp: box_ok_def get_el_def succeeds_def)

lemma put_el_safe_items:
  assumes ok: "box_ok e w" and x: "x \<in> widget_ids"
    and its: "\<And>el. marked_items (el_items el) \<Longrightarrow> marked_items (el_items (f el))"
    and post: "\<And>w'. box_ok e w' \<Longrightarrow> P w'"
  shows "succeeds (put_el x f w) P"
proof -
  from ok x obtain el where el: "doc w x = Some el" by (auto simp: box_ok_def dest: page_ok_get)
  have "page_ok ((doc w)(x \<mapsto> f el))"
    using its box_ok_page [OF ok] by (intro page_ok_update [of "doc w" x el "f el"] el) auto
  then have "box_ok e (w\<lparr>doc := (doc w)(x \<mapsto> f el)\<rparr>)"
    using ok by (simp add: box_ok_def)
  with el post show ?thesis by (simp add: put_el_def succeeds_def)
qed

lemma put_el_safe [safe_intros]:
  assumes "box_ok e w" "x \<in> widget_ids" "\<And>el. el_items (f el) = el_items el"
    and "\<And>w'. box_ok e w' \<Longrightarrow> P w'"
  shows "succeeds (put_el x f w) P"
  by (rule put_el_safe_items [OF assms(1,2)]) (simp_all add: assms(3,4))

section \<open>Every handler\<close>

lemma Activate_safe [safe_intros]:
  "box_ok e w \<Longrightarrow> (\<And>w'. box_ok e w' \<Longrightarrow> P w') \<Longrightarrow> succeeds (Activate b w) P"
  unfolding Activate_def by (cases b) (auto intro!: safe_intros)

lemma field_exists: "box_ok e w \<Longrightarrow> doc w DOMSearchField \<noteq> None"
  using page_ok_get [of "doc w" DOMSearchField] by (auto simp: box_ok_def)

lemma blur_field_safe [safe_intros]:
  "box_ok e w \<Longrightarrow> (\<And>w'. box_ok e w' \<Longrightarrow> P w') \<Longrightarrow> succeeds (blur_field w) P"
  using field_exists [of e w]
  by (auto simp: blur_field_def OnSearchFieldFocus_def intro!: safe_intros)

lemma focus_field_safe [safe_intros]:
  "box_ok e w \<Longrightarrow> (\<And>w'. box_ok e w' \<Longrightarrow> P w') \<Longrightarrow> succeeds (focus_field w) P"
  using field_exists [of e w]
  by (auto simp: focus_field_def OnSearchFieldFocus_def intro!: safe_intros)

lemma focus_other_safe [safe_intros]:
  "box_ok e w \<Longrightarrow> (\<And>w'. box_ok e w' \<Longrightarrow> P w') \<Longrightarrow> succeeds (focus_other f w) P"
  by (auto simp: focus_other_def OnSearchFieldFocus_def intro!: safe_intros)

lemma OnSearchSelectShow_safe [safe_intros]:
  "box_ok e w \<Longrightarrow> (\<And>w'. box_ok e w' \<Longrightarrow> P w') \<Longrightarrow> succeeds (OnSearchSelectShow e' w) P"
  unfolding OnSearchSelectShow_def Let_def by (auto intro!: safe_intros)

lemma CloseSelectionWindow_safe [safe_intros]:
  "box_ok e w \<Longrightarrow> (\<And>w'. box_ok e w' \<Longrightarrow> P w') \<Longrightarrow> succeeds (CloseSelectionWindow w) P"
  unfolding CloseSelectionWindow_def by (auto intro!: safe_intros)

lemma CloseResultsWindow_safe [safe_intros]:
  "box_ok e w \<Longrightarrow> (\<And>w'. box_ok e w' \<Longrightarrow> P w') \<Longrightarrow> succeeds (CloseResultsWindow w) P"
  unfolding CloseResultsWindow_def by (auto intro!: safe_intros)

lemma set_marks_safe:
  "marked_items its \<Longrightarrow> succeeds (set_marks chosen j its) marked_items"
  by (induction chosen j its rule: set_marks.induct)
    (fastforce simp: marked_items_def succeeds_def is_select_item_def split: option.splits)+

lemma SelectItemSet_safe [safe_intros]:
  assumes ok: "box_ok e w" and post: "\<And>w'. box_ok e w' \<Longrightarrow> P w'"
  shows "succeeds (SelectItemSet chosen w) P"
proof -
  obtain win where win: "doc w DOMSearchSelectWindow = Some win" "marked_items (el_items win)"
    using box_ok_page [OF ok] by (auto simp: page_ok_def split: option.splits)
  then obtain its where its: "set_marks chosen 0 (el_items win) = Some its" "marked_items its"
    using set_marks_safe [OF win(2)] unfolding succeeds_def by blast
  have "succeeds (put_el DOMSearchSelectWindow (\<lambda>el. el\<lparr>el_items := its\<rparr>) w) P"
    by (rule put_el_safe_items [OF ok]) (simp_all add: its post)
  with win its show ?thesis by (simp add: SelectItemSet_def get_el_def)
qed

lemma SelectItemCount_safe [safe_intros]:
  "box_ok e w \<Longrightarrow> (\<And>n. P n) \<Longrightarrow> succeeds (SelectItemCount w) P"
  unfolding SelectItemCount_def by (auto intro!: safe_intros)

lemma show_results_window_safe [safe_intros]:
  "box_ok e w \<Longrightarrow> (\<And>w'. box_ok e w' \<Longrightarrow> P w') \<Longrightarrow> succeeds (show_results_window e' w) P"
  unfolding show_results_window_def Let_def by (auto intro!: safe_intros)

lemma nth_opt_safe:
  "i < length xs \<Longrightarrow> P (xs ! i) \<Longrightarrow> succeeds (nth_opt xs i) P"
  by (simp add: nth_opt_def succeeds_def)

lemma Search_safe [safe_intros]:
  "box_ok e w \<Longrightarrow> (\<And>w'. box_ok e w' \<Longrightarrow> P w') \<Longrightarrow> succeeds (Search e w) P"
  unfolding Search_def Let_def
  using box_ok_section [of e w] by (auto intro!: safe_intros nth_opt_safe)

lemma OnSelectItem_safe:
  assumes "box_ok e w" "i < length (indexSectionsWithContent e)" "\<And>w'. box_ok e w' \<Longrightarrow> P w'"
  shows "succeeds (OnSelectItem e i w) P"
proof -
  have "box_ok e (w\<lparr>sb := (sb w)\<lparr>searchIndex := i\<rparr>\<rparr>)"
    using assms(1,2) by (simp add: box_ok_def)
  then show ?thesis
    unfolding OnSelectItem_def Let_def by (auto intro!: safe_intros assms(3))
qed

definition key_enabled :: "env \<Rightarrow> world \<Rightarrow> key_event \<Rightarrow> bool" where
  "key_enabled e w k =
     (keyCode k = 40 \<longrightarrow> Suc (searchIndex (sb w)) < length (indexSectionsWithContent e))"

lemma OnSearchSelectKey_safe:
  assumes "box_ok e w" "key_enabled e w k" "\<And>w'. box_ok e w' \<Longrightarrow> P w'"
  shows "succeeds (OnSearchSelectKey e k w) P"
  using assms(1,2) box_ok_section [OF assms(1)]
  unfolding OnSearchSelectKey_def
  by (auto intro!: safe_intros OnSelectItem_safe assms(3) simp: key_enabled_def)

lemma field_value_changed_safe [safe_intros]:
  "box_ok e w \<Longrightarrow> (\<And>w'. box_ok e w' \<Longrightarrow> P w') \<Longrightarrow> succeeds (field_value_changed w) P"
  unfolding field_value_changed_def Let_def set_timer_def by (auto intro!: safe_intros)

lemma NavNext_safe:
  assumes "frame_ok (frame w)" "frame w = Some pg"
  shows "\<exists>r. NavNext (rdoc pg) i = Some r"
proof -
  from assms obtain data where page: "page_of data (rdoc pg)" by (auto simp: frame_ok_def)
  show ?thesis
  proof (cases "0 \<le> i \<and> i < int (length data)")
    case True
    then have "nat i \<le> length data" by linarith
    from NavNext_find [OF page this] True show ?thesis by simp
  next
    case False
    then show ?thesis using NavNext_out [OF page] by blast
  qed
qed

lemma OnSearchFieldChange_safe [safe_intros]:
  assumes ok: "box_ok e w" and post: "\<And>w'. box_ok e w' \<Longrightarrow> P w'"
  shows "succeeds (OnSearchFieldChange e k w) P"
proof -
  let ?w = "stop_key_timer w"
  have ok': "box_ok e ?w" using ok by simp
  have nav: "succeeds (case frame ?w of
                None \<Rightarrow> field_value_changed ?w
              | Some pg \<Rightarrow>
                  (case NavNext (rdoc pg) 0 of
                     None \<Rightarrow> None
                   | Some None \<Rightarrow> field_value_changed ?w
                   | Some (Some p) \<Rightarrow> Option.bind (focus_other (FocusResult p) ?w) field_value_changed)) P"
  proof (cases "frame ?w")
    case None
    then show ?thesis using ok' by (auto intro: field_value_changed_safe post)
  next
    case (Some pg)
    then obtain r where "NavNext (rdoc pg) 0 = Some r"
      using NavNext_safe [of ?w pg 0] ok' by (auto simp: box_ok_def)
    with Some ok' show ?thesis
      by (cases r) (auto intro!: safe_intros post)
  qed
  show ?thesis
    using ok'
    by (auto simp: OnSearchFieldChange_def Let_def nav intro!: safe_intros post split: option.split)
qed

lemma fire_safe [safe_intros]:
  "box_ok e w \<Longrightarrow> (\<And>w'. box_ok e w' \<Longrightarrow> P w') \<Longrightarrow> succeeds (fire e i w) P"
  unfolding fire_def by (auto intro!: safe_intros split: option.split timer.split)

section \<open>Sessions\<close>

text \<open>What the user may do without leaving the index: stay on a section that it has.\<close>

definition ui_enabled :: "env \<Rightarrow> world \<Rightarrow> ui_event \<Rightarrow> bool" where
  "ui_enabled e w ev =
     (case ev of
        SelectKey k \<Rightarrow> key_enabled e w k
      | SelectClick i \<Rightarrow> i < length (indexSectionsWithContent e)
      | FrameLoads pg \<Rightarrow> frame_ok (Some pg)
      | _ \<Rightarrow> True)"

lemma OnSearchSelectHide_ok [simp]: "box_ok e (OnSearchSelectHide w) = box_ok e w"
  by (simp add: OnSearchSelectHide_def set_timer_def Let_def)

interpretation box: handler_machine "ui_step e" "box_ok e" "ui_enabled e" for e
proof unfold_locales
  fix w ev
  assume ok: "box_ok e w" and en: "ui_enabled e w ev"
  show "succeeds (ui_step e w ev) (box_ok e)"
  proof (cases ev)
    case (SelectKey k)
    then show ?thesis using ok en by (simp add: OnSearchSelectKey_safe ui_enabled_def)
  next
    case (SelectClick i)
    then show ?thesis using ok en by (simp add: OnSelectItem_safe ui_enabled_def)
  next
    case (FrameLoads pg)
    then show ?thesis using ok en by (simp add: succeeds_def box_ok_def ui_enabled_def)
  qed (use ok in \<open>auto intro!: safe_intros\<close>)
qed

end
