(* ===== verification/SearchIndex.thy ===== *)
theory SearchIndex
  imports SearchBoxSafety
begin

text \<open>
  The index tables of \<^verbatim>\<open>searchdata.js\<close> and the set-up of a page: the elements the widget needs,
  the filter list made by \<open>init_search\<close>, and the first selected filter.
\<close>

section \<open>The tables of the documentation\<close>

definition index_sections_with_content :: "jsstr list" where
  "index_sections_with_content =
     [js ''bcdefghijlmnopqrstuvw~'', js ''bcdfijmnqrstuw'', js ''bcdefghijlmnopqrstuvw~'', js ''f'', js ''c'']"

definition index_section_names :: "jsstr list" where
  "index_section_names = [js ''all'', js ''classes'', js ''functions'', js ''enums'', js ''pages'']"

definition index_section_labels :: "jsstr list" where
  "index_section_labels =
     [js ''All'', js ''Data Structures'', js ''Functions'', js ''Enumerations'', js ''Pages'']"

section \<open>Setting the page up\<close>

fun filter_links :: "nat \<Rightarrow> jsstr list \<Rightarrow> item list" where
  "filter_links key [] = []"
| "filter_links key (label # labels) =
     \<lparr>item_class = ''SelectItem'',
      item_onclick = js ''searchBox.OnSelectItem('' @ num_to_string 10 key @ js '')'',
      item_href = js ''javascript:void(0)'',
      item_mark = Some (js ''&#160;''), item_label = label\<rparr> # filter_links (Suc key) labels"

definition init_search :: "env \<Rightarrow> jsstr list \<Rightarrow> world \<Rightarrow> world option" where
  "init_search e labels w = do {
     w1 \<leftarrow> put_el DOMSearchSelectWindow (\<lambda>el. el\<lparr>el_items := el_items el @ filter_links 0 labels\<rparr>) w;
     OnSelectItem e 0 w1
   }"

definition blank_element :: element where
  "blank_element =
     \<lparr>el_value = [], el_class = [], el_display = [], el_position = [], el_left = [], el_top = [],
      el_width = [], el_items = []\<rparr>"

text \<open>The elements of a page with a client-side search box; the field shows its label.\<close>

definition box_document :: "jsstr \<Rightarrow> document" where
  "box_document label =
     (\<lambda>x. if x = DOMSearchField then Some (blank_element\<lparr>el_value := label\<rparr>)
          else if x = DOMSearchBox then Some (blank_element\<lparr>el_class := ''MSearchBoxInactive''\<rparr>)
          else if x \<in> {DOMSearchSelect, DOMSearchSelectWindow, DOMPopupSearchResults,
                       DOMPopupSearchResultsWindow, DOMSearchClose}
          then Some blank_element else None)"

definition box_page :: "SearchBox \<Rightarrow> world" where
  "box_page s =
     \<lparr>sb = s, doc = box_document (searchLabel s), focused = NoFocus, timers = [], last_timer = 0,
      location = [], frame = None\<rparr>"

lemma marked_filter_links: "marked_items (filter_links key labels)"
  by (induction key labels rule: filter_links.induct) (auto simp: marked_items_def)

lemma filter_links_items: "filter is_select_item (filter_links key labels) = filter_links key labels"
  by (induction key labels rule: filter_links.induct) (auto simp: is_select_item_def)

lemma length_filter_links [simp]: "length (filter_links key labels) = length labels"
  by (induction key labels rule: filter_links.induct) auto

lemma page_ok_box_document: "page_ok (box_document label)"
  by (auto simp: page_ok_def widget_ids_def box_document_def marked_items_def blank_element_def
      DOMSearchField_def DOMSearchSelect_def DOMSearchSelectWindow_def DOMPopupSearchResults_def
      DOMPopupSearchResultsWindow_def DOMSearchClose_def DOMSearchBox_def)

lemma box_ok_box_page:
  "searchIndex s < length (indexSectionsWithContent e) \<Longrightarrow> box_ok e (box_page s)"
  by (simp add: box_ok_def box_page_def page_ok_box_document frame_ok_def)

lemma init_search_safe:
  assumes "box_ok e w" and "\<And>w'. box_ok e w' \<Longrightarrow> P w'"
  shows "succeeds (init_search e labels w) P"
proof -
  have "0 < length (indexSectionsWithContent e)"
    using box_ok_section [OF assms(1)] by (rule le_less_trans [OF le0])
  then show ?thesis
    unfolding init_search_def
    using marked_filter_links [of 0 labels]
    by (auto intro!: safe_intros OnSelectItem_safe assms(2) put_el_safe_items [OF assms(1)]
        simp: marked_items_def)
qed

text \<open>
  From a fresh page, set up by \<open>init_search\<close>, no sequence of user actions, timers and
  frame loads makes the search box raise an exception, as long as a filter is picked only
  among the sections of the index; and the widget stays in a state where this holds again.
\<close>

theorem search_box_never_raises:
  assumes "searchIndex s < length (indexSectionsWithContent e)"
    and "init_search e labels (box_page s) = Some w"
    and "feasible (ui_step e) (ui_enabled e) w events"
  shows "\<exists>w'. run (ui_step e) w events = Some w' \<and> box_ok e w'"
proof -
  have "succeeds (init_search e labels (box_page s)) (box_ok e)"
    by (rule init_search_safe [OF box_ok_box_page [OF assms(1)]])
  with assms(2) have "box_ok e w" by (simp add: succeeds_def)
  then show ?thesis using assms(3) by (rule box.run_ok)
qed

text \<open>A concrete environment and page, for evaluation.\<close>

definition doxygen_env :: env where
  "doxygen_env =
     \<lparr>unicode_lower = (\<lambda>s. s), box_of = (\<lambda>d x. Body), width_of = (\<lambda>d x. 0), height_of = (\<lambda>d x. 0),
      client_width = (\<lambda>d. 800), indexSectionsWithContent = index_sections_with_content,
      indexSectionNames = index_section_names\<rparr>"

definition doxygen_box :: SearchBox where
  "doxygen_box = new_SearchBox (js ''searchBox'') (js ''search'') False (js ''Search'')"

theorem search_box_never_raises_witness:
  "\<exists>w w'. init_search doxygen_env index_section_labels (box_page doxygen_box) = Some w \<and>
     run (ui_step doxygen_env) w [EnterField] = Some w' \<and> box_ok doxygen_env w'"
proof -
  have s: "searchIndex doxygen_box < length (indexSectionsWithContent doxygen_env)"
    by (simp add: doxygen_box_def new_SearchBox_def doxygen_env_def index_sections_with_content_def)
  obtain w where w: "init_search doxygen_env index_section_labels (box_page doxygen_box) = Some w"
    using init_search_safe [OF box_ok_box_page [OF s], of "\<lambda>w. True"] by (auto simp: succeeds_def)
  have "feasible (ui_step doxygen_env) (ui_enabled doxygen_env) w [EnterField]"
    by (simp add: ui_enabled_def split: option.split)
  from search_box_never_raises [OF s w this] w show ?thesis by blast
qed

section \<open>Evaluating sessions\<close>

definition key_up :: "int \<Rightarrow> key_event" where
  "key_up code = \<lparr>ev_type = ''keyup'', keyCode = code, shiftKey = False\<rparr>"

lemma strip_all_js [js_eval]: "strip_all (js s) = js (filter (\<lambda>c. c \<noteq> CHR '' '') s)"
proof (induction s)
  case (Cons c s)
  have "unat (cu (of_char c)) = 32 \<longleftrightarrow> c = CHR '' ''"
    unfolding unat_cu_of_char using of_char_eq_iff [of c "CHR '' ''"] by simp
  with Cons show ?case by (simp add: strip_all_def js_def)
qed (simp add: strip_all_def)

lemmas box_ids [world_simps] =
  DOMSearchField_def DOMSearchSelect_def DOMSearchSelectWindow_def DOMPopupSearchResults_def
  DOMPopupSearchResultsWindow_def DOMSearchClose_def DOMSearchBox_def

lemmas handler_defs [world_simps] =
  get_el_def put_el_def set_timer_def clear_timer_def nth_opt_def Activate_def
  OnSearchFieldFocus_def blur_field_def focus_field_def focus_other_def OnSearchSelectShow_def
  OnSearchSelectHide_def CloseSelectionWindow_def CloseResultsWindow_def is_select_item_def
  SelectItemCount_def SelectItemSet_def show_results_window_def Search_def OnSelectItem_def
  OnSearchSelectKey_def field_value_changed_def stop_key_timer_def OnSearchFieldChange_def
  fire_def init_search_def Let_def

lemmas page_defs [world_simps] =
  box_page_def box_document_def blank_element_def doxygen_env_def index_section_labels_def
  index_section_names_def index_sections_with_content_def doxygen_box_def new_SearchBox_def
  key_up_def

end
