(* ===== verification/SearchBoxProps.thy ===== *)
theory SearchBoxProps
  imports SearchIndex
begin

text \<open>
  What the handlers of the search box do: which page a search opens and what it then shows,
  how the timers of the field are kept to one, what Escape and activation leave behind, and
  the places where the code does not do what it means to.
\<close>

section \<open>Frames\<close>

text \<open>Everything but the page; and, of that, what concerns the timers.\<close>

definition rest :: "world \<Rightarrow> (nat \<times> timer \<times> nat) list \<times> nat \<times> jsstr \<times> rpage option" where
  "rest w = (timers w, last_timer w, location w, frame w)"

definition keeps_timers :: "world \<Rightarrow> world \<Rightarrow> bool" where
  "keeps_timers w w' = (rest w' = rest w \<and> keyTimeout (sb w') = keyTimeout (sb w))"

lemma keeps_timers_refl [simp]: "keeps_timers w w"
  by (simp add: keeps_timers_def)

lemma keeps_timers_trans: "keeps_timers w v \<Longrightarrow> keeps_timers v u \<Longrightarrow> keeps_timers w u"
  by (simp add: keeps_timers_def)

lemma keeps_timers_update [simp]:
  "keeps_timers w (v\<lparr>focused := f\<rparr>) = keeps_timers w v"
  "keeps_timers w (v\<lparr>doc := d\<rparr>) = keeps_timers w v"
  "keeps_timers (v\<lparr>focused := f\<rparr>) w = keeps_timers v w"
  "keyTimeout s = keyTimeout (sb v) \<Longrightarrow> keeps_timers w (v\<lparr>sb := s\<rparr>) = keeps_timers w v"
  by (simp_all add: keeps_timers_def rest_def)

lemma put_el_frame [frame_intros]:
  "(\<And>w'. keeps_timers w w' \<Longrightarrow> sb w' = sb w \<Longrightarrow> P w') \<Longrightarrow> yields (put_el x f w) P"
  by (auto simp: put_el_def yields_def split: option.splits)

lemma get_el_frame [frame_intros]: "(\<And>el. P el) \<Longrightarrow> yields (get_el x w) P"
  by (simp add: yields_def)

lemma nth_opt_frame [frame_intros]: "(\<And>x. P x) \<Longrightarrow> yields (nth_opt xs i) P"
  by (simp add: yields_def)

lemma Activate_keeps: "yields (Activate b w) (keeps_timers w)"
  unfolding Activate_def
  by (cases b) (auto intro!: frame_intros simp: keeps_timers_def rest_def)

lemmas Activate_frame [frame_intros] = yields_weaken [OF Activate_keeps]

lemma CloseSelectionWindow_keeps: "yields (CloseSelectionWindow w) (keeps_timers w)"
  unfolding CloseSelectionWindow_def by (auto intro!: frame_intros)

lemmas CloseSelectionWindow_frame [frame_intros] = yields_weaken [OF CloseSelectionWindow_keeps]

lemma CloseResultsWindow_keeps: "yields (CloseResultsWindow w) (keeps_timers w)"
  unfolding CloseResultsWindow_def
  by (auto intro!: frame_intros simp: keeps_timers_def rest_def)

lemmas CloseResultsWindow_frame [frame_intros] = yields_weaken [OF CloseResultsWindow_keeps]

lemma focus_keeps:
  "yields (blur_field w) (keeps_timers w)"
  "yields (focus_field w) (keeps_timers w)"
  "yields (focus_other f w) (keeps_timers w)"
  unfolding blur_field_def focus_field_def focus_other_def OnSearchFieldFocus_def
  by (auto intro!: frame_intros)

lemmas focus_frames [frame_intros] = focus_keeps [THEN yields_weaken]

lemma show_results_window_keeps:
  "yields (show_results_window e w) (\<lambda>w'. keeps_timers w w' \<and> sb w' = sb w)"
  unfolding show_results_window_def Let_def
  by (auto intro!: frame_intros simp: keeps_timers_def rest_def)

lemmas show_results_window_frame [frame_intros] = yields_weaken [OF show_results_window_keeps]

lemma Search_keeps:
  "yields (Search e w) (\<lambda>w'. timers w' = timers w \<and> last_timer w' = last_timer w \<and>
     keyTimeout (sb w') = 0 \<and> frame w' = frame w)"
  unfolding Search_def Let_def
  by (auto intro!: frame_intros simp: keeps_timers_def rest_def)

lemma OnSearchSelectShow_keeps:
  "yields (OnSearchSelectShow e w) (\<lambda>w'. last_timer w' = last_timer w \<and> keyTimeout (sb w') = keyTimeout (sb w) \<and>
     frame w' = frame w \<and> location w' = location w \<and>
     timers w' = (if hideTimeout (sb w) \<noteq> 0 then timers (clear_timer (hideTimeout (sb w)) w) else timers w))"
  unfolding OnSearchSelectShow_def Let_def
  by (auto intro!: frame_intros simp: keeps_timers_def rest_def clear_timer_def)

section \<open>One pending search\<close>

text \<open>The searches that are scheduled, by the identifiers of their timers.\<close>

definition scheduled :: "world \<Rightarrow> nat list" where
  "scheduled w = map fst (filter (\<lambda>(i, t, d). t = SearchTimer) (timers w))"

text \<open>Timer identifiers are fresh, and \<open>keyTimeout\<close> names the only scheduled search.\<close>

definition debounced :: "world \<Rightarrow> bool" where
  "debounced w =
     (list_all (\<lambda>(i, t, d). 0 < i \<and> i \<le> last_timer w) (timers w) \<and>
      distinct (map fst (timers w)) \<and>
      (scheduled w = [] \<or> scheduled w = [keyTimeout (sb w)]))"

lemma debounced_keeps: "keeps_timers w w' \<Longrightarrow> debounced w \<Longrightarrow> debounced w'"
  by (simp add: keeps_timers_def rest_def debounced_def scheduled_def)

lemma scheduled_clear: "scheduled (clear_timer i w) = filter (\<lambda>j. j \<noteq> i) (scheduled w)"
  by (simp add: scheduled_def clear_timer_def filter_map comp_def case_prod_beta conj_commute)

lemma debounced_clear: "debounced w \<Longrightarrow> debounced (clear_timer i w)"
  unfolding debounced_def scheduled_clear
  by (auto simp: clear_timer_def list_all_iff distinct_map inj_on_def split: if_splits)

lemma debounced_update [simp]:
  "keyTimeout s = keyTimeout (sb w) \<Longrightarrow> debounced (w\<lparr>sb := s\<rparr>) = debounced w"
  "debounced (w\<lparr>frame := f\<rparr>) = debounced w"
  "debounced (w\<lparr>focused := g\<rparr>) = debounced w"
  by (simp_all add: debounced_def scheduled_def)

lemma scheduled_update [simp]:
  "scheduled (w\<lparr>sb := s\<rparr>) = scheduled w"
  by (simp add: scheduled_def)

lemma keyTimeout_positive: "debounced w \<Longrightarrow> scheduled w = [keyTimeout (sb w)] \<Longrightarrow> 0 < keyTimeout (sb w)"
proof -
  assume "debounced w" and s: "scheduled w = [keyTimeout (sb w)]"
  from s have "keyTimeout (sb w) \<in> set (scheduled w)" by simp
  then obtain t d where "(keyTimeout (sb w), t, d) \<in> set (timers w)" by (auto simp: scheduled_def)
  with \<open>debounced w\<close> show ?thesis by (auto simp: debounced_def list_all_iff)
qed

lemma stop_key_timer_none:
  assumes "debounced w"
  shows "scheduled (stop_key_timer w) = []" "debounced (stop_key_timer w)"
proof -
  from assms have "scheduled w = [] \<or> scheduled w = [keyTimeout (sb w)] \<and> 0 < keyTimeout (sb w)"
    using keyTimeout_positive by (auto simp: debounced_def)
  then show none: "scheduled (stop_key_timer w) = []"
    by (auto simp: stop_key_timer_def scheduled_clear)
  have "debounced (clear_timer i w)" for i using assms by (rule debounced_clear)
  with none show "debounced (stop_key_timer w)"
    using assms by (auto simp: stop_key_timer_def debounced_def)
qed

lemma set_timer_debounced:
  assumes w: "debounced w" and new: "set_timer t d w = (i, w')"
  shows "t = CloseSelectionTimer \<Longrightarrow> debounced w'"
    and "t = SearchTimer \<Longrightarrow> scheduled w = [] \<Longrightarrow> debounced (w'\<lparr>sb := (sb w')\<lparr>keyTimeout := i\<rparr>\<rparr>)"
proof -
  have w': "i = Suc (last_timer w)" "timers w' = timers w @ [(i, t, d)]" "last_timer w' = i" "sb w' = sb w"
    using new by (auto simp: set_timer_def Let_def)
  have ids: "list_all (\<lambda>(i, t, d). 0 < i \<and> i \<le> last_timer w') (timers w')"
    using w w' by (auto simp: debounced_def list_all_iff le_SucI)
  have "i \<notin> set (map fst (timers w))"
    using w w'(1) by (auto simp: debounced_def list_all_iff)
  then have dist: "distinct (map fst (timers w'))"
    using w w' by (auto simp: debounced_def)
  show "debounced w'" if "t = CloseSelectionTimer"
    using ids dist w w' that by (simp add: debounced_def scheduled_def)
  show "debounced (w'\<lparr>sb := (sb w')\<lparr>keyTimeout := i\<rparr>\<rparr>)" if "t = SearchTimer" "scheduled w = []"
    using ids dist w' that by (simp add: debounced_def scheduled_def)
qed

lemma field_value_changed_debounced:
  assumes w: "debounced w" and none: "scheduled w = []"
  shows "yields (field_value_changed w) debounced"
proof -
  obtain i w' where new: "set_timer SearchTimer (keyTimeoutLength (sb w)) w = (i, w')" by fastforce
  have "debounced (w'\<lparr>sb := (sb w')\<lparr>keyTimeout := i\<rparr>\<rparr>)"
    by (rule set_timer_debounced(2) [OF w new refl none])
  then show ?thesis
    unfolding field_value_changed_def Let_def
    using new
    by (auto intro!: frame_intros intro: debounced_keeps [OF _ w] simp: keeps_timers_def rest_def)
qed

text \<open>The events that do not pick a filter.\<close>

fun picks_filter :: "ui_event \<Rightarrow> bool" where
  "picks_filter (SelectKey k) = True"
| "picks_filter (SelectClick i) = True"
| "picks_filter ev = False"

lemma debounced_after_clear:
  fixes w w' :: world
  assumes "debounced w" "timers w' = timers (clear_timer i w)" "last_timer w' = last_timer w"
    "keyTimeout (sb w') = keyTimeout (sb w)"
  shows "debounced w'"
proof -
  have "debounced (clear_timer i w)" using assms(1) by (rule debounced_clear)
  then show ?thesis using assms(2-4) by (simp add: debounced_def scheduled_def clear_timer_def)
qed

lemma OnSearchSelectShow_debounced:
  assumes w: "debounced w"
  shows "yields (OnSearchSelectShow e w) (\<lambda>w'. debounced w' \<and> (scheduled w = [] \<longrightarrow> scheduled w' = []))"
proof (rule yields_weaken [OF OnSearchSelectShow_keeps])
  fix w' :: world
  assume kept: "last_timer w' = last_timer w \<and> keyTimeout (sb w') = keyTimeout (sb w) \<and>
    frame w' = frame w \<and> location w' = location w \<and>
    timers w' = (if hideTimeout (sb w) \<noteq> 0 then timers (clear_timer (hideTimeout (sb w)) w) else timers w)"
  show "debounced w' \<and> (scheduled w = [] \<longrightarrow> scheduled w' = [])"
  proof (cases "hideTimeout (sb w) \<noteq> 0")
    case True
    then have ts: "timers w' = timers (clear_timer (hideTimeout (sb w)) w)" using kept by simp
    then have "scheduled w' = scheduled (clear_timer (hideTimeout (sb w)) w)"
      by (simp add: scheduled_def)
    then show ?thesis
      using debounced_after_clear [OF w ts] kept by (simp add: scheduled_clear)
  next
    case False
    then show ?thesis using kept w by (simp add: debounced_def scheduled_def)
  qed
qed

text \<open>No search is scheduled; kept by whatever keeps the timers.\<close>

definition quiet :: "world \<Rightarrow> bool" where
  "quiet w = (debounced w \<and> scheduled w = [])"

lemma quiet_keeps: "keeps_timers w v \<Longrightarrow> quiet w \<Longrightarrow> quiet v"
  using debounced_keeps [of w v] by (simp add: quiet_def keeps_timers_def rest_def scheduled_def)

lemma quiet_bind:
  "quiet w \<Longrightarrow> yields m (keeps_timers w) \<Longrightarrow> (\<And>v. quiet v \<Longrightarrow> yields (f v) P) \<Longrightarrow>
   yields (Option.bind m f) P"
  by (rule yields_bind, erule yields_weaken) (blast intro: quiet_keeps)

lemma put_el_keeps: "yields (put_el x f w) (keeps_timers w)"
  by (rule put_el_frame)

lemma quiet_update [simp]:
  "keyTimeout s = keyTimeout (sb w) \<Longrightarrow> quiet (w\<lparr>sb := s\<rparr>) = quiet w"
  by (simp add: quiet_def)

lemma OnSearchFieldChange_debounced:
  assumes "debounced w"
  shows "yields (OnSearchFieldChange e k w) debounced"
proof -
  let ?w = "stop_key_timer w"
  have q: "quiet ?w" using stop_key_timer_none [OF assms] by (simp add: quiet_def)
  have changed: "yields (field_value_changed v) debounced" if "quiet v" for v
    using that by (intro field_value_changed_debounced) (simp_all add: quiet_def)
  have select: "yields (OnSearchSelectShow e ?w) quiet"
    by (rule yields_weaken [OF OnSearchSelectShow_debounced])
      (use q in \<open>simp_all add: quiet_def\<close>)
  have menu: "yields (do {
          w1 \<leftarrow> OnSearchSelectShow e ?w;
          win \<leftarrow> get_el DOMSearchSelectWindow w1;
          case first_select_item 0 (el_items win) of
            None \<Rightarrow> Some w1
          | Some i \<Rightarrow> focus_other (FocusItem i) w1
        }) debounced"
  proof (rule yields_bind, rule yields_weaken [OF select], rule yields_bind, rule yields_any)
    fix w1 :: world and win :: element
    assume "quiet w1"
    then have w1: "debounced w1" by (simp add: quiet_def)
    have "yields (focus_other (FocusItem i) w1) debounced" for i
      using focus_keeps(3) by (rule yields_weaken) (rule debounced_keeps [OF _ w1])
    with w1 show "yields (case first_select_item 0 (el_items win) of
        None \<Rightarrow> Some w1 | Some i \<Rightarrow> focus_other (FocusItem i) w1) debounced"
      by (simp add: yields_Some split: option.split)
  qed
  have nav: "yields (Option.bind (focus_other f ?w) field_value_changed) debounced" for f
    by (rule quiet_bind [OF q focus_keeps(3)]) (rule changed)
  have escape: "yields (do {
        w1 \<leftarrow> blur_field ?w;
        w2 \<leftarrow> put_el DOMPopupSearchResultsWindow (\<lambda>el. el\<lparr>el_display := ''none''\<rparr>) w1;
        w3 \<leftarrow> put_el DOMSearchClose (\<lambda>el. el\<lparr>el_display := ''none''\<rparr>) w2;
        Activate False (w3\<lparr>sb := (sb w3)\<lparr>lastSearchValue := []\<rparr>\<rparr>)
      }) debounced"
  proof (rule quiet_bind [OF q focus_keeps(1)], rule quiet_bind [OF _ put_el_keeps], assumption,
      rule quiet_bind [OF _ put_el_keeps], assumption)
    fix w3 :: world
    assume "quiet w3"
    then have "debounced (w3\<lparr>sb := (sb w3)\<lparr>lastSearchValue := []\<rparr>\<rparr>)" by (simp add: quiet_def)
    then show "yields (Activate False (w3\<lparr>sb := (sb w3)\<lparr>lastSearchValue := []\<rparr>\<rparr>)) debounced"
      by (intro yields_weaken [OF Activate_keeps]) (rule debounced_keeps)
  qed
  show ?thesis
    unfolding OnSearchFieldChange_def Let_def
    using menu escape nav changed [OF q] by (simp add: yields_None split: option.split)
qed

text \<open>Every event but the choice of a filter keeps the timers in order.\<close>

lemma pending_mem: "pending i ts = Some t \<Longrightarrow> \<exists>d. (i, t, d) \<in> set ts"
  by (induction i ts rule: pending.induct) (auto split: if_splits)

lemma fire_debounced:
  assumes w: "debounced w"
  shows "yields (fire e i w) debounced"
proof (cases "pending i (timers w)")
  case None
  then show ?thesis using w by (simp add: fire_def yields_Some)
next
  case (Some t)
  have clear: "debounced (clear_timer i w)" using w by (rule debounced_clear)
  show ?thesis
  proof (cases t)
    case CloseSelectionTimer
    have "yields (CloseSelectionWindow (clear_timer i w)) debounced"
      by (rule yields_weaken [OF CloseSelectionWindow_keeps]) (rule debounced_keeps [OF _ clear])
    with Some CloseSelectionTimer show ?thesis by (simp add: fire_def)
  next
    case SearchTimer
    from pending_mem [OF Some] SearchTimer have "i \<in> set (scheduled w)"
      by (force simp: scheduled_def)
    with w have "scheduled w = [i]" by (auto simp: debounced_def)
    then have none: "scheduled (clear_timer i w) = []" by (simp add: scheduled_clear)
    have "yields (Search e (clear_timer i w)) debounced"
      by (rule yields_weaken [OF Search_keeps])
        (use clear none in \<open>simp add: debounced_def scheduled_def\<close>)
    with Some SearchTimer show ?thesis by (simp add: fire_def)
  qed
qed

lemma ui_step_debounced:
  assumes w: "debounced w" and ev: "\<not> picks_filter ev"
  shows "yields (ui_step e w ev) debounced"
proof -
  have keeps: "yields m debounced" if "yields m (keeps_timers w)" for m
    using that by (rule yields_weaken) (rule debounced_keeps [OF _ w])
  show ?thesis
  proof (cases ev)
    case SelectOut
    obtain i w' where new: "set_timer CloseSelectionTimer (closeSelectionTimeout (sb w)) w = (i, w')"
      by fastforce
    have "debounced w'" by (rule set_timer_debounced(1) [OF w new refl])
    with new SelectOut show ?thesis by (simp add: OnSearchSelectHide_def yields_Some)
  next
    case SelectOver
    have "yields (OnSearchSelectShow e w) debounced"
      by (rule yields_weaken [OF OnSearchSelectShow_debounced [OF w]]) simp
    with SelectOver show ?thesis by simp
  next
    case (FrameLoads pg)
    with w show ?thesis by (simp add: yields_Some)
  qed (use ev w in \<open>simp_all add: keeps focus_keeps put_el_keeps CloseResultsWindow_keeps
      OnSearchFieldChange_debounced fire_debounced\<close>)
qed

lemma run_debounced:
  "debounced w \<Longrightarrow> list_all (\<lambda>ev. \<not> picks_filter ev) evs \<Longrightarrow> run (ui_step e) w evs = Some w' \<Longrightarrow>
   debounced w'"
proof (induction evs arbitrary: w)
  case Nil
  then show ?case by simp
next
  case (Cons ev evs)
  then obtain v where v: "ui_step e w ev = Some v" "run (ui_step e) v evs = Some w'"
    by (auto split: option.splits)
  moreover have "debounced v"
    using yieldsD [OF ui_step_debounced v(1)] Cons.prems by simp
  ultimately show ?case using Cons by simp
qed

text \<open>
  C12: In every session that does not pick a filter, at most one search is scheduled, and it is the
  one \<open>keyTimeout\<close> names: so the next key stroke cancels it, and only the last text is searched.
\<close>

theorem one_pending_search:
  assumes "timers w = []" and "list_all (\<lambda>ev. \<not> picks_filter ev) evs"
    and "run (ui_step e) w evs = Some w'"
  shows "length (scheduled w') \<le> 1 \<and> set (scheduled w') \<subseteq> {keyTimeout (sb w')} \<and>
    scheduled (stop_key_timer w') = []"
proof -
  have "debounced w" using assms(1) by (simp add: debounced_def scheduled_def)
  then have "debounced w'" using assms(2,3) by (rule run_debounced)
  then show ?thesis using stop_key_timer_none(1) by (auto simp: debounced_def)
qed

theorem one_pending_search_witness:
  "\<exists>w w'. init_search doxygen_env index_section_labels (box_page doxygen_box) = Some w \<and>
     run (ui_step doxygen_env) w [EnterField, EditField (js ''q''), FieldKeyUp (key_up 81)] = Some w' \<and>
     scheduled w' = [1] \<and> set (scheduled w') \<subseteq> {keyTimeout (sb w')}"
proof -
  obtain w w' where w: "init_search doxygen_env index_section_labels (box_page doxygen_box) = Some w"
    and ts: "timers w = []"
    and w': "run (ui_step doxygen_env) w [EnterField, EditField (js ''q''), FieldKeyUp (key_up 81)] = Some w'"
    and s: "scheduled w' = [1]"
    by (simp add: world_simps js_eval scheduled_def)
  have "list_all (\<lambda>ev. \<not> picks_filter ev) [EnterField, EditField (js ''q''), FieldKeyUp (key_up 81)]"
    by simp
  from one_pending_search [OF ts this w'] w w' s show ?thesis by blast
qed

section \<open>Picking a filter\<close>

lemma SelectItemSet_frame:
  "yields (SelectItemSet i w)
     (\<lambda>w'. sb w' = sb w \<and> rest w' = rest w \<and> (\<forall>x. x \<noteq> DOMSearchSelectWindow \<longrightarrow> doc w' x = doc w x))"
  unfolding SelectItemSet_def
  by (auto simp: yields_def put_el_def get_el_def rest_def bind_Some_iff split: option.splits)

lemma field_not_select_window [simp]: "DOMSearchField \<noteq> DOMSearchSelectWindow"
  using widget_ids_distinct by simp

text \<open>With a text in an active field, picking a filter is a search with the new section.\<close>

lemma OnSelectItem_Search:
  assumes "doc w DOMSearchField = Some field" "strip_all (el_value field) \<noteq> []" "searchActive (sb w)"
    and w': "OnSelectItem e i w = Some w'"
  shows "\<exists>v. Search e v = Some w' \<and> rest v = rest w \<and> searchIndex (sb v) = i"
proof -
  obtain v where v: "SelectItemSet i (w\<lparr>sb := (sb w)\<lparr>searchIndex := i\<rparr>\<rparr>) = Some v"
    using w' by (auto simp: OnSelectItem_def bind_Some_iff)
  have "sb v = (sb w)\<lparr>searchIndex := i\<rparr>" "rest v = rest w" "doc v DOMSearchField = Some field"
    using yieldsD [OF SelectItemSet_frame v] assms(1) by (simp_all add: rest_def)
  with v w' assms(2,3) show ?thesis
    by (auto simp: OnSelectItem_def get_el_def intro!: exI [of _ v])
qed

text \<open>
  Picking a filter while a search is scheduled searches at once but does not cancel the
  scheduled search: it stays scheduled while \<open>keyTimeout\<close> forgets it, so that no later key
  stroke in the field (Escape included) stops it.
\<close>

theorem filter_choice_orphans_search:
  assumes "doc w DOMSearchField = Some field" "strip_all (el_value field) \<noteq> []" "searchActive (sb w)"
    and "OnSelectItem e i w = Some w'"
  shows "scheduled w' = scheduled w \<and> keyTimeout (sb w') = 0 \<and>
    scheduled (stop_key_timer w') = scheduled w"
proof -
  obtain v where v: "Search e v = Some w'" and "rest v = rest w"
    using OnSelectItem_Search [OF assms] by blast
  with yieldsD [OF Search_keeps v] show ?thesis
    by (simp add: scheduled_def rest_def stop_key_timer_def)
qed

text \<open>
  The consequence on the page: the user types, picks a filter and leaves with Escape; the
  results window closes and then opens again by itself.
\<close>

theorem filter_choice_orphans_search_witness:
  "\<exists>w v w' u t. init_search doxygen_env index_section_labels (box_page doxygen_box) = Some w \<and>
     run (ui_step doxygen_env) w [EnterField, EditField (js ''q''), FieldKeyUp (key_up 81)] = Some v \<and>
     OnSelectItem doxygen_env 1 v = Some w' \<and> scheduled (stop_key_timer w') = [1] \<and>
     run (ui_step doxygen_env) w' [FieldKeyUp (key_up 27)] = Some u \<and>
     map_option el_display (doc u DOMPopupSearchResultsWindow) = Some ''none'' \<and>
     run (ui_step doxygen_env) u [TimerFires 1] = Some t \<and>
     map_option el_display (doc t DOMPopupSearchResultsWindow) = Some ''block''"
proof -
  obtain w v w' u t field where
    w: "init_search doxygen_env index_section_labels (box_page doxygen_box) = Some w"
    and v: "run (ui_step doxygen_env) w [EnterField, EditField (js ''q''), FieldKeyUp (key_up 81)] = Some v"
    and f: "doc v DOMSearchField = Some field" "strip_all (el_value field) \<noteq> []" "searchActive (sb v)"
    and s: "scheduled v = [1]"
    and w': "OnSelectItem doxygen_env 1 v = Some w'"
    and u: "run (ui_step doxygen_env) w' [FieldKeyUp (key_up 27)] = Some u"
      "map_option el_display (doc u DOMPopupSearchResultsWindow) = Some ''none''"
    and t: "run (ui_step doxygen_env) u [TimerFires 1] = Some t"
      "map_option el_display (doc t DOMPopupSearchResultsWindow) = Some ''block''"
    by (simp add: world_simps js_eval scheduled_def)
  from filter_choice_orphans_search [OF f w'] s
  have "scheduled (stop_key_timer w') = [1]" by simp
  with w v w' u t show ?thesis by blast
qed

section \<open>Moving through the filters with the keyboard\<close>

lemma Search_outside_index:
  "length (indexSectionsWithContent e) \<le> searchIndex (sb w) \<Longrightarrow> Search e w = None"
  by (simp add: Search_def get_el_def nth_opt_def Let_def bind_eq_None_conv)

text \<open>
  The filters are numbered from 0, and Down compares the selected number with their count
  instead of their last number. On the last filter, with a text in the active field, every key
  is handled but Down, which selects a filter that does not exist and raises an exception.
\<close>

theorem down_key_on_last_filter_raises:
  assumes ok: "box_ok e w" and last: "Suc (searchIndex (sb w)) = length (indexSectionsWithContent e)"
    and count: "SelectItemCount w = Some (length (indexSectionsWithContent e))"
    and field: "doc w DOMSearchField = Some field" "strip_all (el_value field) \<noteq> []" "searchActive (sb w)"
    and down: "keyCode k = 40"
  shows "OnSearchSelectKey e k w = None \<and> (\<forall>k'. keyCode k' \<noteq> 40 \<longrightarrow> OnSearchSelectKey e k' w \<noteq> None)"
proof
  have "OnSelectItem e (Suc (searchIndex (sb w))) w = None"
  proof (rule ccontr)
    assume "OnSelectItem e (Suc (searchIndex (sb w))) w \<noteq> None"
    then obtain w' where "OnSelectItem e (Suc (searchIndex (sb w))) w = Some w'" by blast
    from OnSelectItem_Search [OF field this] obtain v
      where "Search e v = Some w'" "searchIndex (sb v) = Suc (searchIndex (sb w))" by blast
    then show False using Search_outside_index [of e v] last by simp
  qed
  then show "OnSearchSelectKey e k w = None"
    using down count last by (simp add: OnSearchSelectKey_def)
  show "\<forall>k'. keyCode k' \<noteq> 40 \<longrightarrow> OnSearchSelectKey e k' w \<noteq> None"
  proof (intro allI impI)
    fix k' :: key_event
    assume "keyCode k' \<noteq> 40"
    then have "succeeds (OnSearchSelectKey e k' w) (\<lambda>w'. True)"
      by (intro OnSearchSelectKey_safe [OF ok]) (simp_all add: key_enabled_def)
    then show "OnSearchSelectKey e k' w \<noteq> None" by (rule succeeds_not_None)
  qed
qed

theorem down_key_on_last_filter_raises_witness:
  "\<exists>w v. init_search doxygen_env index_section_labels (box_page doxygen_box) = Some w \<and>
     run (ui_step doxygen_env) w [EnterField, SelectClick 4, EditField (js ''q'')] = Some v \<and>
     OnSearchSelectKey doxygen_env (key_up 40) v = None \<and>
     OnSearchSelectKey doxygen_env (key_up 38) v \<noteq> None"
proof -
  have "\<exists>w v field. init_search doxygen_env index_section_labels (box_page doxygen_box) = Some w \<and>
      run (ui_step doxygen_env) w [EnterField, SelectClick 4, EditField (js ''q'')] = Some v \<and>
      doc v DOMSearchField = Some field \<and> strip_all (el_value field) \<noteq> [] \<and> searchActive (sb v) \<and>
      Suc (searchIndex (sb v)) = length (indexSectionsWithContent doxygen_env) \<and>
      SelectItemCount v = Some (length (indexSectionsWithContent doxygen_env))"
    by (simp add: world_simps js_eval)
  then obtain w v field where
    w: "init_search doxygen_env index_section_labels (box_page doxygen_box) = Some w"
    and v: "run (ui_step doxygen_env) w [EnterField, SelectClick 4, EditField (js ''q'')] = Some v"
    and f: "doc v DOMSearchField = Some field" "strip_all (el_value field) \<noteq> []" "searchActive (sb v)"
    and n: "Suc (searchIndex (sb v)) = length (indexSectionsWithContent doxygen_env)"
      "SelectItemCount v = Some (length (indexSectionsWithContent doxygen_env))"
    by blast
  have "searchIndex doxygen_box < length (indexSectionsWithContent doxygen_env)"
    by (simp add: doxygen_box_def new_SearchBox_def doxygen_env_def index_sections_with_content_def)
  with w have "box_ok doxygen_env w"
    using init_search_safe [OF box_ok_box_page, of doxygen_box doxygen_env _ index_section_labels]
    by (simp add: succeeds_def)
  then have "box_ok doxygen_env v"
    using box.run_ok [of doxygen_env w "[EnterField, SelectClick 4, EditField (js ''q'')]"] v
    by (simp add: ui_enabled_def doxygen_env_def index_sections_with_content_def split: option.splits)
  from down_key_on_last_filter_raises [OF this n f, of "key_up 40"] w v
  show ?thesis by (simp add: key_up_def)
qed

text \<open>
  A text that starts with a surrogate pair is indexed under the first half of the pair only:
  the branch for surrogate pairs is dead, as it compares the text itself, not its length, with 1.
\<close>

theorem surrogate_pair_is_split:
  assumes "55296 \<le> unat c" "unat c \<le> 56319"
  shows "search_idx_char e (c # d # text) = to_lower (unicode_lower e) [c]"
proof -
  have "string_gt_1 (c # d # text) = False"
    using surrogate_not_number [of c "d # text"] assms by (simp add: string_gt_1_def)
  then show ?thesis by (simp add: search_idx_char_def)
qed

theorem surrogate_pair_is_split_witness:
  "search_idx_char doxygen_env [cu 55357, cu 56832] = [cu 55357]"
  using surrogate_pair_is_split [of "cu 55357" doxygen_env "cu 56832" "[]"]
  by (simp add: to_lower_def is_ascii_def doxygen_env_def)

section \<open>Leaving the field\<close>

text \<open>The state of the box when it is not in use.\<close>

definition closed :: "world \<Rightarrow> bool" where
  "closed w =
     (searchActive (sb w) = False \<and> lastSearchValue (sb w) = [] \<and> lastResultsPage (sb w) = [] \<and>
      map_option el_value (doc w DOMSearchField) = Some (searchLabel (sb w)) \<and>
      map_option el_class (doc w DOMSearchBox) = Some ''MSearchBoxInactive'' \<and>
      map_option el_display (doc w DOMPopupSearchResultsWindow) = Some ''none'' \<and>
      map_option el_display (doc w DOMSearchClose) = Some ''none'')"

lemma Activate_False_closed:
  assumes "map_option el_display (doc w DOMPopupSearchResultsWindow) = Some ''none''"
    and "map_option el_display (doc w DOMSearchClose) = Some ''none''"
  shows "yields (Activate False w) closed"
proof -
  from assms obtain p c where "doc w DOMPopupSearchResultsWindow = Some p" "el_display p = ''none''"
    "doc w DOMSearchClose = Some c" "el_display c = ''none''"
    by auto
  then show ?thesis
    by (cases "doc w DOMSearchBox"; cases "doc w DOMSearchField")
      (simp_all add: yields_def Activate_def put_el_def get_el_def closed_def box_ids)
qed

lemma put_el_display:
  "yields (put_el x (\<lambda>el. el\<lparr>el_display := v\<rparr>) w)
     (\<lambda>w'. map_option el_display (doc w' x) = Some v \<and> (\<forall>y. y \<noteq> x \<longrightarrow> doc w' y = doc w y))"
  by (auto simp: yields_def put_el_def split: option.splits)

lemma window_not_close [simp]: "DOMPopupSearchResultsWindow \<noteq> DOMSearchClose"
  using widget_ids_distinct by simp

lemma close_and_deactivate:
  "yields (do {
     w2 \<leftarrow> put_el DOMPopupSearchResultsWindow (\<lambda>el. el\<lparr>el_display := ''none''\<rparr>) w1;
     w3 \<leftarrow> put_el DOMSearchClose (\<lambda>el. el\<lparr>el_display := ''none''\<rparr>) w2;
     Activate False (w3\<lparr>sb := f (sb w3)\<rparr>)
   }) closed"
  by (rule yields_bind, rule yields_weaken [OF put_el_display], rule yields_bind,
      rule yields_weaken [OF put_el_display], rule Activate_False_closed) simp_all

lemma CloseResultsWindow_closed: "yields (CloseResultsWindow w) closed"
  using close_and_deactivate [of w "\<lambda>s. s"] by (simp add: CloseResultsWindow_def)

lemma Escape_closed: "keyCode k = 27 \<Longrightarrow> yields (OnSearchFieldChange e k w) closed"
  unfolding OnSearchFieldChange_def Let_def
  by (simp, rule yields_bind, rule yields_any, rule close_and_deactivate)

text \<open>
  Escape in the search field, and the close button, put the box back into its closed state:
  both windows hidden, the label in the field, and nothing remembered of the last search.
\<close>

theorem leaving_closes_the_box:
  assumes "box_ok e w" and "keyCode k = 27"
  shows "(\<exists>w'. CloseResultsWindow w = Some w' \<and> closed w') \<and>
    (\<exists>w'. OnSearchFieldChange e k w = Some w' \<and> closed w')"
  using yieldsD [OF CloseResultsWindow_closed [of w]] yieldsD [OF Escape_closed [OF assms(2), of e w]]
    CloseResultsWindow_safe [OF assms(1), of "\<lambda>w. True"]
    OnSearchFieldChange_safe [OF assms(1), of "\<lambda>w. True" k]
  by (auto simp: succeeds_def)

lemma box_ok_doxygen: "box_ok doxygen_env (box_page doxygen_box)"
  by (rule box_ok_box_page)
    (simp add: doxygen_box_def new_SearchBox_def doxygen_env_def index_sections_with_content_def)

theorem leaving_closes_the_box_witness:
  "\<exists>w. OnSearchFieldChange doxygen_env (key_up 27) (box_page doxygen_box) = Some w \<and> closed w"
  using leaving_closes_the_box [OF box_ok_doxygen, of "key_up 27"] by (simp add: key_up_def)

end
