(* ===== verification/IndexTables.thy ===== *)
theory IndexTables
  imports ResultsSearch
begin

text \<open>
  The index tables of three sections of the documentation, entry by entry: the arrays
  \<open>searchData\<close> of \<^verbatim>\<open>classes_0.js\<close> to \<^verbatim>\<open>classes_f.js\<close>, \<^verbatim>\<open>enums_0.js\<close> and \<^verbatim>\<open>pages_0.js\<close>.
  Each table comes with the lower-case names of its symbols.
\<close>

definition symbol :: "string \<Rightarrow> string \<Rightarrow> (string \<times> bool \<times> string) list \<Rightarrow> entry" where
  "symbol i n links =
     \<lparr>ent_id = js i, ent_name = js n,
      ent_links = map (\<lambda>(url, parent, scope).
        \<lparr>link_url = js url, link_parent = parent, link_scope = js scope\<rparr>) links\<rparr>"

lemma ent_id_symbol [simp]: "ent_id (symbol i n links) = js i"
  by (simp add: symbol_def)

section \<open>The section classes\<close>

definition classes_0 :: "entry list" where
  "classes_0 =
  [symbol ''bind_5fmapping'' ''bind_mapping''
     [(''../classcoda_1_1db_1_1bind__mapping.html'', True, ''coda::db'')],
   symbol ''bindable'' ''bindable''
     [(''../classcoda_1_1db_1_1bindable.html'', True, ''coda::db'')],
   symbol ''binding'' ''binding''
     [(''../classcoda_1_1db_1_1mysql_1_1binding.html'', True, ''coda::db::mysql::binding''),
      (''../classcoda_1_1db_1_1postgres_1_1binding.html'', True, ''coda::db::postgres::binding'')]]"

definition classes_0_names :: "jsstr list" where
  "classes_0_names = [js ''bind_mapping'', js ''bindable'', js ''binding'']"

definition classes_1 :: "entry list" where
  "classes_1 =
  [symbol ''column'' ''column''
     [(''../classcoda_1_1db_1_1column.html'', True, ''coda::db::column''),
      (''../classcoda_1_1db_1_1mysql_1_1column.html'', True, ''coda::db::mysql::column''),
      (''../classcoda_1_1db_1_1postgres_1_1column.html'', True, ''coda::db::postgres::column''),
      (''../classcoda_1_1db_1_1sqlite_1_1column.html'', True, ''coda::db::sqlite::column'')],
   symbol ''column_5fdefinition'' ''column_definition''
     [(''../structcoda_1_1db_1_1column__definition.html'', True, ''coda::db'')],
   symbol ''column_5fimpl'' ''column_impl''
     [(''../classcoda_1_1db_1_1column__impl.html'', True, ''coda::db'')]]"

definition classes_1_names :: "jsstr list" where
  "classes_1_names = [js ''column'', js ''column_definition'', js ''column_impl'']"

definition classes_2 :: "entry list" where
  "classes_2 =
  [symbol ''delete_5fquery'' ''delete_query''
     [(''../classcoda_1_1db_1_1delete__query.html'', True, ''coda::db'')]]"

definition classes_2_names :: "jsstr list" where
  "classes_2_names = [js ''delete_query'']"

definition classes_3 :: "entry list" where
  "classes_3 =
  [symbol ''factory'' ''factory''
     [(''../classcoda_1_1db_1_1mysql_1_1factory.html'', True, ''coda::db::mysql::factory''),
      (''../classcoda_1_1db_1_1postgres_1_1factory.html'', True, ''coda::db::postgres::factory''),
      (''../classcoda_1_1db_1_1sqlite_1_1factory.html'', True, ''coda::db::sqlite::factory'')]]"

definition classes_3_names :: "jsstr list" where
  "classes_3_names = [js ''factory'']"

definition classes_4 :: "entry list" where
  "classes_4 =
  [symbol ''insert_5fquery'' ''insert_query''
     [(''../classcoda_1_1db_1_1insert__query.html'', True, ''coda::db'')],
   symbol ''is_5fsql_5fnumber'' ''is_sql_number''
     [(''../structcoda_1_1db_1_1is__sql__number.html'', True, ''coda::db'')],
   symbol ''is_5fsql_5fstring'' ''is_sql_string''
     [(''../structcoda_1_1db_1_1is__sql__string.html'', True, ''coda::db'')],
   symbol ''is_5fsql_5fvalue'' ''is_sql_value''
     [(''../structcoda_1_1db_1_1is__sql__value.html'', True, ''coda::db'')],
   symbol ''isolation'' ''isolation''
     [(''../structcoda_1_1db_1_1transaction_1_1isolation.html'', True, ''coda::db::transaction'')]]"

definition classes_4_names :: "jsstr list" where
  "classes_4_names = [js ''insert_query'', js ''is_sql_number'', js ''is_sql_string'', js ''is_sql_value'', js ''isolation'']"

definition classes_5 :: "entry list" where
  "classes_5 =
  [symbol ''join_5fclause'' ''join_clause''
     [(''../classcoda_1_1db_1_1join__clause.html'', True, ''coda::db'')]]"

definition classes_5_names :: "jsstr list" where
  "classes_5_names = [js ''join_clause'']"

definition classes_6 :: "entry list" where
  "classes_6 =
  [symbol ''mode'' ''mode''
     [(''../classcoda_1_1db_1_1mysql_1_1transaction.html#structcoda_1_1db_1_1mysql_1_1transaction_1_1mode'', True, ''coda::db::mysql::transaction::mode''),
      (''../classcoda_1_1db_1_1postgres_1_1transaction.html#structcoda_1_1db_1_1postgres_1_1transaction_1_1mode'', True, ''coda::db::postgres::transaction::mode'')],
   symbol ''modify_5fquery'' ''modify_query''
     [(''../classcoda_1_1db_1_1modify__query.html'', True, ''coda::db'')]]"

definition classes_6_names :: "jsstr list" where
  "classes_6_names = [js ''mode'', js ''modify_query'']"

definition classes_7 :: "entry list" where
  "classes_7 =
  [symbol ''named_5fparam'' ''named_param''
     [(''../structcoda_1_1db_1_1named__param.html'', True, ''coda::db'')]]"

definition classes_7_names :: "jsstr list" where
  "classes_7_names = [js ''named_param'']"

definition classes_8 :: "entry list" where
  "classes_8 =
  [symbol ''query'' ''query''
     [(''../classcoda_1_1db_1_1query.html'', True, ''coda::db'')]]"

definition classes_8_names :: "jsstr list" where
  "classes_8_names = [js ''query'']"

definition classes_9 :: "entry list" where
  "classes_9 =
  [symbol ''record'' ''record''
     [(''../classcoda_1_1db_1_1base_1_1record.html'', True, ''coda::db::base::record''),
      (''../classcoda_1_1db_1_1generic_1_1record.html'', True, ''coda::db::generic::record''),
      (''../classcoda_1_1db_1_1record.html'', True, ''coda::db::record&lt; T, typename &gt;'')],
   symbol ''record_5ffinder'' ''record_finder''
     [(''../classcoda_1_1db_1_1record__finder.html'', True, ''coda::db'')],
   symbol ''record_5ffinder_3c_20record_20_3e'' ''record_finder&lt; record &gt;''
     [(''../classcoda_1_1db_1_1record__finder.html'', True, ''coda::db'')],
   symbol ''record_5ffinder_3c_20t_20_3e'' ''record_finder&lt; T &gt;''
     [(''../classcoda_1_1db_1_1record__finder.html'', True, ''coda::db'')],
   symbol ''resultset'' ''resultset''
     [(''../classcoda_1_1db_1_1postgres_1_1resultset.html'', True, ''coda::db::postgres::resultset''),
      (''../classcoda_1_1db_1_1mysql_1_1resultset.html'', True, ''coda::db::mysql::resultset''),
      (''../classcoda_1_1db_1_1resultset.html'', True, ''coda::db::resultset''),
      (''../classcoda_1_1db_1_1sqlite_1_1resultset.html'', True, ''coda::db::sqlite::resultset'')],
   symbol ''resultset_5fimpl'' ''resultset_impl''
     [(''../classcoda_1_1db_1_1resultset__impl.html'', True, ''coda::db'')],
   symbol ''resultset_5fiterator'' ''resultset_iterator''
     [(''../classcoda_1_1db_1_1resultset__iterator.html'', True, ''coda::db'')],
   symbol ''row'' ''row''
     [(''../classcoda_1_1db_1_1sqlite_1_1row.html'', True, ''coda::db::sqlite::row''),
      (''../classcoda_1_1db_1_1mysql_1_1row.html'', True, ''coda::db::mysql::row''),
      (''../classcoda_1_1db_1_1postgres_1_1row.html'', True, ''coda::db::postgres::row''),
      (''../classcoda_1_1db_1_1row.html'', True, ''coda::db::row'')],
   symbol ''row_5fimpl'' ''row_impl''
     [(''../classcoda_1_1db_1_1row__impl.html'', True, ''coda::db'')],
   symbol ''row_5fiterator'' ''row_iterator''
     [(''../classcoda_1_1db_1_1row__iterator.html'', True, ''coda::db'')]]"

definition classes_9_names :: "jsstr list" where
  "classes_9_names = [js ''record'', js ''record_finder'', js ''record_finder< record >'', js ''record_finder< t >'', js ''resultset'', js ''resultset_impl'', js ''resultset_iterator'', js ''row'', js ''row_impl'', js ''row_iterator'']"

definition classes_a :: "entry list" where
  "classes_a =
  [symbol ''schema'' ''schema''
     [(''../classcoda_1_1db_1_1schema.html'', True, ''coda::db'')],
   symbol ''schema_5ffactory'' ''schema_factory''
     [(''../classcoda_1_1db_1_1schema__factory.html'', True, ''coda::db'')],
   symbol ''select_5fquery'' ''select_query''
     [(''../classcoda_1_1db_1_1select__query.html'', True, ''coda::db'')],
   symbol ''session'' ''session''
     [(''../classcoda_1_1db_1_1sqlite_1_1session.html'', True, ''coda::db::sqlite::session''),
      (''../classcoda_1_1db_1_1mysql_1_1session.html'', True, ''coda::db::mysql::session''),
      (''../classcoda_1_1db_1_1session.html'', True, ''coda::db::session''),
      (''../classcoda_1_1db_1_1postgres_1_1session.html'', True, ''coda::db::postgres::session'')],
   symbol ''session_5ffactory'' ''session_factory''
     [(''../classcoda_1_1db_1_1session__factory.html'', True, ''coda::db'')],
   symbol ''session_5fimpl'' ''session_impl''
     [(''../classcoda_1_1db_1_1session__impl.html'', True, ''coda::db'')],
   symbol ''sql_5fblob'' ''sql_blob''
     [(''../classcoda_1_1db_1_1sql__blob.html'', True, ''coda::db'')],
   symbol ''sql_5fgenerator'' ''sql_generator''
     [(''../classcoda_1_1db_1_1sql__generator.html'', True, ''coda::db'')],
   symbol ''sql_5fnumber'' ''sql_number''
     [(''../classcoda_1_1db_1_1sql__number.html'', True, ''coda::db'')],
   symbol ''sql_5fnumber_5fconvertible'' ''sql_number_convertible''
     [(''../classcoda_1_1db_1_1sql__number__convertible.html'', True, ''coda::db'')],
   symbol ''sql_5foperator'' ''sql_operator''
     [(''../classcoda_1_1db_1_1sql__operator.html'', True, ''coda::db'')],
   symbol ''sql_5foperator_5fbuilder'' ''sql_operator_builder''
     [(''../classcoda_1_1db_1_1sql__operator__builder.html'', True, ''coda::db'')],
   symbol ''sql_5ftime'' ''sql_time''
     [(''../classcoda_1_1db_1_1sql__time.html'', True, ''coda::db'')],
   symbol ''sql_5fvalue'' ''sql_value''
     [(''../classcoda_1_1db_1_1sql__value.html'', True, ''coda::db'')],
   symbol ''sql_5fvalue_5fconvertible'' ''sql_value_convertible''
     [(''../classcoda_1_1db_1_1sql__value__convertible.html'', True, ''coda::db'')],
   symbol ''statement'' ''statement''
     [(''../classcoda_1_1db_1_1mysql_1_1statement.html'', True, ''coda::db::mysql::statement''),
      (''../classcoda_1_1db_1_1sqlite_1_1statement.html'', True, ''coda::db::sqlite::statement''),
      (''../classcoda_1_1db_1_1statement.html'', True, ''coda::db::statement''),
      (''../classcoda_1_1db_1_1postgres_1_1statement.html'', True, ''coda::db::postgres::statement'')],
   symbol ''stmt_5fcolumn'' ''stmt_column''
     [(''../classcoda_1_1db_1_1mysql_1_1stmt__column.html'', True, ''coda::db::mysql'')],
   symbol ''stmt_5fresultset'' ''stmt_resultset''
     [(''../classcoda_1_1db_1_1mysql_1_1stmt__resultset.html'', True, ''coda::db::mysql'')],
   symbol ''stmt_5frow'' ''stmt_row''
     [(''../classcoda_1_1db_1_1mysql_1_1stmt__row.html'', True, ''coda::db::mysql'')]]"

definition classes_a_names :: "jsstr list" where
  "classes_a_names = [js ''schema'', js ''schema_factory'', js ''select_query'', js ''session'', js ''session_factory'', js ''session_impl'', js ''sql_blob'', js ''sql_generator'', js ''sql_number'', js ''sql_number_convertible'', js ''sql_operator'', js ''sql_operator_builder'', js ''sql_time'', js ''sql_value'', js ''sql_value_convertible'', js ''statement'', js ''stmt_column'', js ''stmt_resultset'', js ''stmt_row'']"

definition classes_b :: "entry list" where
  "classes_b =
  [symbol ''transaction'' ''transaction''
     [(''../classcoda_1_1db_1_1transaction.html'', True, ''coda::db::transaction''),
      (''../classcoda_1_1db_1_1mysql_1_1transaction.html'', True, ''coda::db::mysql::transaction''),
      (''../classcoda_1_1db_1_1sqlite_1_1transaction.html'', True, ''coda::db::sqlite::transaction''),
      (''../classcoda_1_1db_1_1postgres_1_1transaction.html'', True, ''coda::db::postgres::transaction'')],
   symbol ''transaction_5fimpl'' ''transaction_impl''
     [(''../classcoda_1_1db_1_1transaction__impl.html'', True, ''coda::db'')]]"

definition classes_b_names :: "jsstr list" where
  "classes_b_names = [js ''transaction'', js ''transaction_impl'']"

definition classes_c :: "entry list" where
  "classes_c =
  [symbol ''union_5foperator'' ''union_operator''
     [(''../structcoda_1_1db_1_1union__operator.html'', True, ''coda::db'')],
   symbol ''update_5fquery'' ''update_query''
     [(''../classcoda_1_1db_1_1update__query.html'', True, ''coda::db'')],
   symbol ''uri_5ftype'' ''uri_type''
     [(''../structcoda_1_1db_1_1uri__type.html'', True, ''coda::db'')]]"

definition classes_c_names :: "jsstr list" where
  "classes_c_names = [js ''union_operator'', js ''update_query'', js ''uri_type'']"

definition classes_d :: "entry list" where
  "classes_d =
  [symbol ''where_5fbuilder'' ''where_builder''
     [(''../classcoda_1_1db_1_1where__builder.html'', True, ''coda::db'')],
   symbol ''where_5fclause'' ''where_clause''
     [(''../classcoda_1_1db_1_1where__clause.html'', True, ''coda::db'')],
   symbol ''whereable'' ''whereable''
     [(''../classcoda_1_1db_1_1whereable.html'', True, ''coda::db'')],
   symbol ''whereable_3c_20delete_5fquery_20_3e'' ''whereable&lt; delete_query &gt;''
     [(''../classcoda_1_1db_1_1whereable.html'', True, ''coda::db'')],
   symbol ''whereable_3c_20select_5fquery_20_3e'' ''whereable&lt; select_query &gt;''
     [(''../classcoda_1_1db_1_1whereable.html'', True, ''coda::db'')],
   symbol ''whereable_3c_20update_5fquery_20_3e'' ''whereable&lt; update_query &gt;''
     [(''../classcoda_1_1db_1_1whereable.html'', True, ''coda::db'')]]"

definition classes_d_names :: "jsstr list" where
  "classes_d_names = [js ''where_builder'', js ''where_clause'', js ''whereable'', js ''whereable< delete_query >'', js ''whereable< select_query >'', js ''whereable< update_query >'']"

text \<open>Two tables of an older index are left beside them: their pages exist, but the index has no place for them.\<close>

definition classes_e :: "entry list" where
  "classes_e =
  [symbol ''value_5fequality'' ''value_equality''
     [(''../structcoda_1_1db_1_1helper_1_1value__equality.html'', True, ''coda::db::helper'')]]"

definition classes_e_names :: "jsstr list" where
  "classes_e_names = [js ''value_equality'']"

definition classes_f :: "entry list" where
  "classes_f =
  [symbol ''where_5fbuilder'' ''where_builder''
     [(''../classcoda_1_1db_1_1where__builder.html'', True, ''coda::db'')],
   symbol ''where_5fclause'' ''where_clause''
     [(''../classcoda_1_1db_1_1where__clause.html'', True, ''coda::db'')],
   symbol ''whereable'' ''whereable''
     [(''../classcoda_1_1db_1_1whereable.html'', True, ''coda::db'')],
   symbol ''whereable_3c_20delete_5fquery_20_3e'' ''whereable&lt; delete_query &gt;''
     [(''../classcoda_1_1db_1_1whereable.html'', True, ''coda::db'')],
   symbol ''whereable_3c_20select_5fquery_20_3e'' ''whereable&lt; select_query &gt;''
     [(''../classcoda_1_1db_1_1whereable.html'', True, ''coda::db'')],
   symbol ''whereable_3c_20update_5fquery_20_3e'' ''whereable&lt; update_query &gt;''
     [(''../classcoda_1_1db_1_1whereable.html'', True, ''coda::db'')]]"

definition classes_f_names :: "jsstr list" where
  "classes_f_names = [js ''where_builder'', js ''where_clause'', js ''whereable'', js ''whereable< delete_query >'', js ''whereable< select_query >'', js ''whereable< update_query >'']"

section \<open>The section enums\<close>

definition enums_0 :: "entry list" where
  "enums_0 =
  [symbol ''formats'' ''formats''
     [(''../classcoda_1_1db_1_1sql__time.html#a7341f246dcd74d18fe5fa730cd4ef4e1'', True, ''coda::db::sql_time'')]]"

definition enums_0_names :: "jsstr list" where
  "enums_0_names = [js ''formats'']"

section \<open>The section pages\<close>

definition pages_0 :: "entry list" where
  "pages_0 =
  [symbol ''coda_5fdb'' ''coda_db''
     [(''../index.html'', True, '''')]]"

definition pages_0_names :: "jsstr list" where
  "pages_0_names = [js ''coda_db'']"

end
