(* ===== verification/SearchSite.thy ===== *)
theory SearchSite
  imports SearchBoxProps IndexTables
begin

text \<open>
  From the text in the search field to the rows in the results frame: the page \<open>Search\<close> opens,
  the rows that page shows, and the completeness of the whole when the index tables hold every
  symbol under its first character, as those of the documentation do.
\<close>

section \<open>What opening the results window changes\<close>

text \<open>Everything a search may not touch: the other parts of the page state and the field values.\<close>

definition same_page :: "world \<Rightarrow> world \<Rightarrow> bool" where
  "same_page w w' =
     (rest w' = rest w \<and> focused w' = focused w \<and> sb w' = sb w \<and>
      (\<forall>x. map_option el_value (doc w' x) = map_option el_value (doc w x)))"

lemma same_page_refl [simp]: "same_page w w"
  by (simp add: same_page_def)

lemma same_page_trans: "same_page w v \<Longrightarrow> same_page v u \<Longrightarrow> same_page w u"
  by (simp add: same_page_def)

definition window_open :: "world \<Rightarrow> bool" where
  "window_open w = (map_option el_display (doc w DOMPopupSearchResultsWindow) = Some ''block'')"

lemma put_el_same_page:
  assumes "\<And>el. el_value (f el) = el_value el"
  shows "yields (put_el x f w) (same_page w)"
  using assms by (auto simp: yields_def put_el_def same_page_def rest_def split: option.splits)

lemma put_el_opens:
  assumes "\<And>el. el_value (f el) = el_value el" "\<And>el. el_display (f el) = ''block''"
  shows "yields (put_el DOMPopupSearchResultsWindow f w) (\<lambda>v. same_page w v \<and> window_open v)"
  using assms
  by (auto simp: yields_def put_el_def same_page_def rest_def window_open_def split: option.splits)

lemma put_el_stays_open:
  assumes "\<And>el. el_value (f el) = el_value el" "\<And>el. el_display (f el) = el_display el" "window_open w"
  shows "yields (put_el x f w) (\<lambda>v. same_page w v \<and> window_open v)"
  using assms
  by (auto simp: yields_def put_el_def same_page_def rest_def window_open_def split: option.splits)

lemma same_page_bind:
  assumes "yields m (\<lambda>v. same_page w v \<and> Q v)"
    and "\<And>v. Q v \<Longrightarrow> yields (f v) (\<lambda>u. same_page v u \<and> R u)"
  shows "yields (Option.bind m f) (\<lambda>u. same_page w u \<and> R u)"
  by (rule yields_bind, rule yields_weaken [OF assms(1)])
    (auto intro: yields_weaken [OF assms(2)] same_page_trans)

lemma show_results_window_opens:
  "yields (show_results_window e w) (\<lambda>v. same_page w v \<and> window_open v)"
proof -
  note opens = same_page_bind [OF put_el_opens] and stays = same_page_bind [OF put_el_stays_open]
  have inside: "yields (do {
      w2 \<leftarrow> put_el DOMPopupSearchResultsWindow (\<lambda>el. el\<lparr>el_position := ''relative'', el_display := ''block''\<rparr>) v;
      w3 \<leftarrow> put_el DOMPopupSearchResultsWindow (\<lambda>el. el\<lparr>el_width := px (client_width e (doc w2) - 8)\<rparr>) w2;
      put_el DOMPopupSearchResults (\<lambda>el. el\<lparr>el_width := px (client_width e (doc w2) - 8)\<rparr>) w3
    }) (\<lambda>u. same_page v u \<and> window_open u)" for v
    by (rule opens, simp, simp, rule stays, simp, simp, assumption, rule put_el_stays_open) simp_all
  have outside: "yields (do {
      w2 \<leftarrow> put_el DOMPopupSearchResultsWindow (\<lambda>el. el\<lparr>el_display := ''block''\<rparr>) v;
      _ \<leftarrow> get_el DOMPopupSearchResults w2;
      put_el DOMPopupSearchResultsWindow (\<lambda>el. el\<lparr>el_top := f w2, el_left := g w2\<rparr>) w2
    }) (\<lambda>u. same_page v u \<and> window_open u)" for v f g
    by (rule opens, simp, simp, rule yields_bind, rule yields_any, rule put_el_stays_open) simp_all
  show ?thesis
    unfolding show_results_window_def Let_def
    by (rule same_page_bind [where Q = "\<lambda>v. True"],
        rule put_el_same_page [THEN yields_weaken], simp_all add: inside outside
        yields_bind [OF yields_any, where m = "get_el _ _"])
qed

section \<open>The page a search opens\<close>

lemma nth_opt_Some: "nth_opt xs i = Some x \<longleftrightarrow> i < length xs \<and> xs ! i = x"
  by (simp add: nth_opt_def)

lemma Search_yields:
  assumes field: "doc w DOMSearchField = Some field"
    and content: "nth_opt (indexSectionsWithContent e) (searchIndex (sb w)) = Some content"
    and idx: "idx = index_of content (search_idx_char e (strip_leading (el_value field)))"
    and w': "Search e w = Some w'"
  shows "location w' = (if idx = -1 then results_page e (sb w) idx
           else results_page e (sb w) idx @ cu 63 # escape (strip_leading (el_value field)))"
    and "sb w' = (sb w)\<lparr>keyTimeout := 0, lastSearchValue := strip_leading (el_value field),
           lastResultsPage := results_page e (sb w) idx\<rparr>"
    and "window_open w'" "timers w' = timers w" "focused w' = focused w"
    and "map_option el_value (doc w' x) = map_option el_value (doc w x)"
proof -
  let ?text = "strip_leading (el_value field)"
  let ?loc = "if idx \<noteq> -1 then results_page e (sb w) idx @ js ''?'' @ escape ?text else results_page e (sb w) idx"
  let ?w1 = "w\<lparr>sb := (sb w)\<lparr>keyTimeout := 0\<rparr>, location := ?loc\<rparr>"
  have page: "results_page e ((sb w)\<lparr>keyTimeout := 0\<rparr>) i = results_page e (sb w) i" for i
    by (simp add: results_page_def)
  obtain v where v: "same_page ?w1 v" "window_open v"
    and w'v: "w' = v\<lparr>sb := (sb v)\<lparr>lastSearchValue := ?text, lastResultsPage := results_page e (sb w) idx\<rparr>\<rparr>"
  proof -
    have "\<exists>popup v. doc w DOMPopupSearchResultsWindow = Some popup \<and>
        (if el_display popup \<noteq> ''block'' then show_results_window e ?w1 else Some ?w1) = Some v \<and>
        w' = v\<lparr>sb := (sb v)\<lparr>lastSearchValue := ?text, lastResultsPage := results_page e (sb w) idx\<rparr>\<rparr>"
      using w' field content
      by (auto simp: Search_def Let_def get_el_def bind_Some_iff page idx [symmetric] cong: if_cong
          split del: if_split)
    then obtain popup v where popup: "doc w DOMPopupSearchResultsWindow = Some popup"
      and v: "(if el_display popup \<noteq> ''block'' then show_results_window e ?w1 else Some ?w1) = Some v"
      and w'v: "w' = v\<lparr>sb := (sb v)\<lparr>lastSearchValue := ?text, lastResultsPage := results_page e (sb w) idx\<rparr>\<rparr>"
      by blast
    have "same_page ?w1 v \<and> window_open v"
    proof (cases "el_display popup = ''block''")
      case True
      with v popup show ?thesis by (auto simp: window_open_def)
    next
      case False
      with v show ?thesis using yieldsD [OF show_results_window_opens [of e ?w1], of v] by simp
    qed
    with w'v that show thesis by blast
  qed
  have "js ''?'' = [cu 63]" by (simp add: js_def)
  with v w'v show "location w' = (if idx = -1 then results_page e (sb w) idx
      else results_page e (sb w) idx @ cu 63 # escape ?text)"
    by (auto simp: same_page_def rest_def)
  show "sb w' = (sb w)\<lparr>keyTimeout := 0, lastSearchValue := ?text, lastResultsPage := results_page e (sb w) idx\<rparr>"
    "window_open w'" "timers w' = timers w" "focused w' = focused w"
    "map_option el_value (doc w' x) = map_option el_value (doc w x)"
    using v w'v by (auto simp: same_page_def rest_def window_open_def)
qed

text \<open>
  C13: A search opens the page of the first character of the text: the page of the selected
  section numbered by the position of that character in the index, with the escaped text as its
  query, or the page without matches when the index lacks the character. The results window is
  then open, the search is remembered, and nothing else of the page changes.
\<close>

theorem Search_opens_indexed_page:
  assumes ok: "box_ok e w" and field: "doc w DOMSearchField = Some field"
    and stripped: "text = strip_leading (el_value field)"
    and idx: "idx = index_of (indexSectionsWithContent e ! searchIndex (sb w)) (search_idx_char e text)"
  shows "\<exists>w'. Search e w = Some w' \<and>
    location w' = (if idx = -1 then resultsPath (sb w) @ js ''/nomatches.html''
                   else results_page e (sb w) idx @ cu 63 # escape text) \<and>
    sb w' = (sb w)\<lparr>keyTimeout := 0, lastSearchValue := text, lastResultsPage := results_page e (sb w) idx\<rparr> \<and>
    window_open w' \<and> timers w' = timers w \<and> focused w' = focused w \<and>
    (\<forall>x. map_option el_value (doc w' x) = map_option el_value (doc w x))"
proof -
  have content: "nth_opt (indexSectionsWithContent e) (searchIndex (sb w)) =
      Some (indexSectionsWithContent e ! searchIndex (sb w))"
    using box_ok_section [OF ok] by (simp add: nth_opt_def)
  obtain w' where w': "Search e w = Some w'"
    using Search_safe [OF ok, of "\<lambda>w. True"] by (auto simp: succeeds_def)
  note facts = Search_yields [OF field content idx [unfolded stripped] w']
  show ?thesis
    using w' facts stripped by (intro exI [of _ w']) (simp add: results_page_def)
qed

text \<open>
  A text with a space after its first word is never taken as unchanged: \<open>Search\<close> remembers the
  text without its leading spaces, the key handler compares it with the text without any space.
  Any key other than Escape, Enter and Down, even one that changes nothing, schedules the same
  search again.
\<close>

theorem inner_space_is_always_new:
  assumes found: "Search e w = Some w'" and field: "doc w DOMSearchField = Some field"
    and space: "strip_all (el_value field) \<noteq> strip_leading (el_value field)" "strip_all (el_value field) \<noteq> []"
    and key: "keyCode k \<notin> {13, 27, 40}"
  shows "\<exists>w''. OnSearchFieldChange e k w' = Some w'' \<and> doc w'' = doc w' \<and>
    scheduled w'' = scheduled w' @ [keyTimeout (sb w'')]"
proof -
  obtain content where content: "nth_opt (indexSectionsWithContent e) (searchIndex (sb w)) = Some content"
    using found by (auto simp: Search_def Let_def bind_Some_iff)
  note facts = Search_yields [OF field content refl found]
  obtain field' where field': "doc w' DOMSearchField = Some field'" "el_value field' = el_value field"
    using facts(6) [of DOMSearchField] field by auto
  have "stop_key_timer w' = w'" using facts(2) by (simp add: stop_key_timer_def)
  then show ?thesis
    using key field' space facts(2)
    by (simp add: OnSearchFieldChange_def field_value_changed_def get_el_def set_timer_def Let_def
        scheduled_def)
qed

section \<open>First characters\<close>

lemma prefix_strip_trailing: "prefix (strip_trailing s) s"
proof -
  have "suffix (dropWhile (\<lambda>c. unat c = 32) (rev s)) (rev s)" by (rule suffix_dropWhile)
  then show ?thesis by (simp add: strip_trailing_def suffix_to_prefix)
qed

lemma is_ascii_prefix: "prefix s t \<Longrightarrow> is_ascii t \<Longrightarrow> is_ascii s"
  by (auto simp: prefix_def)

lemma is_ascii_strip_leading: "is_ascii s \<Longrightarrow> is_ascii (strip_leading s)"
  by (simp add: is_ascii_def strip_leading_def list_all_dropWhile)

lemma wanted_ascii:
  "is_ascii s \<Longrightarrow> wanted u s = map lower_cu (strip_trailing (strip_leading s))"
  using is_ascii_prefix [OF prefix_strip_trailing is_ascii_strip_leading]
  by (simp add: wanted_def to_lower_def)

lemma search_idx_char_ascii:
  "is_ascii (c # s) \<Longrightarrow> search_idx_char e (c # s) = [lower_cu c]"
  by (auto simp: search_idx_char_def to_lower_def unat_lower_cu)

text \<open>The index character of a text is the first character of the rows it selects.\<close>

lemma search_idx_char_wanted:
  assumes "is_ascii s" "wanted u s = c # t"
  shows "search_idx_char e (strip_leading s) = [c]"
proof -
  obtain d r where r: "strip_trailing (strip_leading s) = d # r" "c = lower_cu d"
    using assms by (auto simp: wanted_ascii)
  then obtain r' where "strip_leading s = d # r'"
    using prefix_strip_trailing [of "strip_leading s"] by (auto simp: prefix_def)
  then show ?thesis
    using search_idx_char_ascii [of d r' e] is_ascii_strip_leading [OF assms(1)] r(2) by simp
qed

lemma wanted_strip_leading: "wanted u (strip_leading s) = wanted u s"
  by (simp add: wanted_def strip_leading_idem)

section \<open>A site whose tables hold every symbol\<close>

text \<open>
  \<open>files\<close> gives the index table behind each result page, with the names it lists. The site serves
  a symbol of the selected section when the page of its first character lists it.
\<close>

type_synonym site = "jsstr \<Rightarrow> (entry list \<times> jsstr list) option"

definition serves :: "env \<Rightarrow> SearchBox \<Rightarrow> site \<Rightarrow> jsstr \<Rightarrow> bool" where
  "serves e s files name =
     (name \<noteq> [] \<and> hd name \<in> set (indexSectionsWithContent e ! searchIndex s) \<and>
      (case files (results_page e s (index_of (indexSectionsWithContent e ! searchIndex s) [hd name])) of
         None \<Rightarrow> False
       | Some (data, names) \<Rightarrow> lists_names data names \<and> name \<in> set names))"

lemma plain_results_page:
  assumes "plain_path (resultsPath s)" "plain_path (section_name e (searchIndex s))" "idx \<noteq> -1"
  shows "plain_path (results_page e s idx)"
proof -
  have "plain_path (num_to_string 16 (nat idx))"
    using set_num_to_string [of 16] by (fastforce simp: plain_path_def list_all_iff)
  moreover have "plain_path (js ''/'')" "plain_path (js ''_'')" "plain_path (js ''.html'')"
    by (simp_all add: plain_path_def js_def)
  ultimately show ?thesis
    using assms by (simp add: results_page_def plain_path_def)
qed

text \<open>
  C1: A symbol that the site serves is found by every ASCII text that starts it, whatever the case
  and the spaces around it: the search opens a page of the site, that page loads without an
  exception, shows exactly the rows that start with the text, and the row of the symbol is one
  of them.
\<close>

theorem search_finds_symbol:
  assumes ok: "box_ok e w" and field: "doc w DOMSearchField = Some field"
    and ascii: "is_ascii (el_value field)"
    and pre: "wanted u (el_value field) \<noteq> []" "prefix (wanted u (el_value field)) name"
    and site: "serves e (sb w) files name"
    and plain: "plain_path (resultsPath (sb w))" "plain_path (section_name e (searchIndex (sb w)))"
  shows "\<exists>w' page data names pg. Search e w = Some w' \<and> window_open w' \<and> lastResultsPage (sb w') = page \<and>
    files page = Some (data, names) \<and> load_results_page u data (location w') = Some pg \<and>
    shows_search u data names (el_value field) pg \<and>
    (\<exists>r < length data. names ! r = name \<and> style_display (rdoc pg) (rows_path @ [r]) = Some ''block'')"
proof -
  let ?text = "strip_leading (el_value field)"
  let ?content = "indexSectionsWithContent e ! searchIndex (sb w)"
  obtain c t where c: "wanted u (el_value field) = c # t" using pre(1) by (cases "wanted u (el_value field)") auto
  then have hd: "hd name = c" using pre(2) by (auto simp: prefix_def)
  have char: "search_idx_char e ?text = [c]" using ascii c by (rule search_idx_char_wanted)
  have "c \<in> set ?content" using site hd by (simp add: serves_def)
  then have idx: "index_of ?content (search_idx_char e ?text) \<noteq> -1"
    by (simp add: char index_of_single)
  let ?page = "results_page e (sb w) (index_of ?content [c])"
  from site hd obtain data names where table: "files ?page = Some (data, names)"
    and names: "lists_names data names" and listed: "name \<in> set names"
    by (auto simp: serves_def split: option.splits)
  obtain w' where w': "Search e w = Some w'"
    using Search_safe [OF ok, of "\<lambda>w. True"] by (auto simp: succeeds_def)
  have content: "nth_opt (indexSectionsWithContent e) (searchIndex (sb w)) = Some ?content"
    using box_ok_section [OF ok] by (simp add: nth_opt_def)
  note facts = Search_yields [OF field content refl w', unfolded char]
  have loc: "location w' = ?page @ cu 63 # escape ?text"
    using facts(1) idx by (simp add: char)
  have "plain_path ?page" using plain idx by (intro plain_results_page) (simp_all add: char)
  then have query: "search_text (location w') [] = ?text"
    using query_text_roundtrip by (simp add: search_text_def loc)
  from load_page [OF names, of u "location w'"] obtain pg
    where pg: "load_results_page u data (location w') = Some pg"
      and shows': "shows_search u data names (el_value field) pg"
    unfolding query by (auto simp: shows_search_def wanted_strip_leading)
  from listed obtain r where r: "r < length data" "names ! r = name"
    using length_lists_names [OF names] by (auto simp: in_set_conv_nth)
  then have "style_display (rdoc pg) (rows_path @ [r]) = Some ''block''"
    using shows' pre(2) by (simp add: shows_search_def)
  with r w' facts(2,3) table pg shows' show ?thesis
    by (intro exI [of _ w'] exI [of _ ?page] exI [of _ data] exI [of _ names] exI [of _ pg]) auto
qed

end
