(* ===== verification/SymbolTables.thy ===== *)
theory SymbolTables
  imports SearchSite
begin

text \<open>
  Checking index tables on texts instead of code units: the identifiers of ASCII names, and the
  pages of this documentation's sections.
\<close>

section \<open>Identifiers of ASCII names\<close>

definition ascii_char :: "char \<Rightarrow> bool" where
  "ascii_char x = ((of_char x :: nat) < 128)"

definition hex_digit :: "nat \<Rightarrow> char" where
  "hex_digit d = char_of (if d < 10 then 48 + d else 87 + d)"

definition id_text :: "char \<Rightarrow> string" where
  "id_text x =
     (let n = of_char x :: nat
      in if (97 \<le> n \<and> n \<le> 122) \<or> (48 \<le> n \<and> n \<le> 57) \<or> 128 \<le> n then [x]
         else [CHR ''_'', hex_digit (n div 16), hex_digit (n mod 16)])"

lemma cu_hex_digit: "d < 36 \<Longrightarrow> cu (of_char (hex_digit d)) = digit_cu d"
  by (simp add: hex_digit_def digit_cu_def)

lemma id_token_js: "id_token (cu (of_char x)) = js (id_text x)"
proof -
  have lt: "(of_char x :: nat) < 256" by simp
  then have u: "unat (cu (of_char x)) = of_char x" by (simp add: unat_cu_of_char)
  show ?thesis
  proof (cases "id_char (cu (of_char x))")
    case True
    then show ?thesis by (auto simp: id_token_def id_text_def id_char_def u js_def Let_def)
  next
    case False
    then have "id_text x = [CHR ''_'', hex_digit (of_char x div 16), hex_digit (of_char x mod 16)]"
      by (simp add: id_text_def id_char_def u Let_def)
    moreover have "(of_char x :: nat) div 16 < 36" by (rule less_mult_imp_div_less, rule less_trans [OF lt]) simp
    moreover have "(of_char x :: nat) mod 16 < 36" by (rule less_trans [OF mod_less_divisor]) simp_all
    ultimately show ?thesis
      by (simp add: id_token_escaped [OF False] u js_def cu_hex_digit)
  qed
qed

lemma convertToId_js: "convertToId (js s) = js (concat (map id_text s))"
proof (induction s)
  case (Cons x s)
  have "js (x # s) = cu (of_char x) # js s" by (simp add: js_def)
  with Cons show ?case by (simp add: convertToId_concat id_token_js js_append)
qed (simp add: convertToId_concat)

lemma is_ascii_js: "is_ascii (js s) = list_all ascii_char s"
  by (simp add: is_ascii_def js_def list_all_iff ascii_char_def unat_cu_of_char)

text \<open>The characters of the symbols.\<close>

lemma id_texts:
  "id_text (CHR '' '') = ''_20''" "id_text (CHR ''&'') = ''_26''" "id_text (CHR ''*'') = ''_2a''" "id_text (CHR ''<'') = ''_3c''"
  "id_text (CHR ''='') = ''_3d''" "id_text (CHR ''>'') = ''_3e''" "id_text (CHR ''['') = ''_5b''" "id_text (CHR '']'') = ''_5d''"
  "id_text (CHR ''_'') = ''_5f''" "id_text (CHR ''a'') = ''a''" "id_text (CHR ''b'') = ''b''" "id_text (CHR ''c'') = ''c''"
  "id_text (CHR ''d'') = ''d''" "id_text (CHR ''e'') = ''e''" "id_text (CHR ''f'') = ''f''" "id_text (CHR ''g'') = ''g''"
  "id_text (CHR ''h'') = ''h''" "id_text (CHR ''i'') = ''i''" "id_text (CHR ''j'') = ''j''" "id_text (CHR ''k'') = ''k''"
  "id_text (CHR ''l'') = ''l''" "id_text (CHR ''m'') = ''m''" "id_text (CHR ''n'') = ''n''" "id_text (CHR ''o'') = ''o''"
  "id_text (CHR ''p'') = ''p''" "id_text (CHR ''q'') = ''q''" "id_text (CHR ''r'') = ''r''" "id_text (CHR ''s'') = ''s''"
  "id_text (CHR ''t'') = ''t''" "id_text (CHR ''u'') = ''u''" "id_text (CHR ''v'') = ''v''" "id_text (CHR ''w'') = ''w''"
  "id_text (CHR ''x'') = ''x''" "id_text (CHR ''y'') = ''y''" "id_text (CHR ''z'') = ''z''" "id_text (CHR ''|'') = ''_7c''"
  "id_text (CHR ''~'') = ''_7e''"
  by code_simp+

lemma ascii_chars:
  "ascii_char (CHR '' '')" "ascii_char (CHR ''&'')" "ascii_char (CHR ''*'')" "ascii_char (CHR ''<'')"
  "ascii_char (CHR ''='')" "ascii_char (CHR ''>'')" "ascii_char (CHR ''['')" "ascii_char (CHR '']'')"
  "ascii_char (CHR ''_'')" "ascii_char (CHR ''a'')" "ascii_char (CHR ''b'')" "ascii_char (CHR ''c'')"
  "ascii_char (CHR ''d'')" "ascii_char (CHR ''e'')" "ascii_char (CHR ''f'')" "ascii_char (CHR ''g'')"
  "ascii_char (CHR ''h'')" "ascii_char (CHR ''i'')" "ascii_char (CHR ''j'')" "ascii_char (CHR ''k'')"
  "ascii_char (CHR ''l'')" "ascii_char (CHR ''m'')" "ascii_char (CHR ''n'')" "ascii_char (CHR ''o'')"
  "ascii_char (CHR ''p'')" "ascii_char (CHR ''q'')" "ascii_char (CHR ''r'')" "ascii_char (CHR ''s'')"
  "ascii_char (CHR ''t'')" "ascii_char (CHR ''u'')" "ascii_char (CHR ''v'')" "ascii_char (CHR ''w'')"
  "ascii_char (CHR ''x'')" "ascii_char (CHR ''y'')" "ascii_char (CHR ''z'')" "ascii_char (CHR ''|'')"
  "ascii_char (CHR ''~'')"
  by (simp_all add: ascii_char_def)

section \<open>The pages of the sections\<close>

definition section_content :: "nat \<Rightarrow> string" where
  "section_content i = [''bcdefghijlmnopqrstuvw~'', ''bcdfijmnqrstuw'', ''bcdefghijlmnopqrstuvw~'', ''f'', ''c''] ! i"

definition section_text :: "nat \<Rightarrow> string" where
  "section_text i = [''all'', ''classes'', ''functions'', ''enums'', ''pages''] ! i"

definition hex_text :: "nat \<Rightarrow> string" where
  "hex_text k = (if k < 16 then [hex_digit k] else [hex_digit (k div 16), hex_digit (k mod 16)])"

definition filter_box :: "nat \<Rightarrow> SearchBox" where
  "filter_box i = doxygen_box\<lparr>searchIndex := i\<rparr>"

definition section_page :: "nat \<Rightarrow> nat \<Rightarrow> string" where
  "section_page i k = ''search/'' @ section_text i @ ''_'' @ hex_text k @ ''.html''"

lemma js_hex_text: "k < 256 \<Longrightarrow> js (hex_text k) = num_to_string 16 k"
  by (simp add: hex_text_def num_to_string16_one num_to_string16_two js_def cu_hex_digit)

lemma less_5: "(i :: nat) < 5 \<Longrightarrow> i = 0 \<or> i = 1 \<or> i = 2 \<or> i = 3 \<or> i = 4"
  by auto

lemma index_content: "i < 5 \<Longrightarrow> index_sections_with_content ! i = js (section_content i)"
  by (drule less_5) (auto simp: index_sections_with_content_def section_content_def)

lemma section_content_facts: "i < 5 \<Longrightarrow> distinct (section_content i) \<and> length (section_content i) < 256"
  by (drule less_5, elim disjE; hypsubst; code_simp)

lemma js_nth: "k < length s \<Longrightarrow> js s ! k = cu (of_char (s ! k))"
  by (simp add: js_def)

lemma index_of_nth:
  assumes "distinct s" "k < length s"
  shows "index_of (js s) [cu (of_char (s ! k))] = int k"
proof -
  have d: "distinct (js s)" using assms(1) unfolding js_def distinct_map
    by (auto simp: inj_on_def dest: arg_cong [of _ _ unat] simp: unat_cu_of_char)
  have m: "js s ! k \<in> set (js s)" using assms(2) by simp
  from index_of_single_less [OF m] have "nat (index_of (js s) [js s ! k]) = k"
    using d assms(2) by (metis length_js nth_eq_iff_index_eq)
  moreover have "0 \<le> index_of (js s) [js s ! k]" using m by (simp add: index_of_single)
  ultimately show ?thesis using assms(2) by (simp add: js_nth)
qed

lemma section_results_page:
  assumes "i < 5" "k < length (section_content i)"
  shows "results_page doxygen_env (filter_box i)
      (index_of (index_sections_with_content ! i) [cu (of_char (section_content i ! k))]) = js (section_page i k)"
    and "cu (of_char (section_content i ! k)) \<in> set (index_sections_with_content ! i)"
proof -
  note facts = section_content_facts [OF assms(1)]
  have name: "nth_opt index_section_names i = Some (js (section_text i))"
    using less_5 [OF assms(1)] by (auto simp: nth_opt_def index_section_names_def section_text_def)
  have page: "js (section_page i k) =
      js ''search'' @ js ''/'' @ js (section_text i) @ js ''_'' @ js (hex_text k) @ js ''.html''"
    by (simp add: section_page_def js_append [symmetric])
  show "results_page doxygen_env (filter_box i)
      (index_of (index_sections_with_content ! i) [cu (of_char (section_content i ! k))]) = js (section_page i k)"
    using assms facts
    by (simp add: index_content index_of_nth results_page_def page js_hex_text
        filter_box_def doxygen_box_def new_SearchBox_def section_name_def doxygen_env_def name)
  show "cu (of_char (section_content i ! k)) \<in> set (index_sections_with_content ! i)"
    using assms by (simp add: index_content js_def)
qed

section \<open>Tables that fit their pages\<close>

text \<open>One symbol is listed under a character it does not start with.\<close>

definition misindexed :: jsstr where
  "misindexed = js ''string''"

definition table_ok :: "nat \<Rightarrow> nat \<Rightarrow> string \<Rightarrow> entry list \<Rightarrow> jsstr list \<Rightarrow> bool" where
  "table_ok i k page data names =
     (i < 5 \<and> k < length (section_content i) \<and> page = section_page i k \<and>
      list_all (\<lambda>n. n \<noteq> [] \<and> (hd n = cu (of_char (section_content i ! k)) \<or> n = misindexed)) names \<and>
      lists_names data names)"

lemma hd_js [simp]: "hd (js (x # s)) = cu (of_char x)"
  by (simp add: js_def)

lemma ent_ids: "map ent_id (symbol i n links # data) = js i # map ent_id data"
  by simp

lemma hex_digits:
  "hex_digit 0 = CHR ''0''" "hex_digit (Suc 0) = CHR ''1''" "hex_digit 2 = CHR ''2''" "hex_digit 3 = CHR ''3''"
  "hex_digit 4 = CHR ''4''" "hex_digit 5 = CHR ''5''" "hex_digit 6 = CHR ''6''" "hex_digit 7 = CHR ''7''"
  "hex_digit 8 = CHR ''8''" "hex_digit 9 = CHR ''9''" "hex_digit 10 = CHR ''a''" "hex_digit 11 = CHR ''b''"
  "hex_digit 12 = CHR ''c''" "hex_digit 13 = CHR ''d''" "hex_digit 14 = CHR ''e''" "hex_digit 15 = CHR ''f''"
  by code_simp+

lemmas table_checks = table_ok_def lists_names_def convertToId_js is_ascii_js id_texts ascii_chars
  section_content_def section_page_def section_text_def hex_text_def hex_digits misindexed_def

end
