(* ===== verification/IndexAll.thy ===== *)
theory IndexAll
  imports IndexTables
begin

text \<open>
  The index tables of the section \<^verbatim>\<open>all\<close> of the documentation: the arrays \<open>searchData\<close> of
  \<^verbatim>\<open>all_0.js\<close> to \<^verbatim>\<open>all_16.js\<close>, each with the lower-case names of its symbols.
\<close>

definition all_0 :: "entry list" where
  "all_0 =
  [symbol ''begin'' ''begin''
     [(''../classcoda_1_1db_1_1resultset.html#aad5dbe06415d7af31d99ab3b4019afdf'', True, ''coda::db::resultset::begin()''),
      (''../classcoda_1_1db_1_1resultset.html#acd2149e332d113ba052334a071a887a0'', True, ''coda::db::resultset::begin() const''),
      (''../classcoda_1_1db_1_1row.html#a44b84a28e866fb421c6e105eda3df690'', True, ''coda::db::row::begin()''),
      (''../classcoda_1_1db_1_1row.html#aaeb4e43dc35388a39d3c628c34e849c7'', True, ''coda::db::row::begin() const'')],
   symbol ''bind'' ''bind''
     [(''../classcoda_1_1db_1_1bind__mapping.html#a641c478b739583d4931d3e09d1d92096'', True, ''coda::db::bind_mapping::bind(const std::string &amp;name, const sql_value &amp;value) override''),
      (''../classcoda_1_1db_1_1bind__mapping.html#a7b170c77235ef7ad53ae8609365634b8'', True, ''coda::db::bind_mapping::bind(size_t index, const sql_value &amp;value) override=0''),
      (''../classcoda_1_1db_1_1bindable.html#acc02e37d031900cb6a3943da7d269fb6'', True, ''coda::db::bindable::bind(const std::vector&lt; sql_value &gt; &amp;values, size_t start_index=1)''),
      (''../classcoda_1_1db_1_1bindable.html#a1dbbb6d47f0c9a8a0f67da092a217a6c'', True, ''coda::db::bindable::bind(const std::unordered_map&lt; std::string, sql_value &gt; &amp;values)''),
      (''../classcoda_1_1db_1_1bindable.html#add68b5015bdeca5637c7ae2181b47c59'', True, ''coda::db::bindable::bind(size_t index, const sql_value &amp;value)=0''),
      (''../classcoda_1_1db_1_1bindable.html#adbe5c3a7165b6725e39664dd8a107c9f'', True, ''coda::db::bindable::bind(const std::string &amp;name, const sql_value &amp;value)=0''),
      (''../classcoda_1_1db_1_1mysql_1_1binding.html#ad7fac8c275a6d49100f7290aa2a844af'', True, ''coda::db::mysql::binding::bind(size_t index, const sql_value &amp;value) override''),
      (''../classcoda_1_1db_1_1mysql_1_1binding.html#af6259b53ef1bd0148992686d2fc337e2'', True, ''coda::db::mysql::binding::bind(const std::string &amp;name, const sql_value &amp;value) override''),
      (''../classcoda_1_1db_1_1mysql_1_1statement.html#a2e8fc4f935435bf77c2416bc614ddbec'', True, ''coda::db::mysql::statement::bind(size_t index, const sql_value &amp;value) override''),
      (''../classcoda_1_1db_1_1mysql_1_1statement.html#a60ae610264cfd7f5ca483b6bfbfbe2f7'', True, ''coda::db::mysql::statement::bind(const std::string &amp;name, const sql_value &amp;value) override''),
      (''../classcoda_1_1db_1_1postgres_1_1binding.html#a62afa8bff018fcfcd07db571fb26901a'', True, ''coda::db::postgres::binding::bind(size_t index, const sql_value &amp;value) override''),
      (''../classcoda_1_1db_1_1postgres_1_1binding.html#a11f3c9297c610439c56724434894745e'', True, ''coda::db::postgres::binding::bind(const std::string &amp;name, const sql_value &amp;value) override''),
      (''../classcoda_1_1db_1_1postgres_1_1statement.html#a4e54e8bc0927f4f3a89253547e548194'', True, ''coda::db::postgres::statement::bind(size_t index, const sql_value &amp;value) override''),
      (''../classcoda_1_1db_1_1postgres_1_1statement.html#a4b8df12e8184e551b2cf9fb313636bf0'', True, ''coda::db::postgres::statement::bind(const std::string &amp;name, const sql_value &amp;value) override''),
      (''../classcoda_1_1db_1_1query.html#a313234ae6e7ca6e887c91ac34f8e7801'', True, ''coda::db::query::bind(size_t index, const sql_value &amp;value) override''),
      (''../classcoda_1_1db_1_1query.html#aa3eeac2ff78355fa0f757c681c4f09de'', True, ''coda::db::query::bind(const std::string &amp;name, const sql_value &amp;value) override''),
      (''../classcoda_1_1db_1_1sqlite_1_1statement.html#a606fed15566ee904887862fd2972f7ab'', True, ''coda::db::sqlite::statement::bind(size_t index, const sql_value &amp;value) override''),
      (''../classcoda_1_1db_1_1sqlite_1_1statement.html#adb277147061ea92304d80238e5713b65'', True, ''coda::db::sqlite::statement::bind(const std::string &amp;name, const sql_value &amp;value) override''),
      (''../classcoda_1_1db_1_1where__builder.html#a8fec9a653626d56e59ac5f32e2f6756c'', True, ''coda::db::where_builder::bind(size_t index, const sql_value &amp;value) override''),
      (''../classcoda_1_1db_1_1where__builder.html#af4e7bc2e10de5d8e7e000d147bd06b8f'', True, ''coda::db::where_builder::bind(const std::string &amp;name, const sql_value &amp;value) override'')],
   symbol ''bind_5flist'' ''bind_list''
     [(''../classcoda_1_1db_1_1bindable.html#a7e176f1047361513dd2b5208e194c6b5'', True, ''coda::db::bindable::bind_list(size_t index, const T &amp;value)''),
      (''../classcoda_1_1db_1_1bindable.html#a3ebe59af5642e225c44354baf0957870'', True, ''coda::db::bindable::bind_list(size_t index, const T &amp;value, const List &amp;... argv)'')],
   symbol ''bind_5fmapping'' ''bind_mapping''
     [(''../classcoda_1_1db_1_1bind__mapping.html'', True, ''coda::db'')],
   symbol ''bind_5fparam'' ''bind_param''
     [(''../classcoda_1_1db_1_1mysql_1_1session.html#a6513985db471b9d3d09f6b2eb84db104'', True, ''coda::db::mysql::session::bind_param()''),
      (''../classcoda_1_1db_1_1postgres_1_1session.html#aae9bcc1ea9a9c31005b7ca066555a6a9'', True, ''coda::db::postgres::session::bind_param()''),
      (''../classcoda_1_1db_1_1session__impl.html#a25530d8fe1fa43144e0bcc2965ea9b0c'', True, ''coda::db::session_impl::bind_param()''),
      (''../classcoda_1_1db_1_1sqlite_1_1session.html#a5eda19c1a243345e9d79e7f326b569d9'', True, ''coda::db::sqlite::session::bind_param()'')],
   symbol ''bind_5fparams'' ''bind_params''
     [(''../classcoda_1_1db_1_1mysql_1_1binding.html#a5f1ce1ad483f7a22c853977da511c18e'', True, ''coda::db::mysql::binding'')],
   symbol ''bind_5fresult'' ''bind_result''
     [(''../classcoda_1_1db_1_1mysql_1_1binding.html#a6066fd3dbf1f5454b714ae57945da544'', True, ''coda::db::mysql::binding'')],
   symbol ''bindable'' ''bindable''
     [(''../classcoda_1_1db_1_1bindable.html'', True, ''coda::db'')],
   symbol ''binding'' ''binding''
     [(''../classcoda_1_1db_1_1mysql_1_1binding.html'', True, ''coda::db::mysql::binding''),
      (''../classcoda_1_1db_1_1postgres_1_1binding.html'', True, ''coda::db::postgres::binding''),
      (''../classcoda_1_1db_1_1mysql_1_1binding.html#a5a4282b6f8855ceb44c60f8fbba00003'', True, ''coda::db::mysql::binding::binding()''),
      (''../classcoda_1_1db_1_1mysql_1_1binding.html#a12fdd3decd3bfb21bd3fdc1d7bbb45ae'', True, ''coda::db::mysql::binding::binding(size_t size)''),
      (''../classcoda_1_1db_1_1mysql_1_1binding.html#a338fbfaa43bf753b058df575b0734f0b'', True, ''coda::db::mysql::binding::binding(const MYSQL_BIND &amp;value)''),
      (''../classcoda_1_1db_1_1mysql_1_1binding.html#a379ad721d1e3a12d021c2ebe07a2fa30'', True, ''coda::db::mysql::binding::binding(MYSQL_BIND *value, size_t size)''),
      (''../classcoda_1_1db_1_1mysql_1_1binding.html#a4f9c62298a0f2f0be40679f08ce9adb4'', True, ''coda::db::mysql::binding::binding(MYSQL_FIELD *fields, size_t size)''),
      (''../classcoda_1_1db_1_1postgres_1_1binding.html#a23efb7c3b8a0f48857cec1964dac5271'', True, ''coda::db::postgres::binding::binding()''),
      (''../classcoda_1_1db_1_1postgres_1_1binding.html#ae87b4ddf1d615b8ac76b6cdad5bccee6'', True, ''coda::db::postgres::binding::binding(size_t size)'')]]"

definition all_0_names :: "jsstr list" where
  "all_0_names = [js ''begin'', js ''bind'', js ''bind_list'', js ''bind_mapping'', js ''bind_param'', js ''bind_params'', js ''bind_result'', js ''bindable'', js ''binding'']"

definition all_1 :: "entry list" where
  "all_1 =
  [symbol ''capacity'' ''capacity''
     [(''../classcoda_1_1db_1_1mysql_1_1binding.html#a3277263b02b3d4e9540f937c34dbc9f7'', True, ''coda::db::mysql::binding::capacity()''),
      (''../classcoda_1_1db_1_1postgres_1_1binding.html#a27dfd40cc41805d5ebc4b8a125f5c3c2'', True, ''coda::db::postgres::binding::capacity()'')],
   symbol ''cbegin'' ''cbegin''
     [(''../classcoda_1_1db_1_1row.html#a86d2845b81ea7f96c0dd87ec1f163dd8'', True, ''coda::db::row'')],
   symbol ''cend'' ''cend''
     [(''../classcoda_1_1db_1_1row.html#aa6ecbbfd4e0d9bbec8474669f3bf6ad3'', True, ''coda::db::row'')],
   symbol ''clear'' ''clear''
     [(''../classcoda_1_1db_1_1schema__factory.html#a8f1db60c82187cc24989d945710e59ef'', True, ''coda::db::schema_factory'')],
   symbol ''clear_5fschema'' ''clear_schema''
     [(''../classcoda_1_1db_1_1session.html#afc575b6b9533aa902b574ad0d1bd53d7'', True, ''coda::db::session'')],
   symbol ''close'' ''close''
     [(''../classcoda_1_1db_1_1mysql_1_1session.html#a1a1c237c04941a08d39c1fecd2a12769'', True, ''coda::db::mysql::session::close()''),
      (''../classcoda_1_1db_1_1postgres_1_1session.html#a5ed6251b3e595c9d767828991f441386'', True, ''coda::db::postgres::session::close()''),
      (''../classcoda_1_1db_1_1session__impl.html#ab12f6ac621895e39fe5ad9d423047e41'', True, ''coda::db::session_impl::close()''),
      (''../classcoda_1_1db_1_1session.html#ab1ecc31ea7186f05d9a042473e4bc114'', True, ''coda::db::session::close()''),
      (''../classcoda_1_1db_1_1sqlite_1_1session.html#a0f06f142798598d40c14c9a31e84354e'', True, ''coda::db::sqlite::session::close()'')],
   symbol ''column'' ''column''
     [(''../classcoda_1_1db_1_1column.html'', True, ''coda::db::column''),
      (''../classcoda_1_1db_1_1mysql_1_1column.html'', True, ''coda::db::mysql::column''),
      (''../classcoda_1_1db_1_1postgres_1_1column.html'', True, ''coda::db::postgres::column''),
      (''../classcoda_1_1db_1_1sqlite_1_1column.html'', True, ''coda::db::sqlite::column''),
      (''../classcoda_1_1db_1_1column.html#abd46de34b66408b59727b59ba0ed69ff'', True, ''coda::db::column::column(const std::shared_ptr&lt; column_impl &gt; &amp;impl)''),
      (''../classcoda_1_1db_1_1column.html#a50e0276cfa5b4ba7da2af6608300dfc2'', True, ''coda::db::column::column(const column &amp;other)''),
      (''../classcoda_1_1db_1_1column.html#a3b3d10bd6f6ea79ecb64c9149fcfce5c'', True, ''coda::db::column::column(column &amp;&amp;other) noexcept''),
      (''../classcoda_1_1db_1_1mysql_1_1column.html#ace4833972dd4e4f51526fbbaf140ad99'', True, ''coda::db::mysql::column::column()''),
      (''../classcoda_1_1db_1_1mysql_1_1row.html#a9f7e1cc6ee605843e42001c483ebd40b'', True, ''coda::db::mysql::row::column(size_t position) const override''),
      (''../classcoda_1_1db_1_1mysql_1_1row.html#a0df45077c7d4f3ddd6bc42393765132c'', True, ''coda::db::mysql::row::column(const std::string &amp;name) const override''),
      (''../classcoda_1_1db_1_1mysql_1_1stmt__row.html#a7ee66eb3eab8ac0e6d51a3212c713094'', True, ''coda::db::mysql::stmt_row::column(size_t position) const override''),
      (''../classcoda_1_1db_1_1mysql_1_1stmt__row.html#a854238fa46c7d31bc89593bb8bef4138'', True, ''coda::db::mysql::stmt_row::column(const std::string &amp;name) const override''),
      (''../classcoda_1_1db_1_1postgres_1_1column.html#a1a19646a9f4001eb96089fb69bd36abd'', True, ''coda::db::postgres::column::column()''),
      (''../classcoda_1_1db_1_1postgres_1_1row.html#a466c4ee9dee6dfce30a993ff2749197f'', True, ''coda::db::postgres::row::column(size_t nPosition) const override''),
      (''../classcoda_1_1db_1_1postgres_1_1row.html#a8c0055bc51d138e24c98bfd82a12f94e'', True, ''coda::db::postgres::row::column(const std::string &amp;name) const override''),
      (''../classcoda_1_1db_1_1row__impl.html#a9d3ac0f7593d647a172a7148485e7330'', True, ''coda::db::row_impl::column(size_t position) const =0''),
      (''../classcoda_1_1db_1_1row__impl.html#a5bdb2d3fd2f9c1edb011bdae0e0872f1'', True, ''coda::db::row_impl::column(const std::string &amp;name) const =0''),
      (''../classcoda_1_1db_1_1row.html#ab3731273fcdbf07a02cc9f6fdfbafe14'', True, ''coda::db::row::column(size_t nPosition) const''),
      (''../classcoda_1_1db_1_1row.html#ad74b350e8bd3f44c199cac7dac8f3da3'', True, ''coda::db::row::column(const std::string &amp;name) const''),
      (''../classcoda_1_1db_1_1sqlite_1_1column.html#a171f74c0c5648a9ab3cf33204f5f5608'', True, ''coda::db::sqlite::column::column()''),
      (''../classcoda_1_1db_1_1sqlite_1_1row.html#a55b04fa1077d4357544435a3c51bf419'', True, ''coda::db::sqlite::row::column(size_t nPosition) const override''),
      (''../classcoda_1_1db_1_1sqlite_1_1row.html#acf57c6739cdf1d26de58cb3d6a774a22'', True, ''coda::db::sqlite::row::column(const std::string &amp;name) const override'')],
   symbol ''column_5fdefinition'' ''column_definition''
     [(''../structcoda_1_1db_1_1column__definition.html'', True, ''coda::db'')],
   symbol ''column_5fimpl'' ''column_impl''
     [(''../classcoda_1_1db_1_1column__impl.html'', True, ''coda::db'')],
   symbol ''column_5fname'' ''column_name''
     [(''../classcoda_1_1db_1_1mysql_1_1row.html#a4a38ea9612348c95979ebcf827bbd99b'', True, ''coda::db::mysql::row::column_name()''),
      (''../classcoda_1_1db_1_1mysql_1_1stmt__row.html#a9f846244d3a3517b5ea0520624e4fc35'', True, ''coda::db::mysql::stmt_row::column_name()''),
      (''../classcoda_1_1db_1_1postgres_1_1row.html#ac00d88fd3aec35cab72c089ded4d4938'', True, ''coda::db::postgres::row::column_name()''),
      (''../classcoda_1_1db_1_1row__impl.html#ac439d07be0eaba5174efe01e5ae8df7b'', True, ''coda::db::row_impl::column_name()''),
      (''../classcoda_1_1db_1_1row.html#a00162480af56ef07051e68b09617fccd'', True, ''coda::db::row::column_name()''),
      (''../classcoda_1_1db_1_1sqlite_1_1row.html#ae954f67f43739872a9f16ad0c7409aa1'', True, ''coda::db::sqlite::row::column_name()'')],
   symbol ''column_5fnames'' ''column_names''
     [(''../classcoda_1_1db_1_1schema.html#aad23500fa278e3b20085573dc50a97cd'', True, ''coda::db::schema'')],
   symbol ''columns'' ''columns''
     [(''../classcoda_1_1db_1_1insert__query.html#a392e1e098fddb6e58f01ce497927d8e9'', True, ''coda::db::insert_query::columns() const''),
      (''../classcoda_1_1db_1_1insert__query.html#a23ae54d369507766979b2b735cce8ca2'', True, ''coda::db::insert_query::columns(const std::vector&lt; std::string &gt; &amp;value)''),
      (''../classcoda_1_1db_1_1schema.html#a14788c50b6d981ce40042a7a783fca0a'', True, ''coda::db::schema::columns()''),
      (''../classcoda_1_1db_1_1select__query.html#ad9ca5c09f5437ba5d19e32a73147117a'', True, ''coda::db::select_query::columns(const std::vector&lt; std::string &gt; &amp;other)''),
      (''../classcoda_1_1db_1_1select__query.html#ac098434b03936e9643efdea191fd4891'', True, ''coda::db::select_query::columns(const std::string &amp;value, const List &amp;... args)''),
      (''../classcoda_1_1db_1_1select__query.html#afb0fc30a8b7fdb222fda93233d3f2579'', True, ''coda::db::select_query::columns() const''),
      (''../classcoda_1_1db_1_1update__query.html#a824e538bb2065681f56296c5c0f5a6d8'', True, ''coda::db::update_query::columns() const''),
      (''../classcoda_1_1db_1_1update__query.html#a018e2aaaf01460849c58adadecb3e7fa'', True, ''coda::db::update_query::columns(const std::vector&lt; std::string &gt; &amp;value)'')],
   symbol ''connection_5finfo'' ''connection_info''
     [(''../classcoda_1_1db_1_1session__impl.html#a7e8373ab2e9a4727f804cc0dd5094793'', True, ''coda::db::session_impl::connection_info()''),
      (''../classcoda_1_1db_1_1session.html#adfab7a217c4475caa4be6471898d1ce5'', True, ''coda::db::session::connection_info()'')],
   symbol ''count'' ''count''
     [(''../classcoda_1_1db_1_1select__query.html#accfa15a16ac74f3a625aab5f245abdd9'', True, ''coda::db::select_query'')],
   symbol ''create_5fstatement'' ''create_statement''
     [(''../classcoda_1_1db_1_1mysql_1_1session.html#a36be251371643e20fe3d849916aee794'', True, ''coda::db::mysql::session::create_statement()''),
      (''../classcoda_1_1db_1_1postgres_1_1session.html#a6a7c5df8b90389fc9f85bff853eab679'', True, ''coda::db::postgres::session::create_statement()''),
      (''../classcoda_1_1db_1_1session__impl.html#a8a45b283d9af1f207934516ed2a9f5cf'', True, ''coda::db::session_impl::create_statement()''),
      (''../classcoda_1_1db_1_1session.html#aa273a13e1ee1cb4841410ff2de6fe9da'', True, ''coda::db::session::create_statement()''),
      (''../classcoda_1_1db_1_1sqlite_1_1session.html#a1d69a4f2558177e156f0313a410e24f5'', True, ''coda::db::sqlite::session::create_statement()'')],
   symbol ''create_5ftransaction'' ''create_transaction''
     [(''../classcoda_1_1db_1_1mysql_1_1session.html#a3ac1608bac5f7348b078dc903a0bbe78'', True, ''coda::db::mysql::session::create_transaction()''),
      (''../classcoda_1_1db_1_1postgres_1_1session.html#aeb4fc619aa18909602c8e885a09a764c'', True, ''coda::db::postgres::session::create_transaction()''),
      (''../classcoda_1_1db_1_1session__impl.html#ab0948f8effcefb63c5e61931d7156bb8'', True, ''coda::db::session_impl::create_transaction()''),
      (''../classcoda_1_1db_1_1session.html#aaee41db3383297bdbdf6035796a9deca'', True, ''coda::db::session::create_transaction()''),
      (''../classcoda_1_1db_1_1sqlite_1_1session.html#aeecffe0fd302a4c491649f6f1e1c4169'', True, ''coda::db::sqlite::session::create_transaction()'')],
   symbol ''current_5frow'' ''current_row''
     [(''../classcoda_1_1db_1_1mysql_1_1resultset.html#a13933a5d012040c3e4110097ae2d8704'', True, ''coda::db::mysql::resultset::current_row()''),
      (''../classcoda_1_1db_1_1mysql_1_1stmt__resultset.html#ae378ab914d75fca7c4a37a2ee6b2298b'', True, ''coda::db::mysql::stmt_resultset::current_row()''),
      (''../classcoda_1_1db_1_1postgres_1_1resultset.html#a837cde617d1e9160c6737e1d99f1b12d'', True, ''coda::db::postgres::resultset::current_row()''),
      (''../classcoda_1_1db_1_1resultset__impl.html#a6340a6aa1f81badc82518d6c81f865c2'', True, ''coda::db::resultset_impl::current_row()''),
      (''../classcoda_1_1db_1_1resultset.html#a38427879f981c299d7fb9b2912e96120'', True, ''coda::db::resultset::current_row()''),
      (''../classcoda_1_1db_1_1sqlite_1_1resultset.html#a905a18dbf47311a77589c8927a1c8085'', True, ''coda::db::sqlite::resultset::current_row()'')],
   symbol ''coda_5fdb'' ''coda_db''
     [(''../index.html'', True, '''')]]"

definition all_1_names :: "jsstr list" where
  "all_1_names = [js ''capacity'', js ''cbegin'', js ''cend'', js ''clear'', js ''clear_schema'', js ''close'', js ''column'', js ''column_definition'', js ''column_impl'', js ''column_name'', js ''column_names'', js ''columns'', js ''connection_info'', js ''count'', js ''create_statement'', js ''create_transaction'', js ''current_row'', js ''coda_db'']"

definition all_2 :: "entry list" where
  "all_2 =
  [symbol ''default_5fvalue'' ''default_value''
     [(''../classcoda_1_1db_1_1schema.html#a8af26bb5bbed5fdf78542f225dd47e28'', True, ''coda::db::schema'')],
   symbol ''delete_5fquery'' ''delete_query''
     [(''../classcoda_1_1db_1_1delete__query.html'', True, ''coda::db'')]]"

definition all_2_names :: "jsstr list" where
  "all_2_names = [js ''default_value'', js ''delete_query'']"

definition all_3 :: "entry list" where
  "all_3 =
  [symbol ''each'' ''each''
     [(''../classcoda_1_1db_1_1resultset.html#a05edcf02168bfd2cd07aae8d8b6a2bd2'', True, ''coda::db::resultset::each()''),
      (''../classcoda_1_1db_1_1row.html#a2c95dc9be9886cac1a02e9edd51a6ae0'', True, ''coda::db::row::each()'')],
   symbol ''empty'' ''empty''
     [(''../classcoda_1_1db_1_1join__clause.html#a63e9b33e951395d1efe4ad94da165b34'', True, ''coda::db::join_clause::empty()''),
      (''../classcoda_1_1db_1_1resultset.html#a6aa5882faaffdbf4b427682eee4b9435'', True, ''coda::db::resultset::empty()''),
      (''../classcoda_1_1db_1_1row.html#a8ee5a9acc18511e347dcd9b62b9b6986'', True, ''coda::db::row::empty()''),
      (''../classcoda_1_1db_1_1where__clause.html#ac7cdc05400fb03b22b7f913fa6593fec'', True, ''coda::db::where_clause::empty()'')],
   symbol ''end'' ''end''
     [(''../classcoda_1_1db_1_1resultset.html#afdd5fa72b0457dea17510c31fb2076dd'', True, ''coda::db::resultset::end()''),
      (''../classcoda_1_1db_1_1resultset.html#a94449bc0797cebcf0ec39f4a318dde9b'', True, ''coda::db::resultset::end() const''),
      (''../classcoda_1_1db_1_1row.html#abb475ac98c3b6d9ee64a26a98c89452c'', True, ''coda::db::row::end()''),
      (''../classcoda_1_1db_1_1row.html#a02ec55a80566d660618e7557a2b8e3e5'', True, ''coda::db::row::end() const'')],
   symbol ''execute'' ''execute''
     [(''../classcoda_1_1db_1_1insert__query.html#a35dddd1e4d4642b9a99627aa9c3ba0ae'', True, ''coda::db::insert_query::execute()''),
      (''../classcoda_1_1db_1_1modify__query.html#a60fe3a98f3f7ccd99a52b63e67dc83ea'', True, ''coda::db::modify_query::execute()''),
      (''../classcoda_1_1db_1_1mysql_1_1session.html#a3ec9f1b81de92ee4cb6c66c33fe9023f'', True, ''coda::db::mysql::session::execute()''),
      (''../classcoda_1_1db_1_1mysql_1_1statement.html#a127a01ccebf3caae28ca5fcd8d82d44a'', True, ''coda::db::mysql::statement::execute()''),
      (''../classcoda_1_1db_1_1postgres_1_1session.html#a0d1c63945a2716d8dc3f41521e8b45f2'', True, ''coda::db::postgres::session::execute()''),
      (''../classcoda_1_1db_1_1postgres_1_1statement.html#ab1c6bf0fae525965872bc2eccc5705a2'', True, ''coda::db::postgres::statement::execute()''),
      (''../classcoda_1_1db_1_1select__query.html#aa18b37fcff3415fde72d54e14cd2da21'', True, ''coda::db::select_query::execute()''),
      (''../classcoda_1_1db_1_1select__query.html#a9eca90b64b47ee27d42fc8a01a3527be'', True, ''coda::db::select_query::execute(const std::function&lt; void(const resultset &amp;)&gt; &amp;funk)''),
      (''../classcoda_1_1db_1_1session__impl.html#ab1bcd9dcb46d5ce1e1ce91c6393ad39d'', True, ''coda::db::session_impl::execute()''),
      (''../classcoda_1_1db_1_1sqlite_1_1session.html#a264ea33048d5ab61b359af013462448c'', True, ''coda::db::sqlite::session::execute()''),
      (''../classcoda_1_1db_1_1sqlite_1_1statement.html#ab8dd8cb4afda284eb86bdfad9a39ee1f'', True, ''coda::db::sqlite::statement::execute()''),
      (''../classcoda_1_1db_1_1statement.html#aaa27a73b7d7f6f4bdda1f0e05c434947'', True, ''coda::db::statement::execute()'')],
   symbol ''execute_5fscalar'' ''execute_scalar''
     [(''../classcoda_1_1db_1_1select__query.html#a4877d35a592a87d26aca2763d7bcbf28'', True, ''coda::db::select_query'')],
   symbol ''exists'' ''exists''
     [(''../classcoda_1_1db_1_1base_1_1record.html#a6aa034601521b8cc9bca6f71ab42918f'', True, ''coda::db::base::record'')]]"

definition all_3_names :: "jsstr list" where
  "all_3_names = [js ''each'', js ''empty'', js ''end'', js ''execute'', js ''execute_scalar'', js ''exists'']"

definition all_4 :: "entry list" where
  "all_4 =
  [symbol ''factory'' ''factory''
     [(''../classcoda_1_1db_1_1mysql_1_1factory.html'', True, ''coda::db::mysql::factory''),
      (''../classcoda_1_1db_1_1postgres_1_1factory.html'', True, ''coda::db::postgres::factory''),
      (''../classcoda_1_1db_1_1sqlite_1_1factory.html'', True, ''coda::db::sqlite::factory'')],
   symbol ''find_5fall'' ''find_all''
     [(''../classcoda_1_1db_1_1record__finder.html#aa1fac4a2234af94ef6316b89438f09da'', True, ''coda::db::record_finder::find_all() const =0''),
      (''../classcoda_1_1db_1_1record__finder.html#adbf7229d1afbdb0c538cc5cbb7c7f8e8'', True, ''coda::db::record_finder::find_all(const callback &amp;funk) const =0''),
      (''../classcoda_1_1db_1_1generic_1_1record.html#a66b842cdcf3d6e3b766afac8e3e2eb8f'', True, ''coda::db::generic::record::find_all() const override''),
      (''../classcoda_1_1db_1_1generic_1_1record.html#a26fed5057e032844e2b7a57ac291f9d0'', True, ''coda::db::generic::record::find_all(const record::callback &amp;funk) const override''),
      (''../classcoda_1_1db_1_1record.html#a0799dae2e95747d6bd05061667d946c0'', True, ''coda::db::record::find_all() const''),
      (''../classcoda_1_1db_1_1record.html#a82f3c6ed73536f79ff46d1173512cc7e'', True, ''coda::db::record::find_all(const callback &amp;funk) const'')],
   symbol ''find_5fby'' ''find_by''
     [(''../classcoda_1_1db_1_1record__finder.html#a313c51283e6c504d4100e5dff92f2372'', True, ''coda::db::record_finder::find_by(const std::map&lt; std::string, sql_value &gt; &amp;values) const =0''),
      (''../classcoda_1_1db_1_1record__finder.html#a8f0bbf87859852a2febf5bea205eed44'', True, ''coda::db::record_finder::find_by(const std::string &amp;name, const sql_value &amp;value) const =0''),
      (''../classcoda_1_1db_1_1record__finder.html#ae82ac93f7b22ceb264dba507e8c76d35'', True, ''coda::db::record_finder::find_by(const std::map&lt; std::string, sql_value &gt; &amp;values, const callback &amp;funk) const =0''),
      (''../classcoda_1_1db_1_1record__finder.html#a9f265db8596167c21907c440c14b0418'', True, ''coda::db::record_finder::find_by(const std::string &amp;name, const sql_value &amp;value, const callback &amp;funk) const =0''),
      (''../classcoda_1_1db_1_1generic_1_1record.html#a2f719d00a05733017f79220456454f51'', True, ''coda::db::generic::record::find_by(const std::map&lt; std::string, sql_value &gt; &amp;values) const override''),
      (''../classcoda_1_1db_1_1generic_1_1record.html#a969e087ef46491221cadc4e1fffced37'', True, ''coda::db::generic::record::find_by(const std::string &amp;name, const sql_value &amp;value) const override''),
      (''../classcoda_1_1db_1_1generic_1_1record.html#a69c4c857752b3cef50353ff4bd5b12fb'', True, ''coda::db::generic::record::find_by(const std::map&lt; std::string, sql_value &gt; &amp;values, const callback &amp;funk) const override''),
      (''../classcoda_1_1db_1_1generic_1_1record.html#a060522a9f1647d7d2d6f880bf247cc36'', True, ''coda::db::generic::record::find_by(const std::string &amp;name, const sql_value &amp;value, const callback &amp;funk) const override''),
      (''../classcoda_1_1db_1_1record.html#a8c0c584000987789c31c6840ed98ab01'', True, ''coda::db::record::find_by(const std::map&lt; std::string, sql_value &gt; &amp;values) const''),
      (''../classcoda_1_1db_1_1record.html#a51ec944ebcac7fcc22a15c83abc0921e'', True, ''coda::db::record::find_by(const std::string &amp;name, const sql_value &amp;value) const''),
      (''../classcoda_1_1db_1_1record.html#a40f68d6eb50293e6ced4757280d127ad'', True, ''coda::db::record::find_by(const std::map&lt; std::string, sql_value &gt; &amp;values, const callback &amp;funk) const''),
      (''../classcoda_1_1db_1_1record.html#abd149f964afe8073bd225e53bce1eed1'', True, ''coda::db::record::find_by(const std::string &amp;name, const sql_value &amp;value, const callback &amp;funk) const'')],
   symbol ''find_5fby_5fid'' ''find_by_id''
     [(''../classcoda_1_1db_1_1record__finder.html#a3b9ac49bd5f49e36fe4e92f699c1d1d5'', True, ''coda::db::record_finder::find_by_id()''),
      (''../classcoda_1_1db_1_1generic_1_1record.html#a421b8ef7d9fb733686af133223c80e0f'', True, ''coda::db::generic::record::find_by_id(const sql_value &amp;value) const override''),
      (''../classcoda_1_1db_1_1generic_1_1record.html#a5885b77aa2f24dc083ca99431b8183c2'', True, ''coda::db::generic::record::find_by_id(const sql_value &amp;value, const record::callback &amp;funk) const override''),
      (''../classcoda_1_1db_1_1record.html#a6d1adf4109cfadd198ffbe385b9d6200'', True, ''coda::db::record::find_by_id()'')],
   symbol ''find_5fone'' ''find_one''
     [(''../classcoda_1_1db_1_1record__finder.html#a6743fb81bfc70117b7f3a7bceeea0d38'', True, ''coda::db::record_finder::find_one(const std::map&lt; std::string, sql_value &gt; &amp;values) const =0''),
      (''../classcoda_1_1db_1_1record__finder.html#a98016369bca0e47f57c46abb17c80703'', True, ''coda::db::record_finder::find_one(const std::string &amp;name, const sql_value &amp;value) const =0''),
      (''../classcoda_1_1db_1_1record__finder.html#ad39fdf6d7caa98851a774f8cc5200860'', True, ''coda::db::record_finder::find_one(const std::map&lt; std::string, sql_value &gt; &amp;values, const callback &amp;funk) const =0''),
      (''../classcoda_1_1db_1_1record__finder.html#aa37b7e96e3b737b51d48958beb1d683b'', True, ''coda::db::record_finder::find_one(const std::string &amp;name, const sql_value &amp;value, const callback &amp;funk) const =0''),
      (''../classcoda_1_1db_1_1generic_1_1record.html#a2b4604bd811241ccef0561b611f15169'', True, ''coda::db::generic::record::find_one(const std::map&lt; std::string, sql_value &gt; &amp;values) const override''),
      (''../classcoda_1_1db_1_1generic_1_1record.html#abaacd152ddda38b210916fea8ebff11f'', True, ''coda::db::generic::record::find_one(const std::string &amp;name, const sql_value &amp;value) const override''),
      (''../classcoda_1_1db_1_1generic_1_1record.html#ab31e73ef0f16ec9e5a2e8ad643053be7'', True, ''coda::db::generic::record::find_one(const std::map&lt; std::string, sql_value &gt; &amp;values, const callback &amp;funk) const override''),
      (''../classcoda_1_1db_1_1generic_1_1record.html#a3dfcc6bc3daf36562024fe317400bcc2'', True, ''coda::db::generic::record::find_one(const std::string &amp;name, const sql_value &amp;value, const callback &amp;funk) const override''),
      (''../classcoda_1_1db_1_1record.html#a23a5629af093c3ada4ba968e7746d1dc'', True, ''coda::db::record::find_one(const std::map&lt; std::string, sql_value &gt; &amp;values) const''),
      (''../classcoda_1_1db_1_1record.html#a47bfbca2ab47990e200609a5134e5a3f'', True, ''coda::db::record::find_one(const std::string &amp;name, const sql_value &amp;value) const''),
      (''../classcoda_1_1db_1_1record.html#abe76ba673c67073e8986562a59f955eb'', True, ''coda::db::record::find_one(const std::map&lt; std::string, sql_value &gt; &amp;values, const callback &amp;funk) const''),
      (''../classcoda_1_1db_1_1record.html#a811e1aa51b353136bc0ce03d59bf175b'', True, ''coda::db::record::find_one(const std::string &amp;name, const sql_value &amp;value, const callback &amp;funk) const'')],
   symbol ''finish'' ''finish''
     [(''../classcoda_1_1db_1_1mysql_1_1statement.html#a74b0acb01c406aef1ca33f43cb1eb13c'', True, ''coda::db::mysql::statement::finish()''),
      (''../classcoda_1_1db_1_1postgres_1_1statement.html#ae3f1a929bcd4587d0e2b0825873bcc72'', True, ''coda::db::postgres::statement::finish()''),
      (''../classcoda_1_1db_1_1sqlite_1_1statement.html#a71b086df9e7fce099bdefeb9d3152549'', True, ''coda::db::sqlite::statement::finish()''),
      (''../classcoda_1_1db_1_1statement.html#ada8f4189eecef6601494e6adbd5b2e09'', True, ''coda::db::statement::finish()'')],
   symbol ''format'' ''format''
     [(''../classcoda_1_1db_1_1sql__time.html#ad44cf188065afd83f4cc8f0752590691'', True, ''coda::db::sql_time'')],
   symbol ''formats'' ''formats''
     [(''../classcoda_1_1db_1_1sql__time.html#a7341f246dcd74d18fe5fa730cd4ef4e1'', True, ''coda::db::sql_time'')],
   symbol ''from'' ''from''
     [(''../classcoda_1_1db_1_1delete__query.html#acef3a696f3446a05461e932136c29d06'', True, ''coda::db::delete_query::from(const std::string &amp;tableName)''),
      (''../classcoda_1_1db_1_1delete__query.html#a3b05f256bd6a50a4b7349aaeb7342412'', True, ''coda::db::delete_query::from() const''),
      (''../classcoda_1_1db_1_1select__query.html#a641aa4d213602227f678583d18214b6b'', True, ''coda::db::select_query::from(const std::string &amp;tableName)''),
      (''../classcoda_1_1db_1_1select__query.html#af8560e4f7650b0d7de6702d16d9b8fa5'', True, ''coda::db::select_query::from(const std::string &amp;tableName, const std::string &amp;alias)''),
      (''../classcoda_1_1db_1_1select__query.html#a591a2cdbc31e54a2b3715fe1c11acc8f'', True, ''coda::db::select_query::from() const'')]]"

definition all_4_names :: "jsstr list" where
  "all_4_names = [js ''factory'', js ''find_all'', js ''find_by'', js ''find_by_id'', js ''find_one'', js ''finish'', js ''format'', js ''formats'', js ''from'']"

definition all_5 :: "entry list" where
  "all_5 =
  [symbol ''get'' ''get''
     [(''../classcoda_1_1db_1_1mysql_1_1binding.html#a7364da8dc4b3771081d764b8e6691b3b'', True, ''coda::db::mysql::binding::get()''),
      (''../classcoda_1_1db_1_1base_1_1record.html#a6c12dea1d4bf08bfd6e059bd6067b00b'', True, ''coda::db::base::record::get(const std::string &amp;name) const''),
      (''../classcoda_1_1db_1_1base_1_1record.html#a7a8b3b1e71dba0e60be8d14801cb1cd8'', True, ''coda::db::base::record::get(const std::vector&lt; std::string &gt; &amp;columns) const''),
      (''../classcoda_1_1db_1_1schema__factory.html#a8cd98a10158c67ebd8248a43bb6ed67d'', True, ''coda::db::schema_factory::get()'')],
   symbol ''get_5fcolumns_5ffor_5fschema'' ''get_columns_for_schema''
     [(''../classcoda_1_1db_1_1mysql_1_1session.html#a881f6b34e971409e3bd2df6880fb2bcf'', True, ''coda::db::mysql::session::get_columns_for_schema()''),
      (''../classcoda_1_1db_1_1postgres_1_1session.html#a7a1fab6cea324839a3bc9bbfa5671038'', True, ''coda::db::postgres::session::get_columns_for_schema()''),
      (''../classcoda_1_1db_1_1session__impl.html#a957818371603a89bb51b7258f928df2e'', True, ''coda::db::session_impl::get_columns_for_schema()''),
      (''../classcoda_1_1db_1_1session.html#a6c039b1a75a430d08dec5583d5f3607a'', True, ''coda::db::session::get_columns_for_schema()''),
      (''../classcoda_1_1db_1_1sqlite_1_1session.html#a85091cad1e6e296010a90bd18e2a0d6f'', True, ''coda::db::sqlite::session::get_columns_for_schema()'')],
   symbol ''get_5fschema'' ''get_schema''
     [(''../classcoda_1_1db_1_1session.html#a7a8ce89ca0aad4fe551baac81a1f0725'', True, ''coda::db::session'')],
   symbol ''get_5fsession'' ''get_session''
     [(''../classcoda_1_1db_1_1query.html#accdd92959253a1d23115f54034702d0a'', True, ''coda::db::query::get_session()''),
      (''../classcoda_1_1db_1_1schema.html#abbab16d295ccece7658b26ab1131f771'', True, ''coda::db::schema::get_session()'')],
   symbol ''group_5fby'' ''group_by''
     [(''../classcoda_1_1db_1_1select__query.html#ac4638d36e2e85cd801f13ded40b0fd37'', True, ''coda::db::select_query::group_by() const''),
      (''../classcoda_1_1db_1_1select__query.html#accbc35679c52d37ec2215e7121790ec0'', True, ''coda::db::select_query::group_by(const std::string &amp;value)'')]]"

definition all_5_names :: "jsstr list" where
  "all_5_names = [js ''get'', js ''get_columns_for_schema'', js ''get_schema'', js ''get_session'', js ''group_by'']"

definition all_6 :: "entry list" where
  "all_6 =
  [symbol ''has'' ''has''
     [(''../classcoda_1_1db_1_1base_1_1record.html#a60ec1fdd24abfc244b2a22493c47b306'', True, ''coda::db::base::record'')]]"

definition all_6_names :: "jsstr list" where
  "all_6_names = [js ''has'']"

definition all_7 :: "entry list" where
  "all_7 =
  [symbol ''id'' ''id''
     [(''../classcoda_1_1db_1_1base_1_1record.html#a3cf4d75ac283f7aa0ecb336e1994ed2f'', True, ''coda::db::base::record'')],
   symbol ''init'' ''init''
     [(''../classcoda_1_1db_1_1base_1_1record.html#ae731f084047cc6b68d513482494d8fc4'', True, ''coda::db::base::record::init()''),
      (''../classcoda_1_1db_1_1schema.html#a6a4527d703ab0531bb2d4865806e92da'', True, ''coda::db::schema::init()'')],
   symbol ''insert_5fquery'' ''insert_query''
     [(''../classcoda_1_1db_1_1insert__query.html'', True, ''coda::db::insert_query''),
      (''../classcoda_1_1db_1_1insert__query.html#a1cc6c6a1664859cd6c55b7f12e9bf851'', True, ''coda::db::insert_query::insert_query(const std::shared_ptr&lt; coda::db::session &gt; &amp;session, const std::string &amp;tableName)''),
      (''../classcoda_1_1db_1_1insert__query.html#afbcb98f12fdba0841eeea04251461981'', True, ''coda::db::insert_query::insert_query(const std::shared_ptr&lt; coda::db::session &gt; &amp;session, const std::string &amp;tableName, const std::vector&lt; std::string &gt; &amp;columns)''),
      (''../classcoda_1_1db_1_1insert__query.html#a7e6fa6a2ec4af9e9ab25761eae8ca589'', True, ''coda::db::insert_query::insert_query(const std::shared_ptr&lt; schema &gt; &amp;schema, const std::vector&lt; std::string &gt; &amp;columns)'')],
   symbol ''into'' ''into''
     [(''../classcoda_1_1db_1_1insert__query.html#a2430e803af655e1a5639b232c11b9b01'', True, ''coda::db::insert_query::into(const std::string &amp;tableName)''),
      (''../classcoda_1_1db_1_1insert__query.html#af8f954bae2d1def21cea8eea19c385bf'', True, ''coda::db::insert_query::into() const'')],
   symbol ''is_5fopen'' ''is_open''
     [(''../classcoda_1_1db_1_1mysql_1_1session.html#a176fce70783803b0ee5bde58ec255834'', True, ''coda::db::mysql::session::is_open()''),
      (''../classcoda_1_1db_1_1postgres_1_1session.html#a4a05005978823f895d8d76d444d4dfd3'', True, ''coda::db::postgres::session::is_open()''),
      (''../classcoda_1_1db_1_1session__impl.html#ab1b37500feb4e7c6888774bdbffc3f0c'', True, ''coda::db::session_impl::is_open()''),
      (''../classcoda_1_1db_1_1session.html#a12022a015d13e75c9c0a2f59849f3987'', True, ''coda::db::session::is_open()''),
      (''../classcoda_1_1db_1_1sqlite_1_1session.html#ace46ab41a75757e899a7bac837ae117c'', True, ''coda::db::sqlite::session::is_open()'')],
   symbol ''is_5fsql_5fnumber'' ''is_sql_number''
     [(''../structcoda_1_1db_1_1is__sql__number.html'', True, ''coda::db'')],
   symbol ''is_5fsql_5fstring'' ''is_sql_string''
     [(''../structcoda_1_1db_1_1is__sql__string.html'', True, ''coda::db'')],
   symbol ''is_5fsql_5fvalue'' ''is_sql_value''
     [(''../structcoda_1_1db_1_1is__sql__value.html'', True, ''coda::db'')],
   symbol ''is_5fvalid'' ''is_valid''
     [(''../classcoda_1_1db_1_1column__impl.html#a400de30da503392f2100d2c835b80e9f'', True, ''coda::db::column_impl::is_valid()''),
      (''../classcoda_1_1db_1_1column.html#a268775859edfefd50446db484610d630'', True, ''coda::db::column::is_valid()''),
      (''../classcoda_1_1db_1_1delete__query.html#aa72f0c32215ee549ddd960900d5f09de'', True, ''coda::db::delete_query::is_valid()''),
      (''../classcoda_1_1db_1_1insert__query.html#a047943e9b40a83c97960fee04d44b448'', True, ''coda::db::insert_query::is_valid()''),
      (''../classcoda_1_1db_1_1mysql_1_1column.html#ab2abb07e99d7f1fa7e2bf4aad435d0fe'', True, ''coda::db::mysql::column::is_valid()''),
      (''../classcoda_1_1db_1_1mysql_1_1stmt__column.html#a6d7c064e84d72784bcbfc49e38b2f378'', True, ''coda::db::mysql::stmt_column::is_valid()''),
      (''../classcoda_1_1db_1_1mysql_1_1resultset.html#a845704637670beb78b617c0583af221c'', True, ''coda::db::mysql::resultset::is_valid()''),
      (''../classcoda_1_1db_1_1mysql_1_1stmt__resultset.html#ad675bffa43162032da0e2e75e9a1132f'', True, ''coda::db::mysql::stmt_resultset::is_valid()''),
      (''../classcoda_1_1db_1_1mysql_1_1row.html#a3fdb0cd2abc7c528fde15b373a98156b'', True, ''coda::db::mysql::row::is_valid()''),
      (''../classcoda_1_1db_1_1mysql_1_1stmt__row.html#a240203c7a8a137eeaf3f3cf77a3d515a'', True, ''coda::db::mysql::stmt_row::is_valid()''),
      (''../classcoda_1_1db_1_1mysql_1_1statement.html#a67f82d288eeb6afc3add4c5394ceb02a'', True, ''coda::db::mysql::statement::is_valid()''),
      (''../classcoda_1_1db_1_1postgres_1_1column.html#a0c303ae46f6716c420c18383768dd688'', True, ''coda::db::postgres::column::is_valid()''),
      (''../classcoda_1_1db_1_1postgres_1_1resultset.html#adf22028eb339553e5a81db14997f9bd8'', True, ''coda::db::postgres::resultset::is_valid()''),
      (''../classcoda_1_1db_1_1postgres_1_1row.html#ad84c7b0cd75d95fe482ee171ed579893'', True, ''coda::db::postgres::row::is_valid()''),
      (''../classcoda_1_1db_1_1postgres_1_1statement.html#a6b4b2a90833182b4585ddf0167ae6c2a'', True, ''coda::db::postgres::statement::is_valid()''),
      (''../classcoda_1_1db_1_1query.html#a939af7a251c7fa0ba7902be8bb83465d'', True, ''coda::db::query::is_valid()''),
      (''../classcoda_1_1db_1_1base_1_1record.html#a51746ae20dc3b87dadb861818ae8d5f3'', True, ''coda::db::base::record::is_valid()''),
      (''../classcoda_1_1db_1_1resultset__impl.html#acc402415f2f4a650601519a6c7f5b547'', True, ''coda::db::resultset_impl::is_valid()''),
      (''../classcoda_1_1db_1_1resultset.html#a7fded8f4718515e9c774c8cc0871d533'', True, ''coda::db::resultset::is_valid()''),
      (''../classcoda_1_1db_1_1row__impl.html#a9a86df51580403d4ed3171e63070ac87'', True, ''coda::db::row_impl::is_valid()''),
      (''../classcoda_1_1db_1_1row.html#ab435e0f6dc84f22a07d51aa90aced072'', True, ''coda::db::row::is_valid()''),
      (''../classcoda_1_1db_1_1schema.html#a5996959ba9f914241741929de2a1ce38'', True, ''coda::db::schema::is_valid()''),
      (''../classcoda_1_1db_1_1sqlite_1_1column.html#ab2330b539dedc5cf62275b4401841cd9'', True, ''coda::db::sqlite::column::is_valid()''),
      (''../classcoda_1_1db_1_1sqlite_1_1resultset.html#aa628c16e63286227fea0f25a124c7f30'', True, ''coda::db::sqlite::resultset::is_valid()''),
      (''../classcoda_1_1db_1_1sqlite_1_1row.html#a2f7807f5127ea17e1c08e0271c7a272f'', True, ''coda::db::sqlite::row::is_valid()''),
      (''../classcoda_1_1db_1_1sqlite_1_1statement.html#a0526e58627cfeea0d53957482d920ab3'', True, ''coda::db::sqlite::statement::is_valid()''),
      (''../classcoda_1_1db_1_1statement.html#a86922128426074641e0b170641826eb1'', True, ''coda::db::statement::is_valid()''),
      (''../classcoda_1_1db_1_1update__query.html#a824a21b536d657eae26991532626c4a6'', True, ''coda::db::update_query::is_valid()'')],
   symbol ''isolation'' ''isolation''
     [(''../structcoda_1_1db_1_1transaction_1_1isolation.html'', True, ''coda::db::transaction'')]]"

definition all_7_names :: "jsstr list" where
  "all_7_names = [js ''id'', js ''init'', js ''insert_query'', js ''into'', js ''is_open'', js ''is_sql_number'', js ''is_sql_string'', js ''is_sql_value'', js ''is_valid'', js ''isolation'']"

definition all_8 :: "entry list" where
  "all_8 =
  [symbol ''join'' ''join''
     [(''../classcoda_1_1db_1_1select__query.html#a3848bbc60e7f3e26c8ed58ecb8f3ad6d'', True, ''coda::db::select_query::join(const std::string &amp;tableName, join::type type=join::inner)''),
      (''../classcoda_1_1db_1_1select__query.html#ac490ce0868b32a93f670c99010751014'', True, ''coda::db::select_query::join(const std::string &amp;tableName, const std::string &amp;alias, join::type type=join::inner)''),
      (''../classcoda_1_1db_1_1select__query.html#a67865b0c62c748439e88b01af4f0ff73'', True, ''coda::db::select_query::join(const join_clause &amp;value)'')],
   symbol ''join_5fclause'' ''join_clause''
     [(''../classcoda_1_1db_1_1join__clause.html'', True, ''coda::db::join_clause''),
      (''../classcoda_1_1db_1_1join__clause.html#a5e60f5e677861a257415cd11758da537'', True, ''coda::db::join_clause::join_clause()''),
      (''../classcoda_1_1db_1_1join__clause.html#a4ce63e605c3baab9195fa17edff010d0'', True, ''coda::db::join_clause::join_clause(const std::string &amp;tableName, join::type type=join::none)'')],
   symbol ''join_5fparams'' ''join_params''
     [(''../classcoda_1_1db_1_1session.html#ae602db4bd314b2dd823b54af26dea3f9'', True, ''coda::db::session'')]]"

definition all_8_names :: "jsstr list" where
  "all_8_names = [js ''join'', js ''join_clause'', js ''join_params'']"

definition all_9 :: "entry list" where
  "all_9 =
  [symbol ''last_5ferror'' ''last_error''
     [(''../classcoda_1_1db_1_1mysql_1_1session.html#a737e90282bfa3b9862e4c2b1d1ce1018'', True, ''coda::db::mysql::session::last_error()''),
      (''../classcoda_1_1db_1_1mysql_1_1statement.html#a13a2a841826d6982db09bdc4a6ecc62c'', True, ''coda::db::mysql::statement::last_error()''),
      (''../classcoda_1_1db_1_1postgres_1_1session.html#abc8b02a9bd8117fd3dbb5d6b32df19ff'', True, ''coda::db::postgres::session::last_error()''),
      (''../classcoda_1_1db_1_1postgres_1_1statement.html#a9db9b1857f9430a197720371e9283c19'', True, ''coda::db::postgres::statement::last_error()''),
      (''../classcoda_1_1db_1_1query.html#a70851e9189390feafb3f4850187fd4b0'', True, ''coda::db::query::last_error()''),
      (''../classcoda_1_1db_1_1session__impl.html#abd7b0311fce95b5a8fe27e535a257751'', True, ''coda::db::session_impl::last_error()''),
      (''../classcoda_1_1db_1_1session.html#aa6073b7a6cb4320efc9388696a5ded8a'', True, ''coda::db::session::last_error()''),
      (''../classcoda_1_1db_1_1sqlite_1_1session.html#af6f3a4a626e1f059248cf9bf11e7af16'', True, ''coda::db::sqlite::session::last_error()''),
      (''../classcoda_1_1db_1_1sqlite_1_1statement.html#abe936270285df0060bb2f21fa0d1940c'', True, ''coda::db::sqlite::statement::last_error()''),
      (''../classcoda_1_1db_1_1statement.html#a8c88881aeb620833d22a089faf09eb0e'', True, ''coda::db::statement::last_error()'')],
   symbol ''last_5finsert_5fid'' ''last_insert_id''
     [(''../classcoda_1_1db_1_1insert__query.html#a09851d60fdead247ef2787a75f45ea6c'', True, ''coda::db::insert_query::last_insert_id()''),
      (''../classcoda_1_1db_1_1mysql_1_1session.html#ac481e47ba1c650e75cf7e17658d39118'', True, ''coda::db::mysql::session::last_insert_id()''),
      (''../classcoda_1_1db_1_1mysql_1_1statement.html#a5b7d4a887b9623ae46ea877111573365'', True, ''coda::db::mysql::statement::last_insert_id()''),
      (''../classcoda_1_1db_1_1postgres_1_1session.html#a6c9e83a9fa7001a4ebe8b5b6ba06170f'', True, ''coda::db::postgres::session::last_insert_id()''),
      (''../classcoda_1_1db_1_1postgres_1_1statement.html#a024436b5ba224f80222756c1789ca209'', True, ''coda::db::postgres::statement::last_insert_id()''),
      (''../classcoda_1_1db_1_1session__impl.html#a903aec5c32c73302ca53fb4dda7ab094'', True, ''coda::db::session_impl::last_insert_id()''),
      (''../classcoda_1_1db_1_1session.html#a18d590543ebd6da0b1d67734c8997446'', True, ''coda::db::session::last_insert_id()''),
      (''../classcoda_1_1db_1_1sqlite_1_1session.html#a38f79640fd3593d79a93804cf5672761'', True, ''coda::db::sqlite::session::last_insert_id()''),
      (''../classcoda_1_1db_1_1sqlite_1_1statement.html#a603c21d60e659f312b96eaa4103a63b8'', True, ''coda::db::sqlite::statement::last_insert_id()''),
      (''../classcoda_1_1db_1_1statement.html#a173eaf61d6654b0e1ee88bf0614d7b2b'', True, ''coda::db::statement::last_insert_id()'')],
   symbol ''last_5fnumber_5fof_5fchanges'' ''last_number_of_changes''
     [(''../classcoda_1_1db_1_1modify__query.html#a5bf9069b938ba09681c884689232f4fa'', True, ''coda::db::modify_query::last_number_of_changes()''),
      (''../classcoda_1_1db_1_1mysql_1_1session.html#ae645c53aec4e3c3072983470a44fee81'', True, ''coda::db::mysql::session::last_number_of_changes()''),
      (''../classcoda_1_1db_1_1mysql_1_1statement.html#a94369a5f705a614622b6a058f43d3617'', True, ''coda::db::mysql::statement::last_number_of_changes()''),
      (''../classcoda_1_1db_1_1postgres_1_1session.html#aea3092e2fed6810792f91c56d319b05d'', True, ''coda::db::postgres::session::last_number_of_changes()''),
      (''../classcoda_1_1db_1_1postgres_1_1statement.html#ae6d27f761d55bd183f73d88df278f774'', True, ''coda::db::postgres::statement::last_number_of_changes()''),
      (''../classcoda_1_1db_1_1session__impl.html#ace33b46446c47a14f7835dab4c546cb9'', True, ''coda::db::session_impl::last_number_of_changes()''),
      (''../classcoda_1_1db_1_1session.html#acc8d4ac9d1409d823bbef0cef0b69ae5'', True, ''coda::db::session::last_number_of_changes()''),
      (''../classcoda_1_1db_1_1sqlite_1_1session.html#a838cf863c4ab69f6a67bdec89a7d5b5a'', True, ''coda::db::sqlite::session::last_number_of_changes()''),
      (''../classcoda_1_1db_1_1sqlite_1_1statement.html#a4df12aaae85a8390b1268b2042cbdeb7'', True, ''coda::db::sqlite::statement::last_number_of_changes()''),
      (''../classcoda_1_1db_1_1statement.html#aabb54189aa14235e3c0b512def7ca4b0'', True, ''coda::db::statement::last_number_of_changes()'')],
   symbol ''limit'' ''limit''
     [(''../classcoda_1_1db_1_1select__query.html#a943fad04301466aa6bb9148b401a8316'', True, ''coda::db::select_query::limit() const''),
      (''../classcoda_1_1db_1_1select__query.html#a3e6cd6dd7e581f5a50dea5874a926fc4'', True, ''coda::db::select_query::limit(const std::string &amp;value)'')]]"

definition all_9_names :: "jsstr list" where
  "all_9_names = [js ''last_error'', js ''last_insert_id'', js ''last_number_of_changes'', js ''limit'']"

definition all_a :: "entry list" where
  "all_a =
  [symbol ''mode'' ''mode''
     [(''../classcoda_1_1db_1_1mysql_1_1transaction.html#structcoda_1_1db_1_1mysql_1_1transaction_1_1mode'', True, ''coda::db::mysql::transaction::mode''),
      (''../classcoda_1_1db_1_1postgres_1_1transaction.html#structcoda_1_1db_1_1postgres_1_1transaction_1_1mode'', True, ''coda::db::postgres::transaction::mode'')],
   symbol ''modify_5fquery'' ''modify_query''
     [(''../classcoda_1_1db_1_1modify__query.html'', True, ''coda::db::modify_query''),
      (''../classcoda_1_1db_1_1modify__query.html#a460affeaa2bb5db407a54ad78ab25f40'', True, ''coda::db::modify_query::modify_query(const std::shared_ptr&lt; coda::db::session &gt; &amp;session)''),
      (''../classcoda_1_1db_1_1modify__query.html#af8c2dd5038d75f62dbfe966e52b092e3'', True, ''coda::db::modify_query::modify_query(const std::shared_ptr&lt; schema &gt; &amp;schema)'')]]"

definition all_a_names :: "jsstr list" where
  "all_a_names = [js ''mode'', js ''modify_query'']"

definition all_b :: "entry list" where
  "all_b =
  [symbol ''name'' ''name''
     [(''../classcoda_1_1db_1_1column__impl.html#a5dc443bcbe017ec3178455b3bb9fd3b5'', True, ''coda::db::column_impl::name()''),
      (''../classcoda_1_1db_1_1column.html#abd34c4e2be49c51596e606442d085842'', True, ''coda::db::column::name()''),
      (''../classcoda_1_1db_1_1mysql_1_1column.html#a09906efae6672e4bd6886908cc151c6b'', True, ''coda::db::mysql::column::name()''),
      (''../classcoda_1_1db_1_1mysql_1_1stmt__column.html#a3e5537f331be13332c43e5848d9a2573'', True, ''coda::db::mysql::stmt_column::name()''),
      (''../classcoda_1_1db_1_1postgres_1_1column.html#a6cd9ef957b4408e0cdc2627079e66612'', True, ''coda::db::postgres::column::name()''),
      (''../classcoda_1_1db_1_1sqlite_1_1column.html#a8023d898f1dde06806bd423793b1027d'', True, ''coda::db::sqlite::column::name()'')],
   symbol ''named_5fparam'' ''named_param''
     [(''../structcoda_1_1db_1_1named__param.html'', True, ''coda::db'')],
   symbol ''next'' ''next''
     [(''../classcoda_1_1db_1_1mysql_1_1resultset.html#a848d789590b6d4162da5f77a8b50be5d'', True, ''coda::db::mysql::resultset::next()''),
      (''../classcoda_1_1db_1_1mysql_1_1stmt__resultset.html#a511c0cdcca4f2f6f905c375e0e5155a6'', True, ''coda::db::mysql::stmt_resultset::next()''),
      (''../classcoda_1_1db_1_1postgres_1_1resultset.html#a918c14e4acd58dc3226ed16bc6866ee0'', True, ''coda::db::postgres::resultset::next()''),
      (''../classcoda_1_1db_1_1resultset__impl.html#abfb47cd9e05736c6941ba02fdac52052'', True, ''coda::db::resultset_impl::next()''),
      (''../classcoda_1_1db_1_1resultset.html#ae52b00ab455a42a9bec454b65822918c'', True, ''coda::db::resultset::next()''),
      (''../classcoda_1_1db_1_1sqlite_1_1resultset.html#af8a25002d223b6b50fead69d0e210e82'', True, ''coda::db::sqlite::resultset::next()'')],
   symbol ''num_5fof_5fbindings'' ''num_of_bindings''
     [(''../classcoda_1_1db_1_1mysql_1_1binding.html#a86d5f67cfdd7c01b5d01c027f1f4d0de'', True, ''coda::db::mysql::binding::num_of_bindings()''),
      (''../classcoda_1_1db_1_1postgres_1_1binding.html#ad037a0939655daf0c0702dbf576601c1'', True, ''coda::db::postgres::binding::num_of_bindings()'')]]"

definition all_b_names :: "jsstr list" where
  "all_b_names = [js ''name'', js ''named_param'', js ''next'', js ''num_of_bindings'']"

definition all_c :: "entry list" where
  "all_c =
  [symbol ''on'' ''on''
     [(''../classcoda_1_1db_1_1join__clause.html#abc606970e38da1653fa9cda962e13f40'', True, ''coda::db::join_clause::on(const std::string &amp;value)''),
      (''../classcoda_1_1db_1_1join__clause.html#a5ad30a1396bb1498ae2a554116f556c7'', True, ''coda::db::join_clause::on(const where_clause &amp;value)''),
      (''../classcoda_1_1db_1_1join__clause.html#a878fd7c6941b8a1628851447f5eb50a1'', True, ''coda::db::join_clause::on() const'')],
   symbol ''on_5frecord_5finit'' ''on_record_init''
     [(''../classcoda_1_1db_1_1base_1_1record.html#a22d1c7c3dcbc1a9ca9ee965fb8ea0744'', True, ''coda::db::base::record'')],
   symbol ''open'' ''open''
     [(''../classcoda_1_1db_1_1mysql_1_1session.html#aca856b0ce46a4d5a2aec3e8b6778ec20'', True, ''coda::db::mysql::session::open()''),
      (''../classcoda_1_1db_1_1postgres_1_1session.html#ac99272357fbc274202021297ab58a09b'', True, ''coda::db::postgres::session::open()''),
      (''../classcoda_1_1db_1_1session__impl.html#aeaf4cf9c44047be5ecbd1bf9144ba2b5'', True, ''coda::db::session_impl::open()''),
      (''../classcoda_1_1db_1_1session.html#aeb2f9a1163de9326b08d250ccf4fb834'', True, ''coda::db::session::open()''),
      (''../classcoda_1_1db_1_1sqlite_1_1session.html#a517ca624782914c4cb545586bbb4a5e6'', True, ''coda::db::sqlite::session::open()'')],
   symbol ''operator_20_26_26'' ''operator &amp;&amp;''
     [(''../classcoda_1_1db_1_1where__clause.html#a95596fa64a1d51145b7a7f515c119bf8'', True, ''coda::db::where_clause::operator &amp;&amp;(const std::string &amp;value)''),
      (''../classcoda_1_1db_1_1where__clause.html#a5d0fb37cbf78b520db49adbe896b397a'', True, ''coda::db::where_clause::operator &amp;&amp;(const where_clause &amp;value)''),
      (''../classcoda_1_1db_1_1where__builder.html#ae40a1de7aef80aacff8d43e5b4b5d140'', True, ''coda::db::where_builder::operator &amp;&amp;()'')],
   symbol ''operator_2a'' ''operator*''
     [(''../classcoda_1_1db_1_1resultset.html#aa128afccfe1517a48b807ddf5768a664'', True, ''coda::db::resultset'')],
   symbol ''operator_3d'' ''operator=''
     [(''../classcoda_1_1db_1_1column.html#a9bf1a45e636921fdd98261efbe0b5b65'', True, ''coda::db::column::operator=(const column &amp;other)''),
      (''../classcoda_1_1db_1_1column.html#ad216dfc9cb15126bb4e156fb14a5f16c'', True, ''coda::db::column::operator=(column &amp;&amp;other) noexcept''),
      (''../classcoda_1_1db_1_1query.html#a06aec2dc009fae2019956ddde4ef69d0'', True, ''coda::db::query::operator=(const query &amp;other)''),
      (''../classcoda_1_1db_1_1query.html#a56cba455000cdef22d4efdacc4e8114a'', True, ''coda::db::query::operator=(query &amp;&amp;other) noexcept''),
      (''../classcoda_1_1db_1_1base_1_1record.html#ac606e1b130cdcc9a1bd7497e58d77cef'', True, ''coda::db::base::record::operator=(const record &amp;other)''),
      (''../classcoda_1_1db_1_1base_1_1record.html#a48487e47b67b4c139747897320f877a8'', True, ''coda::db::base::record::operator=(record &amp;&amp;other) noexcept'')],
   symbol ''operator_5b_5d'' ''operator[]''
     [(''../classcoda_1_1db_1_1row.html#a75793dd21ff25e80a5b14ee9a1f79d2d'', True, ''coda::db::row::operator[](size_t position) const''),
      (''../classcoda_1_1db_1_1row.html#adc5106760a5c21228106ca81063d91ce'', True, ''coda::db::row::operator[](const std::string &amp;name) const''),
      (''../classcoda_1_1db_1_1schema.html#a312f4e2721e1ec98183a993bf71a349f'', True, ''coda::db::schema::operator[]()'')],
   symbol ''operator_7c_7c'' ''operator||''
     [(''../classcoda_1_1db_1_1where__clause.html#abcb92e6c282988b95c7f79c124c55754'', True, ''coda::db::where_clause::operator||(const where_clause &amp;value)''),
      (''../classcoda_1_1db_1_1where__clause.html#a5d97dae100f4a6e3723f84172cd6da43'', True, ''coda::db::where_clause::operator||(const std::string &amp;value)''),
      (''../classcoda_1_1db_1_1where__builder.html#a9a1a16182a0fc5334921cebe8af08aa7'', True, ''coda::db::where_builder::operator||()'')],
   symbol ''order_5fby'' ''order_by''
     [(''../classcoda_1_1db_1_1select__query.html#a34cd4f0d18a090fd72361efb2088fec9'', True, ''coda::db::select_query::order_by() const''),
      (''../classcoda_1_1db_1_1select__query.html#a77ab55fd1c5faeebfe7bad1f3af58ec2'', True, ''coda::db::select_query::order_by(const std::string &amp;value)'')],
   symbol ''string'' ''string''
     [(''../classcoda_1_1db_1_1where__clause.html#ad8565c3f998ed27ab6cd0a5e8d502b97'', True, ''coda::db::where_clause'')]]"

definition all_c_names :: "jsstr list" where
  "all_c_names = [js ''on'', js ''on_record_init'', js ''open'', js ''operator &&'', js ''operator*'', js ''operator='', js ''operator[]'', js ''operator||'', js ''order_by'', js ''string'']"

definition all_d :: "entry list" where
  "all_d =
  [symbol ''parse'' ''parse''
     [(''../structcoda_1_1db_1_1uri__type.html#a3586b004b3990a266d1becc6824512e2'', True, ''coda::db::uri_type'')],
   symbol ''prepare'' ''prepare''
     [(''../classcoda_1_1db_1_1mysql_1_1binding.html#a5dd2e10351f90787fc34ccfd8cff6264'', True, ''coda::db::mysql::binding::prepare()''),
      (''../classcoda_1_1db_1_1mysql_1_1statement.html#a18bd1a665a18d9803857699732ec029d'', True, ''coda::db::mysql::statement::prepare()''),
      (''../classcoda_1_1db_1_1postgres_1_1statement.html#abd57e9a143eadc3b2b263e1a82625612'', True, ''coda::db::postgres::statement::prepare()''),
      (''../classcoda_1_1db_1_1query.html#a9f4118ae98f45637f9130017084863d6'', True, ''coda::db::query::prepare()''),
      (''../classcoda_1_1db_1_1sqlite_1_1statement.html#a7bb5dc69ab853e46cd75630dff637363'', True, ''coda::db::sqlite::statement::prepare()''),
      (''../classcoda_1_1db_1_1statement.html#ab74f4c3558e91c50d0691d67cefb0bf4'', True, ''coda::db::statement::prepare()'')],
   symbol ''primary_5fkey'' ''primary_key''
     [(''../classcoda_1_1db_1_1schema.html#ac9b4f152e9f8b01c6c26a1488c6bfe38'', True, ''coda::db::schema'')],
   symbol ''primary_5fkeys'' ''primary_keys''
     [(''../classcoda_1_1db_1_1schema.html#a69888a941b21e8a868730d9de00a5b52'', True, ''coda::db::schema'')]]"

definition all_d_names :: "jsstr list" where
  "all_d_names = [js ''parse'', js ''prepare'', js ''primary_key'', js ''primary_keys'']"

definition all_e :: "entry list" where
  "all_e =
  [symbol ''query'' ''query''
     [(''../classcoda_1_1db_1_1query.html'', True, ''coda::db::query''),
      (''../classcoda_1_1db_1_1mysql_1_1session.html#a97149a7c7caf25b745407d588cfb06f5'', True, ''coda::db::mysql::session::query()''),
      (''../classcoda_1_1db_1_1mysql_1_1statement.html#a4cc0b0d2b6e8bd11cd695af437157240'', True, ''coda::db::mysql::statement::query()''),
      (''../classcoda_1_1db_1_1postgres_1_1session.html#a62ab4d18d2f104bb023703f92fd530b8'', True, ''coda::db::postgres::session::query()''),
      (''../classcoda_1_1db_1_1postgres_1_1statement.html#ae6a319afe9623125784d0a9283945595'', True, ''coda::db::postgres::statement::query()''),
      (''../classcoda_1_1db_1_1query.html#ad478e972e7ed912e75f7e3e494fd5aa4'', True, ''coda::db::query::query(const std::shared_ptr&lt; session_type &gt; &amp;sess)''),
      (''../classcoda_1_1db_1_1query.html#aa9281cc67ec4137465056c3667765312'', True, ''coda::db::query::query(const query &amp;other) noexcept''),
      (''../classcoda_1_1db_1_1query.html#ae1e55e2e68a4230fab55884829387d6b'', True, ''coda::db::query::query(query &amp;&amp;other) noexcept''),
      (''../classcoda_1_1db_1_1session__impl.html#ad86132673d09ac3ee1e6e16b8d560c71'', True, ''coda::db::session_impl::query()''),
      (''../classcoda_1_1db_1_1sqlite_1_1session.html#a7a304286af5b132b29f9fafad4a77393'', True, ''coda::db::sqlite::session::query()''),
      (''../classcoda_1_1db_1_1sqlite_1_1statement.html#a9a5069e229c192eceef2c92d6b5ab44e'', True, ''coda::db::sqlite::statement::query()''),
      (''../classcoda_1_1db_1_1statement.html#a8617f5a490db9e014a5d98de817927ac'', True, ''coda::db::statement::query()'')]]"

definition all_e_names :: "jsstr list" where
  "all_e_names = [js ''query'']"

definition all_f :: "entry list" where
  "all_f =
  [symbol ''record'' ''record''
     [(''../classcoda_1_1db_1_1base_1_1record.html'', True, ''coda::db::base::record''),
      (''../classcoda_1_1db_1_1generic_1_1record.html'', True, ''coda::db::generic::record''),
      (''../classcoda_1_1db_1_1record.html'', True, ''coda::db::record&lt; T, typename &gt;''),
      (''../classcoda_1_1db_1_1base_1_1record.html#a69f2c1a8a72bd19237f1d70f7c7ec0e0'', True, ''coda::db::base::record::record(const std::shared_ptr&lt; schema_type &gt; &amp;schema)''),
      (''../classcoda_1_1db_1_1base_1_1record.html#a7b87c8dda824100edc55ec84e1bffb49'', True, ''coda::db::base::record::record(const std::shared_ptr&lt; schema_type &gt; &amp;schema, const row &amp;values)''),
      (''../classcoda_1_1db_1_1base_1_1record.html#a78724b4aaabbc6ea99ff8a4a3588538a'', True, ''coda::db::base::record::record(const record &amp;other)=default''),
      (''../classcoda_1_1db_1_1base_1_1record.html#a73acb9a34918f99c69794919ce9ae292'', True, ''coda::db::base::record::record(record &amp;&amp;other) noexcept'')],
   symbol ''record_5ffinder'' ''record_finder''
     [(''../classcoda_1_1db_1_1record__finder.html'', True, ''coda::db'')],
   symbol ''record_5ffinder_3c_20record_20_3e'' ''record_finder&lt; record &gt;''
     [(''../classcoda_1_1db_1_1record__finder.html'', True, ''coda::db'')],
   symbol ''record_5ffinder_3c_20t_20_3e'' ''record_finder&lt; T &gt;''
     [(''../classcoda_1_1db_1_1record__finder.html'', True, ''coda::db'')],
   symbol ''refresh'' ''refresh''
     [(''../classcoda_1_1db_1_1base_1_1record.html#ad656a2cee9bfe93d2c588e090e2668f1'', True, ''coda::db::base::record'')],
   symbol ''refresh_5fby'' ''refresh_by''
     [(''../classcoda_1_1db_1_1base_1_1record.html#a3f1180d84d17cd9258b668dcb0fb090b'', True, ''coda::db::base::record'')],
   symbol ''remove'' ''remove''
     [(''../classcoda_1_1db_1_1base_1_1record.html#ad9b076682e0723b4ffa9c68509932dee'', True, ''coda::db::base::record'')],
   symbol ''reset'' ''reset''
     [(''../classcoda_1_1db_1_1join__clause.html#a53fcedd2074c62326ca4d8b1934be287'', True, ''coda::db::join_clause::reset()''),
      (''../classcoda_1_1db_1_1mysql_1_1binding.html#a048a4b9c7ace556d27f9f0950cbb7907'', True, ''coda::db::mysql::binding::reset()''),
      (''../classcoda_1_1db_1_1mysql_1_1resultset.html#a02ce6aa775f9e843674d95ece17e02f6'', True, ''coda::db::mysql::resultset::reset()''),
      (''../classcoda_1_1db_1_1mysql_1_1stmt__resultset.html#ad46d971c5d8d62451316bf83a954fd65'', True, ''coda::db::mysql::stmt_resultset::reset()''),
      (''../classcoda_1_1db_1_1mysql_1_1statement.html#a698d6674526a624ed49a4652aae7b828'', True, ''coda::db::mysql::statement::reset()''),
      (''../classcoda_1_1db_1_1postgres_1_1binding.html#a24b091b69d80f6f68d5c9deed58ab30c'', True, ''coda::db::postgres::binding::reset()''),
      (''../classcoda_1_1db_1_1postgres_1_1resultset.html#af05067bd56c1df34625dd87ab7396751'', True, ''coda::db::postgres::resultset::reset()''),
      (''../classcoda_1_1db_1_1postgres_1_1statement.html#ab333d53c26f67cd6b202403a3914784f'', True, ''coda::db::postgres::statement::reset()''),
      (''../classcoda_1_1db_1_1query.html#adc2df4f5c253653eb08838323cb14cb8'', True, ''coda::db::query::reset()''),
      (''../classcoda_1_1db_1_1base_1_1record.html#a17a24e9c43161803e1e0b0d5f2b2e773'', True, ''coda::db::base::record::reset()''),
      (''../classcoda_1_1db_1_1resultset__impl.html#a7080cd38ce324e6d6b945840385f2350'', True, ''coda::db::resultset_impl::reset()''),
      (''../classcoda_1_1db_1_1resultset.html#a38492d0512b5ca31241d1c7593ee8743'', True, ''coda::db::resultset::reset()''),
      (''../classcoda_1_1db_1_1select__query.html#a1880de311cedaba35d8b848f94ed8344'', True, ''coda::db::select_query::reset()''),
      (''../classcoda_1_1db_1_1sqlite_1_1resultset.html#a5196779b1d81a3a36ac57333b12517e6'', True, ''coda::db::sqlite::resultset::reset()''),
      (''../classcoda_1_1db_1_1sqlite_1_1statement.html#a9ba6c83caf94a40990d7097a1dfde00d'', True, ''coda::db::sqlite::statement::reset()''),
      (''../classcoda_1_1db_1_1statement.html#a96b693d99415b53dd3049bb708fc8829'', True, ''coda::db::statement::reset()''),
      (''../classcoda_1_1db_1_1where__clause.html#a3dcc72eed716af58a3dfc489bd7fa9ed'', True, ''coda::db::where_clause::reset()'')],
   symbol ''resultset'' ''resultset''
     [(''../classcoda_1_1db_1_1postgres_1_1resultset.html'', True, ''coda::db::postgres::resultset''),
      (''../classcoda_1_1db_1_1mysql_1_1resultset.html'', True, ''coda::db::mysql::resultset''),
      (''../classcoda_1_1db_1_1resultset.html'', True, ''coda::db::resultset''),
      (''../classcoda_1_1db_1_1sqlite_1_1resultset.html'', True, ''coda::db::sqlite::resultset''),
      (''../classcoda_1_1db_1_1mysql_1_1resultset.html#aae75b665c649070803af982e6f68fb5b'', True, ''coda::db::mysql::resultset::resultset()''),
      (''../classcoda_1_1db_1_1postgres_1_1resultset.html#a7ec629a657297ddcaea5d5ce6f47a32d'', True, ''coda::db::postgres::resultset::resultset()''),
      (''../classcoda_1_1db_1_1resultset.html#a88f7e2154422beab04caea97743bb3fb'', True, ''coda::db::resultset::resultset()''),
      (''../classcoda_1_1db_1_1sqlite_1_1resultset.html#ae74baf6d409a4abd3cabda5ee279118b'', True, ''coda::db::sqlite::resultset::resultset()'')],
   symbol ''resultset_5fimpl'' ''resultset_impl''
     [(''../classcoda_1_1db_1_1resultset__impl.html'', True, ''coda::db'')],
   symbol ''resultset_5fiterator'' ''resultset_iterator''
     [(''../classcoda_1_1db_1_1resultset__iterator.html'', True, ''coda::db'')],
   symbol ''row'' ''row''
     [(''../classcoda_1_1db_1_1sqlite_1_1row.html'', True, ''coda::db::sqlite::row''),
      (''../classcoda_1_1db_1_1mysql_1_1row.html'', True, ''coda::db::mysql::row''),
      (''../classcoda_1_1db_1_1postgres_1_1row.html'', True, ''coda::db::postgres::row''),
      (''../classcoda_1_1db_1_1row.html'', True, ''coda::db::row''),
      (''../classcoda_1_1db_1_1mysql_1_1row.html#a4d96397b87eef72657e2efd11c7dab7f'', True, ''coda::db::mysql::row::row()''),
      (''../classcoda_1_1db_1_1postgres_1_1row.html#ac31066a6105bff7c08722e63fe0c916e'', True, ''coda::db::postgres::row::row()''),
      (''../classcoda_1_1db_1_1row.html#a1d5b9f3774ee00a4963538a3bc4e98ef'', True, ''coda::db::row::row()=default''),
      (''../classcoda_1_1db_1_1row.html#ab03d08383936c50c9468faec83bc6ea8'', True, ''coda::db::row::row(const std::shared_ptr&lt; row_impl &gt; &amp;impl)''),
      (''../classcoda_1_1db_1_1sqlite_1_1row.html#a3bdfc0ed0fa53b6ebd8ac546571cc219'', True, ''coda::db::sqlite::row::row()'')],
   symbol ''row_5fimpl'' ''row_impl''
     [(''../classcoda_1_1db_1_1row__impl.html'', True, ''coda::db'')],
   symbol ''row_5fiterator'' ''row_iterator''
     [(''../classcoda_1_1db_1_1row__iterator.html'', True, ''coda::db'')]]"

definition all_f_names :: "jsstr list" where
  "all_f_names = [js ''record'', js ''record_finder'', js ''record_finder< record >'', js ''record_finder< t >'', js ''refresh'', js ''refresh_by'', js ''remove'', js ''reset'', js ''resultset'', js ''resultset_impl'', js ''resultset_iterator'', js ''row'', js ''row_impl'', js ''row_iterator'']"

definition all_10 :: "entry list" where
  "all_10 =
  [symbol ''save'' ''save''
     [(''../classcoda_1_1db_1_1base_1_1record.html#a03b7eeb4a53d89e65fcd1df5b09258e8'', True, ''coda::db::base::record'')],
   symbol ''schema'' ''schema''
     [(''../classcoda_1_1db_1_1schema.html'', True, ''coda::db::schema''),
      (''../classcoda_1_1db_1_1base_1_1record.html#af3bb82afe0d8d9ad5fef88ee9b23ba6d'', True, ''coda::db::base::record::schema()''),
      (''../classcoda_1_1db_1_1schema.html#af6e9c5dbb48faf9ac46ff02792b23b51'', True, ''coda::db::schema::schema()'')],
   symbol ''schema_5ffactory'' ''schema_factory''
     [(''../classcoda_1_1db_1_1schema__factory.html'', True, ''coda::db'')],
   symbol ''select_5fquery'' ''select_query''
     [(''../classcoda_1_1db_1_1select__query.html'', True, ''coda::db::select_query''),
      (''../classcoda_1_1db_1_1select__query.html#afaa13ea58532a4c05bbb194dd4c7da50'', True, ''coda::db::select_query::select_query(const std::shared_ptr&lt; coda::db::session &gt; &amp;session)''),
      (''../classcoda_1_1db_1_1select__query.html#a8c640a22c2283497e742f268ab546d7c'', True, ''coda::db::select_query::select_query(const std::shared_ptr&lt; coda::db::session &gt; &amp;session, const std::vector&lt; std::string &gt; &amp;columns)''),
      (''../classcoda_1_1db_1_1select__query.html#aff42a877e63c5f11dd03163c8f609906'', True, ''coda::db::select_query::select_query(const std::shared_ptr&lt; schema &gt; &amp;schema)''),
      (''../classcoda_1_1db_1_1select__query.html#ad0fd5cca3cf01ffb1032d1d55bb8813d'', True, ''coda::db::select_query::select_query(const std::shared_ptr&lt; coda::db::session &gt; &amp;session, const std::vector&lt; std::string &gt; &amp;columns, const std::string &amp;tableName)'')],
   symbol ''session'' ''session''
     [(''../classcoda_1_1db_1_1sqlite_1_1session.html'', True, ''coda::db::sqlite::session''),
      (''../classcoda_1_1db_1_1mysql_1_1session.html'', True, ''coda::db::mysql::session''),
      (''../classcoda_1_1db_1_1session.html'', True, ''coda::db::session''),
      (''../classcoda_1_1db_1_1postgres_1_1session.html'', True, ''coda::db::postgres::session''),
      (''../classcoda_1_1db_1_1mysql_1_1session.html#a2f1b1076bec68651e1d9d3cedf67547e'', True, ''coda::db::mysql::session::session()''),
      (''../classcoda_1_1db_1_1postgres_1_1session.html#a0f6d0933f54571827e06a8d40c53246b'', True, ''coda::db::postgres::session::session()''),
      (''../classcoda_1_1db_1_1sqlite_1_1session.html#a2864a79d6259e113b14f645e5054aafe'', True, ''coda::db::sqlite::session::session()'')],
   symbol ''session_5ffactory'' ''session_factory''
     [(''../classcoda_1_1db_1_1session__factory.html'', True, ''coda::db'')],
   symbol ''session_5fimpl'' ''session_impl''
     [(''../classcoda_1_1db_1_1session__impl.html'', True, ''coda::db::session_impl''),
      (''../classcoda_1_1db_1_1session__impl.html#a8f07a8d357e2d58673a82d3f3357263b'', True, ''coda::db::session_impl::session_impl()'')],
   symbol ''set'' ''set''
     [(''../classcoda_1_1db_1_1base_1_1record.html#a804fe43464d3dee40520f4ecdecb5cad'', True, ''coda::db::base::record'')],
   symbol ''set_5fid'' ''set_id''
     [(''../classcoda_1_1db_1_1base_1_1record.html#aa604802913edf6fa9c0094cd98eaa8b3'', True, ''coda::db::base::record'')],
   symbol ''size'' ''size''
     [(''../classcoda_1_1db_1_1mysql_1_1row.html#ab9a6e858117e3263e6a49878b61e3959'', True, ''coda::db::mysql::row::size()''),
      (''../classcoda_1_1db_1_1mysql_1_1stmt__row.html#aa3d87b381e791c11f1a6b2034b5c11fd'', True, ''coda::db::mysql::stmt_row::size()''),
      (''../classcoda_1_1db_1_1postgres_1_1row.html#a34e7f2e406f7485e1704e2817e1e743c'', True, ''coda::db::postgres::row::size()''),
      (''../classcoda_1_1db_1_1resultset.html#a98561295703dabef4559033be9898ade'', True, ''coda::db::resultset::size()''),
      (''../classcoda_1_1db_1_1row__impl.html#a76978666f14fd1baf7a0345d3c6f8e47'', True, ''coda::db::row_impl::size()''),
      (''../classcoda_1_1db_1_1row.html#aceee7aa97efcee9210a34fd6fe5f8edd'', True, ''coda::db::row::size()''),
      (''../classcoda_1_1db_1_1schema.html#a871d1c84acc1a7975a8b2abe630ed626'', True, ''coda::db::schema::size()''),
      (''../classcoda_1_1db_1_1sqlite_1_1row.html#a0d74aa62a4fc2c165685df1b4f71383e'', True, ''coda::db::sqlite::row::size()'')],
   symbol ''sql_5fblob'' ''sql_blob''
     [(''../classcoda_1_1db_1_1sql__blob.html'', True, ''coda::db'')],
   symbol ''sql_5fgenerator'' ''sql_generator''
     [(''../classcoda_1_1db_1_1sql__generator.html'', True, ''coda::db'')],
   symbol ''sql_5fnumber'' ''sql_number''
     [(''../classcoda_1_1db_1_1sql__number.html'', True, ''coda::db'')],
   symbol ''sql_5fnumber_5fconvertible'' ''sql_number_convertible''
     [(''../classcoda_1_1db_1_1sql__number__convertible.html'', True, ''coda::db'')],
   symbol ''sql_5foperator'' ''sql_operator''
     [(''../classcoda_1_1db_1_1sql__operator.html'', True, ''coda::db'')],
   symbol ''sql_5foperator_5fbuilder'' ''sql_operator_builder''
     [(''../classcoda_1_1db_1_1sql__operator__builder.html'', True, ''coda::db'')],
   symbol ''sql_5ftime'' ''sql_time''
     [(''../classcoda_1_1db_1_1sql__time.html'', True, ''coda::db::sql_time''),
      (''../classcoda_1_1db_1_1sql__time.html#a778cb967c571d0f1c46307e6aec56f21'', True, ''coda::db::sql_time::sql_time()'')],
   symbol ''sql_5ftype'' ''sql_type''
     [(''../classcoda_1_1db_1_1mysql_1_1binding.html#a202f6408c21a292005c19cebcbb2f34c'', True, ''coda::db::mysql::binding::sql_type()''),
      (''../classcoda_1_1db_1_1postgres_1_1binding.html#ab91ea31deccace9c2ede005cae0c7e75'', True, ''coda::db::postgres::binding::sql_type()'')],
   symbol ''sql_5fvalue'' ''sql_value''
     [(''../classcoda_1_1db_1_1sql__value.html'', True, ''coda::db::sql_value''),
      (''../classcoda_1_1db_1_1sql__value.html#ac0859beacb9e20790498ac0281dfcc31'', True, ''coda::db::sql_value::sql_value()'')],
   symbol ''sql_5fvalue_5fconvertible'' ''sql_value_convertible''
     [(''../classcoda_1_1db_1_1sql__value__convertible.html'', True, ''coda::db'')],
   symbol ''start_5ftransaction'' ''start_transaction''
     [(''../classcoda_1_1db_1_1session.html#a3520076f452e3737a67e9a7a249e9c5c'', True, ''coda::db::session'')],
   symbol ''statement'' ''statement''
     [(''../classcoda_1_1db_1_1mysql_1_1statement.html'', True, ''coda::db::mysql::statement''),
      (''../classcoda_1_1db_1_1sqlite_1_1statement.html'', True, ''coda::db::sqlite::statement''),
      (''../classcoda_1_1db_1_1statement.html'', True, ''coda::db::statement''),
      (''../classcoda_1_1db_1_1postgres_1_1statement.html'', True, ''coda::db::postgres::statement''),
      (''../classcoda_1_1db_1_1mysql_1_1statement.html#acaf249e08e799bea54bd79a2746c69c7'', True, ''coda::db::mysql::statement::statement()''),
      (''../classcoda_1_1db_1_1postgres_1_1statement.html#af9e8e5c896161fb647de83d73edfb072'', True, ''coda::db::postgres::statement::statement()''),
      (''../classcoda_1_1db_1_1sqlite_1_1statement.html#a09afbc404034d84b262cc562f6c2bedd'', True, ''coda::db::sqlite::statement::statement()'')],
   symbol ''stmt_5fcolumn'' ''stmt_column''
     [(''../classcoda_1_1db_1_1mysql_1_1stmt__column.html'', True, ''coda::db::mysql::stmt_column''),
      (''../classcoda_1_1db_1_1mysql_1_1stmt__column.html#a6b486e73802a98ecd39fb391819117a7'', True, ''coda::db::mysql::stmt_column::stmt_column()'')],
   symbol ''stmt_5fresultset'' ''stmt_resultset''
     [(''../classcoda_1_1db_1_1mysql_1_1stmt__resultset.html'', True, ''coda::db::mysql::stmt_resultset''),
      (''../classcoda_1_1db_1_1mysql_1_1stmt__resultset.html#a042571ceefa51e3afb5d4cbfb6f60e5c'', True, ''coda::db::mysql::stmt_resultset::stmt_resultset()'')],
   symbol ''stmt_5frow'' ''stmt_row''
     [(''../classcoda_1_1db_1_1mysql_1_1stmt__row.html'', True, ''coda::db::mysql::stmt_row''),
      (''../classcoda_1_1db_1_1mysql_1_1stmt__row.html#abe35136d6a6d8d75892c5dd28fb423c6'', True, ''coda::db::mysql::stmt_row::stmt_row()'')]]"

definition all_10_names :: "jsstr list" where
  "all_10_names = [js ''save'', js ''schema'', js ''schema_factory'', js ''select_query'', js ''session'', js ''session_factory'', js ''session_impl'', js ''set'', js ''set_id'', js ''size'', js ''sql_blob'', js ''sql_generator'', js ''sql_number'', js ''sql_number_convertible'', js ''sql_operator'', js ''sql_operator_builder'', js ''sql_time'', js ''sql_type'', js ''sql_value'', js ''sql_value_convertible'', js ''start_transaction'', js ''statement'', js ''stmt_column'', js ''stmt_resultset'', js ''stmt_row'']"

definition all_11 :: "entry list" where
  "all_11 =
  [symbol ''table'' ''table''
     [(''../classcoda_1_1db_1_1join__clause.html#a27958599ffb6a5513ab4d4e29c7f7492'', True, ''coda::db::join_clause::table(const std::string &amp;value)''),
      (''../classcoda_1_1db_1_1join__clause.html#a7bcb476213ee379cc06f6130cc2212ce'', True, ''coda::db::join_clause::table() const''),
      (''../classcoda_1_1db_1_1update__query.html#a6dffb03f7b8cd96d5affe845e38f9980'', True, ''coda::db::update_query::table(const std::string &amp;tableName)''),
      (''../classcoda_1_1db_1_1update__query.html#af429d7daf9827a3d7297e2c4ba9fe033'', True, ''coda::db::update_query::table() const'')],
   symbol ''table_5fname'' ''table_name''
     [(''../classcoda_1_1db_1_1schema.html#acd6ce5a18dab04dd89d238f0539cd2bb'', True, ''coda::db::schema'')],
   symbol ''to_5fgmtime'' ''to_gmtime''
     [(''../classcoda_1_1db_1_1sql__time.html#a7e09a37891d881691b52784507a21bee'', True, ''coda::db::sql_time'')],
   symbol ''to_5fvalue'' ''to_value''
     [(''../classcoda_1_1db_1_1column__impl.html#aae17cddcb25cee2ce0f0b6c3b29fd3cb'', True, ''coda::db::column_impl::to_value()''),
      (''../classcoda_1_1db_1_1mysql_1_1binding.html#a4bd7174bfb03b79bbf49e14058b03fba'', True, ''coda::db::mysql::binding::to_value()''),
      (''../classcoda_1_1db_1_1mysql_1_1column.html#a6a67d2b1f8b832a34fed16da64c9b0fe'', True, ''coda::db::mysql::column::to_value()''),
      (''../classcoda_1_1db_1_1mysql_1_1stmt__column.html#a83e2a3dca82c4b6cf79861d39c84a785'', True, ''coda::db::mysql::stmt_column::to_value()''),
      (''../classcoda_1_1db_1_1postgres_1_1binding.html#a399d89819629ddaf7894ddf3763dc3bd'', True, ''coda::db::postgres::binding::to_value()''),
      (''../classcoda_1_1db_1_1postgres_1_1column.html#a2fa7e801e16792d39105390e230543d6'', True, ''coda::db::postgres::column::to_value()''),
      (''../classcoda_1_1db_1_1sqlite_1_1column.html#aef40d8a2ab814c00463c596e28f70c42'', True, ''coda::db::sqlite::column::to_value()'')],
   symbol ''transaction'' ''transaction''
     [(''../classcoda_1_1db_1_1transaction.html'', True, ''coda::db::transaction''),
      (''../classcoda_1_1db_1_1mysql_1_1transaction.html'', True, ''coda::db::mysql::transaction''),
      (''../classcoda_1_1db_1_1sqlite_1_1transaction.html'', True, ''coda::db::sqlite::transaction''),
      (''../classcoda_1_1db_1_1postgres_1_1transaction.html'', True, ''coda::db::postgres::transaction'')],
   symbol ''transaction_5fimpl'' ''transaction_impl''
     [(''../classcoda_1_1db_1_1transaction__impl.html'', True, ''coda::db'')],
   symbol ''type'' ''type''
     [(''../classcoda_1_1db_1_1join__clause.html#a9dedd847ac045fc1418a25c66441bf99'', True, ''coda::db::join_clause::type(join::type value)''),
      (''../classcoda_1_1db_1_1join__clause.html#acf7dc604aa19626fe091a35ae189c175'', True, ''coda::db::join_clause::type() const'')]]"

definition all_11_names :: "jsstr list" where
  "all_11_names = [js ''table'', js ''table_name'', js ''to_gmtime'', js ''to_value'', js ''transaction'', js ''transaction_impl'', js ''type'']"

definition all_12 :: "entry list" where
  "all_12 =
  [symbol ''union_5foperator'' ''union_operator''
     [(''../structcoda_1_1db_1_1union__operator.html'', True, ''coda::db::union_operator''),
      (''../structcoda_1_1db_1_1union__operator.html#a4e9937e41aea5f0fd2e1dc178210cac5'', True, ''coda::db::union_operator::union_operator()'')],
   symbol ''union_5fwith'' ''union_with''
     [(''../classcoda_1_1db_1_1select__query.html#a0fd290bbff4ab6a238e10e1983af69eb'', True, ''coda::db::select_query'')],
   symbol ''unset'' ''unset''
     [(''../classcoda_1_1db_1_1base_1_1record.html#a06ca4b786a4ce9d01ed4f4aedc6c14b2'', True, ''coda::db::base::record'')],
   symbol ''update_5fquery'' ''update_query''
     [(''../classcoda_1_1db_1_1update__query.html'', True, ''coda::db::update_query''),
      (''../classcoda_1_1db_1_1update__query.html#a884f968e25ee06bece3f502a72686585'', True, ''coda::db::update_query::update_query(const std::shared_ptr&lt; coda::db::session &gt; &amp;session)''),
      (''../classcoda_1_1db_1_1update__query.html#a96bd59cac617698596ac014aec05426f'', True, ''coda::db::update_query::update_query(const std::shared_ptr&lt; schema &gt; &amp;schema)''),
      (''../classcoda_1_1db_1_1update__query.html#a519310cafd1e617f02b6aba77a2d86fc'', True, ''coda::db::update_query::update_query(const std::shared_ptr&lt; coda::db::session &gt; &amp;session, const std::string &amp;tableName)''),
      (''../classcoda_1_1db_1_1update__query.html#af834914dc95fdbdb2a682e1945d9947e'', True, ''coda::db::update_query::update_query(const std::shared_ptr&lt; coda::db::session &gt; &amp;session, const std::string &amp;tableName, const std::vector&lt; std::string &gt; &amp;columns)''),
      (''../classcoda_1_1db_1_1update__query.html#a94f66d4c8186cbb0bf75e6b8dcf477b2'', True, ''coda::db::update_query::update_query(const std::shared_ptr&lt; schema &gt; &amp;schema, const std::vector&lt; std::string &gt; &amp;columns)'')],
   symbol ''uri_5ftype'' ''uri_type''
     [(''../structcoda_1_1db_1_1uri__type.html'', True, ''coda::db::uri_type''),
      (''../structcoda_1_1db_1_1uri__type.html#a5d89508722a5c3693a1d9464d863e39b'', True, ''coda::db::uri_type::uri_type()'')]]"

definition all_12_names :: "jsstr list" where
  "all_12_names = [js ''union_operator'', js ''union_with'', js ''unset'', js ''update_query'', js ''uri_type'']"

definition all_13 :: "entry list" where
  "all_13 =
  [symbol ''value'' ''value''
     [(''../classcoda_1_1db_1_1column.html#a5240932d420eadf9ea7973105a0b0b82'', True, ''coda::db::column'')],
   symbol ''values'' ''values''
     [(''../classcoda_1_1db_1_1insert__query.html#aec884b07f58de62215b7c6110f13ddb8'', True, ''coda::db::insert_query::values()''),
      (''../classcoda_1_1db_1_1update__query.html#a367cf6bba781ffe1f9e74db5a688b5d2'', True, ''coda::db::update_query::values()'')]]"

definition all_13_names :: "jsstr list" where
  "all_13_names = [js ''value'', js ''values'']"

definition all_14 :: "entry list" where
  "all_14 =
  [symbol ''where'' ''where''
     [(''../classcoda_1_1db_1_1delete__query.html#a4b3e8464a5190b82a56cf2e2b098d6ba'', True, ''coda::db::delete_query::where() override''),
      (''../classcoda_1_1db_1_1delete__query.html#a217b133c5d12564053a8f934ed94b1b9'', True, ''coda::db::delete_query::where(const sql_operator &amp;value) override''),
      (''../classcoda_1_1db_1_1delete__query.html#a8311712d91a77b162b304cf93c90ba1d'', True, ''coda::db::delete_query::where(const where_clause &amp;value)''),
      (''../classcoda_1_1db_1_1select__query.html#afb3e9d1ca5c000bdfe5309c17b870b11'', True, ''coda::db::select_query::where() override''),
      (''../classcoda_1_1db_1_1select__query.html#a184b31bc6d921a420d873db3bfe62e8f'', True, ''coda::db::select_query::where(const sql_operator &amp;value) override''),
      (''../classcoda_1_1db_1_1update__query.html#af1d7d5f0094f489b4e22ee79332cc92e'', True, ''coda::db::update_query::where() override''),
      (''../classcoda_1_1db_1_1update__query.html#ac686f5ce2a102574ee050f04c33f396c'', True, ''coda::db::update_query::where(const where_clause &amp;value)''),
      (''../classcoda_1_1db_1_1update__query.html#ae1bcaeb9a5f0a350d8a66ef4e6c34041'', True, ''coda::db::update_query::where(const sql_operator &amp;value) override'')],
   symbol ''where_5fbuilder'' ''where_builder''
     [(''../classcoda_1_1db_1_1where__builder.html'', True, ''coda::db'')],
   symbol ''where_5fclause'' ''where_clause''
     [(''../classcoda_1_1db_1_1where__clause.html'', True, ''coda::db::where_clause''),
      (''../classcoda_1_1db_1_1where__clause.html#a587dbab59cf0d16fb78215b2c78fc0df'', True, ''coda::db::where_clause::where_clause()=default''),
      (''../classcoda_1_1db_1_1where__clause.html#ad97440a7f9c4588bee95c2c46e87dda1'', True, ''coda::db::where_clause::where_clause(const std::string &amp;value)'')],
   symbol ''whereable'' ''whereable''
     [(''../classcoda_1_1db_1_1whereable.html'', True, ''coda::db'')],
   symbol ''whereable_3c_20delete_5fquery_20_3e'' ''whereable&lt; delete_query &gt;''
     [(''../classcoda_1_1db_1_1whereable.html'', True, ''coda::db'')],
   symbol ''whereable_3c_20select_5fquery_20_3e'' ''whereable&lt; select_query &gt;''
     [(''../classcoda_1_1db_1_1whereable.html'', True, ''coda::db'')],
   symbol ''whereable_3c_20update_5fquery_20_3e'' ''whereable&lt; update_query &gt;''
     [(''../classcoda_1_1db_1_1whereable.html'', True, ''coda::db'')]]"

definition all_14_names :: "jsstr list" where
  "all_14_names = [js ''where'', js ''where_builder'', js ''where_clause'', js ''whereable'', js ''whereable< delete_query >'', js ''whereable< select_query >'', js ''whereable< update_query >'']"

definition all_15 :: "entry list" where
  "all_15 =
  [symbol ''_7equery'' ''~query''
     [(''../classcoda_1_1db_1_1query.html#a4d178203c0c8fb48c2cc76ec525631d0'', True, ''coda::db::query'')]]"

definition all_15_names :: "jsstr list" where
  "all_15_names = [js ''~query'']"

text \<open>A table of an older index, left beside the others: its page exists, but the index has no place for it.\<close>

definition all_16 :: "entry list" where
  "all_16 =
  [symbol ''_7equery'' ''~query''
     [(''../classcoda_1_1db_1_1query.html#ae106b61891903b82e6c9188b31fbea62'', True, ''coda::db::query'')]]"

definition all_16_names :: "jsstr list" where
  "all_16_names = [js ''~query'']"

end
