(* ===== verification/DoxygenSite.thy ===== *)
theory DoxygenSite
  imports SymbolTables IndexAll IndexFunctions
begin

text \<open>
  The search pages of this documentation as a site: the tables of its five sections behind their
  pages, and the check that those the index can open list their symbols under their first character,
  so that the search finds them. One symbol is listed under a character it does not start with: the
  conversion operator \<open>string\<close>, indexed as an operator. Three tables are left from an older index and no
  search opens their pages; one symbol, \<open>value_equality\<close>, is in no other table.
\<close>

section \<open>The site\<close>

text \<open>Every table the index can open, with its section, the position of its character in the index and its page.\<close>

definition opened_tables :: "(nat \<times> nat \<times> string \<times> entry list \<times> jsstr list) list" where
  "opened_tables =
    [(0, 0, ''search/all_0.html'', all_0, all_0_names),
     (0, 1, ''search/all_1.html'', all_1, all_1_names),
     (0, 2, ''search/all_2.html'', all_2, all_2_names),
     (0, 3, ''search/all_3.html'', all_3, all_3_names),
     (0, 4, ''search/all_4.html'', all_4, all_4_names),
     (0, 5, ''search/all_5.html'', all_5, all_5_names),
     (0, 6, ''search/all_6.html'', all_6, all_6_names),
     (0, 7, ''search/all_7.html'', all_7, all_7_names),
     (0, 8, ''search/all_8.html'', all_8, all_8_names),
     (0, 9, ''search/all_9.html'', all_9, all_9_names),
     (0, 10, ''search/all_a.html'', all_a, all_a_names),
     (0, 11, ''search/all_b.html'', all_b, all_b_names),
     (0, 12, ''search/all_c.html'', all_c, all_c_names),
     (0, 13, ''search/all_d.html'', all_d, all_d_names),
     (0, 14, ''search/all_e.html'', all_e, all_e_names),
     (0, 15, ''search/all_f.html'', all_f, all_f_names),
     (0, 16, ''search/all_10.html'', all_10, all_10_names),
     (0, 17, ''search/all_11.html'', all_11, all_11_names),
     (0, 18, ''search/all_12.html'', all_12, all_12_names),
     (0, 19, ''search/all_13.html'', all_13, all_13_names),
     (0, 20, ''search/all_14.html'', all_14, all_14_names),
     (0, 21, ''search/all_15.html'', all_15, all_15_names),
     (1, 0, ''search/classes_0.html'', classes_0, classes_0_names),
     (1, 1, ''search/classes_1.html'', classes_1, classes_1_names),
     (1, 2, ''search/classes_2.html'', classes_2, classes_2_names),
     (1, 3, ''search/classes_3.html'', classes_3, classes_3_names),
     (1, 4, ''search/classes_4.html'', classes_4, classes_4_names),
     (1, 5, ''search/classes_5.html'', classes_5, classes_5_names),
     (1, 6, ''search/classes_6.html'', classes_6, classes_6_names),
     (1, 7, ''search/classes_7.html'', classes_7, classes_7_names),
     (1, 8, ''search/classes_8.html'', classes_8, classes_8_names),
     (1, 9, ''search/classes_9.html'', classes_9, classes_9_names),
     (1, 10, ''search/classes_a.html'', classes_a, classes_a_names),
     (1, 11, ''search/classes_b.html'', classes_b, classes_b_names),
     (1, 12, ''search/classes_c.html'', classes_c, classes_c_names),
     (1, 13, ''search/classes_d.html'', classes_d, classes_d_names),
     (2, 0, ''search/functions_0.html'', functions_0, functions_0_names),
     (2, 1, ''search/functions_1.html'', functions_1, functions_1_names),
     (2, 2, ''search/functions_2.html'', functions_2, functions_2_names),
     (2, 3, ''search/functions_3.html'', functions_3, functions_3_names),
     (2, 4, ''search/functions_4.html'', functions_4, functions_4_names),
     (2, 5, ''search/functions_5.html'', functions_5, functions_5_names),
     (2, 6, ''search/functions_6.html'', functions_6, functions_6_names),
     (2, 7, ''search/functions_7.html'', functions_7, functions_7_names),
     (2, 8, ''search/functions_8.html'', functions_8, functions_8_names),
     (2, 9, ''search/functions_9.html'', functions_9, functions_9_names),
     (2, 10, ''search/functions_a.html'', functions_a, functions_a_names),
     (2, 11, ''search/functions_b.html'', functions_b, functions_b_names),
     (2, 12, ''search/functions_c.html'', functions_c, functions_c_names),
     (2, 13, ''search/functions_d.html'', functions_d, functions_d_names),
     (2, 14, ''search/functions_e.html'', functions_e, functions_e_names),
     (2, 15, ''search/functions_f.html'', functions_f, functions_f_names),
     (2, 16, ''search/functions_10.html'', functions_10, functions_10_names),
     (2, 17, ''search/functions_11.html'', functions_11, functions_11_names),
     (2, 18, ''search/functions_12.html'', functions_12, functions_12_names),
     (2, 19, ''search/functions_13.html'', functions_13, functions_13_names),
     (2, 20, ''search/functions_14.html'', functions_14, functions_14_names),
     (2, 21, ''search/functions_15.html'', functions_15, functions_15_names),
     (3, 0, ''search/enums_0.html'', enums_0, enums_0_names),
     (4, 0, ''search/pages_0.html'', pages_0, pages_0_names)]"

text \<open>The other tables, with the numbers in the names of their pages, and all of them.\<close>

definition leftover_tables :: "(nat \<times> nat \<times> string \<times> entry list \<times> jsstr list) list" where
  "leftover_tables =
    [(0, 22, ''search/all_16.html'', all_16, all_16_names),
     (1, 14, ''search/classes_e.html'', classes_e, classes_e_names),
     (1, 15, ''search/classes_f.html'', classes_f, classes_f_names)]"

definition site_tables :: "(nat \<times> nat \<times> string \<times> entry list \<times> jsstr list) list" where
  "site_tables = opened_tables @ leftover_tables"

definition doxygen_tables :: "(string \<times> entry list \<times> jsstr list) list" where
  "doxygen_tables = map (\<lambda>(i, k, page, data, names). (page, data, names)) site_tables"

definition doxygen_site :: site where
  "doxygen_site = map_of (map (\<lambda>(page, table). (js page, table)) doxygen_tables)"

definition section_symbols :: "nat \<Rightarrow> jsstr list" where
  "section_symbols i = concat (map (\<lambda>(j, k, page, data, names). if j = i then names else []) site_tables)"

section \<open>Every table fits its page\<close>


lemma all_0_ok: "table_ok 0 0 ''search/all_0.html'' all_0 all_0_names"
  by (simp add: table_checks all_0_def all_0_names_def)

lemma all_1_ok: "table_ok 0 1 ''search/all_1.html'' all_1 all_1_names"
  by (simp add: table_checks all_1_def all_1_names_def)

lemma all_2_ok: "table_ok 0 2 ''search/all_2.html'' all_2 all_2_names"
  by (simp add: table_checks all_2_def all_2_names_def)

lemma all_3_ok: "table_ok 0 3 ''search/all_3.html'' all_3 all_3_names"
  by (simp add: table_checks all_3_def all_3_names_def)

lemma all_4_ok: "table_ok 0 4 ''search/all_4.html'' all_4 all_4_names"
  by (simp add: table_checks all_4_def all_4_names_def)

lemma all_5_ok: "table_ok 0 5 ''search/all_5.html'' all_5 all_5_names"
  by (simp add: table_checks all_5_def all_5_names_def)

lemma all_6_ok: "table_ok 0 6 ''search/all_6.html'' all_6 all_6_names"
  by (simp add: table_checks all_6_def all_6_names_def)

lemma all_7_ok: "table_ok 0 7 ''search/all_7.html'' all_7 all_7_names"
  by (simp add: table_checks all_7_def all_7_names_def)

lemma all_8_ok: "table_ok 0 8 ''search/all_8.html'' all_8 all_8_names"
  by (simp add: table_checks all_8_def all_8_names_def)

lemma all_9_ok: "table_ok 0 9 ''search/all_9.html'' all_9 all_9_names"
  by (simp add: table_checks all_9_def all_9_names_def)

lemma all_a_ok: "table_ok 0 10 ''search/all_a.html'' all_a all_a_names"
  by (simp add: table_checks all_a_def all_a_names_def)

lemma all_b_ok: "table_ok 0 11 ''search/all_b.html'' all_b all_b_names"
  by (simp add: table_checks all_b_def all_b_names_def)

lemma all_c_ok: "table_ok 0 12 ''search/all_c.html'' all_c all_c_names"
  by (simp add: table_checks all_c_def all_c_names_def)

lemma all_d_ok: "table_ok 0 13 ''search/all_d.html'' all_d all_d_names"
  by (simp add: table_checks all_d_def all_d_names_def)

lemma all_e_ok: "table_ok 0 14 ''search/all_e.html'' all_e all_e_names"
  by (simp add: table_checks all_e_def all_e_names_def)

lemma all_f_ok: "table_ok 0 15 ''search/all_f.html'' all_f all_f_names"
  by (simp add: table_checks all_f_def all_f_names_def)

lemma all_10_ok: "table_ok 0 16 ''search/all_10.html'' all_10 all_10_names"
  by (simp add: table_checks all_10_def all_10_names_def)

lemma all_11_ok: "table_ok 0 17 ''search/all_11.html'' all_11 all_11_names"
  by (simp add: table_checks all_11_def all_11_names_def)

lemma all_12_ok: "table_ok 0 18 ''search/all_12.html'' all_12 all_12_names"
  by (simp add: table_checks all_12_def all_12_names_def)

lemma all_13_ok: "table_ok 0 19 ''search/all_13.html'' all_13 all_13_names"
  by (simp add: table_checks all_13_def all_13_names_def)

lemma all_14_ok: "table_ok 0 20 ''search/all_14.html'' all_14 all_14_names"
  by (simp add: table_checks all_14_def all_14_names_def)

lemma all_15_ok: "table_ok 0 21 ''search/all_15.html'' all_15 all_15_names"
  by (simp add: table_checks all_15_def all_15_names_def)

lemma classes_0_ok: "table_ok 1 0 ''search/classes_0.html'' classes_0 classes_0_names"
  by (simp add: table_checks classes_0_def classes_0_names_def)

lemma classes_1_ok: "table_ok 1 1 ''search/classes_1.html'' classes_1 classes_1_names"
  by (simp add: table_checks classes_1_def classes_1_names_def)

lemma classes_2_ok: "table_ok 1 2 ''search/classes_2.html'' classes_2 classes_2_names"
  by (simp add: table_checks classes_2_def classes_2_names_def)

lemma classes_3_ok: "table_ok 1 3 ''search/classes_3.html'' classes_3 classes_3_names"
  by (simp add: table_checks classes_3_def classes_3_names_def)

lemma classes_4_ok: "table_ok 1 4 ''search/classes_4.html'' classes_4 classes_4_names"
  by (simp add: table_checks classes_4_def classes_4_names_def)

lemma classes_5_ok: "table_ok 1 5 ''search/classes_5.html'' classes_5 classes_5_names"
  by (simp add: table_checks classes_5_def classes_5_names_def)

lemma classes_6_ok: "table_ok 1 6 ''search/classes_6.html'' classes_6 classes_6_names"
  by (simp add: table_checks classes_6_def classes_6_names_def)

lemma classes_7_ok: "table_ok 1 7 ''search/classes_7.html'' classes_7 classes_7_names"
  by (simp add: table_checks classes_7_def classes_7_names_def)

lemma classes_8_ok: "table_ok 1 8 ''search/classes_8.html'' classes_8 classes_8_names"
  by (simp add: table_checks classes_8_def classes_8_names_def)

lemma classes_9_ok: "table_ok 1 9 ''search/classes_9.html'' classes_9 classes_9_names"
  by (simp add: table_checks classes_9_def classes_9_names_def)

lemma classes_a_ok: "table_ok 1 10 ''search/classes_a.html'' classes_a classes_a_names"
  by (simp add: table_checks classes_a_def classes_a_names_def)

lemma classes_b_ok: "table_ok 1 11 ''search/classes_b.html'' classes_b classes_b_names"
  by (simp add: table_checks classes_b_def classes_b_names_def)

lemma classes_c_ok: "table_ok 1 12 ''search/classes_c.html'' classes_c classes_c_names"
  by (simp add: table_checks classes_c_def classes_c_names_def)

lemma classes_d_ok: "table_ok 1 13 ''search/classes_d.html'' classes_d classes_d_names"
  by (simp add: table_checks classes_d_def classes_d_names_def)

lemma functions_0_ok: "table_ok 2 0 ''search/functions_0.html'' functions_0 functions_0_names"
  by (simp add: table_checks functions_0_def functions_0_names_def)

lemma functions_1_ok: "table_ok 2 1 ''search/functions_1.html'' functions_1 functions_1_names"
  by (simp add: table_checks functions_1_def functions_1_names_def)

lemma functions_2_ok: "table_ok 2 2 ''search/functions_2.html'' functions_2 functions_2_names"
  by (simp add: table_checks functions_2_def functions_2_names_def)

lemma functions_3_ok: "table_ok 2 3 ''search/functions_3.html'' functions_3 functions_3_names"
  by (simp add: table_checks functions_3_def functions_3_names_def)

lemma functions_4_ok: "table_ok 2 4 ''search/functions_4.html'' functions_4 functions_4_names"
  by (simp add: table_checks functions_4_def functions_4_names_def)

lemma functions_5_ok: "table_ok 2 5 ''search/functions_5.html'' functions_5 functions_5_names"
  by (simp add: table_checks functions_5_def functions_5_names_def)

lemma functions_6_ok: "table_ok 2 6 ''search/functions_6.html'' functions_6 functions_6_names"
  by (simp add: table_checks functions_6_def functions_6_names_def)

lemma functions_7_ok: "table_ok 2 7 ''search/functions_7.html'' functions_7 functions_7_names"
  by (simp add: table_checks functions_7_def functions_7_names_def)

lemma functions_8_ok: "table_ok 2 8 ''search/functions_8.html'' functions_8 functions_8_names"
  by (simp add: table_checks functions_8_def functions_8_names_def)

lemma functions_9_ok: "table_ok 2 9 ''search/functions_9.html'' functions_9 functions_9_names"
  by (simp add: table_checks functions_9_def functions_9_names_def)

lemma functions_a_ok: "table_ok 2 10 ''search/functions_a.html'' functions_a functions_a_names"
  by (simp add: table_checks functions_a_def functions_a_names_def)

lemma functions_b_ok: "table_ok 2 11 ''search/functions_b.html'' functions_b functions_b_names"
  by (simp add: table_checks functions_b_def functions_b_names_def)

lemma functions_c_ok: "table_ok 2 12 ''search/functions_c.html'' functions_c functions_c_names"
  by (simp add: table_checks functions_c_def functions_c_names_def)

lemma functions_d_ok: "table_ok 2 13 ''search/functions_d.html'' functions_d functions_d_names"
  by (simp add: table_checks functions_d_def functions_d_names_def)

lemma functions_e_ok: "table_ok 2 14 ''search/functions_e.html'' functions_e functions_e_names"
  by (simp add: table_checks functions_e_def functions_e_names_def)

lemma functions_f_ok: "table_ok 2 15 ''search/functions_f.html'' functions_f functions_f_names"
  by (simp add: table_checks functions_f_def functions_f_names_def)

lemma functions_10_ok: "table_ok 2 16 ''search/functions_10.html'' functions_10 functions_10_names"
  by (simp add: table_checks functions_10_def functions_10_names_def)

lemma functions_11_ok: "table_ok 2 17 ''search/functions_11.html'' functions_11 functions_11_names"
  by (simp add: table_checks functions_11_def functions_11_names_def)

lemma functions_12_ok: "table_ok 2 18 ''search/functions_12.html'' functions_12 functions_12_names"
  by (simp add: table_checks functions_12_def functions_12_names_def)

lemma functions_13_ok: "table_ok 2 19 ''search/functions_13.html'' functions_13 functions_13_names"
  by (simp add: table_checks functions_13_def functions_13_names_def)

lemma functions_14_ok: "table_ok 2 20 ''search/functions_14.html'' functions_14 functions_14_names"
  by (simp add: table_checks functions_14_def functions_14_names_def)

lemma functions_15_ok: "table_ok 2 21 ''search/functions_15.html'' functions_15 functions_15_names"
  by (simp add: table_checks functions_15_def functions_15_names_def)

lemma enums_0_ok: "table_ok 3 0 ''search/enums_0.html'' enums_0 enums_0_names"
  by (simp add: table_checks enums_0_def enums_0_names_def)

lemma pages_0_ok: "table_ok 4 0 ''search/pages_0.html'' pages_0 pages_0_names"
  by (simp add: table_checks pages_0_def pages_0_names_def)

lemmas tables_ok =
  all_0_ok all_1_ok all_2_ok all_3_ok all_4_ok all_5_ok
  all_6_ok all_7_ok all_8_ok all_9_ok all_a_ok all_b_ok
  all_c_ok all_d_ok all_e_ok all_f_ok all_10_ok all_11_ok
  all_12_ok all_13_ok all_14_ok all_15_ok classes_0_ok classes_1_ok
  classes_2_ok classes_3_ok classes_4_ok classes_5_ok classes_6_ok classes_7_ok
  classes_8_ok classes_9_ok classes_a_ok classes_b_ok classes_c_ok classes_d_ok
  functions_0_ok functions_1_ok functions_2_ok functions_3_ok functions_4_ok functions_5_ok
  functions_6_ok functions_7_ok functions_8_ok functions_9_ok functions_a_ok functions_b_ok
  functions_c_ok functions_d_ok functions_e_ok functions_f_ok functions_10_ok functions_11_ok
  functions_12_ok functions_13_ok functions_14_ok functions_15_ok enums_0_ok pages_0_ok

lemma lists_enums_0: "lists_names enums_0 enums_0_names"
  using enums_0_ok by (simp add: table_ok_def)

lemma opened_tables_ok: "list_all (\<lambda>(i, k, page, data, names). table_ok i k page data names) opened_tables"
  by (simp add: opened_tables_def tables_ok del: One_nat_def)

lemma site_pages_distinct: "distinct (map (\<lambda>(i, k, page, data, names). page) site_tables)"
  by (simp add: site_tables_def opened_tables_def leftover_tables_def)

lemma opened_is_site: "t \<in> set opened_tables \<Longrightarrow> t \<in> set site_tables"
  by (simp add: site_tables_def)

lemma doxygen_site_js: "doxygen_site (js page) = map_of doxygen_tables page"
proof -
  have "map_of (map (\<lambda>(page, table). (js page, table)) ts) (js page) = map_of ts page"
    for ts :: "(string \<times> entry list \<times> jsstr list) list"
    by (induction ts) auto
  then show ?thesis by (simp add: doxygen_site_def)
qed

lemma site_table_found:
  assumes "(i, k, page, data, names) \<in> set site_tables"
  shows "doxygen_site (js page) = Some (data, names)"
proof -
  have "map fst doxygen_tables = map (\<lambda>(i, k, page, data, names). page) site_tables"
    by (simp add: doxygen_tables_def split_def)
  then have "distinct (map fst doxygen_tables)" using site_pages_distinct by simp
  moreover have "(page, data, names) \<in> set doxygen_tables"
    using assms by (force simp: doxygen_tables_def)
  ultimately show ?thesis by (simp add: doxygen_site_js)
qed

text \<open>A table serves its names, as they all start with the character of its page.\<close>

lemma table_serves:
  assumes "(i, k, page, data, names) \<in> set opened_tables" "n \<in> set names" "n \<noteq> misindexed"
  shows "serves doxygen_env (filter_box i) doxygen_site n"
proof -
  have ok: "table_ok i k page data names" using opened_tables_ok assms(1) by (auto simp: list_all_iff)
  then have "n \<noteq> []" "hd n = cu (of_char (section_content i ! k))"
    using assms(2,3) by (auto simp: table_ok_def list_all_iff)
  moreover have k: "i < 5" "k < length (section_content i)" "page = section_page i k" "lists_names data names"
    using ok by (simp_all add: table_ok_def)
  ultimately show ?thesis
    using site_table_found [OF opened_is_site [OF assms(1)]] assms(2) section_results_page [OF k(1,2)]
    by (simp add: serves_def doxygen_env_def filter_box_def)
qed

text \<open>The symbols a section can open.\<close>

definition opened_symbols :: "nat \<Rightarrow> jsstr list" where
  "opened_symbols i = concat (map (\<lambda>(j, k, page, data, names). if j = i then names else []) opened_tables)"

lemma opened_served: "n \<in> set (opened_symbols i) \<Longrightarrow> n \<noteq> misindexed \<Longrightarrow> serves doxygen_env (filter_box i) doxygen_site n"
  by (auto simp: opened_symbols_def split: if_splits intro: table_serves)

lemma opened_names:
  "opened_symbols 0 = concat [all_0_names, all_1_names, all_2_names, all_3_names, all_4_names, all_5_names, all_6_names, all_7_names, all_8_names, all_9_names, all_a_names, all_b_names, all_c_names, all_d_names, all_e_names, all_f_names, all_10_names, all_11_names, all_12_names, all_13_names, all_14_names, all_15_names]"
  "opened_symbols 1 = concat [classes_0_names, classes_1_names, classes_2_names, classes_3_names, classes_4_names, classes_5_names, classes_6_names, classes_7_names, classes_8_names, classes_9_names, classes_a_names, classes_b_names, classes_c_names, classes_d_names]"
  "opened_symbols 2 = concat [functions_0_names, functions_1_names, functions_2_names, functions_3_names, functions_4_names, functions_5_names, functions_6_names, functions_7_names, functions_8_names, functions_9_names, functions_a_names, functions_b_names, functions_c_names, functions_d_names, functions_e_names, functions_f_names, functions_10_names, functions_11_names, functions_12_names, functions_13_names, functions_14_names, functions_15_names]"
  "opened_symbols 3 = concat [enums_0_names]"
  "opened_symbols 4 = concat [pages_0_names]"
  by (simp_all add: opened_symbols_def opened_tables_def)

text \<open>Only one symbol of the other tables is in no table of its section that is opened.\<close>

definition unopened :: jsstr where
  "unopened = js ''value_equality''"

lemma section_symbols_opened:
  "set (section_symbols i) = set (opened_symbols i) \<union> (if i = 1 then {unopened} else {})"
proof -
  have all: "section_symbols i = opened_symbols i @
      concat (map (\<lambda>(j, k, page, data, names). if j = i then names else []) leftover_tables)"
    by (simp add: section_symbols_def opened_symbols_def site_tables_def)
  have "set classes_f_names \<subseteq> set classes_d_names" "set all_16_names \<subseteq> set all_15_names"
    by (simp_all add: classes_f_names_def classes_d_names_def all_16_names_def all_15_names_def)
  then have "set classes_f_names \<subseteq> set (opened_symbols 1)" "set all_16_names \<subseteq> set (opened_symbols 0)"
    unfolding opened_names by auto
  moreover have e: "set classes_e_names = {unopened}" by (simp add: classes_e_names_def unopened_def)
  ultimately show ?thesis unfolding all by (auto simp: leftover_tables_def e)
qed

lemma section_served:
  "n \<in> set (section_symbols i) \<Longrightarrow> n \<noteq> misindexed \<Longrightarrow> n \<noteq> unopened \<Longrightarrow>
   serves doxygen_env (filter_box i) doxygen_site n"
  by (auto simp: section_symbols_opened split: if_splits intro: opened_served)

text \<open>The section All has what the others have.\<close>

lemma all_0_merges: "set all_0_names = set (functions_0_names @ classes_0_names)"
  by (rule equalityI) (simp_all add: all_0_names_def functions_0_names_def classes_0_names_def)

lemma all_1_merges: "set all_1_names = set (functions_1_names @ classes_1_names @ pages_0_names)"
  by (rule equalityI) (simp_all add: all_1_names_def functions_1_names_def classes_1_names_def pages_0_names_def)

lemma all_2_merges: "set all_2_names = set (functions_2_names @ classes_2_names)"
  by (rule equalityI) (simp_all add: all_2_names_def functions_2_names_def classes_2_names_def)

lemma all_3_merges: "set all_3_names = set (functions_3_names)"
  by (rule equalityI) (simp_all add: all_3_names_def functions_3_names_def)

lemma all_4_merges: "set all_4_names = set (functions_4_names @ classes_3_names @ enums_0_names)"
  by (rule equalityI) (simp_all add: all_4_names_def functions_4_names_def classes_3_names_def enums_0_names_def)

lemma all_5_merges: "set all_5_names = set (functions_5_names)"
  by (rule equalityI) (simp_all add: all_5_names_def functions_5_names_def)

lemma all_6_merges: "set all_6_names = set (functions_6_names)"
  by (rule equalityI) (simp_all add: all_6_names_def functions_6_names_def)

lemma all_7_merges: "set all_7_names = set (functions_7_names @ classes_4_names)"
  by (rule equalityI) (simp_all add: all_7_names_def functions_7_names_def classes_4_names_def)

lemma all_8_merges: "set all_8_names = set (functions_8_names @ classes_5_names)"
  by (rule equalityI) (simp_all add: all_8_names_def functions_8_names_def classes_5_names_def)

lemma all_9_merges: "set all_9_names = set (functions_9_names)"
  by (rule equalityI) (simp_all add: all_9_names_def functions_9_names_def)

lemma all_a_merges: "set all_a_names = set (functions_a_names @ classes_6_names)"
  by (rule equalityI) (simp_all add: all_a_names_def functions_a_names_def classes_6_names_def)

lemma all_b_merges: "set all_b_names = set (functions_b_names @ classes_7_names)"
  by (rule equalityI) (simp_all add: all_b_names_def functions_b_names_def classes_7_names_def)

lemma all_c_merges: "set all_c_names = set (functions_c_names)"
  by (rule equalityI) (simp_all add: all_c_names_def functions_c_names_def)

lemma all_d_merges: "set all_d_names = set (functions_d_names)"
  by (rule equalityI) (simp_all add: all_d_names_def functions_d_names_def)

lemma all_e_merges: "set all_e_names = set (functions_e_names @ classes_8_names)"
  by (rule equalityI) (simp_all add: all_e_names_def functions_e_names_def classes_8_names_def)

lemma all_f_merges: "set all_f_names = set (functions_f_names @ classes_9_names)"
  by (rule equalityI) (simp_all add: all_f_names_def functions_f_names_def classes_9_names_def)

lemma all_10_merges: "set all_10_names = set (functions_10_names @ classes_a_names)"
  by (rule equalityI) (simp_all add: all_10_names_def functions_10_names_def classes_a_names_def)

lemma all_11_merges: "set all_11_names = set (functions_11_names @ classes_b_names)"
  by (rule equalityI) (simp_all add: all_11_names_def functions_11_names_def classes_b_names_def)

lemma all_12_merges: "set all_12_names = set (functions_12_names @ classes_c_names)"
  by (rule equalityI) (simp_all add: all_12_names_def functions_12_names_def classes_c_names_def)

lemma all_13_merges: "set all_13_names = set (functions_13_names)"
  by (rule equalityI) (simp_all add: all_13_names_def functions_13_names_def)

lemma all_14_merges: "set all_14_names = set (functions_14_names @ classes_d_names)"
  by (rule equalityI) (simp_all add: all_14_names_def functions_14_names_def classes_d_names_def)

lemma all_15_merges: "set all_15_names = set (functions_15_names)"
  by (rule equalityI) (simp_all add: all_15_names_def functions_15_names_def)

lemmas all_merges =
  all_0_merges all_1_merges all_2_merges all_3_merges all_4_merges all_5_merges
  all_6_merges all_7_merges all_8_merges all_9_merges all_a_merges all_b_merges
  all_c_merges all_d_merges all_e_merges all_f_merges all_10_merges all_11_merges
  all_12_merges all_13_merges all_14_merges all_15_merges

lemma all_opened_symbols: "set (opened_symbols 0) = \<Union> (set (map (\<lambda>i. set (opened_symbols i)) [1, 2, 3, 4]))"
  unfolding list.map opened_names by (simp add: all_merges) blast

lemma all_symbols:
  "insert unopened (set (section_symbols 0)) = \<Union> (set (map (\<lambda>i. set (section_symbols i)) [1, 2, 3, 4]))"
  using all_opened_symbols by (auto simp: section_symbols_opened)

text \<open>A symbol that is not in the table of its first character is not found.\<close>

lemma absent_not_served:
  assumes "(i, k, page, data, names) \<in> set opened_tables" "hd n = cu (of_char (section_content i ! k))" "n \<notin> set names"
  shows "\<not> serves doxygen_env (filter_box i) doxygen_site n"
proof -
  have "table_ok i k page data names" using opened_tables_ok assms(1) by (auto simp: list_all_iff)
  then have k: "i < 5" "k < length (section_content i)" "page = section_page i k" by (simp_all add: table_ok_def)
  show ?thesis
    using site_table_found [OF opened_is_site [OF assms(1)]] section_results_page(1) [OF k(1,2)] k(3) assms(2,3)
    by (simp add: serves_def doxygen_env_def filter_box_def)
qed

lemma misindexed_not_served:
  "\<not> serves doxygen_env (filter_box 0) doxygen_site misindexed"
  "\<not> serves doxygen_env (filter_box 2) doxygen_site misindexed"
proof -
  have tables: "(0, 16, ''search/all_10.html'', all_10, all_10_names) \<in> set opened_tables"
    "(2, 16, ''search/functions_10.html'', functions_10, functions_10_names) \<in> set opened_tables"
    by (simp_all add: opened_tables_def)
  have "misindexed \<notin> set all_10_names" "misindexed \<notin> set functions_10_names"
    by (simp_all add: misindexed_def all_10_names_def functions_10_names_def)
  then show "\<not> serves doxygen_env (filter_box 0) doxygen_site misindexed"
    "\<not> serves doxygen_env (filter_box 2) doxygen_site misindexed"
    using absent_not_served [OF tables(1)] absent_not_served [OF tables(2)]
    by (simp_all add: misindexed_def section_content_def)
qed

section \<open>Tables that no search opens\<close>

lemma results_page_cases:
  assumes "i < 5"
  shows "results_page doxygen_env (filter_box i) (index_of (index_sections_with_content ! i) [x]) \<in>
    js ` set (''search/nomatches.html'' # map (section_page i) [0..<length (section_content i)])"
proof (cases "x \<in> set (js (section_content i))")
  case True
  then obtain k where k: "k < length (section_content i)" "x = cu (of_char (section_content i ! k))"
    by (auto simp: js_def in_set_conv_nth)
  then show ?thesis using section_results_page(1) [OF assms k(1)] by auto
next
  case False
  then have "index_of (index_sections_with_content ! i) [x] = - 1"
    by (simp add: index_content [OF assms] index_of_single)
  then show ?thesis
    by (simp add: results_page_def filter_box_def doxygen_box_def new_SearchBox_def js_append [symmetric])
qed

lemma leftover_pages_unopened:
  "list_all (\<lambda>i. list_all (\<lambda>page. page \<notin>
       set (''search/nomatches.html'' # map (section_page i) [0..<length (section_content i)]))
     [''search/all_16.html'', ''search/classes_e.html'', ''search/classes_f.html'']) [0, 1, 2, 3, 4]"
  by code_simp

lemma leftover_page_unopened:
  assumes "(j, k, page, data, names) \<in> set leftover_tables" "i < 5"
  shows "results_page doxygen_env (filter_box i) (index_of (index_sections_with_content ! i) [x]) \<noteq> js page"
proof -
  have i: "i \<in> set [0, 1, 2, 3, 4]" using less_5 [OF assms(2)] by auto
  have p: "page \<in> set [''search/all_16.html'', ''search/classes_e.html'', ''search/classes_f.html'']"
    using assms(1) unfolding leftover_tables_def by auto
  have n: "page \<notin> set (''search/nomatches.html'' # map (section_page i) [0..<length (section_content i)])"
    by (rule bspec [OF bspec [OF leftover_pages_unopened [unfolded list_all_iff] i] p])
  have "js page \<notin> js ` X" if "page \<notin> X" for X using that by auto
  note absent = this [OF n]
  show ?thesis
  proof
    assume "results_page doxygen_env (filter_box i) (index_of (index_sections_with_content ! i) [x]) = js page"
    with results_page_cases [OF assms(2), of x] absent show False by (simp only:)
  qed
qed

lemma unopened_not_served:
  "\<not> serves doxygen_env (filter_box 0) doxygen_site unopened" "\<not> serves doxygen_env (filter_box 1) doxygen_site unopened"
  "unopened \<notin> set (opened_symbols 0)"
proof -
  have "(0, 19, ''search/all_13.html'', all_13, all_13_names) \<in> set opened_tables"
    by (simp add: opened_tables_def)
  moreover have n: "unopened \<notin> set all_13_names"
    by (simp add: unopened_def all_13_names_def)
  ultimately show served: "\<not> serves doxygen_env (filter_box 0) doxygen_site unopened"
    using absent_not_served [of 0 19 _ all_13 all_13_names unopened] by (simp add: unopened_def section_content_def)
  have "unopened \<noteq> misindexed" by (simp add: unopened_def misindexed_def)
  then show "unopened \<notin> set (opened_symbols 0)" using opened_served [of unopened 0] served by blast
  have "cu (of_char CHR ''v'') \<notin> set (index_sections_with_content ! 1)"
    by code_simp
  then show "\<not> serves doxygen_env (filter_box 1) doxygen_site unopened"
    by (simp add: serves_def unopened_def doxygen_env_def filter_box_def)
qed

text \<open>
  C14: Three tables of the documentation are on pages that no text and no filter opens. The symbols of
  the five sections are listed by the table of their first character, where the search looks for
  them, but for two: the conversion operator listed as \<open>string\<close> with the operators is on no page a
  text starting it opens, and \<open>value_equality\<close>, a class whose only table is one of the three, is found
  neither among the classes nor among all symbols. Apart from it, the section for all symbols has
  exactly the symbols of the other four.
\<close>

theorem documentation_is_indexed:
  "list_all (\<lambda>(j, k, page, data, names). list_all (\<lambda>i. \<forall>x. results_page doxygen_env (filter_box i)
       (index_of (index_sections_with_content ! i) [x]) \<noteq> js page) [0, 1, 2, 3, 4]) leftover_tables \<and>
   list_all (\<lambda>i. list_all (serves doxygen_env (filter_box i) doxygen_site)
       (filter (\<lambda>n. n \<noteq> misindexed \<and> n \<noteq> unopened) (section_symbols i))) [0, 1, 2, 3, 4] \<and>
   misindexed \<in> set (section_symbols 0) \<inter> set (section_symbols 2) \<and>
   \<not> serves doxygen_env (filter_box 0) doxygen_site misindexed \<and>
   \<not> serves doxygen_env (filter_box 2) doxygen_site misindexed \<and>
   unopened \<in> set (section_symbols 1) - set (section_symbols 0) \<and>
   \<not> serves doxygen_env (filter_box 0) doxygen_site unopened \<and>
   \<not> serves doxygen_env (filter_box 1) doxygen_site unopened \<and>
   insert unopened (set (section_symbols 0)) = \<Union> (set (map (\<lambda>i. set (section_symbols i)) [1, 2, 3, 4]))"
proof -
  have "misindexed \<in> set all_c_names" "misindexed \<in> set functions_c_names"
    by (simp_all add: misindexed_def all_c_names_def functions_c_names_def)
  then have "misindexed \<in> set (opened_symbols 0) \<inter> set (opened_symbols 2)"
    by (simp add: opened_names)
  moreover have "list_all (serves doxygen_env (filter_box i) doxygen_site)
      (filter (\<lambda>n. n \<noteq> misindexed \<and> n \<noteq> unopened) (section_symbols i))" for i
    using section_served by (simp add: list_all_iff)
  moreover have "list_all (\<lambda>(j, k, page, data, names). list_all (\<lambda>i. \<forall>x. results_page doxygen_env (filter_box i)
       (index_of (index_sections_with_content ! i) [x]) \<noteq> js page) [0, 1, 2, 3, 4]) leftover_tables"
    using leftover_page_unopened by (fastforce simp: list_all_iff)
  ultimately show ?thesis
    using misindexed_not_served unopened_not_served all_symbols by (simp add: section_symbols_opened)
qed

text \<open>Typing \<open>Que\<close> with the filter for classes finds the class \<open>query\<close>.\<close>

theorem search_finds_symbol_witness:
  "\<exists>w w' data names pg. ui_step doxygen_env (box_page (filter_box 1)) (EditField (js '' Que'')) = Some w \<and>
     Search doxygen_env w = Some w' \<and> doxygen_site (lastResultsPage (sb w')) = Some (data, names) \<and>
     load_results_page (\<lambda>s. s) data (location w') = Some pg \<and>
     (\<exists>r < length data. names ! r = js ''query'' \<and> style_display (rdoc pg) (rows_path @ [r]) = Some ''block'')"
proof -
  obtain w where w: "ui_step doxygen_env (box_page (filter_box 1)) (EditField (js '' Que'')) = Some w"
    and field: "doc w DOMSearchField = Some (blank_element\<lparr>el_value := js '' Que''\<rparr>)"
    and sb: "sb w = filter_box 1"
    by (simp add: put_el_def box_page_def box_document_def)
  have "box_ok doxygen_env (box_page (filter_box 1))"
    by (rule box_ok_box_page) (simp add: filter_box_def doxygen_env_def index_sections_with_content_def)
  then have ok: "box_ok doxygen_env w"
    using box.step_ok [of doxygen_env "box_page (filter_box 1)" "EditField (js '' Que'')"] w
    by (simp add: succeeds_def ui_enabled_def)
  have "js ''query'' \<in> set (opened_symbols 1)" unfolding opened_names by (simp add: classes_8_names_def)
  then have served: "serves doxygen_env (sb w) doxygen_site (js ''query'')"
    using opened_served by (simp add: sb misindexed_def js_def)
  have wanted: "wanted (\<lambda>s. s) (js '' Que'') = js ''que''" and ascii: "is_ascii (js '' Que'')"
    by code_simp+
  have "prefix (js ''que'') (js ''query'')" by (simp add: js_def)
  moreover have "plain_path (resultsPath (filter_box 1))" by code_simp
  moreover have "plain_path (section_name doxygen_env (searchIndex (filter_box 1)))" by code_simp
  ultimately show ?thesis
    using search_finds_symbol [OF ok field, where u = "\<lambda>s. s" and name = "js ''query''"
        and files = doxygen_site] served wanted ascii w
    by (simp add: sb) blast
qed

end
