(* ===== verification/Examples.thy ===== *)
theory Examples
  imports DoxygenSite
begin

text \<open>
  The properties of the results page at tables of this documentation: the enumerations
  (one row) and the classes starting with b (three rows).
\<close>

theorem typed_text_selects_rows_witness:
  "\<exists>pg. load_results_page (\<lambda>s. s) enums_0 (js ''search/enums_0.html'' @ cu 63 # escape (js ''For'')) = Some pg \<and>
     style_display (rdoc pg) (rows_path @ [0]) = Some ''block'' \<and> lastMatchCount (searchResults pg) = 1"
proof -
  have "plain_path (js ''search/enums_0.html'')" by code_simp
  from typed_text_selects_rows [OF lists_enums_0 this, of "\<lambda>s. s" "js ''For''"]
  obtain pg where pg: "load_results_page (\<lambda>s. s) enums_0 (js ''search/enums_0.html'' @ cu 63 # escape (js ''For'')) = Some pg"
    and sh: "shows_search (\<lambda>s. s) enums_0 enums_0_names (js ''For'') pg" by blast
  have "prefix (wanted (\<lambda>s. s) (js ''For'')) (js ''formats'')" by code_simp
  with sh have "style_display (rdoc pg) (rows_path @ [0]) = Some ''block''"
    "lastMatchCount (searchResults pg) = 1"
    by (simp_all add: shows_search_def enums_0_def enums_0_names_def)
  with pg show ?thesis by blast
qed

theorem search_again_replaces_witness:
  "\<exists>pg. results_Search (\<lambda>s. s) [] (js ''x'')
       \<lparr>rdoc = set_display ''block'' (rows_path @ [0]) (page_with (rows 0 enums_0)), searchResults = new_SearchResults\<rparr> = Some pg \<and>
     style_display (rdoc pg) (rows_path @ [0]) = Some ''none'' \<and> lastMatchCount (searchResults pg) = 0"
proof -
  let ?pg = "\<lparr>rdoc = set_display ''block'' (rows_path @ [0]) (page_with (rows 0 enums_0)), searchResults = new_SearchResults\<rparr>"
  have "shape (rdoc ?pg) = shape (page_with (rows 0 enums_0))" by (simp add: shape_set_display)
  from search_again_replaces [OF lists_enums_0 this, of "js ''x''" "\<lambda>s. s" "[]"]
  obtain pg where pg: "results_Search (\<lambda>s. s) [] (js ''x'') ?pg = Some pg"
    and sh: "shows_search (\<lambda>s. s) enums_0 enums_0_names (js ''x'') pg" by auto
  have "\<not> prefix (wanted (\<lambda>s. s) (js ''x'')) (js ''formats'')" by code_simp
  with sh have "style_display (rdoc pg) (rows_path @ [0]) = Some ''none''"
    "lastMatchCount (searchResults pg) = 0"
    by (simp_all add: shows_search_def enums_0_def enums_0_names_def)
  with pg show ?thesis by blast
qed

text \<open>The classes starting with b, with only the last row shown.\<close>

definition last_of_b :: dnode where
  "last_of_b = set_display ''block'' (rows_path @ [2]) (page_with (rows 0 classes_0))"

lemma page_of_last_of_b: "page_of classes_0 last_of_b"
  by (simp add: last_of_b_def) (simp add: page_of_def)

lemma length_classes_0: "length classes_0 = Suc (Suc (Suc 0))"
  by (simp add: classes_0_def)

lemma visible_last_of_b: "e < length classes_0 \<Longrightarrow> row_visible last_of_b e \<longleftrightarrow> e = 2"
proof -
  assume e: "e < length classes_0"
  then have "\<exists>a. attrs_at (page_with (rows 0 classes_0)) (rows_path @ [e]) = Some a \<and> display a = []"
    by (simp add: attrs_at_def subtree_row result_row_def setClassAttr_def createElement_def)
  then show ?thesis
    by (auto simp: last_of_b_def row_visible_def style_display_def attrs_at_set_display)
qed

theorem NavNext_finds_next_visible_witness: "NavNext last_of_b 0 = Some (Some (item_path 2))"
  using NavNext_finds_next_visible [OF page_of_last_of_b, of 0] visible_last_of_b
  by (simp add: length_classes_0 upt_rec numeral_2_eq_2)

theorem NavPrev_finds_previous_visible_witness: "NavPrev last_of_b 1 = Some None"
  using NavPrev_finds_previous_visible [OF page_of_last_of_b, of 1] visible_last_of_b
  by (simp add: length_classes_0 upt_rec)

definition key :: "string \<Rightarrow> key_event" where
  "key kind = \<lparr>ev_type = kind, keyCode = 40, shiftKey = False\<rparr>"

theorem key_stroke_protocol_witness:
  "process_all [key ''keydown'', key ''keypress'', key ''keypress'', key ''keyup''] new_SearchResults =
     ([True, False, True, False], new_SearchResults)"
  using key_stroke_protocol [of "key ''keydown''" "[key ''keypress'', key ''keypress'']" "key ''keyup''" new_SearchResults]
  by (simp add: key_def is_keypress_def new_SearchResults_def)

theorem inner_space_is_always_new_witness:
  "\<exists>w w' w''. ui_step doxygen_env (box_page doxygen_box) (EditField (js ''a b'')) = Some w \<and>
     Search doxygen_env w = Some w' \<and> OnSearchFieldChange doxygen_env (key_up 37) w' = Some w'' \<and>
     scheduled w'' = scheduled w' @ [keyTimeout (sb w'')]"
proof -
  obtain w field where w: "ui_step doxygen_env (box_page doxygen_box) (EditField (js ''a b'')) = Some w"
    and field: "doc w DOMSearchField = Some field" "el_value field = js ''a b''"
    by (simp add: put_el_def box_page_def box_document_def)
  have "box_ok doxygen_env w"
    using box.step_ok [OF box_ok_doxygen, of "EditField (js ''a b'')"] w
    by (simp add: succeeds_def ui_enabled_def)
  then obtain w' where w': "Search doxygen_env w = Some w'"
    using Search_safe [of doxygen_env w "\<lambda>w. True"] by (auto simp: succeeds_def)
  have "strip_all (js ''a b'') \<noteq> strip_leading (js ''a b'')" "strip_all (js ''a b'') \<noteq> []"
    by code_simp+
  from inner_space_is_always_new [OF w' field(1), unfolded field(2), OF this, of "key_up 37"] w w'
  show ?thesis by (auto simp: key_up_def)
qed

theorem Search_opens_indexed_page_witness:
  "\<exists>w w'. ui_step doxygen_env (box_page doxygen_box) (EditField (js '' Que'')) = Some w \<and>
     Search doxygen_env w = Some w' \<and> window_open w' \<and>
     location w' = results_page doxygen_env doxygen_box 14 @ cu 63 # escape (js ''Que'')"
proof -
  obtain w where w: "ui_step doxygen_env (box_page doxygen_box) (EditField (js '' Que'')) = Some w"
    and field: "doc w DOMSearchField = Some (blank_element\<lparr>el_value := js '' Que''\<rparr>)"
    and sb: "sb w = doxygen_box"
    by (simp add: put_el_def box_page_def box_document_def)
  have ok: "box_ok doxygen_env w"
    using box.step_ok [OF box_ok_doxygen, of "EditField (js '' Que'')"] w
    by (simp add: succeeds_def ui_enabled_def)
  have "js ''Que'' = cu 81 # js ''ue''" "is_ascii (cu 81 # js ''ue'')"
    "js ''Que'' = strip_leading (js '' Que'')"
    "14 = index_of (indexSectionsWithContent doxygen_env ! searchIndex doxygen_box) [lower_cu (cu 81)]"
    by code_simp+
  then have "js ''Que'' = strip_leading (js '' Que'')"
    "14 = index_of (indexSectionsWithContent doxygen_env ! searchIndex doxygen_box)
       (search_idx_char doxygen_env (js ''Que''))"
    by (simp_all add: search_idx_char_ascii)
  from Search_opens_indexed_page [OF ok field, of "js ''Que''" 14] this sb w
  show ?thesis by auto
qed

end
