(* ===== verification/FrameKeys.thy ===== *)
theory FrameKeys
  imports SearchBoxProps
begin

text \<open>
  The keyboard in the results frame: \<open>SearchResults.Nav\<close> on the link of a row and
  \<open>SearchResults.NavChild\<close> on a member of a row. The handlers run in the frame, move the focus
  there or back to the search field, fold and unfold the members of a row, and on Escape call
  the search box of the page around the frame.
\<close>

section \<open>Targets in the document\<close>

text \<open>\<open>item.parentNode.parentNode.id\<close>\<close>

definition row_id_of :: "dnode \<Rightarrow> path \<Rightarrow> jsstr option" where
  "row_id_of d item = do {
     q \<leftarrow> parentNode item;
     r \<leftarrow> parentNode q;
     map_option node_id (attrs_at d r)
   }"

definition members_of :: "dnode \<Rightarrow> path \<Rightarrow> path option option" where
  "members_of d item = do {
     x \<leftarrow> row_id_of d item;
     FindChildElement d x
   }"

text \<open>The search for the last child; \<open>None\<close> would be an endless loop.\<close>

partial_function (option) last_child :: "dnode \<Rightarrow> int \<Rightarrow> int \<Rightarrow> path \<Rightarrow> path option" where
  "last_child d newIndex n focusItem =
     (case getElementById d (item_child_id newIndex n) of
        None \<Rightarrow> Some focusItem
      | Some tmpElem \<Rightarrow> last_child d newIndex (n + 1) tmpElem)"

declare last_child.simps [code]

definition is_open :: "dnode \<Rightarrow> path option \<Rightarrow> bool" where
  "is_open d c = (case c of None \<Rightarrow> False | Some p \<Rightarrow> style_display d p = Some ''block'')"

definition up_target :: "dnode \<Rightarrow> int \<Rightarrow> path option option" where
  "up_target d itemIndex = do {
     found \<leftarrow> NavPrev d (itemIndex - 1);
     case found of
       None \<Rightarrow> Some None
     | Some focusItem \<Rightarrow> do {
         child \<leftarrow> members_of d focusItem;
         if is_open d child then map_option Some (last_child d (itemIndex - 1) 0 focusItem)
         else Some (Some focusItem)
       }
   }"

definition down_target :: "dnode \<Rightarrow> int \<Rightarrow> path option option" where
  "down_target d itemIndex = do {
     item \<leftarrow> getElementById d (item_id itemIndex);
     elem \<leftarrow> members_of d item;
     case (if is_open d elem then getElementById d (item_child_id itemIndex 0) else None) of
       None \<Rightarrow> NavNext d (itemIndex + 1)
     | Some focusItem \<Rightarrow> Some (Some focusItem)
   }"

definition up_from_member :: "dnode \<Rightarrow> int \<Rightarrow> int \<Rightarrow> path option" where
  "up_from_member d itemIndex childIndex =
     getElementById d (if childIndex > 0 then item_child_id itemIndex (childIndex - 1) else item_id itemIndex)"

definition down_from_member :: "dnode \<Rightarrow> int \<Rightarrow> int \<Rightarrow> path option option" where
  "down_from_member d itemIndex childIndex =
     (case getElementById d (item_child_id itemIndex (childIndex + 1)) of
        None \<Rightarrow> NavNext d (itemIndex + 1)
      | Some elem \<Rightarrow> Some (Some elem))"

definition fold_members :: "string \<Rightarrow> int \<Rightarrow> dnode \<Rightarrow> dnode option" where
  "fold_members v itemIndex d = do {
     item \<leftarrow> getElementById d (item_id itemIndex);
     elem \<leftarrow> members_of d item;
     Some (case elem of None \<Rightarrow> d | Some p \<Rightarrow> set_display v p d)
   }"

section \<open>The handlers\<close>

text \<open>The frame after \<open>ProcessKeys\<close>, and its document after folding.\<close>

definition focus_search_field :: "world \<Rightarrow> (bool \<times> world) option" where
  "focus_search_field w = map_option (Pair False) (focus_field w)"

definition focus_item :: "path option \<Rightarrow> world \<Rightarrow> (bool \<times> world) option" where
  "focus_item p w =
     (case p of
        None \<Rightarrow> Some (False, w)
      | Some q \<Rightarrow> map_option (Pair False) (focus_other (FocusResult q) w))"

definition leave_results :: "world \<Rightarrow> (bool \<times> world) option" where
  "leave_results w = do {
     w1 \<leftarrow> CloseResultsWindow w;
     focus_search_field w1
   }"

definition Nav :: "key_event \<Rightarrow> int \<Rightarrow> world \<Rightarrow> (bool \<times> world) option" where
  "Nav ev itemIndex w =
     (if keyCode ev = 13 then Some (True, w)
      else do {
        pg \<leftarrow> frame w;
        let (go, sr) = ProcessKeys ev (searchResults pg);
        let w1 = w\<lparr>frame := Some (pg\<lparr>searchResults := sr\<rparr>)\<rparr>;
        if \<not> go then Some (False, w1)
        else if lastKey sr = 38 then do {
          target \<leftarrow> up_target (rdoc pg) itemIndex;
          if target = None then focus_search_field w1 else focus_item target w1
        }
        else if lastKey sr = 40 then do {
          target \<leftarrow> down_target (rdoc pg) itemIndex;
          focus_item target w1
        }
        else if lastKey sr = 39 then do {
          d \<leftarrow> fold_members ''block'' itemIndex (rdoc pg);
          Some (False, w1\<lparr>frame := Some (pg\<lparr>searchResults := sr, rdoc := d\<rparr>)\<rparr>)
        }
        else if lastKey sr = 37 then do {
          d \<leftarrow> fold_members ''none'' itemIndex (rdoc pg);
          Some (False, w1\<lparr>frame := Some (pg\<lparr>searchResults := sr, rdoc := d\<rparr>)\<rparr>)
        }
        else if lastKey sr = 27 then leave_results w1
        else if lastKey sr = 13 then Some (True, w1)
        else Some (False, w1)
      })"

definition NavChild :: "key_event \<Rightarrow> int \<Rightarrow> int \<Rightarrow> world \<Rightarrow> (bool \<times> world) option" where
  "NavChild ev itemIndex childIndex w =
     (if keyCode ev = 13 then Some (True, w)
      else do {
        pg \<leftarrow> frame w;
        let (go, sr) = ProcessKeys ev (searchResults pg);
        let w1 = w\<lparr>frame := Some (pg\<lparr>searchResults := sr\<rparr>)\<rparr>;
        if \<not> go then Some (False, w1)
        else if lastKey sr = 38 then do {
          target \<leftarrow> up_from_member (rdoc pg) itemIndex childIndex;
          focus_item (Some target) w1
        }
        else if lastKey sr = 40 then do {
          target \<leftarrow> down_from_member (rdoc pg) itemIndex childIndex;
          focus_item target w1
        }
        else if lastKey sr = 27 then leave_results w1
        else if lastKey sr = 13 then Some (True, w1)
        else Some (False, w1)
      })"

text \<open>The link of a row with several members toggles them.\<close>

definition toggle_row :: "jsstr \<Rightarrow> world \<Rightarrow> world option" where
  "toggle_row x w = do {
     pg \<leftarrow> frame w;
     d \<leftarrow> Toggle x (rdoc pg);
     Some (w\<lparr>frame := Some (pg\<lparr>rdoc := d\<rparr>)\<rparr>)
   }"

section \<open>On a result page\<close>

definition members_path :: "nat \<Rightarrow> path" where
  "members_path e = rows_path @ [e, 0, 1]"

definition child_path :: "nat \<Rightarrow> nat \<Rightarrow> path" where
  "child_path e c = rows_path @ [e, 0, 1, c]"

text \<open>A row is unfolded when it has a list of members and the list is shown.\<close>

definition row_open :: "entry list \<Rightarrow> dnode \<Rightarrow> nat \<Rightarrow> bool" where
  "row_open data d e =
     (length (ent_links (data ! e)) \<noteq> 1 \<and> style_display d (members_path e) = Some ''block'')"

lemma members_of_item:
  assumes page: "page_of data d" and e: "e < length data" and dist: "distinct (map ent_id data)"
  shows "members_of d (item_path e) =
    Some (if length (ent_links (data ! e)) = 1 then None else Some (members_path e))"
proof -
  obtain a where "attrs_at (page_with (rows 0 data)) (rows_path @ [e]) = Some a"
    "node_id a = row_id (ent_id (data ! e))"
    using attrs_row [OF e] by blast
  then obtain b where "attrs_at d (rows_path @ [e]) = Some b" "node_id b = row_id (ent_id (data ! e))"
    using attrs_at_same_shape page page_of_def by metis
  then have "row_id_of d (item_path e) = Some (row_id (ent_id (data ! e)))"
    by (simp add: row_id_of_def parentNode_def item_path_def butlast_append)
  moreover have "FindChildElement d x = FindChildElement (page_with (rows 0 data)) x" for x
    using page by (intro FindChildElement_shape) (simp add: page_of_def)
  ultimately show ?thesis
    using FindChildElement_row [OF e dist] by (simp add: members_of_def members_path_def)
qed

lemma is_open_members:
  assumes "page_of data d" "e < length data" "distinct (map ent_id data)"
  shows "\<exists>m. members_of d (item_path e) = Some m \<and> (is_open d m \<longleftrightarrow> row_open data d e)"
  using members_of_item [OF assms] by (auto simp: is_open_def row_open_def)

lemma child_lookup:
  "page_of data d \<Longrightarrow> e < length data \<Longrightarrow>
   getElementById d (item_child_id (int e) (int c)) =
     (if c < members (data ! e) then Some (child_path e c) else None)"
  using page_item_child [of data d e "int c"] by (simp add: child_path_def)

lemma last_child_page:
  assumes page: "page_of data d" and e: "e < length data"
  shows "last_child d (int e) (int k) p =
    Some (if k < members (data ! e) then child_path e (members (data ! e) - 1) else p)"
proof (induction "members (data ! e) - k" arbitrary: k p)
  case 0
  then show ?case using child_lookup [OF page e, of k] by (subst last_child.simps) simp
next
  case (Suc n)
  then have k: "k < members (data ! e)" by simp
  then have "last_child d (int e) (int k) p = last_child d (int e) (int (Suc k)) (child_path e k)"
    using child_lookup [OF page e, of k] by (subst last_child.simps) (simp add: add.commute)
  also have "\<dots> = Some (child_path e (members (data ! e) - 1))"
  proof (cases "Suc k < members (data ! e)")
    case True
    have "n = members (data ! e) - Suc k" using Suc.hyps(2) by simp
    from Suc.hyps(1) [OF this] True show ?thesis by simp
  next
    case False
    then have "k = members (data ! e) - 1" using k by simp
    then show ?thesis
      using Suc.hyps(1) [of "Suc k" "child_path e k"] Suc.hyps(2) False by simp
  qed
  finally show ?case using k by simp
qed

section \<open>The order of the stops\<close>

text \<open>
  What the arrow keys should walk: the links of the visible rows in order, each followed by its
  members when it is unfolded.
\<close>

definition row_stops :: "entry list \<Rightarrow> dnode \<Rightarrow> nat \<Rightarrow> path list" where
  "row_stops data d e =
     item_path e # (if row_open data d e then map (child_path e) [0..<members (data ! e)] else [])"

definition stops_in :: "entry list \<Rightarrow> dnode \<Rightarrow> nat list \<Rightarrow> path list" where
  "stops_in data d es = concat (map (row_stops data d) (filter (row_visible d) es))"

definition stops :: "entry list \<Rightarrow> dnode \<Rightarrow> path list" where
  "stops data d = stops_in data d [0..<length data]"

definition first :: "'a list \<Rightarrow> 'a option" where
  "first xs = (case xs of [] \<Rightarrow> None | x # _ \<Rightarrow> Some x)"

fun next_after :: "'a \<Rightarrow> 'a list \<Rightarrow> 'a option" where
  "next_after p [] = None"
| "next_after p (x # xs) = (if x = p then first xs else next_after p xs)"

lemma first_simps [simp]: "first [] = None" "first (x # xs) = Some x"
  by (simp_all add: first_def)

lemma first_append: "first (xs @ ys) = (if xs = [] then first ys else first xs)"
  by (cases xs) auto

lemma first_rev_map_upt: "0 < n \<Longrightarrow> first (rev (map f [0..<n])) = Some (f (n - 1))"
  by (cases n) auto

lemma next_after_append: "p \<notin> set xs \<Longrightarrow> next_after p (xs @ p # ys) = first ys"
  by (induction xs) auto

lemma next_after_rev: "p \<notin> set ys \<Longrightarrow> next_after p (rev (xs @ p # ys)) = first (rev xs)"
  using next_after_append [of p "rev ys" "rev xs"] by simp

lemma path_simps [simp]:
  "item_path e = item_path f \<longleftrightarrow> e = f" "child_path e c = child_path f c' \<longleftrightarrow> e = f \<and> c = c'"
  "item_path e \<noteq> child_path f c" "child_path f c \<noteq> item_path e"
  by (simp_all add: item_path_def child_path_def)

lemma row_stops_nonempty [simp]: "row_stops data d e \<noteq> []"
  by (simp add: row_stops_def)

lemma stops_in_append: "stops_in data d (xs @ ys) = stops_in data d xs @ stops_in data d ys"
  by (simp add: stops_in_def)

lemma stops_in_Cons:
  "stops_in data d (e # es) = (if row_visible d e then row_stops data d e else []) @ stops_in data d es"
  by (simp add: stops_in_def)

lemma first_stops_in: "first (stops_in data d es) = map_option item_path (find (row_visible d) es)"
  by (induction es) (auto simp: stops_in_Cons first_append, auto simp: row_stops_def stops_in_def)

lemma stops_in_mem:
  "p \<in> set (stops_in data d es) \<Longrightarrow> \<exists>e \<in> set es. p = item_path e \<or> (\<exists>c. p = child_path e c)"
  by (auto simp: stops_in_def row_stops_def split: if_splits)

lemma not_in_stops:
  "e \<notin> set es \<Longrightarrow> item_path e \<notin> set (stops_in data d es)"
  "e \<notin> set es \<Longrightarrow> child_path e c \<notin> set (stops_in data d es)"
  using stops_in_mem by fastforce+

lemma stops_split:
  assumes "e < length data"
  shows "stops data d =
    stops_in data d [0..<e] @ (if row_visible d e then row_stops data d e else []) @
    stops_in data d [Suc e..<length data]"
proof -
  have "[0..<length data] = [0..<e] @ e # [Suc e..<length data]"
    using assms by (metis append_Nil le_add1 less_imp_Suc_add upt_add_eq_append upt_conv_Cons
        zero_less_iff_neq_zero le0 upt_rec less_imp_le_nat le_add_diff_inverse)
  then show ?thesis by (simp add: stops_def stops_in_append stops_in_Cons)
qed

section \<open>The arrow keys\<close>

lemma down_page:
  assumes page: "page_of data d" "e < length data" "distinct (map ent_id data)"
  shows "down_target d (int e) =
    Some (if row_open data d e \<and> 0 < members (data ! e) then Some (child_path e 0)
          else map_option item_path (find (row_visible d) [Suc e..<length data]))"
proof -
  obtain m where m: "members_of d (item_path e) = Some m" "is_open d m \<longleftrightarrow> row_open data d e"
    using is_open_members [OF page] by blast
  have "NavNext d (int e + 1) = Some (map_option item_path (find (row_visible d) [Suc e..<length data]))"
    using NavNext_find [OF page(1), of "Suc e"] page(2) by (simp add: add.commute)
  then show ?thesis
    using m page child_lookup [OF page(1,2), of 0]
    by (simp add: down_target_def page_item split: option.split)
qed

lemma down_next:
  assumes page: "page_of data d" "e < length data" "distinct (map ent_id data)"
    and vis: "row_visible d e"
  shows "down_target d (int e) = Some (next_after (item_path e) (stops data d))"
proof -
  let ?members = "if row_open data d e then map (child_path e) [0..<members (data ! e)] else []"
  have "next_after (item_path e) (stops data d) =
      first (?members @ stops_in data d [Suc e..<length data])"
    using next_after_append [OF not_in_stops(1) [of e "[0..<e]" data d]] vis page(2)
    by (simp add: stops_split row_stops_def)
  then show ?thesis
    using down_page [OF page] by (auto simp: first_append first_stops_in upt_conv_Cons)
qed

lemma child_stops:
  assumes "e < length data" "row_visible d e" "row_open data d e" "c < members (data ! e)"
  shows "stops data d =
    (stops_in data d [0..<e] @ item_path e # map (child_path e) [0..<c]) @ child_path e c #
    map (child_path e) [Suc c..<members (data ! e)] @ stops_in data d [Suc e..<length data]"
proof -
  have "[0..<members (data ! e)] = [0..<c] @ c # [Suc c..<members (data ! e)]"
    using assms(4) upt_add_eq_append [of 0 c "members (data ! e) - c"] by (simp add: upt_conv_Cons)
  then show ?thesis using assms by (simp add: stops_split row_stops_def)
qed

lemma child_down_next:
  assumes page: "page_of data d" "e < length data"
    and row: "row_visible d e" "row_open data d e" "c < members (data ! e)"
  shows "down_from_member d (int e) (int c) = Some (next_after (child_path e c) (stops data d))"
proof -
  have "child_path e c \<notin> set (stops_in data d [0..<e] @ item_path e # map (child_path e) [0..<c])"
    by (auto simp: not_in_stops)
  from next_after_append [OF this] have "next_after (child_path e c) (stops data d) =
      first (map (child_path e) [Suc c..<members (data ! e)] @ stops_in data d [Suc e..<length data])"
    by (simp add: child_stops [OF page(2) row])
  moreover have "NavNext d (int e + 1) = Some (map_option item_path (find (row_visible d) [Suc e..<length data]))"
    using NavNext_find [OF page(1), of "Suc e"] page(2) by (simp add: add.commute)
  moreover have "getElementById d (item_child_id (int e) (int c + 1)) =
      (if Suc c < members (data ! e) then Some (child_path e (Suc c)) else None)"
    using child_lookup [OF page, of "Suc c"] by (simp add: add.commute)
  ultimately show ?thesis
    by (auto simp: down_from_member_def first_append first_stops_in upt_conv_Cons)
qed

lemma child_up_previous:
  assumes page: "page_of data d" "e < length data"
    and row: "row_visible d e" "row_open data d e" "c < members (data ! e)"
  shows "up_from_member d (int e) (int c) = next_after (child_path e c) (rev (stops data d))"
proof -
  have "child_path e c \<notin> set (map (child_path e) [Suc c..<members (data ! e)] @ stops_in data d [Suc e..<length data])"
    by (auto simp: not_in_stops)
  from next_after_rev [OF this, of "stops_in data d [0..<e] @ item_path e # map (child_path e) [0..<c]"]
  have "next_after (child_path e c) (rev (stops data d)) =
      first (rev (map (child_path e) [0..<c]) @ item_path e # rev (stops_in data d [0..<e]))"
    by (simp add: child_stops [OF page(2) row])
  moreover have "getElementById d (item_child_id (int e) (int c - 1)) = Some (child_path e (c - 1))" if "0 < c"
    using child_lookup [OF page, of "c - 1"] row(3) that by (simp add: of_nat_diff)
  ultimately show ?thesis
    using page by (cases c) (simp_all add: up_from_member_def page_item)
qed

lemma from_member_page:
  assumes page: "page_of data d" "e < length data" "c < members (data ! e)"
  shows "\<exists>u t. up_from_member d (int e) (int c) = Some u \<and> down_from_member d (int e) (int c) = Some t"
proof -
  have "up_from_member d (int e) (int c) \<noteq> None"
    using child_lookup [OF page(1,2), of "c - 1"] page_item [OF page(1), of "int e"] page(2,3)
    by (cases "0 < c") (auto simp: up_from_member_def of_nat_diff)
  moreover have "down_from_member d (int e) (int c) \<noteq> None"
    using NavNext_find [OF page(1), of "Suc e"] page(2)
    by (auto simp: down_from_member_def add.commute split: option.split)
  ultimately show ?thesis by auto
qed

lemma up_page:
  assumes page: "page_of data d" "distinct (map ent_id data)" and e: "e < length data"
  shows "up_target d (int e) =
    Some (case find (row_visible d) (rev [0..<e]) of
            None \<Rightarrow> None
          | Some j \<Rightarrow> Some (if row_open data d j \<and> 0 < members (data ! (e - 1))
                           then child_path (e - 1) (members (data ! (e - 1)) - 1) else item_path j))"
proof (cases "find (row_visible d) (rev [0..<e])")
  case None
  then show ?thesis using NavPrev_find [OF page(1), of e] e by (simp add: up_target_def)
next
  case (Some j)
  then have j: "j < length data" "0 < e" using e by (auto simp: find_Some_iff in_set_conv_nth rev_nth)
  obtain m where m: "members_of d (item_path j) = Some m" "is_open d m \<longleftrightarrow> row_open data d j"
    using is_open_members [OF page(1) j(1) page(2)] by blast
  have "last_child d (int e - 1) 0 p = Some (if 0 < members (data ! (e - 1))
      then child_path (e - 1) (members (data ! (e - 1)) - 1) else p)" for p
    using last_child_page [OF page(1), of "e - 1" 0] e j(2) by (simp add: of_nat_diff)
  then show ?thesis
    using NavPrev_find [OF page(1), of e] e Some m by (simp add: up_target_def)
qed

lemma up_previous:
  assumes page: "page_of data d" "distinct (map ent_id data)" and e: "e < length data"
    and vis: "row_visible d e" and above: "e = 0 \<or> row_visible d (e - 1)"
  shows "up_target d (int e) = Some (next_after (item_path e) (rev (stops data d)))"
proof -
  let ?members = "\<lambda>e. if row_open data d e then map (child_path e) [0..<members (data ! e)] else []"
  have notin: "item_path e \<notin> set (?members e @ stops_in data d [Suc e..<length data])"
    by (simp add: not_in_stops) auto
  have prev: "next_after (item_path e) (rev (stops data d)) = first (rev (stops_in data d [0..<e]))"
    using next_after_rev [OF notin, of "stops_in data d [0..<e]"] vis e
    by (simp add: stops_split row_stops_def)
  show ?thesis
  proof (cases e)
    case 0
    then show ?thesis using up_page [OF page e] prev by (simp add: stops_in_def)
  next
    case (Suc j)
    then have "row_visible d j" using above by simp
    then have "stops_in data d [0..<e] = stops_in data d [0..<j] @ item_path j # ?members j"
      using Suc by (simp add: stops_in_append) (simp add: stops_in_def row_stops_def)
    then show ?thesis
      using up_page [OF page e] prev Suc \<open>row_visible d j\<close>
      by (auto simp: first_append first_rev_map_upt)
  qed
qed

section \<open>The handlers on a key stroke\<close>

definition key_down :: "int \<Rightarrow> key_event" where
  "key_down code = \<lparr>ev_type = ''keydown'', keyCode = code, shiftKey = False\<rparr>"

text \<open>The page once the frame has seen the key go down.\<close>

definition key_seen :: "int \<Rightarrow> rpage \<Rightarrow> world \<Rightarrow> world" where
  "key_seen code pg w =
     w\<lparr>frame := Some (pg\<lparr>searchResults := (searchResults pg)\<lparr>repeatOn := False, lastKey := code\<rparr>\<rparr>)\<rparr>"

lemma Nav_keydown:
  assumes "frame w = Some pg"
  shows "Nav (key_down 40) i w = Option.bind (down_target (rdoc pg) i) (\<lambda>t. focus_item t (key_seen 40 pg w))"
    and "Nav (key_down 38) i w = Option.bind (up_target (rdoc pg) i)
      (\<lambda>t. if t = None then focus_search_field (key_seen 38 pg w) else focus_item t (key_seen 38 pg w))"
    and "Nav (key_down 27) i w = leave_results (key_seen 27 pg w)"
  unfolding key_seen_def
  using assms by (simp_all add: Nav_def key_down_def ProcessKeys_def Let_def)

text \<open>
  C11: The Down key walks the stops of the results page in reading order: from a visible row it
  goes to its first member when the row is unfolded, else to the next visible row, and it stays
  when there is no further stop. It is the same walk from a member.
\<close>

theorem down_key_walks_stops:
  assumes "frame w = Some pg" and "page_of data (rdoc pg)" and "distinct (map ent_id data)"
    and "e < length data" and "row_visible (rdoc pg) e"
  shows "Nav (key_down 40) (int e) w =
    focus_item (next_after (item_path e) (stops data (rdoc pg))) (key_seen 40 pg w)"
  using Nav_keydown(1) [OF assms(1)] down_next [OF assms(2,4,3,5)] by simp

theorem member_keys_walk_stops:
  assumes "frame w = Some pg" and "page_of data (rdoc pg)" and "e < length data"
    and "row_visible (rdoc pg) e" and "row_open data (rdoc pg) e" and "c < members (data ! e)"
  shows "NavChild (key_down 40) (int e) (int c) w =
      focus_item (next_after (child_path e c) (stops data (rdoc pg))) (key_seen 40 pg w) \<and>
    (\<exists>p. next_after (child_path e c) (rev (stops data (rdoc pg))) = Some p \<and>
      NavChild (key_down 38) (int e) (int c) w = focus_item (Some p) (key_seen 38 pg w))"
proof
  note down = child_down_next [OF assms(2-6)] and up = child_up_previous [OF assms(2-6)]
  show "NavChild (key_down 40) (int e) (int c) w =
      focus_item (next_after (child_path e c) (stops data (rdoc pg))) (key_seen 40 pg w)"
    using assms(1) down by (simp add: NavChild_def key_down_def ProcessKeys_def Let_def key_seen_def)
  have "next_after (child_path e c) (rev (stops data (rdoc pg))) \<noteq> None"
    using from_member_page [OF assms(2,3,6)] up by auto
  then obtain p where p: "next_after (child_path e c) (rev (stops data (rdoc pg))) = Some p" by blast
  then show "\<exists>p. next_after (child_path e c) (rev (stops data (rdoc pg))) = Some p \<and>
      NavChild (key_down 38) (int e) (int c) w = focus_item (Some p) (key_seen 38 pg w)"
    using assms(1) up by (simp add: NavChild_def key_down_def ProcessKeys_def Let_def key_seen_def)
qed

text \<open>
  C6: The Up key walks the stops backwards, to the search field from the first one, as long as the
  row just above is visible.
\<close>

theorem up_key_walks_back:
  assumes "frame w = Some pg" and "page_of data (rdoc pg)" and "distinct (map ent_id data)"
    and "e < length data" and "row_visible (rdoc pg) e" and "e = 0 \<or> row_visible (rdoc pg) (e - 1)"
  shows "Nav (key_down 38) (int e) w =
    (case next_after (item_path e) (rev (stops data (rdoc pg))) of
       None \<Rightarrow> focus_search_field (key_seen 38 pg w)
     | Some p \<Rightarrow> focus_item (Some p) (key_seen 38 pg w))"
  using Nav_keydown(2) [OF assms(1)] up_previous [OF assms(2,3,4,5,6)]
  by (simp split: option.split)

text \<open>
  Above a gap the walk is wrong. When rows between are hidden and the previous visible row is
  unfolded, Up looks for the last member of the row just above the focus, which is hidden: it
  moves to a member of that hidden row when there is one, and otherwise to the link of the
  visible row, past all its members.
\<close>

theorem up_key_over_hidden_rows:
  assumes "frame w = Some pg" and "page_of data (rdoc pg)" and "distinct (map ent_id data)"
    and "e < length data" and "find (row_visible (rdoc pg)) (rev [0..<e]) = Some j" and "Suc j < e"
    and "row_open data (rdoc pg) j"
  shows "Nav (key_down 38) (int e) w =
      focus_item (Some (if 0 < members (data ! (e - 1)) then child_path (e - 1) (members (data ! (e - 1)) - 1)
                        else item_path j)) (key_seen 38 pg w) \<and>
    row_visible (rdoc pg) (e - 1) = False"
proof -
  have "row_visible (rdoc pg) (e - 1) = False"
  proof (rule ccontr)
    assume "row_visible (rdoc pg) (e - 1) \<noteq> False"
    moreover have "rev [0..<e] = (e - 1) # rev [0..<e - 1]" using assms(6) by (cases e) auto
    ultimately show False using assms(5,6) by simp
  qed
  then show ?thesis
    using Nav_keydown(2) [OF assms(1)] up_page [OF assms(2,3,4)] assms(5,7) by simp
qed

section \<open>Folding\<close>

lemma members_path_mem:
  assumes page: "page_of data d" "e < length data" and links: "length (ent_links (data ! e)) \<noteq> 1"
  shows "style_display d (members_path e) \<noteq> None"
proof -
  have "attrs_at (page_with (rows 0 data)) (members_path e) \<noteq> None"
    using subtree_rows [of e "rows 0 data" "[0, 1]"] page(2) links
    by (simp add: attrs_at_def members_path_def result_row_def result_entry_multi)
  then obtain a where "attrs_at (page_with (rows 0 data)) (members_path e) = Some a" by blast
  then obtain b where "attrs_at d (members_path e) = Some b"
    using attrs_at_same_shape page(1) page_of_def by metis
  then show ?thesis by (simp add: style_display_def members_path_def)
qed

lemma fold_members_page:
  assumes "page_of data d" "e < length data" "distinct (map ent_id data)"
  shows "fold_members v (int e) d =
    Some (if length (ent_links (data ! e)) = 1 then d else set_display v (members_path e) d)"
  using assms members_of_item [OF assms] by (simp add: fold_members_def page_item)

lemma Toggle_page:
  assumes page: "page_of data d" "e < length data" "distinct (map ent_id data)"
  shows "Toggle (row_id (ent_id (data ! e))) d =
    Some (if length (ent_links (data ! e)) = 1 then d
          else set_display (if row_open data d e then ''none'' else ''block'') (members_path e) d)"
proof -
  have "FindChildElement d x = FindChildElement (page_with (rows 0 data)) x" for x
    using page(1) by (intro FindChildElement_shape) (simp add: page_of_def)
  then show ?thesis
    using FindChildElement_row [OF page(2,3)] by (simp add: Toggle_def row_open_def members_path_def)
qed

lemma folding_effect:
  assumes "page_of data d" "e < length data" "length (ent_links (data ! e)) \<noteq> 1"
  shows "row_open data (set_display v (members_path e) d) f =
      (if f = e then v = ''block'' else row_open data d f)"
    and "row_visible (set_display v (members_path e) d) f = row_visible d f"
  using members_path_mem [OF assms] assms(3)
  by (auto simp: row_open_def row_visible_def members_path_def)

text \<open>
  Right unfolds the row under the focus, Left folds it and a click on its link toggles it; each
  of them changes the state of that row only, and none changes which rows are shown. A row with
  one link has nothing to fold and stays as it is.
\<close>

theorem folding_changes_one_row:
  assumes "page_of data d" and "e < length data" and "distinct (map ent_id data)"
  shows "\<exists>d1 d2 d3. fold_members ''block'' (int e) d = Some d1 \<and> fold_members ''none'' (int e) d = Some d2 \<and>
    Toggle (row_id (ent_id (data ! e))) d = Some d3 \<and>
    row_visible d1 = row_visible d \<and> row_visible d2 = row_visible d \<and> row_visible d3 = row_visible d \<and>
    row_open data d1 = (row_open data d)(e := length (ent_links (data ! e)) \<noteq> 1) \<and>
    row_open data d2 = (row_open data d)(e := False) \<and>
    row_open data d3 = (row_open data d)(e := length (ent_links (data ! e)) \<noteq> 1 \<and> \<not> row_open data d e)"
proof (cases "length (ent_links (data ! e)) = 1")
  case True
  then have "row_open data d e = False" by (simp add: row_open_def)
  then show ?thesis
    using True fold_members_page [OF assms] Toggle_page [OF assms] by (auto simp: fun_eq_iff)
next
  case False
  show ?thesis
    using False fold_members_page [OF assms] Toggle_page [OF assms] folding_effect [OF assms(1,2) False]
    by (auto simp: fun_eq_iff)
qed

section \<open>Where the page and its frame can raise\<close>

text \<open>The events of the frame, besides those of the search box.\<close>

datatype frame_event =
    ItemKey key_event nat
  | MemberKey key_event nat nat
  | RowClick jsstr

fun frame_step :: "world \<Rightarrow> frame_event \<Rightarrow> world option" where
  "frame_step w (ItemKey k e) = map_option snd (Nav k (int e) w)"
| "frame_step w (MemberKey k e c) = map_option snd (NavChild k (int e) (int c) w)"
| "frame_step w (RowClick x) = toggle_row x w"

fun site_step :: "env \<Rightarrow> world \<Rightarrow> ui_event + frame_event \<Rightarrow> world option" where
  "site_step e w (Inl ev) = ui_step e w ev"
| "site_step e w (Inr ev) = frame_step w ev"

text \<open>The handlers run on the rows and members the page was built with.\<close>

definition frame_enabled :: "world \<Rightarrow> frame_event \<Rightarrow> bool" where
  "frame_enabled w ev =
     (\<exists>pg data. frame w = Some pg \<and> page_of data (rdoc pg) \<and> distinct (map ent_id data) \<and>
       (case ev of
          ItemKey k e \<Rightarrow> e < length data
        | MemberKey k e c \<Rightarrow> e < length data \<and> c < members (data ! e)
        | RowClick x \<Rightarrow> \<exists>e < length data. x = row_id (ent_id (data ! e))))"

fun site_enabled :: "env \<Rightarrow> world \<Rightarrow> ui_event + frame_event \<Rightarrow> bool" where
  "site_enabled e w (Inl ev) = ui_enabled e w ev"
| "site_enabled e w (Inr ev) = frame_enabled w ev"

lemma box_ok_frame:
  "box_ok e w \<Longrightarrow> page_of data (rdoc pg) \<Longrightarrow> box_ok e (w\<lparr>frame := Some pg\<rparr>)"
  by (auto simp: box_ok_def frame_ok_def)

lemma focus_item_safe [safe_intros]:
  "box_ok e w \<Longrightarrow> (\<And>r w'. box_ok e w' \<Longrightarrow> P (r, w')) \<Longrightarrow> succeeds (focus_item p w) P"
  by (cases p) (auto simp: focus_item_def intro!: safe_intros)

lemma focus_search_field_safe [safe_intros]:
  "box_ok e w \<Longrightarrow> (\<And>r w'. box_ok e w' \<Longrightarrow> P (r, w')) \<Longrightarrow> succeeds (focus_search_field w) P"
  by (auto simp: focus_search_field_def intro!: safe_intros)

lemma leave_results_safe [safe_intros]:
  "box_ok e w \<Longrightarrow> (\<And>r w'. box_ok e w' \<Longrightarrow> P (r, w')) \<Longrightarrow> succeeds (leave_results w) P"
  by (auto simp: leave_results_def intro!: safe_intros)

lemma page_of_fold:
  "page_of data d \<Longrightarrow> e < length data \<Longrightarrow> distinct (map ent_id data) \<Longrightarrow>
   \<exists>d'. fold_members v (int e) d = Some d' \<and> page_of data d'"
  using fold_members_page by simp

lemma Nav_safe:
  assumes ok: "box_ok e w" and pg: "frame w = Some pg"
    and page: "page_of data (rdoc pg)" "i < length data" "distinct (map ent_id data)"
  shows "succeeds (map_option snd (Nav k (int i) w)) (box_ok e)"
proof -
  obtain go sr where keys: "ProcessKeys k (searchResults pg) = (go, sr)" by fastforce
  let ?w = "w\<lparr>frame := Some (pg\<lparr>searchResults := sr\<rparr>)\<rparr>"
  have ok': "box_ok e ?w" using box_ok_frame [OF ok, of data] page(1) by simp
  have folded: "succeeds (do {
      d \<leftarrow> fold_members v (int i) (rdoc pg);
      Some (False, ?w\<lparr>frame := Some (pg\<lparr>searchResults := sr, rdoc := d\<rparr>)\<rparr>)
    }) (\<lambda>r. box_ok e (snd r))" for v
    using page_of_fold [OF page, of v] box_ok_frame [OF ok, of data] by (auto simp: succeeds_def)
  obtain u where u: "up_target (rdoc pg) (int i) = Some u" using up_page [OF page(1,3,2)] by blast
  obtain t where t: "down_target (rdoc pg) (int i) = Some t" using down_page [OF page] by blast
  have "succeeds (Nav k (int i) w) (\<lambda>r. box_ok e (snd r))"
    unfolding Nav_def
    using pg keys u t ok ok' folded by (auto simp: Let_def intro!: safe_intros)
  then show ?thesis by (rule succeeds_map_option)
qed

lemma NavChild_safe:
  assumes ok: "box_ok e w" and pg: "frame w = Some pg"
    and page: "page_of data (rdoc pg)" "i < length data" "c < members (data ! i)"
  shows "succeeds (map_option snd (NavChild k (int i) (int c) w)) (box_ok e)"
proof -
  obtain go sr where keys: "ProcessKeys k (searchResults pg) = (go, sr)" by fastforce
  let ?w = "w\<lparr>frame := Some (pg\<lparr>searchResults := sr\<rparr>)\<rparr>"
  have ok': "box_ok e ?w" using box_ok_frame [OF ok, of data] page(1) by simp
  obtain u t where ut: "up_from_member (rdoc pg) (int i) (int c) = Some u"
    "down_from_member (rdoc pg) (int i) (int c) = Some t"
    using from_member_page [OF page] by blast
  have "succeeds (NavChild k (int i) (int c) w) (\<lambda>r. box_ok e (snd r))"
    unfolding NavChild_def
    using pg keys ut ok ok' by (auto simp: Let_def intro!: safe_intros)
  then show ?thesis by (rule succeeds_map_option)
qed

lemma frame_step_safe:
  assumes ok: "box_ok e w" and en: "frame_enabled w ev"
  shows "succeeds (frame_step w ev) (box_ok e)"
proof -
  obtain pg data where pg: "frame w = Some pg" "page_of data (rdoc pg)" "distinct (map ent_id data)"
    and ev: "case ev of ItemKey k i \<Rightarrow> i < length data
      | MemberKey k i c \<Rightarrow> i < length data \<and> c < members (data ! i)
      | RowClick x \<Rightarrow> \<exists>i < length data. x = row_id (ent_id (data ! i))"
    using en by (auto simp: frame_enabled_def)
  show ?thesis
  proof (cases ev)
    case (ItemKey k i)
    then show ?thesis using Nav_safe [OF ok pg(1,2) _ pg(3)] ev by simp
  next
    case (MemberKey k i c)
    then show ?thesis using NavChild_safe [OF ok pg(1,2)] ev by simp
  next
    case (RowClick x)
    then obtain i where i: "i < length data" "x = row_id (ent_id (data ! i))" using ev by auto
    have "box_ok e (w\<lparr>frame := Some (pg\<lparr>rdoc := d\<rparr>)\<rparr>)" if "page_of data d" for d
      using box_ok_frame [OF ok, of data "pg\<lparr>rdoc := d\<rparr>"] that by simp
    then show ?thesis
      using RowClick Toggle_page [OF pg(2) i(1) pg(3)] pg(1,2) i(2)
      by (simp add: toggle_row_def succeeds_def)
  qed
qed

interpretation pages: handler_machine "site_step e" "box_ok e" "site_enabled e" for e
proof unfold_locales
  fix w ev
  assume "box_ok e w" "site_enabled e w ev"
  then show "succeeds (site_step e w ev) (box_ok e)"
    using box.step_ok frame_step_safe by (cases ev) auto
qed

text \<open>
  What can happen on the page: any key in the filter menu, a click on a filter that it lists, the
  loading of a result page in the frame, and keys and clicks on the rows and members that the
  page in the frame has. Nothing is left out of the keys: Down on the last filter is among them.
\<close>

definition ui_possible :: "env \<Rightarrow> ui_event \<Rightarrow> bool" where
  "ui_possible e ev =
     (case ev of
        SelectClick i \<Rightarrow> i < length (indexSectionsWithContent e)
      | FrameLoads pg \<Rightarrow> frame_ok (Some pg)
      | _ \<Rightarrow> True)"

fun site_possible :: "env \<Rightarrow> world \<Rightarrow> ui_event + frame_event \<Rightarrow> bool" where
  "site_possible e w (Inl ev) = ui_possible e ev"
| "site_possible e w (Inr ev) = frame_enabled w ev"

lemma possible_not_enabled:
  "site_possible e w ev \<Longrightarrow> \<not> site_enabled e w ev \<Longrightarrow> box_ok e w \<Longrightarrow>
   \<exists>k. ev = Inl (SelectKey k) \<and> keyCode k = 40 \<and>
     Suc (searchIndex (sb w)) = length (indexSectionsWithContent e)"
  by (cases ev) (auto simp: ui_possible_def ui_enabled_def key_enabled_def box_ok_def split: ui_event.splits)

text \<open>
  C2: Page and frame together: from a fresh page set up by \<open>init_search\<close>, a session of user actions
  on the box (every key and every listed filter), timers, frame loads, key strokes on rows and
  members, and clicks on rows either runs to its end without an exception, or it contains the
  Down key pressed in the filter menu while the last filter is selected, after actions that all
  ran without an exception. That key stroke is the only one that can start a failure.
\<close>

theorem page_and_frame_raise_only_past_last_filter:
  assumes "searchIndex s < length (indexSectionsWithContent e)"
    and "init_search e labels (box_page s) = Some w"
    and "feasible (site_step e) (site_possible e) w events"
  shows "(\<exists>w'. run (site_step e) w events = Some w' \<and> box_ok e w') \<or>
    (\<exists>pre k post v. events = pre @ Inl (SelectKey k) # post \<and>
       run (site_step e) w pre = Some v \<and> box_ok e v \<and>
       keyCode k = 40 \<and> Suc (searchIndex (sb v)) = length (indexSectionsWithContent e))"
proof -
  have "succeeds (init_search e labels (box_page s)) (box_ok e)"
    by (rule init_search_safe [OF box_ok_box_page [OF assms(1)]])
  with assms(2) have "box_ok e w" by (simp add: succeeds_def)
  from pages.run_ok_or_disabled [OF this, of events] show ?thesis
  proof (elim disjE exE conjE)
    fix pre x post v
    assume x: "events = pre @ x # post" "run (site_step e) w pre = Some v" "box_ok e v" "\<not> site_enabled e v x"
    with assms(3) have "site_possible e v x" by (auto intro: feasible_prefix)
    from possible_not_enabled [OF this x(4,3)] x show ?thesis by blast
  qed blast
qed

end
