(* ===== verification/FrameExamples.thy ===== *)
theory FrameExamples
  imports FrameKeys IndexTables
begin

text \<open>
  The properties of the keyboard in the results frame at pages of this documentation, with some
  rows shown and some rows unfolded.
\<close>

definition shown_page :: "entry list \<Rightarrow> nat list \<Rightarrow> nat list \<Rightarrow> dnode" where
  "shown_page data shown unfolded =
     foldr (\<lambda>e. set_display ''block'' (members_path e)) unfolded
       (foldr (\<lambda>e. set_display ''block'' (rows_path @ [e])) shown (page_with (rows 0 data)))"

lemma page_of_foldr:
  "page_of data (foldr (\<lambda>e. set_display v (f e)) es d) = page_of data d"
  by (induction es) auto

lemma page_of_shown: "page_of data (shown_page data shown unfolded)"
  by (simp add: shown_page_def page_of_foldr) (simp add: page_of_def)

lemma row_paths [simp]:
  "members_path e = members_path f \<longleftrightarrow> e = f" "rows_path @ [e] \<noteq> members_path f" "members_path f \<noteq> rows_path @ [e]"
  "rows_path @ [e] \<noteq> []" "members_path e \<noteq> []"
  by (auto simp: members_path_def)

lemma fresh_row: "e < length data \<Longrightarrow> style_display (page_with (rows 0 data)) (rows_path @ [e]) = Some []"
  by (simp add: style_display_def attrs_at_def subtree_row result_row_def setClassAttr_def createElement_def)

lemma fresh_members:
  "e < length data \<Longrightarrow> length (ent_links (data ! e)) \<noteq> 1 \<Longrightarrow>
   style_display (page_with (rows 0 data)) (members_path e) = Some []"
  using subtree_rows [of e "rows 0 data" "[0, 1]"]
  by (simp add: style_display_def attrs_at_def members_path_def result_row_def result_entry_multi
      setClassAttr_def createElement_def)

lemma display_foldr:
  "inj f \<Longrightarrow> style_display d q = Some v \<Longrightarrow>
   style_display (foldr (\<lambda>e. set_display b (f e)) es d) q = Some (if q \<in> f ` set es then b else v)"
  by (induction es) auto

lemma display_shown:
  assumes "style_display (page_with (rows 0 data)) q = Some v"
  shows "style_display (shown_page data shown unfolded) q =
    Some (if q \<in> members_path ` set unfolded then ''block''
          else if q \<in> (\<lambda>e. rows_path @ [e]) ` set shown then ''block'' else v)"
proof -
  have inj: "inj members_path" "inj (\<lambda>e. rows_path @ [e])" by (simp_all add: inj_def)
  show ?thesis
    unfolding shown_page_def
    by (rule display_foldr [where f = members_path, OF inj(1)
          display_foldr [where f = "\<lambda>e. rows_path @ [e]", OF inj(2) assms]])
qed

lemma row_visible_shown:
  "e < length data \<Longrightarrow> row_visible (shown_page data shown unfolded) e \<longleftrightarrow> e \<in> set shown"
  using display_shown [OF fresh_row] by (auto simp: row_visible_def)

lemma row_open_shown:
  "e < length data \<Longrightarrow> length (ent_links (data ! e)) \<noteq> 1 \<Longrightarrow>
   row_open data (shown_page data shown unfolded) e \<longleftrightarrow> e \<in> set unfolded"
  using display_shown [OF fresh_members] by (auto simp: row_open_def)

text \<open>The page around a frame that shows \<open>d\<close>, with the focus in the frame.\<close>

definition frame_page :: "dnode \<Rightarrow> rpage" where
  "frame_page d = \<lparr>rdoc = d, searchResults = new_SearchResults\<rparr>"

definition around :: "dnode \<Rightarrow> world" where
  "around d = (box_page doxygen_box)\<lparr>frame := Some (frame_page d)\<rparr>"

lemma frame_around [simp]: "frame (around d) = Some (frame_page d)" "rdoc (frame_page d) = d"
  by (simp_all add: around_def frame_page_def)

text \<open>The classes starting with c: rows 0 and 2 shown, the four members of row 0 unfolded.\<close>

definition classes_c_page :: dnode where
  "classes_c_page = shown_page classes_1 [0, 2] [0]"

lemma classes_c_page_facts:
  "page_of classes_1 classes_c_page" "distinct (map ent_id classes_1)" "length classes_1 = 3"
  "row_visible classes_c_page 0" "\<not> row_visible classes_c_page 1" "row_visible classes_c_page 2"
  "row_open classes_1 classes_c_page 0" "members (classes_1 ! 0) = 4"
proof -
  have len: "length classes_1 = 3" by (simp add: classes_1_def)
  have mem: "length (ent_links (classes_1 ! 0)) = 4" by (simp add: classes_1_def symbol_def)
  show "page_of classes_1 classes_c_page" by (simp add: classes_c_page_def page_of_shown)
  show "distinct (map ent_id classes_1)" by (simp add: classes_1_def)
  show "length classes_1 = 3" "members (classes_1 ! 0) = 4" using len mem by (simp_all add: members_def)
  show "row_visible classes_c_page 0" "\<not> row_visible classes_c_page 1" "row_visible classes_c_page 2"
    "row_open classes_1 classes_c_page 0"
    using row_visible_shown [of _ classes_1 "[0, 2]" "[0]"] row_open_shown [of 0 classes_1 "[0, 2]" "[0]"] len mem
    by (simp_all add: classes_c_page_def)
qed

lemma stops_classes_c:
  "stops classes_1 classes_c_page =
     [item_path 0, child_path 0 0, child_path 0 1, child_path 0 2, child_path 0 3, item_path 2]"
proof -
  have "row_open classes_1 classes_c_page 2 = False"
    by (simp add: row_open_def classes_1_def symbol_def)
  then show ?thesis
    using classes_c_page_facts by (simp add: stops_def stops_in_def row_stops_def upt_rec eval_nat_numeral)
qed

theorem down_key_walks_stops_witness:
  "Nav (key_down 40) 0 (around classes_c_page) =
     focus_item (Some (child_path 0 0)) (key_seen 40 (frame_page classes_c_page) (around classes_c_page))"
  using down_key_walks_stops [of "around classes_c_page" "frame_page classes_c_page" classes_1 0]
    classes_c_page_facts stops_classes_c by simp

theorem member_keys_walk_stops_witness:
  "NavChild (key_down 40) 0 3 (around classes_c_page) =
     focus_item (Some (item_path 2)) (key_seen 40 (frame_page classes_c_page) (around classes_c_page)) \<and>
   NavChild (key_down 38) 0 3 (around classes_c_page) =
     focus_item (Some (child_path 0 2)) (key_seen 38 (frame_page classes_c_page) (around classes_c_page))"
  using member_keys_walk_stops [of "around classes_c_page" "frame_page classes_c_page" classes_1 0 3]
    classes_c_page_facts stops_classes_c by simp

theorem up_key_walks_back_witness:
  "Nav (key_down 38) 0 (around classes_c_page) =
     focus_search_field (key_seen 38 (frame_page classes_c_page) (around classes_c_page))"
  using up_key_walks_back [of "around classes_c_page" "frame_page classes_c_page" classes_1 0]
    classes_c_page_facts stops_classes_c by simp

theorem folding_changes_one_row_witness:
  "\<exists>d. fold_members ''none'' 0 classes_c_page = Some d \<and> row_open classes_1 d 0 = False \<and> row_visible d 2"
proof -
  have "0 < length classes_1" by (simp add: classes_1_def)
  from folding_changes_one_row [OF classes_c_page_facts(1) this classes_c_page_facts(2)]
  show ?thesis using classes_c_page_facts(6) by auto
qed

text \<open>
  The classes starting with r: \<open>record\<close> and \<open>resultset_impl\<close> shown, \<open>record\<close> unfolded, and the rows
  between hidden. Up from \<open>resultset_impl\<close> moves to a member of the hidden row \<open>resultset\<close>.
\<close>

theorem up_key_over_hidden_rows_witness:
  "\<exists>d c. row_visible d 4 = False \<and>
     Nav (key_down 38) 5 (around d) =
       focus_item (Some (child_path 4 c)) (key_seen 38 (frame_page d) (around d))"
proof -
  let ?d = "shown_page classes_9 [0, 5] [0]"
  have len: "length classes_9 = 10" by (simp add: classes_9_def)
  have dist: "distinct (map ent_id classes_9)" by (simp add: classes_9_def)
  have links: "length (ent_links (classes_9 ! 0)) \<noteq> 1" "0 < members (classes_9 ! 4)"
    by (simp_all add: classes_9_def symbol_def members_def)
  have "find (row_visible ?d) (rev [0..<5]) = Some 0"
    using row_visible_shown [of _ classes_9 "[0, 5]" "[0]"] len by (simp add: upt_rec)
  moreover have "row_open classes_9 ?d 0"
    using row_open_shown [of 0 classes_9] links(1) len by simp
  ultimately show ?thesis
    using up_key_over_hidden_rows [of "around ?d" "frame_page ?d" classes_9 5 0] page_of_shown dist len links(2)
    by auto
qed

theorem page_and_frame_raise_only_past_last_filter_witness:
  "\<exists>w w'. init_search doxygen_env index_section_labels (box_page doxygen_box) = Some w \<and>
     run (site_step doxygen_env) w [Inl EnterField, Inl (FrameLoads (frame_page classes_c_page)),
       Inr (ItemKey (key_down 40) 0)] = Some w' \<and> box_ok doxygen_env w'"
proof -
  let ?evs = "[Inl EnterField, Inl (FrameLoads (frame_page classes_c_page)), Inr (ItemKey (key_down 40) 0)]"
  have s: "searchIndex doxygen_box < length (indexSectionsWithContent doxygen_env)"
    by (simp add: doxygen_box_def new_SearchBox_def doxygen_env_def index_sections_with_content_def)
  obtain w where w: "init_search doxygen_env index_section_labels (box_page doxygen_box) = Some w"
    using init_search_safe [OF box_ok_box_page [OF s], of "\<lambda>w. True"] by (auto simp: succeeds_def)
  have "frame_ok (Some (frame_page classes_c_page))"
    using classes_c_page_facts(1) by (auto simp: frame_ok_def)
  moreover have "frame_enabled (v\<lparr>frame := Some (frame_page classes_c_page)\<rparr>) (ItemKey (key_down 40) 0)" for v
    using classes_c_page_facts by (auto simp: frame_enabled_def intro!: exI [of _ classes_1])
  ultimately have "feasible (site_step doxygen_env) (site_possible doxygen_env) w ?evs"
    by (simp add: ui_possible_def split: option.split)
  moreover have "?evs \<noteq> pre @ Inl (SelectKey k) # post" for pre k post
  proof
    assume "?evs = pre @ Inl (SelectKey k) # post"
    then have "Inl (SelectKey k) \<in> set ?evs" by (metis in_set_conv_decomp)
    then show False by simp
  qed
  ultimately show ?thesis
    using page_and_frame_raise_only_past_last_filter [OF s w, of ?evs] w by blast
qed

end
