(* ===== verification/DynSections.thy ===== *)
theory DynSections
  imports JsString
begin

text \<open>
  The foldable parts of a documentation page, \<^verbatim>\<open>dynsections.js\<close>: the directory tree
  (\<open>toggleLevel\<close>, \<open>toggleFolder\<close>, \<open>updateStripes\<close>), the blocks with a summary
  (\<open>toggleVisibility\<close>) and the inherited members of a class (\<open>toggleInherit\<close>). Elements carry
  what the calls to jQuery read and write: whether they are shown (\<open>show\<close>, \<open>hide\<close>,
  \<open>:visible\<close>), their classes, their content and the source of their image.
\<close>

section \<open>The directory tree\<close>

record span =
  sp_id :: jsstr
  sp_classes :: "string list"
  sp_html :: jsstr

record dir_row =
  dr_id :: jsstr
  dr_shown :: bool
  dr_classes :: "string list"
  dr_spans :: "span list"

definition remove_class :: "string \<Rightarrow> string list \<Rightarrow> string list" where
  "remove_class c cs = filter (\<lambda>d. d \<noteq> c) cs"

definition add_class :: "string \<Rightarrow> string list \<Rightarrow> string list" where
  "add_class c cs = (if c \<in> set cs then cs else cs @ [c])"

definition map_spans :: "(span \<Rightarrow> span) \<Rightarrow> dir_row \<Rightarrow> dir_row" where
  "map_spans f r = r\<lparr>dr_spans := map f (dr_spans r)\<rparr>"

text \<open>\<open>$('#' + x)\<close>: the spans with an identifier.\<close>

definition on_span :: "jsstr \<Rightarrow> (span \<Rightarrow> span) \<Rightarrow> dir_row list \<Rightarrow> dir_row list" where
  "on_span x f rs = map (map_spans (\<lambda>s. if sp_id s = x then f s else s)) rs"

text \<open>\<open>filter(':visible:even').addClass('even')\<close>: every other visible row, from the first.\<close>

fun stripe :: "bool \<Rightarrow> dir_row list \<Rightarrow> dir_row list" where
  "stripe b [] = []"
| "stripe b (r # rs) =
     (if dr_shown r
      then (if b then r\<lparr>dr_classes := add_class ''even'' (dr_classes r)\<rparr> else r) # stripe (\<not> b) rs
      else r # stripe b rs)"

definition updateStripes :: "dir_row list \<Rightarrow> dir_row list" where
  "updateStripes rs = stripe True (map (\<lambda>r. r\<lparr>dr_classes := remove_class ''even'' (dr_classes r)\<rparr>) rs)"

text \<open>\<open>id.split('_').length - 1\<close>\<close>

definition row_level :: "dir_row \<Rightarrow> nat" where
  "row_level r = length (filter (\<lambda>c. c = cu 95) (dr_id r))"

definition set_icon :: "string \<Rightarrow> span \<Rightarrow> span" where
  "set_icon c s =
     s\<lparr>sp_classes := add_class c (remove_class ''iconfclosed'' (remove_class ''iconfopen'' (sp_classes s)))\<rparr>"

definition set_html :: "string \<Rightarrow> span \<Rightarrow> span" where
  "set_html h s = s\<lparr>sp_html := js h\<rparr>"

definition show_at :: "bool \<Rightarrow> nat \<Rightarrow> dir_row list \<Rightarrow> dir_row list" where
  "show_at b k rs = rs[k := (rs ! k)\<lparr>dr_shown := b\<rparr>]"

text \<open>The body of \<open>toggleLevel\<close>'s loop, for the row at index \<open>k\<close>.\<close>

definition level_row :: "nat \<Rightarrow> nat \<Rightarrow> dir_row list \<Rightarrow> dir_row list" where
  "level_row level k rs =
     (let l = row_level (rs ! k);
          i = js ''img'' @ drop 3 (dr_id (rs ! k));
          a = js ''arr'' @ drop 3 (dr_id (rs ! k))
      in if l < level + 1
         then show_at True k (on_span a (set_html ''&#9660;'') (on_span i (set_icon ''iconfopen'') rs))
         else if l = level + 1
         then show_at True k (on_span a (set_html ''&#9658;'') (on_span i (set_icon ''iconfclosed'') rs))
         else show_at False k rs)"

definition toggleLevel :: "nat \<Rightarrow> dir_row list \<Rightarrow> dir_row list" where
  "toggleLevel level rs = updateStripes (fold (level_row level) [0..<length rs] rs)"

text \<open>The pattern \<open>^row_id\d+_$\<close>, ignoring case, for an \<open>id\<close> of digits and underscores.\<close>

definition matches_child :: "jsstr \<Rightarrow> jsstr \<Rightarrow> bool" where
  "matches_child x row =
     (let p = map lower_cu (js ''row_'' @ x);
          t = map lower_cu row;
          rest = drop (length p) t
      in take (length p) t = p \<and> 2 \<le> length rest \<and> last rest = cu 95 \<and> list_all is_digit_cu (butlast rest))"

definition is_child :: "jsstr \<Rightarrow> dir_row \<Rightarrow> bool" where
  "is_child x r = matches_child x (dr_id r)"

definition in_folder :: "jsstr \<Rightarrow> dir_row \<Rightarrow> bool" where
  "in_folder x r = (let p = js ''row_'' @ x in take (length p) (dr_id r) = p)"

definition swap_icon :: "string \<Rightarrow> string \<Rightarrow> span \<Rightarrow> span" where
  "swap_icon old new s =
     (if old \<in> set (sp_classes s)
      then s\<lparr>sp_classes := add_class new (remove_class old (sp_classes s))\<rparr> else s)"

definition set_arrow :: "string \<Rightarrow> span \<Rightarrow> span" where
  "set_arrow h s = (if ''arrow'' \<in> set (sp_classes s) then set_html h s else s)"

definition close_row :: "dir_row \<Rightarrow> dir_row" where
  "close_row r = map_spans (set_arrow ''&#9658;'') (map_spans (swap_icon ''iconfopen'' ''iconfclosed'') r)"

definition open_row :: "dir_row \<Rightarrow> dir_row" where
  "open_row r = map_spans (set_arrow ''&#9660;'') (map_spans (swap_icon ''iconfclosed'' ''iconfopen'') r)"

definition first_shown :: "dir_row list \<Rightarrow> bool" where
  "first_shown rs = (case rs of [] \<Rightarrow> False | r # _ \<Rightarrow> dr_shown r)"

definition toggleFolder :: "jsstr \<Rightarrow> dir_row list \<Rightarrow> dir_row list" where
  "toggleFolder x rs =
     (let other = (\<lambda>r. dr_id r \<noteq> js ''row_'' @ x);
          before = takeWhile other rs
      in updateStripes
           (case dropWhile other rs of
              [] \<Rightarrow> rs
            | currentRow # rows \<Rightarrow>
                if first_shown (filter (is_child x) rows)
                then before @ close_row currentRow #
                     map (\<lambda>r. if in_folder x r then r\<lparr>dr_shown := False\<rparr> else r) rows
                else before @ open_row currentRow #
                     map (\<lambda>r. if is_child x r then (close_row r)\<lparr>dr_shown := True\<rparr> else r) rows))"

section \<open>Blocks and inherited members\<close>

record block =
  bl_classes :: "string list"
  summary_shown :: bool
  content_shown :: bool
  trigger_src :: jsstr

definition toggleVisibility :: "block \<Rightarrow> block" where
  "toggleVisibility b =
     (let src = trigger_src b
      in if content_shown b
         then b\<lparr>content_shown := False, summary_shown := True,
                bl_classes := remove_class ''opened'' (add_class ''closed'' (bl_classes b)),
                trigger_src := take (length src - 8) src @ js ''closed.png''\<rparr>
         else b\<lparr>content_shown := True, summary_shown := False,
                bl_classes := add_class ''opened'' (remove_class ''closed'' (bl_classes b)),
                trigger_src := take (length src - 10) src @ js ''open.png''\<rparr>)"

text \<open>The rows of the inherited members of a class, and the images of their header.\<close>

record inherit =
  inh_rows :: "bool list"
  inh_imgs :: "jsstr list"

definition toggleInherit :: "inherit \<Rightarrow> inherit option" where
  "toggleInherit h =
     (case inh_imgs h of
        [] \<Rightarrow> None
      | src # _ \<Rightarrow>
          if (case inh_rows h of [] \<Rightarrow> False | v # _ \<Rightarrow> v)
          then Some (h\<lparr>inh_rows := map (\<lambda>v. False) (inh_rows h),
                       inh_imgs := map (\<lambda>i. take (length src - 8) src @ js ''closed.png'') (inh_imgs h)\<rparr>)
          else Some (h\<lparr>inh_rows := map (\<lambda>v. True) (inh_rows h),
                       inh_imgs := map (\<lambda>i. take (length src - 10) src @ js ''open.png'') (inh_imgs h)\<rparr>))"

section \<open>Stripes\<close>

definition is_even :: "dir_row \<Rightarrow> bool" where
  "is_even r = (''even'' \<in> set (dr_classes r))"

lemma add_class_mem [simp]: "d \<in> set (add_class c cs) \<longleftrightarrow> d = c \<or> d \<in> set cs"
  by (auto simp: add_class_def)

lemma remove_class_mem [simp]: "d \<in> set (remove_class c cs) \<longleftrightarrow> d \<noteq> c \<and> d \<in> set cs"
  by (auto simp: remove_class_def)

text \<open>All of a row but its classes.\<close>

definition unstriped :: "dir_row \<Rightarrow> dir_row" where
  "unstriped r = r\<lparr>dr_classes := []\<rparr>"

lemma unstriped_stripe: "map unstriped (stripe b rs) = map unstriped rs"
  by (induction b rs rule: stripe.induct) (auto simp: unstriped_def)

lemma unstriped_updateStripes: "map unstriped (updateStripes rs) = map unstriped rs"
  by (simp add: updateStripes_def unstriped_stripe) (simp add: unstriped_def)

lemma shown_updateStripes [simp]: "map dr_shown (updateStripes rs) = map dr_shown rs"
proof -
  have "map dr_shown rs = map dr_shown (map unstriped rs)" for rs by (simp add: unstriped_def)
  then show ?thesis by (metis unstriped_updateStripes)
qed

lemma stripe_shown:
  "list_all (\<lambda>r. \<not> is_even r) rs \<Longrightarrow>
   map is_even (filter dr_shown (stripe b rs)) =
     map (\<lambda>k. b = even k) [0..<length (filter dr_shown rs)] \<and>
   list_all (\<lambda>r. \<not> is_even r) (filter (\<lambda>r. \<not> dr_shown r) (stripe b rs))"
proof (induction b rs rule: stripe.induct)
  case (2 b r rs)
  have "map (\<lambda>k. b = even k) [0..<Suc n] = b # map (\<lambda>k. (\<not> b) = even k) [0..<n]" for n
    by (simp add: upt_conv_Cons map_Suc_upt [symmetric] comp_def del: upt_Suc) auto
  with 2 show ?case by (auto simp: is_even_def)
qed simp

text \<open>The visible rows are striped alternately from the first, and hidden rows carry no stripe.\<close>

definition striped :: "dir_row list \<Rightarrow> bool" where
  "striped rs =
     (map is_even (filter dr_shown rs) = map even [0..<length (filter dr_shown rs)] \<and>
      list_all (\<lambda>r. \<not> is_even r) (filter (\<lambda>r. \<not> dr_shown r) rs))"

lemma shown_count:
  assumes "map dr_shown (rs :: dir_row list) = map dr_shown (rs' :: dir_row list)"
  shows "length (filter dr_shown (rs :: dir_row list)) = length (filter dr_shown (rs' :: dir_row list))"
proof -
  have count: "length (filter dr_shown xs) = length (filter id (map dr_shown xs))" for xs :: "dir_row list"
    by (induction xs) auto
  show ?thesis unfolding count assms by (rule refl)
qed

lemma striped_updateStripes: "striped (updateStripes rs)"
proof -
  let ?rs = "map (\<lambda>r. r\<lparr>dr_classes := remove_class ''even'' (dr_classes r)\<rparr>) rs"
  have "list_all (\<lambda>r. \<not> is_even r) ?rs" by (simp add: is_even_def list_all_iff)
  from stripe_shown [OF this, of True]
  have "map is_even (filter dr_shown (updateStripes rs)) = map even [0..<length (filter dr_shown rs)]"
    "list_all (\<lambda>r. \<not> is_even r) (filter (\<lambda>r. \<not> dr_shown r) (updateStripes rs))"
    by (simp_all add: updateStripes_def filter_map comp_def)
  then show ?thesis using shown_count [OF shown_updateStripes, of rs] by (simp add: striped_def)
qed

text \<open>The calls that change the tree, one after the other.\<close>

datatype tree_call = ToLevel nat | Folder jsstr

fun tree_step :: "tree_call \<Rightarrow> dir_row list \<Rightarrow> dir_row list" where
  "tree_step (ToLevel level) rs = toggleLevel level rs"
| "tree_step (Folder x) rs = toggleFolder x rs"

lemma striped_tree_step: "striped (tree_step c rs)"
  by (cases c) (simp_all add: toggleLevel_def toggleFolder_def Let_def striped_updateStripes)

text \<open>
  C39: After every call of \<open>toggleLevel\<close> or \<open>toggleFolder\<close>, whatever rows there were before and whichever
  calls came first, the visible rows of the tree are striped alternately from the first and its hidden
  rows carry no stripe.
\<close>

theorem toggles_keep_stripes:
  "striped (toggleLevel level rs) \<and> striped (toggleFolder x rs) \<and> striped (fold tree_step (calls @ [c]) rs)"
  using striped_tree_step [of "ToLevel level" rs] striped_tree_step [of "Folder x" rs] striped_tree_step [of c]
  by simp

section \<open>Levels\<close>

lemma nth_on_span:
  "k < length rs \<Longrightarrow> dr_id (on_span x f rs ! k) = dr_id (rs ! k) \<and> dr_shown (on_span x f rs ! k) = dr_shown (rs ! k)"
  by (simp add: on_span_def map_spans_def)

lemma length_on_span [simp]: "length (on_span x f rs) = length rs"
  by (simp add: on_span_def)

lemma length_level_row [simp]: "length (level_row level k rs) = length rs"
  by (simp add: level_row_def show_at_def Let_def)

lemma level_row_nth:
  assumes "k < length rs" "j < length rs"
  shows "dr_id (level_row level k rs ! j) = dr_id (rs ! j)"
    and "dr_shown (level_row level k rs ! j) = (if j = k then row_level (rs ! k) \<le> level + 1 else dr_shown (rs ! j))"
  using assms by (auto simp: level_row_def show_at_def Let_def nth_list_update nth_on_span)

lemma fold_level_rows:
  "n \<le> length rs \<Longrightarrow>
   length (fold (level_row level) [0..<n] rs) = length rs \<and>
   (\<forall>j < length rs. dr_id (fold (level_row level) [0..<n] rs ! j) = dr_id (rs ! j) \<and>
      dr_shown (fold (level_row level) [0..<n] rs ! j) =
        (if j < n then row_level (rs ! j) \<le> level + 1 else dr_shown (rs ! j)))"
proof (induction n)
  case (Suc n)
  let ?rs = "fold (level_row level) [0..<n] rs"
  have "row_level (?rs ! n) = row_level (rs ! n)" using Suc by (simp add: row_level_def)
  with Suc show ?case by (auto simp: level_row_nth less_Suc_eq)
qed simp

text \<open>
  \<open>toggleLevel\<close> shows exactly the rows down to the level asked for, whatever was folded before,
  and keeps every row in its place.
\<close>

theorem toggleLevel_shows_levels:
  "map dr_shown (toggleLevel level rs) = map (\<lambda>r. row_level r \<le> level + 1) rs \<and>
   map dr_id (toggleLevel level rs) = map dr_id rs"
proof -
  let ?rs = "fold (level_row level) [0..<length rs] rs"
  have "map dr_id rs = map dr_id (map unstriped rs)" for rs by (simp add: unstriped_def)
  then have "map dr_id (updateStripes ?rs) = map dr_id ?rs" by (metis unstriped_updateStripes)
  moreover have "map dr_id ?rs = map dr_id rs" "map dr_shown ?rs = map (\<lambda>r. row_level r \<le> level + 1) rs"
    using fold_level_rows [of "length rs" rs level] by (auto intro!: nth_equalityI)
  ultimately show ?thesis by (simp add: toggleLevel_def)
qed

section \<open>Folders\<close>

lemma fold_rows_simps [simp]:
  "dr_shown (close_row r) = dr_shown r" "dr_shown (open_row r) = dr_shown r"
  "dr_id (close_row r) = dr_id r" "dr_id (open_row r) = dr_id r"
  by (simp_all add: close_row_def open_row_def map_spans_def)

text \<open>What is seen of a row: its identifier and whether it is shown.\<close>

definition view :: "dir_row \<Rightarrow> jsstr \<times> bool" where
  "view r = (dr_id r, dr_shown r)"

lemma view_updateStripes [simp]: "map view (updateStripes rs) = map view rs"
proof -
  have "map view rs = map view (map unstriped rs)" for rs by (simp add: unstriped_def view_def)
  then show ?thesis by (metis unstriped_updateStripes)
qed

lemma map_shown_view: "map dr_shown rs = map snd (map view rs)"
  by (simp add: view_def)

lemma toggleFolder_view:
  assumes "list_all (\<lambda>r. dr_id r \<noteq> js ''row_'' @ x) before" and "dr_id cur = js ''row_'' @ x"
  shows "map view (toggleFolder x (before @ cur # rows)) =
    map view before @ view cur #
    map (\<lambda>r. (dr_id r, if first_shown (filter (is_child x) rows) then dr_shown r \<and> \<not> in_folder x r
                        else dr_shown r \<or> is_child x r)) rows"
proof -
  have "takeWhile (\<lambda>r. dr_id r \<noteq> js ''row_'' @ x) (before @ cur # rows) = before"
    "dropWhile (\<lambda>r. dr_id r \<noteq> js ''row_'' @ x) (before @ cur # rows) = cur # rows"
    using assms by (simp_all add: list_all_iff takeWhile_append dropWhile_append)
  then show ?thesis by (auto simp: toggleFolder_def Let_def view_def)
qed

lemma map_view_append:
  assumes "map view rs = map view before @ v # vs"
  obtains before' cur' rows' where "rs = before' @ cur' # rows'" "map view before' = map view before"
    "view cur' = v" "map view rows' = vs"
proof -
  from assms obtain b t where "rs = b @ t" "map view b = map view before" "map view t = v # vs"
    by (auto simp: map_eq_append_conv)
  then show thesis using that by (cases t) auto
qed

lemma same_ids:
  assumes "map dr_id rs = map dr_id rs'"
  shows "list_all (\<lambda>r. P (dr_id r)) rs \<longleftrightarrow> list_all (\<lambda>r. P (dr_id r)) rs'"
proof -
  have "list_all (\<lambda>r. P (dr_id r)) rs = list_all P (map dr_id rs)" for rs by (simp add: list_all_iff)
  with assms show ?thesis by metis
qed

text \<open>
  C38: On the row of a folder, \<open>toggleFolder\<close> hides every row of the folder, at any depth, when the
  first row directly in it is shown, and otherwise shows exactly the rows directly in it. Rows
  before the folder and rows outside it stay as they are.
\<close>

theorem toggleFolder_effect:
  assumes "list_all (\<lambda>r. dr_id r \<noteq> js ''row_'' @ x) before" and "dr_id cur = js ''row_'' @ x"
  shows "map dr_shown (toggleFolder x (before @ cur # rows)) =
    map dr_shown before @ dr_shown cur #
    (if first_shown (filter (is_child x) rows)
     then map (\<lambda>r. dr_shown r \<and> \<not> in_folder x r) rows
     else map (\<lambda>r. dr_shown r \<or> is_child x r) rows)"
  using toggleFolder_view [OF assms, of rows]
  by (simp add: map_shown_view) (simp add: view_def)

lemma first_shown_mem: "first_shown rs \<Longrightarrow> \<exists>r \<in> set rs. dr_shown r"
  by (cases rs) (auto simp: first_shown_def)

text \<open>
  Folding and unfolding a folder again shows its direct rows and only those: the folders
  inside come back folded.
\<close>

theorem refold_shows_direct_rows:
  assumes before: "list_all (\<lambda>r. dr_id r \<noteq> js ''row_'' @ x) before" and cur: "dr_id cur = js ''row_'' @ x"
    and shown: "first_shown (filter (is_child x) rows)"
    and children: "list_all (\<lambda>r. is_child x r \<longrightarrow> in_folder x r) rows"
  shows "map dr_shown (toggleFolder x (toggleFolder x (before @ cur # rows))) =
    map dr_shown before @ dr_shown cur # map (\<lambda>r. is_child x r \<or> (dr_shown r \<and> \<not> in_folder x r)) rows"
proof -
  let ?once = "toggleFolder x (before @ cur # rows)"
  have "map view ?once = map view before @ view cur #
      map (\<lambda>r. (dr_id r, dr_shown r \<and> \<not> in_folder x r)) rows"
    using toggleFolder_view [OF before cur, of rows] shown by simp
  then obtain before' cur' rows' where once: "?once = before' @ cur' # rows'"
    and before': "map view before' = map view before" and cur': "view cur' = view cur"
    and rows': "map view rows' = map (\<lambda>r. (dr_id r, dr_shown r \<and> \<not> in_folder x r)) rows"
    by (rule map_view_append)
  have "map dr_id before' = map dr_id before"
    using arg_cong [OF before', of "map fst"] by (simp add: view_def comp_def)
  from same_ids [OF this, of "\<lambda>i. i \<noteq> js ''row_'' @ x"]
  have b: "list_all (\<lambda>r. dr_id r \<noteq> js ''row_'' @ x) before'" using before by (rule iffD2)
  have c: "dr_id cur' = js ''row_'' @ x" using cur' cur by (simp add: view_def)
  have len: "length rows' = length rows" using arg_cong [OF rows', of length] by simp
  have row': "dr_id (rows' ! k) = dr_id (rows ! k)"
    "dr_shown (rows' ! k) = (dr_shown (rows ! k) \<and> \<not> in_folder x (rows ! k))" if "k < length rows" for k
    using arg_cong [OF rows', of "\<lambda>vs. vs ! k"] that len by (simp_all add: view_def)
  have "\<not> dr_shown r" if mem: "r \<in> set rows'" and child: "is_child x r" for r
  proof -
    obtain k where k: "k < length rows" "r = rows' ! k"
      using mem unfolding in_set_conv_nth len by blast
    then have "is_child x (rows ! k)" using child row' by (simp add: is_child_def)
    then show ?thesis using children k row' by (simp add: list_all_length)
  qed
  then have "\<not> first_shown (filter (is_child x) rows')"
    using first_shown_mem [of "filter (is_child x) rows'"] by auto
  then have "map dr_shown (toggleFolder x ?once) = map dr_shown before' @ dr_shown cur' #
      map (\<lambda>r. dr_shown r \<or> is_child x r) rows'"
    using toggleFolder_view [OF b c, of rows'] once by (simp add: map_shown_view) (simp add: view_def)
  moreover have "map (\<lambda>r. dr_shown r \<or> is_child x r) rows' =
      map (\<lambda>r. is_child x r \<or> (dr_shown r \<and> \<not> in_folder x r)) rows"
    by (rule nth_equalityI) (auto simp: len row' is_child_def)
  moreover have "map dr_shown before' = map dr_shown before" "dr_shown cur' = dr_shown cur"
    using before' cur' by (simp_all add: map_shown_view) (simp add: view_def)
  ultimately show ?thesis by simp
qed

theorem toggleFolder_effect_witness:
  "map dr_shown (toggleFolder (js ''0_'')
     [\<lparr>dr_id = js ''row_0_'', dr_shown = True, dr_classes = [], dr_spans = []\<rparr>,
      \<lparr>dr_id = js ''row_0_0_'', dr_shown = True, dr_classes = [], dr_spans = []\<rparr>,
      \<lparr>dr_id = js ''row_0_0_1_'', dr_shown = True, dr_classes = [], dr_spans = []\<rparr>,
      \<lparr>dr_id = js ''row_1_'', dr_shown = True, dr_classes = [], dr_spans = []\<rparr>]) = [True, False, False, True]"
proof -
  have "is_child (js ''0_'') \<lparr>dr_id = js ''row_0_0_'', dr_shown = True, dr_classes = [], dr_spans = []\<rparr>"
    "in_folder (js ''0_'') \<lparr>dr_id = js ''row_0_0_'', dr_shown = True, dr_classes = [], dr_spans = []\<rparr>"
    "in_folder (js ''0_'') \<lparr>dr_id = js ''row_0_0_1_'', dr_shown = True, dr_classes = [], dr_spans = []\<rparr>"
    "\<not> in_folder (js ''0_'') \<lparr>dr_id = js ''row_1_'', dr_shown = True, dr_classes = [], dr_spans = []\<rparr>"
    by code_simp+
  then show ?thesis
    using toggleFolder_effect [of "js ''0_''" "[]"
        "\<lparr>dr_id = js ''row_0_'', dr_shown = True, dr_classes = [], dr_spans = []\<rparr>"
        "[\<lparr>dr_id = js ''row_0_0_'', dr_shown = True, dr_classes = [], dr_spans = []\<rparr>,
          \<lparr>dr_id = js ''row_0_0_1_'', dr_shown = True, dr_classes = [], dr_spans = []\<rparr>,
          \<lparr>dr_id = js ''row_1_'', dr_shown = True, dr_classes = [], dr_spans = []\<rparr>]"]
    by (simp add: first_shown_def js_append [symmetric])
qed

theorem refold_shows_direct_rows_witness:
  "map dr_shown (toggleFolder (js ''0_'') (toggleFolder (js ''0_'')
     [\<lparr>dr_id = js ''row_0_'', dr_shown = True, dr_classes = [], dr_spans = []\<rparr>,
      \<lparr>dr_id = js ''row_0_0_'', dr_shown = True, dr_classes = [], dr_spans = []\<rparr>,
      \<lparr>dr_id = js ''row_0_0_1_'', dr_shown = True, dr_classes = [], dr_spans = []\<rparr>])) = [True, True, False]"
proof -
  have "is_child (js ''0_'') \<lparr>dr_id = js ''row_0_0_'', dr_shown = True, dr_classes = [], dr_spans = []\<rparr>"
    "\<not> is_child (js ''0_'') \<lparr>dr_id = js ''row_0_0_1_'', dr_shown = True, dr_classes = [], dr_spans = []\<rparr>"
    "in_folder (js ''0_'') \<lparr>dr_id = js ''row_0_0_'', dr_shown = True, dr_classes = [], dr_spans = []\<rparr>"
    "in_folder (js ''0_'') \<lparr>dr_id = js ''row_0_0_1_'', dr_shown = True, dr_classes = [], dr_spans = []\<rparr>"
    by code_simp+
  then show ?thesis
    using refold_shows_direct_rows [of "js ''0_''" "[]"
        "\<lparr>dr_id = js ''row_0_'', dr_shown = True, dr_classes = [], dr_spans = []\<rparr>"
        "[\<lparr>dr_id = js ''row_0_0_'', dr_shown = True, dr_classes = [], dr_spans = []\<rparr>,
          \<lparr>dr_id = js ''row_0_0_1_'', dr_shown = True, dr_classes = [], dr_spans = []\<rparr>]"]
    by (simp add: first_shown_def js_append [symmetric])
qed

section \<open>Toggling blocks and inherited members\<close>

definition ends_with :: "string \<Rightarrow> jsstr \<Rightarrow> bool" where
  "ends_with t s = (length t \<le> length s \<and> drop (length s - length t) s = js t)"

lemma swap_suffix:
  assumes "ends_with t s"
  shows "ends_with t' (take (length s - length t) s @ js t')"
    and "take (length (take (length s - length t) s @ js t') - length t')
           (take (length s - length t) s @ js t') @ js t = s"
proof -
  let ?p = "take (length s - length t) s"
  have s: "s = ?p @ js t" using assms by (metis append_take_drop_id ends_with_def)
  have "length (?p @ js t') - length t' = length ?p" by simp
  then show "ends_with t' (?p @ js t')" "take (length (?p @ js t') - length t') (?p @ js t') @ js t = s"
    using s by (simp_all add: ends_with_def)
qed

lemma close_image:
  assumes "ends_with ''open.png'' s" and "c = take (length s - 8) s @ js ''closed.png''"
  shows "ends_with ''closed.png'' c" "take (length c - 10) c @ js ''open.png'' = s"
  using swap_suffix [OF assms(1), of "''closed.png''"] assms(2) by (simp_all add: eval_nat_numeral)

lemma open_image:
  assumes "ends_with ''closed.png'' s" and "c = take (length s - 10) s @ js ''open.png''"
  shows "ends_with ''open.png'' c" "take (length c - 8) c @ js ''closed.png'' = s"
  using swap_suffix [OF assms(1), of "''open.png''"] assms(2) by (simp_all add: eval_nat_numeral)

text \<open>A block whose summary, classes and image agree with whether its content is shown.\<close>

definition block_ok :: "block \<Rightarrow> bool" where
  "block_ok b =
     (summary_shown b = (\<not> content_shown b) \<and>
      (''opened'' \<in> set (bl_classes b)) = content_shown b \<and>
      (''closed'' \<in> set (bl_classes b)) = (\<not> content_shown b) \<and>
      ends_with (if content_shown b then ''open.png'' else ''closed.png'') (trigger_src b))"

text \<open>
  \<open>toggleVisibility\<close> swaps content and summary and keeps classes and image in agreement with
  them; a second call restores the image exactly.
\<close>

theorem toggleVisibility_swaps:
  assumes "block_ok b"
  shows "block_ok (toggleVisibility b) \<and> content_shown (toggleVisibility b) = (\<not> content_shown b) \<and>
    trigger_src (toggleVisibility (toggleVisibility b)) = trigger_src b"
proof (cases "content_shown b")
  case True
  then have "ends_with ''open.png'' (trigger_src b)" using assms by (simp add: block_ok_def)
  note image = close_image [OF this refl]
  show ?thesis
    using True assms image by (simp add: block_ok_def toggleVisibility_def Let_def del: length_append)
next
  case False
  then have "ends_with ''closed.png'' (trigger_src b)" using assms by (simp add: block_ok_def)
  note image = open_image [OF this refl]
  show ?thesis
    using False assms image by (simp add: block_ok_def toggleVisibility_def Let_def del: length_append)
qed

definition sample_block :: block where
  "sample_block = \<lparr>bl_classes = [''closed''], summary_shown = True, content_shown = False,
     trigger_src = js ''closed.png''\<rparr>"

theorem toggleVisibility_swaps_witness:
  "block_ok (toggleVisibility sample_block) \<and> content_shown (toggleVisibility sample_block)"
proof -
  have "block_ok sample_block"
    by (simp add: block_ok_def sample_block_def ends_with_def)
  from toggleVisibility_swaps [OF this] show ?thesis by (simp add: sample_block_def)
qed

text \<open>All rows of the inherited members agree, and so do the images of the header.\<close>

definition inherit_ok :: "bool \<Rightarrow> jsstr \<Rightarrow> inherit \<Rightarrow> bool" where
  "inherit_ok v src h =
     (inh_rows h \<noteq> [] \<and> list_all (\<lambda>r. r = v) (inh_rows h) \<and>
      inh_imgs h \<noteq> [] \<and> list_all (\<lambda>i. i = src) (inh_imgs h) \<and>
      ends_with (if v then ''open.png'' else ''closed.png'') src)"

text \<open>
  \<open>toggleInherit\<close> shows or hides all inherited members of a class together, with the image of
  the header following; twice it changes nothing. Without a header image it raises.
\<close>

theorem toggleInherit_swaps:
  assumes "inherit_ok v src h"
  shows "(\<exists>src' h'. toggleInherit h = Some h' \<and> inherit_ok (\<not> v) src' h' \<and> toggleInherit h' = Some h) \<and>
    toggleInherit (h\<lparr>inh_imgs := []\<rparr>) = None"
proof -
  obtain imgs rs where h: "inh_imgs h = src # imgs" "list_all (\<lambda>i. i = src) imgs"
    "inh_rows h = v # rs" "list_all (\<lambda>r. r = v) rs"
    using assms by (cases "inh_imgs h"; cases "inh_rows h") (auto simp: inherit_ok_def)
  have all: "map (\<lambda>i. c) xs = xs" if "list_all (\<lambda>i. i = c) xs" for c :: 'c and xs
    using that by (induction xs) auto
  let ?src = "if v then take (length src - 8) src @ js ''closed.png'' else take (length src - 10) src @ js ''open.png''"
  let ?h = "h\<lparr>inh_rows := map (\<lambda>r. \<not> v) (inh_rows h), inh_imgs := map (\<lambda>i. ?src) (inh_imgs h)\<rparr>"
  have once: "toggleInherit h = Some ?h"
    using h by (simp add: toggleInherit_def)
  have ends: "ends_with (if v then ''open.png'' else ''closed.png'') src"
    using assms by (simp add: inherit_ok_def)
  have ok: "inherit_ok (\<not> v) ?src ?h"
    using h ends close_image(1) [OF _ refl, of src] open_image(1) [OF _ refl, of src]
    by (cases v) (simp_all add: inherit_ok_def list_all_iff)
  have "toggleInherit ?h = Some (h\<lparr>inh_rows := map (\<lambda>r. v) (inh_rows h), inh_imgs := map (\<lambda>i. src) (inh_imgs h)\<rparr>)"
    using h ends close_image(2) [OF _ refl, of src] open_image(2) [OF _ refl, of src]
    by (cases v) (simp_all add: toggleInherit_def comp_def del: length_append)
  also have "h\<lparr>inh_rows := map (\<lambda>r. v) (inh_rows h), inh_imgs := map (\<lambda>i. src) (inh_imgs h)\<rparr> = h"
    using h by (simp add: all)
  finally show ?thesis using once ok by (auto simp: toggleInherit_def)
qed

theorem toggleInherit_swaps_witness:
  "\<exists>h. toggleInherit \<lparr>inh_rows = [False, False], inh_imgs = [js ''closed.png'']\<rparr> = Some h \<and>
     toggleInherit h = Some \<lparr>inh_rows = [False, False], inh_imgs = [js ''closed.png'']\<rparr>"
proof -
  have "inherit_ok False (js ''closed.png'') \<lparr>inh_rows = [False, False], inh_imgs = [js ''closed.png'']\<rparr>"
    by (simp add: inherit_ok_def ends_with_def)
  from toggleInherit_swaps [OF this] show ?thesis by blast
qed

end
