(* ===== verification/Menu.thy ===== *)
theory Menu
  imports JsString
begin

text \<open>
  The navigation menu, \<^verbatim>\<open>menu.js\<close>: \<open>makeTree\<close> prints the menu data as nested lists of links,
  \<open>initMenu\<close> puts them into the page and adds the search box. A reader of the printed lists shows
  that nothing is lost or misplaced.
\<close>

section \<open>The menu data\<close>

text \<open>A node of \<open>menudata\<close>, without and with the property \<open>children\<close>: its text and its URL.\<close>

datatype menu = Leaf jsstr jsstr | Menu jsstr jsstr "menu list"

definition menudata :: "menu list" where
  "menudata =
    [Leaf (js ''Main Page'') (js ''index.html''),
     Menu (js ''Data Structures'') (js ''annotated.html'')
     [Leaf (js ''Data Structures'') (js ''annotated.html''),
      Leaf (js ''Data Structure Index'') (js ''classes.html''),
      Leaf (js ''Class Hierarchy'') (js ''hierarchy.html''),
      Menu (js ''Data Fields'') (js ''functions.html'')
      [Menu (js ''All'') (js ''functions.html'')
       [Leaf (js ''b'') (js ''functions.html#index_b''),
        Leaf (js ''c'') (js ''functions_c.html#index_c''),
        Leaf (js ''d'') (js ''functions_d.html#index_d''),
        Leaf (js ''e'') (js ''functions_e.html#index_e''),
        Leaf (js ''f'') (js ''functions_f.html#index_f''),
        Leaf (js ''g'') (js ''functions_g.html#index_g''),
        Leaf (js ''h'') (js ''functions_h.html#index_h''),
        Leaf (js ''i'') (js ''functions_i.html#index_i''),
        Leaf (js ''j'') (js ''functions_j.html#index_j''),
        Leaf (js ''l'') (js ''functions_l.html#index_l''),
        Leaf (js ''m'') (js ''functions_m.html#index_m''),
        Leaf (js ''n'') (js ''functions_n.html#index_n''),
        Leaf (js ''o'') (js ''functions_o.html#index_o''),
        Leaf (js ''p'') (js ''functions_p.html#index_p''),
        Leaf (js ''q'') (js ''functions_q.html#index_q''),
        Leaf (js ''r'') (js ''functions_r.html#index_r''),
        Leaf (js ''s'') (js ''functions_s.html#index_s''),
        Leaf (js ''t'') (js ''functions_t.html#index_t''),
        Leaf (js ''u'') (js ''functions_u.html#index_u''),
        Leaf (js ''v'') (js ''functions_v.html#index_v''),
        Leaf (js ''w'') (js ''functions_w.html#index_w''),
        Leaf (js ''~'') (js ''functions_0x7e.html#index_0x7e'')],
       Menu (js ''Functions'') (js ''functions_func.html'')
       [Leaf (js ''b'') (js ''functions_func.html#index_b''),
        Leaf (js ''c'') (js ''functions_func_c.html#index_c''),
        Leaf (js ''d'') (js ''functions_func_d.html#index_d''),
        Leaf (js ''e'') (js ''functions_func_e.html#index_e''),
        Leaf (js ''f'') (js ''functions_func_f.html#index_f''),
        Leaf (js ''g'') (js ''functions_func_g.html#index_g''),
        Leaf (js ''h'') (js ''functions_func_h.html#index_h''),
        Leaf (js ''i'') (js ''functions_func_i.html#index_i''),
        Leaf (js ''j'') (js ''functions_func_j.html#index_j''),
        Leaf (js ''l'') (js ''functions_func_l.html#index_l''),
        Leaf (js ''m'') (js ''functions_func_m.html#index_m''),
        Leaf (js ''n'') (js ''functions_func_n.html#index_n''),
        Leaf (js ''o'') (js ''functions_func_o.html#index_o''),
        Leaf (js ''p'') (js ''functions_func_p.html#index_p''),
        Leaf (js ''q'') (js ''functions_func_q.html#index_q''),
        Leaf (js ''r'') (js ''functions_func_r.html#index_r''),
        Leaf (js ''s'') (js ''functions_func_s.html#index_s''),
        Leaf (js ''t'') (js ''functions_func_t.html#index_t''),
        Leaf (js ''u'') (js ''functions_func_u.html#index_u''),
        Leaf (js ''v'') (js ''functions_func_v.html#index_v''),
        Leaf (js ''w'') (js ''functions_func_w.html#index_w''),
        Leaf (js ''~'') (js ''functions_func_0x7e.html#index_0x7e'')],
       Leaf (js ''Enumerations'') (js ''functions_enum.html'')]]]"

section \<open>Printing\<close>

text \<open>A literal with its double quotes written as backquotes.\<close>

definition html :: "string \<Rightarrow> jsstr" where
  "html s = map (\<lambda>c. if c = cu 96 then cu 34 else c) (js s)"

fun makeTree :: "jsstr \<Rightarrow> menu \<Rightarrow> jsstr" and makeItems :: "jsstr \<Rightarrow> menu list \<Rightarrow> jsstr" where
  "makeTree relPath (Leaf label url) = []"
| "makeTree relPath (Menu label url ms) = html ''<ul>'' @ makeItems relPath ms @ html ''</ul>''"
| "makeItems relPath [] = []"
| "makeItems relPath (m # ms) =
     (case m of Leaf label url \<Rightarrow> html ''<li><a href=`'' @ relPath @ url @ html ''`>'' @ label @ html ''</a>''
      | Menu label url _ \<Rightarrow> html ''<li><a href=`'' @ relPath @ url @ html ''`>'' @ label @ html ''</a>'') @
     makeTree relPath m @ html ''</li>'' @ makeItems relPath ms"

text \<open>The page after \<open>initMenu\<close>: the list in the navigation bar, and what is appended to it.\<close>

record main_menu =
  menu_html :: jsstr
  menu_classes :: "string list"
  menu_id :: string
  appended :: "jsstr list"

definition initMenu :: "menu list \<Rightarrow> jsstr \<Rightarrow> bool \<Rightarrow> bool \<Rightarrow> jsstr \<Rightarrow> jsstr \<Rightarrow> main_menu" where
  "initMenu data relPath searchEnabled serverSide searchPage search =
     \<lparr>menu_html = html ''<ul>'' @ makeItems relPath data @ html ''</ul>'',
      menu_classes = [''sm'', ''sm-dox''], menu_id = ''main-menu'',
      appended =
        (if \<not> searchEnabled then []
         else if serverSide then
     [html ''<li style=`float:right`><div id=`MSearchBox` class=`MSearchBoxInactive`><div '' @
      html ''class=`left`><form id=`FSearchBox` action=`'' @
      searchPage @
      html ''` method=`get`><img id=`MSearchSelect` src=`'' @
      relPath @
      html ''search/mag.png` alt=``/><input type=`text` id=`MSearchField` name=`query` value=`'' @
      search @
      html ''` size=`20` accesskey=`S` onfocus=`searchBox.OnSearchFieldFocus(true)` '' @
      html ''onblur=`searchBox.OnSearchFieldFocus(false)`></form></div><div '' @
      html ''class=`right`></div></div></li>'']
         else
     [html ''<li style=`float:right`><div id=`MSearchBox` class=`MSearchBoxInactive`><span '' @
      html ''class=`left`><img id=`MSearchSelect` src=`'' @
      relPath @
      html ''search/mag_sel.png` onmouseover=`return searchBox.OnSearchSelectShow()` '' @
      html ''onmouseout=`return searchBox.OnSearchSelectHide()` alt=``/><input type=`text` '' @
      html ''id=`MSearchField` value=`'' @
      search @
      html ''` accesskey=`S` onfocus=`searchBox.OnSearchFieldFocus(true)` '' @
      html ''onblur=`searchBox.OnSearchFieldFocus(false)` '' @
      html ''onkeyup=`searchBox.OnSearchFieldChange(event)`/></span><span class=`right`><a '' @
      html ''id=`MSearchClose` href=`javascript:searchBox.CloseResultsWindow()`><img '' @
      html ''id=`MSearchCloseImg` border=`0` src=`'' @
      relPath @
      html ''search/close.png` alt=``/></a></span></div></li>''])\<rparr>"

section \<open>Reading the lists back\<close>

definition lit :: "jsstr \<Rightarrow> jsstr \<Rightarrow> jsstr option" where
  "lit p s = (if take (length p) s = p then Some (drop (length p) s) else None)"

text \<open>A reader of items; the fuel bounds the number of nodes.\<close>

fun read_items :: "nat \<Rightarrow> jsstr \<Rightarrow> (menu list \<times> jsstr) option" where
  "read_items 0 s = None"
| "read_items (Suc n) s =
     (case lit (html ''<li><a href=`'') s of
        None \<Rightarrow> Some ([], s)
      | Some s1 \<Rightarrow>
          (case lit (html ''`>'') (dropWhile (\<lambda>c. c \<noteq> cu 34) s1) of
             None \<Rightarrow> None
           | Some s2 \<Rightarrow>
               (case lit (html ''</a>'') (dropWhile (\<lambda>c. c \<noteq> cu 60) s2) of
                  None \<Rightarrow> None
                | Some s3 \<Rightarrow>
                    (let url = takeWhile (\<lambda>c. c \<noteq> cu 34) s1;
                         label = takeWhile (\<lambda>c. c \<noteq> cu 60) s2;
                         node = (case lit (html ''<ul>'') s3 of
                                   None \<Rightarrow> Some (Leaf label url, s3)
                                 | Some s4 \<Rightarrow>
                                     (case read_items n s4 of
                                        None \<Rightarrow> None
                                      | Some (ms, s5) \<Rightarrow> map_option (Pair (Menu label url ms)) (lit (html ''</ul>'') s5)))
                     in (case node of
                           None \<Rightarrow> None
                         | Some (m, s6) \<Rightarrow>
                             (case lit (html ''</li>'') s6 of
                                None \<Rightarrow> None
                              | Some s7 \<Rightarrow> map_option (\<lambda>(ms, s8). (m # ms, s8)) (read_items n s7)))))))"

fun nodes :: "menu \<Rightarrow> nat" and all_nodes :: "menu list \<Rightarrow> nat" where
  "nodes (Leaf label url) = 1"
| "nodes (Menu label url ms) = 1 + all_nodes ms"
| "all_nodes [] = 0"
| "all_nodes (m # ms) = nodes m + all_nodes ms"

text \<open>Texts without angle brackets and URLs without quotes, as the documentation has them.\<close>

fun plain_node :: "menu \<Rightarrow> bool" and plain_nodes :: "menu list \<Rightarrow> bool" where
  "plain_node (Leaf label url) = (cu 60 \<notin> set label \<and> cu 34 \<notin> set url)"
| "plain_node (Menu label url ms) = (cu 60 \<notin> set label \<and> cu 34 \<notin> set url \<and> plain_nodes ms)"
| "plain_nodes [] = True"
| "plain_nodes (m # ms) = (plain_node m \<and> plain_nodes ms)"

fun rebase :: "jsstr \<Rightarrow> menu \<Rightarrow> menu" and rebase_all :: "jsstr \<Rightarrow> menu list \<Rightarrow> menu list" where
  "rebase relPath (Leaf label url) = Leaf label (relPath @ url)"
| "rebase relPath (Menu label url ms) = Menu label (relPath @ url) (rebase_all relPath ms)"
| "rebase_all relPath [] = []"
| "rebase_all relPath (m # ms) = rebase relPath m # rebase_all relPath ms"

lemma lit_append [simp]: "lit p (p @ s) = Some s"
  by (simp add: lit_def)

lemma html_quote: "html ''`>'' @ s = cu 34 # cu 62 # s"
  by (simp add: html_def js_def cu_inject)

lemma html_close: "html ''</a>'' @ s = cu 60 # cu 47 # cu 97 # cu 62 # s"
  by (simp add: html_def js_def cu_inject)

lemma lit_other [simp]:
  "lit (html ''<li><a href=`'') (html ''</ul>'' @ s) = None"
  "lit (html ''<ul>'') (html ''</li>'' @ s) = None"
  by (simp_all add: lit_def html_def js_def cu_inject)

lemma skip_url [simp]:
  "cu 34 \<notin> set u \<Longrightarrow> takeWhile (\<lambda>c. c \<noteq> cu 34) (u @ html ''`>'' @ s) = u"
  "cu 34 \<notin> set u \<Longrightarrow> dropWhile (\<lambda>c. c \<noteq> cu 34) (u @ html ''`>'' @ s) = html ''`>'' @ s"
  unfolding html_quote by (induction u) auto

lemma skip_label [simp]:
  "cu 60 \<notin> set u \<Longrightarrow> takeWhile (\<lambda>c. c \<noteq> cu 60) (u @ html ''</a>'' @ s) = u"
  "cu 60 \<notin> set u \<Longrightarrow> dropWhile (\<lambda>c. c \<noteq> cu 60) (u @ html ''</a>'' @ s) = html ''</a>'' @ s"
  unfolding html_close by (induction u) auto

lemma read_makeItems:
  assumes rel: "cu 34 \<notin> set relPath"
  shows "plain_nodes ms \<Longrightarrow> all_nodes ms < n \<Longrightarrow> lit (html ''<li><a href=`'') s = None \<Longrightarrow>
    read_items n (makeItems relPath ms @ s) = Some (rebase_all relPath ms, s)"
proof (induction n arbitrary: ms s)
  case (Suc n)
  show ?case
  proof (cases ms)
    case Nil
    then show ?thesis using Suc.prems by simp
  next
    case (Cons m ms')
    show ?thesis
    proof (cases m)
      case (Leaf label url)
      have "read_items n (makeItems relPath ms' @ s) = Some (rebase_all relPath ms', s)"
        using Suc Cons Leaf by simp
      then show ?thesis
        using Suc.prems rel Cons Leaf skip_url [of "relPath @ url"] by simp
    next
      case (Menu label url cs)
      have "read_items n (makeItems relPath ms' @ s) = Some (rebase_all relPath ms', s)"
        using Suc Cons Menu by simp
      moreover have "read_items n (makeItems relPath cs @ html ''</ul>'' @ t) =
          Some (rebase_all relPath cs, html ''</ul>'' @ t)" for t
        using Suc Cons Menu by simp
      ultimately show ?thesis
        using Suc.prems rel Cons Menu skip_url [of "relPath @ url"] by simp
    qed
  qed
qed simp

text \<open>
  C40: The printed menu can be read back: reading the list that \<open>initMenu\<close> puts into the page gives
  every node of the menu data, in order and at its depth, with its text and its URL below the
  given path.
\<close>

theorem menu_roundtrip:
  assumes "plain_nodes data" and "cu 34 \<notin> set relPath" and "all_nodes data < n"
  shows "Option.bind (lit (html ''<ul>'') (menu_html (initMenu data relPath enabled server page search)))
      (read_items n) = Some (rebase_all relPath data, html ''</ul>'')"
proof -
  have "lit (html ''<li><a href=`'') (html ''</ul>'') = None" using lit_other(1) [of "[]"] by simp
  then show ?thesis
    using read_makeItems [OF assms(2,1,3)] by (simp add: initMenu_def)
qed

lemma not_in_js:
  "cu 34 \<notin> set (js s) \<longleftrightarrow> CHR 0x22 \<notin> set s" "cu 60 \<notin> set (js s) \<longleftrightarrow> CHR ''<'' \<notin> set s"
proof -
  have mem: "cu (of_char c) \<in> set (js s) \<longleftrightarrow> c \<in> set s" for c
  proof
    assume "cu (of_char c) \<in> set (js s)"
    then obtain d where "d \<in> set s" "cu (of_char c) = cu (of_char d)" by (auto simp: js_def)
    then show "c \<in> set s" using js_inject [of "[c]" "[d]"] by (simp add: js_def)
  qed (auto simp: js_def)
  show "cu 34 \<notin> set (js s) \<longleftrightarrow> CHR 0x22 \<notin> set s" "cu 60 \<notin> set (js s) \<longleftrightarrow> CHR ''<'' \<notin> set s"
    using mem [of "CHR 0x22"] mem [of "CHR ''<''"] by simp_all
qed

theorem menu_roundtrip_witness:
  "Option.bind (lit (html ''<ul>'') (menu_html (initMenu menudata (js ''../'') True False [] (js ''Search''))))
     (read_items 100) = Some (rebase_all (js ''../'') menudata, html ''</ul>'')"
proof (rule menu_roundtrip)
  show "plain_nodes menudata" "cu 34 \<notin> set (js ''../'')" "all_nodes menudata < 100"
    by (simp_all add: menudata_def not_in_js)
qed

end
