(* ===== verification/Schema.thy ===== *)
theory Schema
  imports Prelude
begin

text \<open>
  Table schemas, \<^verbatim>\<open>schema.cpp\<close>, and the cache of schemas a session has, \<^verbatim>\<open>schema_factory.cpp\<close>.
  Asking the database for the columns of a table is a parameter; \<open>None\<close> is an exception.
\<close>

section \<open>Schemas\<close>

record column_definition =
  col_name :: string
  col_pk :: bool
  col_autoincrement :: bool
  col_type :: string
  col_default :: string

record schema =
  sc_table :: string
  sc_columns :: "column_definition list"

definition new_schema :: "string \<Rightarrow> schema option" where
  "new_schema tableName = (if tableName = [] then None else Some \<lparr>sc_table = tableName, sc_columns = []\<rparr>)"

definition schema_valid :: "schema \<Rightarrow> bool" where
  "schema_valid s = (sc_columns s \<noteq> [])"

definition schema_init :: "(string \<Rightarrow> column_definition list option) \<Rightarrow> schema \<Rightarrow> schema option" where
  "schema_init load s = map_option (\<lambda>cs. s\<lparr>sc_columns := cs\<rparr>) (load (sc_table s))"

definition column_names :: "schema \<Rightarrow> string list" where
  "column_names s = map col_name (sc_columns s)"

fun key_names :: "column_definition list \<Rightarrow> string list" where
  "key_names [] = []"
| "key_names (col # cs) = (if col_pk col then col_name col # key_names cs else key_names cs)"

definition schema_primary_keys :: "schema \<Rightarrow> string list" where
  "schema_primary_keys s = key_names (sc_columns s)"

fun first_key :: "column_definition list \<Rightarrow> string option" where
  "first_key [] = None"
| "first_key (col # cs) = (if col_pk col \<and> col_autoincrement col then Some (col_name col) else first_key cs)"

definition schema_primary_key :: "schema \<Rightarrow> string option" where
  "schema_primary_key s = first_key (sc_columns s)"

fun find_default :: "string \<Rightarrow> column_definition list \<Rightarrow> string option" where
  "find_default name [] = None"
| "find_default name (col # cs) = (if col_name col = name then Some (col_default col) else find_default name cs)"

definition schema_default_value :: "schema \<Rightarrow> string \<Rightarrow> string option" where
  "schema_default_value s name = find_default name (sc_columns s)"

lemma key_names_eq: "key_names cs = map col_name (filter col_pk cs)"
  by (induction cs) auto

lemma first_key_eq:
  "first_key cs = map_option col_name (find (\<lambda>col. col_pk col \<and> col_autoincrement col) cs)"
  by (induction cs) auto

lemma first_key_is_key: "first_key cs = Some k \<Longrightarrow> k \<in> set (key_names cs)"
  by (induction cs) (auto split: if_splits)

lemma primary_key_is_key: "schema_primary_key s = Some k \<Longrightarrow> k \<in> set (schema_primary_keys s)"
  by (simp add: schema_primary_key_def schema_primary_keys_def first_key_is_key)

lemma primary_key_is_column: "schema_primary_key s = Some k \<Longrightarrow> k \<in> set (column_names s)"
  by (auto simp: schema_primary_key_def first_key_eq column_names_def find_Some_iff)

section \<open>The cache of schemas\<close>

type_synonym schema_cache = "string \<Rightarrow> schema option"

definition factory_create :: "string \<Rightarrow> schema_cache \<Rightarrow> (schema \<times> schema_cache) option" where
  "factory_create tableName cache =
     map_option (\<lambda>s. (s, cache(tableName \<mapsto> s))) (new_schema tableName)"

definition factory_get :: "string \<Rightarrow> schema_cache \<Rightarrow> (schema \<times> schema_cache) option" where
  "factory_get tableName cache =
     (case cache tableName of None \<Rightarrow> factory_create tableName cache | Some s \<Rightarrow> Some (s, cache))"

definition factory_clear :: "string \<Rightarrow> schema_cache \<Rightarrow> schema_cache" where
  "factory_clear tableName cache = cache(tableName := None)"

text \<open>The schemas are shared with the cache: initialising one fills it in for every later use.\<close>

definition factory_init ::
  "(string \<Rightarrow> column_definition list option) \<Rightarrow> string \<Rightarrow> schema_cache \<Rightarrow> schema_cache option" where
  "factory_init load tableName cache =
     Option.bind (cache tableName) (\<lambda>s. map_option (\<lambda>s'. cache(tableName \<mapsto> s')) (schema_init load s))"

text \<open>Every schema of the cache is one of its table, and tables have names.\<close>

definition cache_ok :: "schema_cache \<Rightarrow> bool" where
  "cache_ok cache = ((\<forall>t s. cache t = Some s \<longrightarrow> sc_table s = t) \<and> cache [] = None)"

lemma cache_ok_empty [simp]: "cache_ok Map.empty"
  by (simp add: cache_ok_def)

lemma factory_get_ok:
  "factory_get t cache = Some (s, cache') \<Longrightarrow> cache_ok cache \<Longrightarrow>
   cache_ok cache' \<and> sc_table s = t \<and> cache' t = Some s"
  by (auto simp: factory_get_def factory_create_def new_schema_def cache_ok_def split: option.splits if_splits)

lemma factory_init_ok: "factory_init load t cache = Some cache' \<Longrightarrow> cache_ok cache \<Longrightarrow> cache_ok cache'"
  by (auto simp: factory_init_def bind_Some_iff schema_init_def cache_ok_def split: if_splits)

lemma factory_clear_ok: "cache_ok cache \<Longrightarrow> cache_ok (factory_clear t cache)"
  by (auto simp: factory_clear_def cache_ok_def)

section \<open>Sessions of a schema cache\<close>

datatype cache_op = GetSchema string | InitSchema string | ClearSchema string

fun cache_call ::
  "(string \<Rightarrow> column_definition list option) \<Rightarrow> schema_cache \<Rightarrow> cache_op \<Rightarrow> schema_cache option" where
  "cache_call load cache (GetSchema t) = map_option snd (factory_get t cache)"
| "cache_call load cache (InitSchema t) = factory_init load t cache"
| "cache_call load cache (ClearSchema t) = Some (factory_clear t cache)"

lemma cache_call_ok: "cache_call load cache x = Some cache' \<Longrightarrow> cache_ok cache \<Longrightarrow> cache_ok cache'"
  using factory_get_ok factory_init_ok factory_clear_ok by (cases x) fastforce+

lemma cache_run_ok: "run (cache_call load) cache xs = Some cache' \<Longrightarrow> cache_ok cache \<Longrightarrow> cache_ok cache'"
  by (induction xs arbitrary: cache) (auto split: option.splits dest: cache_call_ok)

text \<open>
  C34: Whatever schemas a session was asked for, initialised or cleared before, it has a schema for
  every table with a name, and none for a table without: the schema describes that table, a second
  request returns it again and changes nothing, and initialising it gives it the columns of the
  table for every later request.
\<close>

theorem schema_cache_consistent:
  assumes "run (cache_call load) Map.empty xs = Some cache"
  shows "if t = [] then factory_get t cache = None
    else \<exists>s cache'. factory_get t cache = Some (s, cache') \<and> sc_table s = t \<and>
      factory_get t cache' = Some (s, cache') \<and> (cache t \<noteq> None \<longrightarrow> cache' = cache) \<and>
      (\<forall>columns. load t = Some columns \<longrightarrow> (\<exists>filled. factory_init load t cache' = Some filled \<and>
         factory_get t filled = Some (s\<lparr>sc_columns := columns\<rparr>, filled)))"
proof -
  have ok: "cache_ok cache" using assms cache_run_ok by fastforce
  show ?thesis
  proof (cases "cache t")
    case None
    then show ?thesis
      by (auto simp: factory_get_def factory_create_def new_schema_def factory_init_def schema_init_def)
  next
    case (Some s)
    then have "sc_table s = t" "t \<noteq> []" using ok by (auto simp: cache_ok_def)
    then show ?thesis using Some
      by (auto simp: factory_get_def factory_init_def schema_init_def)
  qed
qed

theorem schema_cache_consistent_witness:
  "\<exists>cache s cache'. run (cache_call (\<lambda>_. Some [])) Map.empty [GetSchema ''users'', ClearSchema ''users''] = Some cache \<and>
     factory_get ''users'' cache = Some (s, cache') \<and> sc_table s = ''users''"
proof -
  have "\<exists>cache. run (cache_call (\<lambda>_. Some [])) Map.empty [GetSchema ''users'', ClearSchema ''users''] = Some cache"
    by (simp add: factory_get_def factory_create_def new_schema_def)
  then obtain cache where
    r: "run (cache_call (\<lambda>_. Some [])) Map.empty [GetSchema ''users'', ClearSchema ''users''] = Some cache" ..
  with schema_cache_consistent [OF r, of "''users''"] show ?thesis by auto
qed

end
