(* ===== verification/SqlClause.thy ===== *)
theory SqlClause
  imports Prelude
begin

text \<open>
  The pieces of an SQL statement, \<^verbatim>\<open>sql_generator.cpp\<close>, \<^verbatim>\<open>where_clause.cpp\<close> and
  \<^verbatim>\<open>join_clause.cpp\<close>: objects that generate their text on demand and keep it in \<open>sql_\<close>.
  C++ strings are character lists; an object that is copied is a value. What the statement text
  of an operator needs of a value, its text, is the parameter \<open>str\<close>, and the placeholder a
  database uses for a parameter is \<open>bind_param\<close>.
\<close>

section \<open>Generated text\<close>

text \<open>\<open>helper::join_csv\<close> with any separator.\<close>

fun join_with :: "string \<Rightarrow> string list \<Rightarrow> string" where
  "join_with s [] = []"
| "join_with s [x] = x"
| "join_with s (x # y # xs) = x @ s @ join_with s (y # xs)"

definition join_csv :: "string list \<Rightarrow> string" where
  "join_csv xs = join_with '','' xs"

text \<open>\<open>sql_generator::to_sql\<close>: the kept text when there is one, else the generated one.\<close>

definition kept_or :: "string \<Rightarrow> string \<Rightarrow> string" where
  "kept_or sql generated = (if sql \<noteq> [] then sql else generated)"

text \<open>
  The interface of a generator: the text it generates, and the place where it keeps it. The text
  must not depend on what is kept.
\<close>

locale generator =
  fixes generate :: "'s \<Rightarrow> string" and sql :: "'s \<Rightarrow> string" and keep :: "string \<Rightarrow> 's \<Rightarrow> 's"
  assumes sql_keep: "sql (keep t s) = t"
    and generate_keep: "generate (keep t s) = generate s"
begin

definition coherent :: "'s \<Rightarrow> bool" where
  "coherent s = (sql s = [] \<or> sql s = generate s)"

definition text_of :: "'s \<Rightarrow> string" where
  "text_of s = kept_or (sql s) (generate s)"

lemma text_of_coherent: "coherent s \<Longrightarrow> text_of s = generate s"
  by (auto simp: coherent_def text_of_def kept_or_def)

lemma coherent_keep: "coherent s \<Longrightarrow> coherent (keep (text_of s) s)"
  by (simp add: coherent_def text_of_coherent sql_keep generate_keep)

lemma coherent_forget: "coherent (keep [] s)"
  by (simp add: coherent_def sql_keep)

lemma text_of_keep: "coherent s \<Longrightarrow> text_of (keep (text_of s) s) = text_of s"
  by (simp add: text_of_coherent) (simp add: text_of_def kept_or_def sql_keep generate_keep)

end

section \<open>Where clauses\<close>

text \<open>The members \<open>sql_\<close>, \<open>value_\<close>, \<open>and_\<close> and \<open>or_\<close> of a where clause.\<close>

datatype where_clause = Where (wh_sql: string) (wh_value: string) (wh_and: "where_clause list") (wh_or: "where_clause list")

definition brackets :: "bool \<Rightarrow> string \<Rightarrow> string" where
  "brackets b s = (if b then ''('' @ s @ '')'' else s)"

fun generate_where :: "where_clause \<Rightarrow> string" where
  "generate_where (Where sql v ands ors) =
     (let both = (ands \<noteq> [] \<and> ors \<noteq> []);
          and_parts = map (\<lambda>w. kept_or (wh_sql w) (generate_where w)) ands;
          or_parts = map (\<lambda>w. kept_or (wh_sql w) (generate_where w)) ors
      in brackets both (v @ (if ands \<noteq> [] then '' AND '' @ join_with '' AND '' and_parts else [])) @
         (if ors \<noteq> [] then '' OR '' @ brackets both (join_with '' OR '' or_parts) else []))"

definition where_text :: "where_clause \<Rightarrow> string" where
  "where_text w = kept_or (wh_sql w) (generate_where w)"

definition empty_where :: where_clause where
  "empty_where = Where [] [] [] []"

definition where_of :: "string \<Rightarrow> where_clause" where
  "where_of sql = Where [] sql [] []"

definition where_empty :: "where_clause \<Rightarrow> bool" where
  "where_empty w = (wh_value w = [] \<and> wh_and w = [] \<and> wh_or w = [])"

fun keep_where :: "string \<Rightarrow> where_clause \<Rightarrow> where_clause" where
  "keep_where t (Where sql v ands ors) = Where t v ands ors"

text \<open>\<open>operator&&\<close> and \<open>operator||\<close> with a clause and with a string.\<close>

fun and_clause :: "where_clause \<Rightarrow> where_clause \<Rightarrow> where_clause" where
  "and_clause (Where sql v ands ors) w =
     (if v = [] then Where [] (where_text w) ands ors else Where [] v (ands @ [w]) ors)"

fun and_string :: "where_clause \<Rightarrow> string \<Rightarrow> where_clause" where
  "and_string (Where sql v ands ors) t =
     (if t = [] then Where sql v ands ors
      else if v = [] then Where [] t ands ors
      else Where [] v (ands @ [where_of t]) ors)"

fun or_clause :: "where_clause \<Rightarrow> where_clause \<Rightarrow> where_clause" where
  "or_clause (Where sql v ands ors) w =
     (if where_empty w then Where sql v ands ors
      else if v = [] then Where [] (where_text w) ands ors
      else Where [] v ands (ors @ [w]))"

fun or_string :: "where_clause \<Rightarrow> string \<Rightarrow> where_clause" where
  "or_string (Where sql v ands ors) t =
     (if t = [] then Where sql v ands ors
      else if v = [] then Where [] t ands ors
      else Where [] v ands (ors @ [where_of t]))"

definition reset_where_to :: "string \<Rightarrow> where_clause" where
  "reset_where_to t = where_of t"

section \<open>Join clauses\<close>

datatype join_type = JoinNone | Inner | LeftJoin | RightJoin | Natural | Full | Cross

record join_clause =
  jn_sql :: string
  jn_table :: string
  jn_type :: join_type
  jn_on :: where_clause

definition new_join :: "string \<Rightarrow> join_type \<Rightarrow> join_clause" where
  "new_join tableName ty = \<lparr>jn_sql = [], jn_table = tableName, jn_type = ty, jn_on = empty_where\<rparr>"

definition new_join_as :: "string \<Rightarrow> string \<Rightarrow> join_type \<Rightarrow> join_clause" where
  "new_join_as tableName alias ty = new_join (tableName @ '' as '' @ alias) ty"

fun join_keyword :: "join_type \<Rightarrow> string" where
  "join_keyword JoinNone = []"
| "join_keyword Inner = '' INNER''"
| "join_keyword LeftJoin = '' LEFT''"
| "join_keyword RightJoin = '' RIGHT''"
| "join_keyword Natural = '' NATURAL''"
| "join_keyword Full = '' FULL OUTER''"
| "join_keyword Cross = '' CROSS''"

definition generate_join :: "join_clause \<Rightarrow> string" where
  "generate_join j =
     join_keyword (jn_type j) @ '' JOIN '' @ jn_table j @
     (if jn_type j \<noteq> Cross \<and> jn_type j \<noteq> Natural then '' ON '' @ where_text (jn_on j) else [])"

definition join_text :: "join_clause \<Rightarrow> string" where
  "join_text j = kept_or (jn_sql j) (generate_join j)"

definition join_set_table :: "string \<Rightarrow> join_clause \<Rightarrow> join_clause" where
  "join_set_table value j = j\<lparr>jn_table := value, jn_sql := []\<rparr>"

definition join_set_alias :: "string \<Rightarrow> string \<Rightarrow> join_clause \<Rightarrow> join_clause" where
  "join_set_alias value alias j = j\<lparr>jn_table := value @ '' '' @ alias, jn_sql := []\<rparr>"

definition join_set_type :: "join_type \<Rightarrow> join_clause \<Rightarrow> join_clause" where
  "join_set_type ty j = j\<lparr>jn_type := ty, jn_sql := []\<rparr>"

definition join_on_string :: "string \<Rightarrow> join_clause \<Rightarrow> join_clause" where
  "join_on_string value j = j\<lparr>jn_on := where_of value, jn_sql := []\<rparr>"

definition join_on :: "where_clause \<Rightarrow> join_clause \<Rightarrow> join_clause" where
  "join_on value j = j\<lparr>jn_on := value, jn_sql := []\<rparr>"

definition join_empty :: "join_clause \<Rightarrow> bool" where
  "join_empty j = (jn_table j = [] \<or> where_empty (jn_on j))"

definition join_reset :: "join_clause \<Rightarrow> join_clause" where
  "join_reset j = j\<lparr>jn_table := [], jn_on := empty_where, jn_sql := []\<rparr>"

section \<open>Both are generators\<close>

lemma generate_keep_where [simp]: "generate_where (keep_where t w) = generate_where w"
  by (cases w) (simp add: Let_def)

interpretation where_gen: generator generate_where wh_sql keep_where
proof
  show "wh_sql (keep_where t w) = t" for t w by (cases w) simp
qed simp

interpretation join_gen: generator generate_join jn_sql "\<lambda>t. jn_sql_update (\<lambda>_. t)"
  by unfold_locales (simp_all add: generate_join_def)

lemma where_text_eq: "where_gen.text_of w = where_text w"
  by (simp add: where_gen.text_of_def where_text_def)

text \<open>Clauses that were never asked for their text, or only since their last change.\<close>

lemma and_string_coherent: "where_gen.coherent w \<Longrightarrow> where_gen.coherent (and_string w t)"
  by (cases w) (simp add: where_gen.coherent_def)

lemma where_of_coherent [simp]: "where_gen.coherent (where_of t)"
  by (simp add: where_gen.coherent_def where_of_def)

lemma empty_where_coherent [simp]: "where_gen.coherent empty_where"
  by (simp add: where_gen.coherent_def empty_where_def)

lemma where_text_of [simp]: "where_text (where_of t) = t"
  by (simp add: where_text_def where_of_def kept_or_def brackets_def Let_def)

text \<open>A chain of conditions joined by AND.\<close>

lemma join_with_append:
  "xs \<noteq> [] \<Longrightarrow> join_with s (xs @ [y]) = join_with s xs @ s @ y"
  by (induction s xs rule: join_with.induct) auto

lemma generate_and_chain:
  "generate_where (Where sql v (map where_of ts) []) = join_with '' AND '' (v # ts)"
proof -
  have "map (\<lambda>w. kept_or (wh_sql w) (generate_where w)) (map where_of ts) = ts"
    using where_text_of by (simp add: where_text_def comp_def)
  then show ?thesis by (cases ts) (simp_all add: Let_def brackets_def)
qed

end
