(* ===== verification/SqlQuery.thy ===== *)
theory SqlQuery
  imports SqlClause
begin

text \<open>
  Queries: the state every query has (\<^verbatim>\<open>query.cpp\<close>), the operators of conditions and the
  builder that numbers their parameters (\<^verbatim>\<open>where_clause.cpp\<close>), and the prepared statement a
  query keeps. Values are a type parameter; \<open>None\<close> is an exception or the use of a null pointer.
\<close>

section \<open>Operators\<close>

datatype op_type = OpEq | OpLike | OpIn | OpBetween | OpIsNull | OpGreater | OpLesser | OpEqGreater | OpEqLesser

fun type_values :: "op_type \<Rightarrow> string" where
  "type_values OpEq = ''=''"
| "type_values OpLike = ''LIKE''"
| "type_values OpIn = ''IN''"
| "type_values OpBetween = ''BETWEEN''"
| "type_values OpIsNull = ''IS NULL''"
| "type_values OpGreater = ''>''"
| "type_values OpLesser = ''<''"
| "type_values OpEqGreater = ''>=''"
| "type_values OpEqLesser = ''<=''"

fun not_type_values :: "op_type \<Rightarrow> string" where
  "not_type_values OpEq = ''!=''"
| "not_type_values OpLike = ''NOT LIKE''"
| "not_type_values OpIn = ''NOT IN''"
| "not_type_values OpBetween = ''NOT BETWEEN''"
| "not_type_values OpIsNull = ''IS NOT NULL''"
| "not_type_values OpGreater = ''!>''"
| "not_type_values OpLesser = ''!<''"
| "not_type_values OpEqGreater = ''<''"
| "not_type_values OpEqLesser = ''>''"

text \<open>The union of the right-hand sides, by the type of the operator.\<close>

datatype 'v rvalue = One 'v | Many "'v list" | Range 'v 'v

record 'v sql_operator =
  op_not :: bool
  op_lvalue :: 'v
  op_type :: op_type
  op_rvalue :: "'v rvalue"

text \<open>
  What the code uses of a session and of values: the placeholder of a parameter, the text of a
  value, the value made of a text, the default value (null).
\<close>

record 'v sess =
  bind_param :: "nat \<Rightarrow> string"
  str :: "'v \<Rightarrow> string"
  of_text :: "string \<Rightarrow> 'v"
  null_value :: 'v
  returning :: bool
  primary_keys :: "string \<Rightarrow> string list option"

definition operator_of :: "op_type \<Rightarrow> 'v \<Rightarrow> 'v rvalue \<Rightarrow> 'v sql_operator" where
  "operator_of t l r = \<lparr>op_not = False, op_lvalue = l, op_type = t, op_rvalue = r\<rparr>"

definition op_equals :: "'v \<Rightarrow> 'v \<Rightarrow> 'v sql_operator" where
  "op_equals l r = operator_of OpEq l (One r)"

definition op_greater :: "'v \<Rightarrow> 'v \<Rightarrow> 'v sql_operator" where
  "op_greater l r = operator_of OpGreater l (One r)"

definition op_lesser :: "'v \<Rightarrow> 'v \<Rightarrow> 'v sql_operator" where
  "op_lesser l r = operator_of OpLesser l (One r)"

definition op_equals_greater :: "'v \<Rightarrow> 'v \<Rightarrow> 'v sql_operator" where
  "op_equals_greater l r = operator_of OpEqGreater l (One r)"

definition op_equals_lesser :: "'v \<Rightarrow> 'v \<Rightarrow> 'v sql_operator" where
  "op_equals_lesser l r = operator_of OpEqLesser l (One r)"

definition op_like :: "'v sess \<Rightarrow> 'v \<Rightarrow> string \<Rightarrow> 'v sql_operator" where
  "op_like c l r = operator_of OpLike l (One (of_text c r))"

definition op_startswith :: "'v sess \<Rightarrow> 'v \<Rightarrow> string \<Rightarrow> 'v sql_operator" where
  "op_startswith c l r = operator_of OpLike l (One (of_text c (r @ ''%'')))"

definition op_endswith :: "'v sess \<Rightarrow> 'v \<Rightarrow> string \<Rightarrow> 'v sql_operator" where
  "op_endswith c l r = operator_of OpLike l (One (of_text c (''%'' @ r)))"

definition op_contains :: "'v sess \<Rightarrow> 'v \<Rightarrow> string \<Rightarrow> 'v sql_operator" where
  "op_contains c l r = operator_of OpLike l (One (of_text c (''%'' @ r @ ''%'')))"

definition op_in :: "'v \<Rightarrow> 'v list \<Rightarrow> 'v sql_operator" where
  "op_in l rs = operator_of OpIn l (Many rs)"

definition op_between :: "'v \<Rightarrow> 'v \<Rightarrow> 'v \<Rightarrow> 'v sql_operator" where
  "op_between l r1 r2 = operator_of OpBetween l (Range r1 r2)"

definition op_is_null :: "'v sess \<Rightarrow> 'v \<Rightarrow> 'v sql_operator" where
  "op_is_null c l = operator_of OpIsNull l (One (null_value c))"

definition op_negate :: "'v sql_operator \<Rightarrow> 'v sql_operator" where
  "op_negate p = p\<lparr>op_not := \<not> op_not p\<rparr>"

definition is_named :: "'v sess \<Rightarrow> 'v \<Rightarrow> bool" where
  "is_named c v = (case str c v of [] \<Rightarrow> False | x # _ \<Rightarrow> x = CHR ''@'' \<or> x = CHR '':'')"

definition operator_text :: "'v sess \<Rightarrow> nat \<Rightarrow> 'v sql_operator \<Rightarrow> string" where
  "operator_text c index p =
     str c (op_lvalue p) @ '' '' @
     (if op_not p then not_type_values (op_type p) else type_values (op_type p)) @ '' '' @ bind_param c index"

lemma operator_text_ne [simp]: "operator_text c i p \<noteq> []"
  by (simp add: operator_text_def)

section \<open>The state of a query\<close>

text \<open>A prepared statement: its text and the values bound to it.\<close>

record 'v stmt =
  st_sql :: string
  st_params :: "'v list"
  st_named :: "string \<Rightarrow> 'v option"

record 'v query =
  q_dirty :: bool
  q_params :: "'v list"
  q_named :: "string \<Rightarrow> 'v option"
  q_stmt :: "'v stmt option"
  q_sql :: string

definition set_modified :: "('v, 'z) query_scheme \<Rightarrow> ('v, 'z) query_scheme" where
  "set_modified q = q\<lparr>q_dirty := True, q_sql := []\<rparr>"

definition assert_binding_index ::
  "'v sess \<Rightarrow> nat \<Rightarrow> ('v, 'z) query_scheme \<Rightarrow> (nat \<times> ('v, 'z) query_scheme) option" where
  "assert_binding_index c index q =
     (if index = 0 then None
      else if index > length (q_params q)
      then Some (index - 1, q\<lparr>q_params := q_params q @ replicate (index - length (q_params q)) (null_value c),
                             q_dirty := True\<rparr>)
      else Some (index - 1, q))"

definition bind_index ::
  "'v sess \<Rightarrow> nat \<Rightarrow> 'v \<Rightarrow> ('v, 'z) query_scheme \<Rightarrow> ('v, 'z) query_scheme option" where
  "bind_index c index v q =
     map_option (\<lambda>(i, q'). set_modified (q'\<lparr>q_params := (q_params q')[i := v]\<rparr>)) (assert_binding_index c index q)"

definition bind_name :: "string \<Rightarrow> 'v \<Rightarrow> ('v, 'z) query_scheme \<Rightarrow> ('v, 'z) query_scheme" where
  "bind_name name v q = set_modified (q\<lparr>q_named := (q_named q)(name \<mapsto> v)\<rparr>)"

text \<open>\<open>bindable::bind\<close> of a vector, from a first index on.\<close>

fun bind_values ::
  "'v sess \<Rightarrow> nat \<Rightarrow> 'v list \<Rightarrow> ('v, 'z) query_scheme \<Rightarrow> ('v, 'z) query_scheme option" where
  "bind_values c index [] q = Some q"
| "bind_values c index (v # vs) q =
     (case bind_index c index v q of None \<Rightarrow> None | Some q' \<Rightarrow> bind_values c (index + 1) vs q')"

text \<open>
  What becomes of a new statement is up to the driver and the database, a parameter of the model:
  it is taken, its text is refused, or a binding is, after the first values and some of the names.
\<close>

datatype taken = Taken | Refused | Unbound nat "string list"

text \<open>A statement just created, and one whose bindings were broken off.\<close>

definition unprepared :: "'v stmt" where
  "unprepared = \<lparr>st_sql = [], st_params = [], st_named = Map.empty\<rparr>"

definition partly_bound :: "nat \<Rightarrow> string list \<Rightarrow> 'v stmt \<Rightarrow> 'v stmt" where
  "partly_bound n names st = st\<lparr>st_params := take n (st_params st), st_named := st_named st |` set names\<rparr>"

text \<open>
  \<open>query::prepare\<close>: a new statement unless the kept one is up to date. It returns (true) or raises
  (false); a statement whose text or bindings were refused stays in the query, and the flag as it was.
\<close>

definition prepare ::
  "('v stmt \<Rightarrow> taken) \<Rightarrow> string \<Rightarrow> ('v, 'z) query_scheme \<Rightarrow> bool \<times> ('v, 'z) query_scheme" where
  "prepare takes sql q =
     (if q_stmt q = None \<or> q_dirty q
      then
        let st = \<lparr>st_sql = sql, st_params = q_params q, st_named = q_named q\<rparr>
        in case takes st of
             Taken \<Rightarrow> (True, q\<lparr>q_stmt := Some st, q_dirty := False\<rparr>)
           | Refused \<Rightarrow> (False, q\<lparr>q_stmt := Some unprepared\<rparr>)
           | Unbound n names \<Rightarrow> (False, q\<lparr>q_stmt := Some (partly_bound n names st)\<rparr>)
      else (True, q))"

text \<open>\<open>query::reset\<close>; the reset of a statement keeps its text and its bindings.\<close>

definition query_reset :: "('v, 'z) query_scheme \<Rightarrow> ('v, 'z) query_scheme option" where
  "query_reset q =
     (let q' = q\<lparr>q_params := [], q_named := Map.empty, q_dirty := False\<rparr>
      in if q_stmt q' = None then None else Some q')"

section \<open>Binding the values of operators\<close>

text \<open>\<open>where_builder::bind\<close>\<close>

definition bind_operator ::
  "'v sess \<Rightarrow> nat \<Rightarrow> 'v sql_operator \<Rightarrow> ('v, 'z) query_scheme \<Rightarrow> ('v, 'z) query_scheme option" where
  "bind_operator c index p q =
     (case op_rvalue p of
        One v \<Rightarrow> if is_named c v then Some q else bind_index c index v q
      | Many vs \<Rightarrow> bind_values c index vs q
      | Range v1 v2 \<Rightarrow> Option.bind (bind_index c index v1 q) (bind_index c index v2))"

definition next_index :: "('v, 'z) query_scheme \<Rightarrow> nat" where
  "next_index q = length (q_params q) + 1"

lemma bind_index_next:
  "bind_index c (next_index q) v q = Some (set_modified (q\<lparr>q_params := q_params q @ [v]\<rparr>))"
  by (simp add: bind_index_def assert_binding_index_def next_index_def set_modified_def)

lemma bind_index_0: "bind_index c 0 v q = None"
  by (simp add: bind_index_def assert_binding_index_def)

lemma bind_index_Some: "0 < i \<Longrightarrow> \<exists>q'. bind_index c i v q = Some q'"
  by (simp add: bind_index_def assert_binding_index_def)

lemma set_modified_simps [simp]:
  "q_params (set_modified q) = q_params q" "q_named (set_modified q) = q_named q"
  "q_stmt (set_modified q) = q_stmt q" "q_dirty (set_modified q)" "q_sql (set_modified q) = []"
  "query.more (set_modified q) = query.more q"
  by (simp_all add: set_modified_def)

lemma bind_values_params:
  "bind_values c (next_index q) vs q = Some (q\<lparr>q_params := q_params q @ vs, q_dirty := q_dirty q \<or> vs \<noteq> [],
     q_sql := (if vs = [] then q_sql q else [])\<rparr>)"
proof (induction vs arbitrary: q)
  case (Cons v vs)
  have "next_index (set_modified (q\<lparr>q_params := q_params q @ [v]\<rparr>)) = next_index q + 1"
    by (simp add: next_index_def)
  with Cons [of "set_modified (q\<lparr>q_params := q_params q @ [v]\<rparr>)"] show ?case
    by (simp add: bind_index_next)
qed simp

section \<open>What an operator binds\<close>

definition bound_values :: "'v sess \<Rightarrow> 'v sql_operator \<Rightarrow> 'v list" where
  "bound_values c p =
     (case op_rvalue p of One v \<Rightarrow> if is_named c v then [] else [v] | Many vs \<Rightarrow> vs | Range v1 v2 \<Rightarrow> [v2])"

lemma bind_index_again:
  "bind_index c (next_index q) w (set_modified (q\<lparr>q_params := q_params q @ [v]\<rparr>)) =
     Some (set_modified (q\<lparr>q_params := q_params q @ [w]\<rparr>))"
  by (simp add: bind_index_def assert_binding_index_def next_index_def set_modified_def)

lemma bind_operator_values:
  "bind_operator c (next_index q) p q =
     (let vs = bound_values c p in
      Some (q\<lparr>q_params := q_params q @ vs, q_dirty := q_dirty q \<or> vs \<noteq> [],
              q_sql := (if vs = [] then q_sql q else [])\<rparr>))"
proof (cases "op_rvalue p")
  case (One v)
  then show ?thesis
    by (simp add: bind_operator_def bound_values_def bind_index_next set_modified_def)
next
  case (Many vs)
  then show ?thesis by (simp add: bind_operator_def bound_values_def bind_values_params)
next
  case (Range v1 v2)
  then show ?thesis
    by (simp add: bind_operator_def bound_values_def bind_index_next bind_index_again)
qed

section \<open>The statement of a query\<close>

text \<open>The statement of a query that is up to date is the one last prepared from its state.\<close>

definition reflects :: "('v, 'z) query_scheme \<Rightarrow> string \<Rightarrow> bool" where
  "reflects q sql =
     (case q_stmt q of
        None \<Rightarrow> True
      | Some st \<Rightarrow> q_dirty q \<or>
          (st_sql st = sql \<and> st_params st = q_params q \<and> st_named st = q_named q))"

text \<open>A query whose statement is kept by the next \<open>prepare\<close>.\<close>

definition settled :: "('v, 'z) query_scheme \<Rightarrow> bool" where
  "settled q = (q_stmt q \<noteq> None \<and> \<not> q_dirty q)"

lemma not_settled_modified [simp]: "\<not> settled (set_modified q)"
  by (simp add: settled_def)

lemma prepare_settled: "settled q \<Longrightarrow> prepare takes sql q = (True, q)"
  by (auto simp: prepare_def settled_def)

lemma prepare_taken:
  assumes "\<not> settled q" "takes \<lparr>st_sql = sql, st_params = q_params q, st_named = q_named q\<rparr> = Taken"
  shows "prepare takes sql q =
    (True, q\<lparr>q_stmt := Some \<lparr>st_sql = sql, st_params = q_params q, st_named = q_named q\<rparr>, q_dirty := False\<rparr>)"
  using assms by (auto simp: prepare_def settled_def)

lemma prepare_simps [simp]:
  "q_params (snd (prepare takes sql q)) = q_params q" "q_named (snd (prepare takes sql q)) = q_named q"
  "q_sql (snd (prepare takes sql q)) = q_sql q" "query.more (snd (prepare takes sql q)) = query.more q"
  by (simp_all add: prepare_def Let_def split: taken.split)

lemma prepare_returns:
  "fst (prepare takes sql q) \<longleftrightarrow>
     settled q \<or> takes \<lparr>st_sql = sql, st_params = q_params q, st_named = q_named q\<rparr> = Taken"
  by (auto simp: prepare_def settled_def Let_def split: taken.splits)

lemma prepare_settles: "fst (prepare takes sql q) \<Longrightarrow> settled (snd (prepare takes sql q))"
  by (auto simp: prepare_def settled_def Let_def split: taken.splits if_splits)

lemma prepare_raises_dirty: "\<not> fst (prepare takes sql q) \<Longrightarrow> q_dirty (snd (prepare takes sql q)) = q_dirty q"
  by (auto simp: prepare_def Let_def split: taken.splits if_splits)

lemma prepare_reflects:
  assumes "reflects q sql" "fst (prepare takes sql q)"
  shows "q_stmt (snd (prepare takes sql q)) = Some \<lparr>st_sql = sql, st_params = q_params q, st_named = q_named q\<rparr>"
    and "reflects (snd (prepare takes sql q)) sql"
  using assms
  by (auto simp: prepare_def reflects_def Let_def split: option.splits taken.splits if_splits)

lemma reflects_set_modified [simp]: "reflects (set_modified q) sql"
  by (simp add: reflects_def split: option.split)

lemma reflects_state [simp]:
  "reflects (q\<lparr>q_sql := t\<rparr>) sql = reflects q sql"
  "reflects (q\<lparr>q_stmt := None\<rparr>) sql"
  by (simp_all add: reflects_def split: option.split)

section \<open>Queries that are executed\<close>

text \<open>
  \<open>prepare(to_sql())\<close>, with the text kept: the statement of the query, which is the one then run, or
  nothing when it raised; and the query after it.
\<close>

definition prepare_text ::
  "('v stmt \<Rightarrow> taken) \<Rightarrow> (('v, 'z) query_scheme \<Rightarrow> string) \<Rightarrow> ('v, 'z) query_scheme \<Rightarrow>
   'v stmt option \<times> ('v, 'z) query_scheme" where
  "prepare_text takes generate q =
     (let sql = kept_or (q_sql q) (generate q); (ok, q') = prepare takes sql (q\<lparr>q_sql := sql\<rparr>)
      in (if ok then q_stmt q' else None, q'))"

text \<open>The statement of the current parts and values of a query.\<close>

definition own_statement :: "(('v, 'z) query_scheme \<Rightarrow> string) \<Rightarrow> ('v, 'z) query_scheme \<Rightarrow> 'v stmt" where
  "own_statement generate q = \<lparr>st_sql = generate q, st_params = q_params q, st_named = q_named q\<rparr>"

text \<open>
  The interface of a query that is executed: a generator whose text depends on the parts of the
  query only, not on the bindings, the statement or the flag.
\<close>

locale executed = generator generate q_sql "\<lambda>t. q_sql_update (\<lambda>_. t)"
  for generate :: "('v, 'z) query_scheme \<Rightarrow> string" +
  assumes generate_ne: "generate q \<noteq> []"
    and generate_stmt: "generate (q\<lparr>q_stmt := st\<rparr>) = generate q"
    and generate_dirty: "generate (q\<lparr>q_dirty := b\<rparr>) = generate q"
    and generate_params: "generate (q\<lparr>q_params := vs\<rparr>) = generate q"
    and generate_named: "generate (q\<lparr>q_named := m\<rparr>) = generate q"
begin

lemmas generate_state = generate_stmt generate_dirty generate_params generate_named generate_keep

lemma generate_prepare: "generate (snd (prepare takes sql q)) = generate q"
  by (simp add: prepare_def generate_dirty generate_stmt Let_def split: taken.split)

text \<open>
  A query is current when its text and its statement are the ones of its parts, and a text that
  was not kept was not prepared.
\<close>

definition current :: "('v, 'z) query_scheme \<Rightarrow> bool" where
  "current q = (coherent q \<and> reflects q (generate q) \<and> (q_sql q = [] \<longrightarrow> q_dirty q \<or> q_stmt q = None))"

lemma current_dirty: "q_dirty q \<Longrightarrow> q_sql q = [] \<Longrightarrow> current q"
  by (simp add: current_def coherent_def reflects_def split: option.split)

lemma current_set_modified: "current (set_modified q)"
  by (simp add: current_dirty)

lemma current_fresh: "q_stmt q = None \<Longrightarrow> coherent q \<Longrightarrow> current q"
  by (simp add: current_def reflects_def)

lemma current_text: "current q \<Longrightarrow> kept_or (q_sql q) (generate q) = generate q"
  by (auto simp: current_def coherent_def kept_or_def)

lemma current_keep: "current q \<Longrightarrow> current (q\<lparr>q_sql := generate q\<rparr>)"
  by (simp add: current_def coherent_def generate_keep generate_ne)

lemma prepare_text_simps:
  "q_params (snd (prepare_text takes generate q)) = q_params q"
  "q_named (snd (prepare_text takes generate q)) = q_named q"
  "query.more (snd (prepare_text takes generate q)) = query.more q"
  "q_sql (snd (prepare_text takes generate q)) \<noteq> []"
  using generate_ne by (simp_all add: prepare_text_def Let_def split_def kept_or_def)

text \<open>A current query runs its own statement, when the kept one is up to date or the database takes it.\<close>

lemma execute_current:
  assumes "current q"
  shows "fst (prepare_text takes generate q) =
      (if settled q \<or> takes (own_statement generate q) = Taken then Some (own_statement generate q) else None)"
    and "fst (prepare_text takes generate q) \<noteq> None \<or> q_dirty q \<Longrightarrow> current (snd (prepare_text takes generate q))"
proof -
  let ?q = "q\<lparr>q_sql := generate q\<rparr>"
  let ?p = "prepare takes (generate q) ?q"
  have r: "reflects ?q (generate q)" using assms by (simp add: current_def)
  have e: "prepare_text takes generate q = (if fst ?p then q_stmt (snd ?p) else None, snd ?p)"
    by (simp add: prepare_text_def current_text [OF assms] Let_def split_def)
  show returned: "fst (prepare_text takes generate q) =
      (if settled q \<or> takes (own_statement generate q) = Taken then Some (own_statement generate q) else None)"
    using prepare_reflects(1) [OF r] prepare_returns [of takes "generate q" ?q]
    by (auto simp: e own_statement_def settled_def)
  assume "fst (prepare_text takes generate q) \<noteq> None \<or> q_dirty q"
  then have "reflects (snd ?p) (generate q)"
    using prepare_reflects(2) [OF r, of takes] prepare_raises_dirty [of takes "generate q" ?q]
    by (cases "fst ?p") (auto simp: e reflects_def split: option.splits)
  then show "current (snd (prepare_text takes generate q))"
    by (simp add: e current_def coherent_def generate_prepare generate_keep generate_ne)
qed

lemma execute_kept:
  assumes "q_sql q \<noteq> []" "q_stmt q = Some st" "\<not> q_dirty q"
  shows "prepare_text takes generate q = (Some st, q)"
  using assms by (simp add: prepare_text_def kept_or_def prepare_def Let_def)

lemma execute_settles:
  assumes "fst (prepare_text takes generate q) = Some st"
  shows "q_stmt (snd (prepare_text takes generate q)) = Some st"
    and "\<not> q_dirty (snd (prepare_text takes generate q))"
    and "q_sql (snd (prepare_text takes generate q)) \<noteq> []"
  using assms prepare_settles [of takes _ "q\<lparr>q_sql := _\<rparr>"] prepare_text_simps(4)
  by (auto simp: prepare_text_def Let_def split_def settled_def split: if_splits)

text \<open>Executing again after an execution that returned runs the same statement.\<close>

lemma execute_again:
  "fst (prepare_text takes generate q) = Some st \<Longrightarrow>
   prepare_text takes' generate (snd (prepare_text takes generate q)) = (Some st, snd (prepare_text takes generate q))"
  by (intro execute_kept execute_settles)

end

end
