(* ===== verification/SelectQuery.thy ===== *)
theory SelectQuery
  imports SqlQuery
begin

text \<open>
  \<^verbatim>\<open>select_query.cpp\<close>: a query that selects rows, built by calls and executed. The text is kept
  until a part of the query changes, the prepared statement until the query is dirty.
\<close>

section \<open>The query and its text\<close>

text \<open>
  The query of a union is a copy that no one else can change, moved into its place without its
  kept text; what remains of it is the text it generates.
\<close>

datatype union_type = UnionNone | UnionAll

record 'v select = "'v query" +
  s_where :: where_clause
  s_join :: "join_clause list"
  s_limit :: string
  s_order :: string
  s_group :: string
  s_columns :: "string list"
  s_table :: string
  s_union :: "(union_type \<times> string) option"

definition new_select :: "string list \<Rightarrow> string \<Rightarrow> 'v select" where
  "new_select columns tableName =
     \<lparr>q_dirty = False, q_params = [], q_named = Map.empty, q_stmt = None, q_sql = [],
      s_where = empty_where, s_join = [], s_limit = [], s_order = [], s_group = [],
      s_columns = columns, s_table = tableName, s_union = None\<rparr>"

definition generate_select :: "'v select \<Rightarrow> string" where
  "generate_select q =
     ''SELECT '' @ (if s_columns q = [] then ''*'' else join_csv (s_columns q)) @
     '' FROM '' @ s_table q @
     concat (map join_text (s_join q)) @
     (if \<not> where_empty (s_where q) then '' WHERE '' @ where_text (s_where q) else []) @
     (if s_order q \<noteq> [] then '' ORDER BY '' @ s_order q else []) @
     (if s_limit q \<noteq> [] then '' LIMIT '' @ s_limit q else []) @
     (if s_group q \<noteq> [] then '' GROUP BY '' @ s_group q else []) @
     (case s_union q of
        Some (ty, t) \<Rightarrow> '' UNION '' @ (if ty = UnionAll then ''ALL '' else []) @ t
      | None \<Rightarrow> '';'')"

definition select_text :: "'v select \<Rightarrow> string" where
  "select_text q = kept_or (q_sql q) (generate_select q)"

definition select_to_sql :: "'v select \<Rightarrow> string \<times> 'v select" where
  "select_to_sql q = (select_text q, q\<lparr>q_sql := select_text q\<rparr>)"

section \<open>The calls that build a query\<close>

definition select_from :: "string \<Rightarrow> 'v select \<Rightarrow> 'v select" where
  "select_from value q = set_modified (q\<lparr>s_table := value\<rparr>)"

definition select_from_as :: "string \<Rightarrow> string \<Rightarrow> 'v select \<Rightarrow> 'v select" where
  "select_from_as value alias q = set_modified (q\<lparr>s_table := value @ '' '' @ alias\<rparr>)"

definition select_columns :: "string list \<Rightarrow> 'v select \<Rightarrow> 'v select" where
  "select_columns value q = set_modified (q\<lparr>s_columns := value\<rparr>)"

text \<open>\<open>column\<close>, by which the variadic \<open>columns\<close> adds one column after the other\<close>

definition select_column :: "string \<Rightarrow> 'v select \<Rightarrow> 'v select" where
  "select_column value q = (if value \<noteq> [] then set_modified (q\<lparr>s_columns := s_columns q @ [value]\<rparr>) else q)"

definition select_limit :: "string \<Rightarrow> 'v select \<Rightarrow> 'v select" where
  "select_limit value q = set_modified (q\<lparr>s_limit := value\<rparr>)"

definition select_order_by :: "string \<Rightarrow> 'v select \<Rightarrow> 'v select" where
  "select_order_by value q = set_modified (q\<lparr>s_order := value\<rparr>)"

definition select_group_by :: "string \<Rightarrow> 'v select \<Rightarrow> 'v select" where
  "select_group_by value q = set_modified (q\<lparr>s_group := value\<rparr>)"

definition select_join :: "join_clause \<Rightarrow> 'v select \<Rightarrow> 'v select" where
  "select_join value q = set_modified (q\<lparr>s_join := s_join q @ [value]\<rparr>)"

definition select_join_new :: "string \<Rightarrow> join_type \<Rightarrow> 'v select \<Rightarrow> 'v select" where
  "select_join_new tableName ty q = set_modified (q\<lparr>s_join := s_join q @ [new_join tableName ty]\<rparr>)"

definition select_join_as :: "string \<Rightarrow> string \<Rightarrow> join_type \<Rightarrow> 'v select \<Rightarrow> 'v select" where
  "select_join_as tableName alias ty q =
     set_modified (q\<lparr>s_join := s_join q @ [new_join_as tableName alias ty]\<rparr>)"

definition select_union_with :: "'v select \<Rightarrow> union_type \<Rightarrow> 'v select \<Rightarrow> 'v select" where
  "select_union_with other ty q = set_modified (q\<lparr>s_union := Some (ty, generate_select other)\<rparr>)"

text \<open>\<open>where(op)\<close>, \<open>where() && op\<close> and \<open>where() || op\<close>\<close>

definition select_where :: "'v sess \<Rightarrow> 'v sql_operator \<Rightarrow> 'v select \<Rightarrow> 'v select option" where
  "select_where c p q =
     map_option set_modified
       (bind_operator c (next_index q) p (q\<lparr>s_where := reset_where_to (operator_text c (next_index q) p)\<rparr>))"

definition select_where_and :: "'v sess \<Rightarrow> 'v sql_operator \<Rightarrow> 'v select \<Rightarrow> 'v select option" where
  "select_where_and c p q =
     bind_operator c (next_index q) p
       (q\<lparr>s_where := and_string (s_where q) (operator_text c (next_index q) p)\<rparr>)"

definition select_where_or :: "'v sess \<Rightarrow> 'v sql_operator \<Rightarrow> 'v select \<Rightarrow> 'v select option" where
  "select_where_or c p q =
     bind_operator c (next_index q) p
       (q\<lparr>s_where := and_string (s_where q) (operator_text c (next_index q) p)\<rparr>)"

section \<open>Execution\<close>

text \<open>The statement that \<open>execute\<close> queries, nothing when it raised first, and the query after it.\<close>

definition select_execute :: "('v stmt \<Rightarrow> taken) \<Rightarrow> 'v select \<Rightarrow> 'v stmt option \<times> 'v select" where
  "select_execute takes q = prepare_text takes generate_select q"

text \<open>
  \<open>count\<close>: the count, and the query after it. The text is prepared, then executed as a query of its
  own, and every exception counts as -1. What the database answers is a parameter; \<open>None\<close> is an
  exception.
\<close>

definition select_count ::
  "('v stmt \<Rightarrow> taken) \<Rightarrow> ('v stmt \<Rightarrow> int option) \<Rightarrow> 'v select \<Rightarrow> int \<times> 'v select" where
  "select_count takes scalar q =
     (let cols = s_columns q;
          (st1, q1) = select_execute takes (q\<lparr>s_columns := [''COUNT(*)'']\<rparr>)
      in case st1 of
           None \<Rightarrow> (- 1, q1\<lparr>s_columns := cols\<rparr>)
         | Some _ \<Rightarrow>
             let (st, q2) = select_execute takes q1
             in (case Option.bind st scalar of None \<Rightarrow> - 1 | Some n \<Rightarrow> n, q2\<lparr>s_columns := cols\<rparr>))"

definition select_reset :: "'v select \<Rightarrow> 'v select option" where
  "select_reset q = map_option (\<lambda>q'. q'\<lparr>q_stmt := None\<rparr>) (query_reset q)"

section \<open>A session of calls\<close>

datatype 'v select_op =
    From string
  | FromAs string string
  | Columns "string list"
  | Column string
  | Limit string
  | OrderBy string
  | GroupBy string
  | Join join_clause
  | JoinNew string join_type
  | JoinAs string string join_type
  | UnionWith "'v select" union_type
  | Where_is "'v sql_operator"
  | Where_and "'v sql_operator"
  | Where_or "'v sql_operator"
  | Bind nat 'v
  | BindName string 'v
  | ToSql
  | Execute
  | Count
  | Reset

text \<open>An execution or a count that raises leaves the query as it was then; the session goes on.\<close>

fun select_call ::
  "'v sess \<Rightarrow> ('v stmt \<Rightarrow> taken) \<Rightarrow> ('v stmt \<Rightarrow> int option) \<Rightarrow> 'v select_op \<Rightarrow> 'v select \<Rightarrow> 'v select option" where
  "select_call c takes scalar (From t) q = Some (select_from t q)"
| "select_call c takes scalar (FromAs t a) q = Some (select_from_as t a q)"
| "select_call c takes scalar (Columns ts) q = Some (select_columns ts q)"
| "select_call c takes scalar (Column t) q = Some (select_column t q)"
| "select_call c takes scalar (Limit t) q = Some (select_limit t q)"
| "select_call c takes scalar (OrderBy t) q = Some (select_order_by t q)"
| "select_call c takes scalar (GroupBy t) q = Some (select_group_by t q)"
| "select_call c takes scalar (Join j) q = Some (select_join j q)"
| "select_call c takes scalar (JoinNew t ty) q = Some (select_join_new t ty q)"
| "select_call c takes scalar (JoinAs t a ty) q = Some (select_join_as t a ty q)"
| "select_call c takes scalar (UnionWith other ty) q = Some (select_union_with other ty q)"
| "select_call c takes scalar (Where_is p) q = select_where c p q"
| "select_call c takes scalar (Where_and p) q = select_where_and c p q"
| "select_call c takes scalar (Where_or p) q = select_where_or c p q"
| "select_call c takes scalar (Bind i v) q = bind_index c i v q"
| "select_call c takes scalar (BindName n v) q = Some (bind_name n v q)"
| "select_call c takes scalar ToSql q = Some (snd (select_to_sql q))"
| "select_call c takes scalar Execute q = Some (snd (select_execute takes q))"
| "select_call c takes scalar Count q = Some (snd (select_count takes scalar q))"
| "select_call c takes scalar Reset q = select_reset q"

fun select_calls ::
  "'v sess \<Rightarrow> ('v stmt \<Rightarrow> taken) \<Rightarrow> ('v stmt \<Rightarrow> int option) \<Rightarrow> 'v select_op list \<Rightarrow> 'v select \<Rightarrow> 'v select option" where
  "select_calls c takes scalar [] q = Some q"
| "select_calls c takes scalar (x # xs) q = Option.bind (select_call c takes scalar x q) (select_calls c takes scalar xs)"

section \<open>The text and the statement follow the query\<close>

interpretation select_gen: executed generate_select
  by unfold_locales (simp_all add: generate_select_def)

lemma select_text_current: "select_gen.current q \<Longrightarrow> select_text q = generate_select q"
  by (simp add: select_text_def select_gen.current_text)

lemma current_new: "select_gen.current (new_select columns tableName)"
  by (rule select_gen.current_fresh) (simp_all add: select_gen.coherent_def new_select_def)

section \<open>Calls after which the query is still current\<close>

text \<open>
  A condition that is added brings a value to bind, no rows are counted, and an execution that
  raises finds the query dirty: only a query without a change since it was made or reset is not.
\<close>

fun tame :: "'v sess \<Rightarrow> ('v stmt \<Rightarrow> taken) \<Rightarrow> 'v select \<Rightarrow> 'v select_op \<Rightarrow> bool" where
  "tame c takes q (Where_and p) = (bound_values c p \<noteq> [])"
| "tame c takes q (Where_or p) = (bound_values c p \<noteq> [])"
| "tame c takes q Execute = (fst (select_execute takes q) \<noteq> None \<or> q_dirty q)"
| "tame c takes q Count = False"
| "tame c takes q _ = True"

text \<open>A session each of whose calls is tame in the state it meets.\<close>

definition tame_session ::
  "'v sess \<Rightarrow> ('v stmt \<Rightarrow> taken) \<Rightarrow> ('v stmt \<Rightarrow> int option) \<Rightarrow> 'v select \<Rightarrow> 'v select_op list \<Rightarrow> bool" where
  "tame_session c takes scalar = feasible (\<lambda>q x. select_call c takes scalar x q) (tame c takes)"

end
