(* ===== verification/SelectProps.thy ===== *)
theory SelectProps
  imports SelectQuery
begin

text \<open>
  What an executed query asks of the database: the text of its parts and their values, after every
  session of calls but those that count rows or add conditions without a value to bind.
\<close>

section \<open>Every call keeps the query current\<close>

lemma bind_index_current: "bind_index c i v q = Some q' \<Longrightarrow> select_gen.current q'"
  by (auto simp: bind_index_def select_gen.current_set_modified)

lemma where_and_eq:
  "select_where_and c p q =
     (let vs = bound_values c p in
      Some (q\<lparr>s_where := and_string (s_where q) (operator_text c (next_index q) p),
              q_params := q_params q @ vs, q_dirty := q_dirty q \<or> vs \<noteq> [],
              q_sql := (if vs = [] then q_sql q else [])\<rparr>))"
  using bind_operator_values [of c "q\<lparr>s_where := and_string (s_where q) (operator_text c (next_index q) p)\<rparr>" p]
  by (simp add: select_where_and_def next_index_def Let_def)

lemma where_or_is_and: "select_where_or c p q = select_where_and c p q"
  by (simp add: select_where_or_def select_where_and_def)

lemma where_eq:
  "select_where c p q =
     Some (set_modified (q\<lparr>s_where := reset_where_to (operator_text c (next_index q) p),
                           q_params := q_params q @ bound_values c p\<rparr>))"
  using bind_operator_values [of c "q\<lparr>s_where := reset_where_to (operator_text c (next_index q) p)\<rparr>" p]
  by (simp add: select_where_def next_index_def Let_def set_modified_def)

lemma select_reset_current: "select_gen.current q \<Longrightarrow> select_reset q = Some q' \<Longrightarrow> select_gen.current q'"
  by (auto simp: select_reset_def query_reset_def Let_def select_gen.current_def select_gen.coherent_def
      select_gen.generate_state split: if_splits)

lemmas select_changes = select_from_def select_from_as_def select_columns_def select_column_def select_limit_def
  select_order_by_def select_group_by_def select_join_def select_join_new_def select_join_as_def
  select_union_with_def bind_name_def

lemma where_and_current:
  assumes "bound_values c p \<noteq> []" "select_where_and c p q = Some q'"
  shows "select_gen.current q'"
  using assms by (intro select_gen.current_dirty) (auto simp: where_and_eq Let_def)

lemma call_current:
  assumes "select_call c takes scalar x q = Some q'" "tame c takes q x" "select_gen.current q"
  shows "select_gen.current q'"
proof (cases x)
  case (Where_is p)
  then show ?thesis using assms by (auto simp: where_eq select_gen.current_set_modified)
next
  case Execute
  then show ?thesis
    using assms select_gen.execute_current(2) [OF assms(3), of takes] by (simp add: select_execute_def)
next
  case Reset
  then show ?thesis using assms select_reset_current by auto
qed (use assms in \<open>auto simp: select_changes where_or_is_and select_to_sql_def select_text_current
        select_gen.current_keep select_gen.current_set_modified
      intro: where_and_current bind_index_current\<close>)

lemma calls_current:
  "select_calls c takes scalar xs q = Some q' \<Longrightarrow> tame_session c takes scalar q xs \<Longrightarrow> select_gen.current q \<Longrightarrow>
   select_gen.current q'"
proof (induction xs arbitrary: q)
  case (Cons x xs)
  from Cons.prems(1) obtain r where
    r: "select_call c takes scalar x q = Some r" "select_calls c takes scalar xs r = Some q'"
    by (auto split: bind_splits)
  then have "tame c takes q x" "tame_session c takes scalar r xs"
    using Cons.prems(2) by (simp_all add: tame_session_def)
  then show ?case using Cons.IH [OF r(2)] call_current [OF r(1) _ Cons.prems(3)] by blast
qed simp

definition statement_of :: "'v select \<Rightarrow> 'v stmt" where
  "statement_of q = \<lparr>st_sql = generate_select q, st_params = q_params q, st_named = q_named q\<rparr>"

lemma own_statement_of [simp]: "own_statement generate_select q = statement_of q"
  by (simp add: own_statement_def statement_of_def)

lemma select_execute_current:
  "select_gen.current q \<Longrightarrow> fst (select_execute takes q) =
     (if settled q \<or> takes (statement_of q) = Taken then Some (statement_of q) else None)"
  by (simp add: select_execute_def select_gen.execute_current(1))


text \<open>
  The condition on refused executions is needed. A new query is not dirty; when the database refuses
  its text, the statement made for it stays in the query without a text, and the next execution takes
  it for up to date: it raises nothing and queries a statement that was never prepared.
\<close>

theorem refused_query_runs_unprepared:
  assumes "takes (statement_of (new_select columns tableName)) = Refused"
  shows "\<exists>q. select_execute takes (new_select columns tableName) = (None, q) \<and>
    fst (select_execute takes' q) = Some unprepared"
proof -
  let ?q = "new_select columns tableName :: 'a select"
  let ?q' = "?q\<lparr>q_sql := generate_select ?q, q_stmt := Some unprepared\<rparr>"
  have q: "q_sql ?q = []" "q_stmt ?q = None" "\<not> q_dirty ?q" "q_params ?q = []" "q_named ?q = Map.empty"
    by (simp_all add: new_select_def)
  have "select_execute takes ?q = (None, ?q')"
    using assms q by (simp add: select_execute_def prepare_text_def kept_or_def prepare_def statement_of_def)
  moreover have "fst (select_execute takes' ?q') = Some unprepared"
    unfolding select_execute_def using select_gen.execute_kept [of ?q' unprepared] q(3)
    by (simp add: select_gen.generate_ne)
  ultimately show ?thesis by blast
qed

section \<open>Conditions and their parameters\<close>

text \<open>The texts of a chain of operators, each with the number of the first value it binds.\<close>

fun rendered :: "'v sess \<Rightarrow> nat \<Rightarrow> 'v sql_operator list \<Rightarrow> string list" where
  "rendered c i [] = []"
| "rendered c i (p # ps) = operator_text c i p # rendered c (i + length (bound_values c p)) ps"

definition condition_chain :: "string list \<Rightarrow> where_clause" where
  "condition_chain ts = Where [] (hd ts) (map where_of (tl ts)) []"

lemma rendered_ne [simp]: "rendered c i (p # ps) \<noteq> []" "rendered c i ps = [] \<longleftrightarrow> ps = []"
  by (cases ps; simp)+

lemma chain_and_string:
  "ts \<noteq> [] \<Longrightarrow> hd ts \<noteq> [] \<Longrightarrow> t \<noteq> [] \<Longrightarrow> and_string (condition_chain ts) t = condition_chain (ts @ [t])"
  by (cases ts) (simp_all add: condition_chain_def)

lemma where_text_chain: "ts \<noteq> [] \<Longrightarrow> where_text (condition_chain ts) = join_with '' AND '' ts"
  by (cases ts) (simp_all add: where_text_def condition_chain_def kept_or_def generate_and_chain del: generate_where.simps)

lemma added_conditions:
  assumes "ts \<noteq> []" "hd ts \<noteq> []" "s_where q = condition_chain ts"
  shows "\<exists>q'. select_calls c takes scalar (map Where_and ps) q = Some q' \<and>
     s_where q' = condition_chain (ts @ rendered c (next_index q) ps) \<and>
     q_params q' = q_params q @ concat (map (bound_values c) ps)"
  using assms
proof (induction ps arbitrary: q ts)
  case (Cons p ps)
  let ?t = "operator_text c (next_index q) p"
  from where_and_eq [of c p q] Cons.prems(3) obtain q1 where
    q1: "select_where_and c p q = Some q1" "s_where q1 = and_string (condition_chain ts) ?t"
      "q_params q1 = q_params q @ bound_values c p"
    by (auto simp: Let_def)
  then have w: "s_where q1 = condition_chain (ts @ [?t])" using Cons.prems by (simp add: chain_and_string)
  have next1: "next_index q1 = next_index q + length (bound_values c p)"
    by (simp add: next_index_def q1)
  from Cons.IH [of "ts @ [?t]" q1] w Cons.prems obtain q' where
    q': "select_calls c takes scalar (map Where_and ps) q1 = Some q'"
      "s_where q' = condition_chain ((ts @ [?t]) @ rendered c (next_index q1) ps)"
      "q_params q' = q_params q1 @ concat (map (bound_values c) ps)"
    by auto
  then show ?case by (auto simp: q1 next1)
qed simp

text \<open>
  A comparison of a column with one value, not a range, a list or a null test, and not a negated
  order, which no database knows by the name the code gives it; the value is not the name of a
  parameter.
\<close>

fun compares_with :: "'v sess \<Rightarrow> 'v sql_operator \<Rightarrow> 'v \<Rightarrow> bool" where
  "compares_with c p v =
     (op_type p \<in> {OpEq, OpLike, OpGreater, OpLesser, OpEqGreater, OpEqLesser} \<and> op_rvalue p = One v \<and>
      \<not> (op_not p \<and> op_type p \<in> {OpGreater, OpLesser}) \<and> \<not> is_named c v)"

lemma compared_values:
  assumes "list_all2 (compares_with c) ps vs"
  shows "rendered c i ps = map2 (operator_text c) [i..<i + length ps] ps"
    and "concat (map (bound_values c) ps) = vs"
  using assms
proof (induction arbitrary: i rule: list_all2_induct)
  case (Cons p ps v vs)
  then have b: "bound_values c p = [v]" by (simp add: bound_values_def)
  {
    case 1
    then show ?case using Cons.IH(1) [of "Suc i"] b by (simp add: upt_rec)
  next
    case 2
    then show ?case using Cons.IH(2) b by simp
  }
qed simp_all


section \<open>Counting rows\<close>

lemma current_columns:
  assumes "select_gen.current q" "q_sql q = []"
  shows "select_gen.current (q\<lparr>s_columns := cs\<rparr>)"
  using assms by (auto simp: select_gen.current_def select_gen.coherent_def reflects_def split: option.splits)

definition count_columns :: "'v select \<Rightarrow> 'v select" where
  "count_columns q = q\<lparr>s_columns := [''COUNT(*)'']\<rparr>"

text \<open>The query whose rows are counted: the columns are replaced after the text was kept.\<close>

definition counted_query :: "'v select \<Rightarrow> 'v select" where
  "counted_query q = (if q_sql q = [] then count_columns q else q)"

lemma count_first_statement:
  assumes "select_gen.current q"
  shows "fst (select_execute takes (count_columns q)) =
    (if settled q \<or> takes (statement_of (counted_query q)) = Taken
     then Some (statement_of (counted_query q)) else None)"
proof (cases "q_sql q = []")
  case True
  have "settled (count_columns q) = settled q" by (simp add: settled_def count_columns_def)
  then show ?thesis
    using True select_execute_current [OF current_columns [OF assms True]]
    by (simp add: counted_query_def count_columns_def)
next
  case False
  let ?g = "generate_select q"
  let ?q = "count_columns q\<lparr>q_sql := ?g\<rparr>"
  have params: "q_params (count_columns q) = q_params q" "q_named (count_columns q) = q_named q"
    by (simp_all add: count_columns_def)
  have s: "settled ?q = settled q"
    by (simp add: settled_def count_columns_def)
  have "kept_or (q_sql (count_columns q)) (generate_select (count_columns q)) = ?g"
    using False assms
    by (simp add: count_columns_def kept_or_def select_gen.current_def select_gen.coherent_def)
  moreover have "reflects ?q ?g"
    using assms by (simp add: select_gen.current_def count_columns_def reflects_def split: option.splits)
  from prepare_reflects(1) [OF this, of takes]
  have "fst (prepare takes ?g ?q) \<Longrightarrow> q_stmt (snd (prepare takes ?g ?q)) = Some (statement_of q)"
    by (simp add: statement_of_def params)
  ultimately show ?thesis
    using False prepare_returns [of takes ?g ?q]
    by (auto simp: select_execute_def prepare_text_def counted_query_def Let_def split_def s params statement_of_def)
qed

text \<open>What counting sees: nothing when the statement has to be prepared and is refused.\<close>

definition counted :: "('v stmt \<Rightarrow> taken) \<Rightarrow> ('v stmt \<Rightarrow> int option) \<Rightarrow> 'v select \<Rightarrow> int option" where
  "counted takes scalar q =
     (let st = statement_of (counted_query q)
      in if settled q \<or> takes st = Taken then scalar st else None)"

lemma select_count_current:
  assumes "select_gen.current q"
  shows "\<exists>q'. select_count takes scalar q =
             (case counted takes scalar q of None \<Rightarrow> - 1 | Some n \<Rightarrow> n, q') \<and>
           s_columns q' = s_columns q \<and>
           (settled q \<or> takes (statement_of (counted_query q)) = Taken \<longrightarrow>
             fst (select_execute takes q') = Some (statement_of (counted_query q)))"
proof (cases "settled q \<or> takes (statement_of (counted_query q)) = Taken")
  case True
  let ?st = "statement_of (counted_query q)"
  define q1 where "q1 = snd (select_execute takes (count_columns q))"
  have 1: "select_execute takes (count_columns q) = (Some ?st, q1)"
    using count_first_statement [OF assms, of takes] True by (simp add: q1_def prod_eq_iff)
  then have q1: "q_stmt q1 = Some ?st" "\<not> q_dirty q1" "q_sql q1 \<noteq> []"
    using select_gen.execute_settles [of takes "count_columns q" ?st] by (auto simp: select_execute_def)
  have again: "select_execute takes q1 = (Some ?st, q1)"
    using select_gen.execute_kept [of q1] q1 by (simp add: select_execute_def)
  let ?q' = "q1\<lparr>s_columns := s_columns q\<rparr>"
  have "select_count takes scalar q = (case counted takes scalar q of None \<Rightarrow> - 1 | Some n \<Rightarrow> n, ?q')"
    using again 1 True by (simp add: select_count_def counted_def Let_def count_columns_def)
  moreover have "fst (select_execute takes ?q') = Some ?st"
    using select_gen.execute_kept [of ?q' ?st] q1 by (simp add: select_execute_def)
  ultimately show ?thesis by auto
next
  case False
  then have "fst (select_execute takes (count_columns q)) = None"
    using count_first_statement [OF assms, of takes] by simp
  then show ?thesis
    using False by (cases "select_execute takes (count_columns q)")
      (simp add: select_count_def counted_def Let_def count_columns_def)
qed

text \<open>
  Counting the rows of a query that was never asked for its text runs the statement with the
  columns replaced by COUNT, and the query, its columns restored, runs that same counting statement
  when it is executed next. When the text was asked before, the count is instead read from the
  first column of the query itself.
\<close>

theorem count_poisons_execute:
  assumes "select_calls c takes scalar xs (new_select columns tableName) = Some q"
    and "tame_session c takes scalar (new_select columns tableName) xs"
    and "takes (statement_of (counted_query q)) = Taken"
  shows "\<exists>q'. select_count takes scalar q =
             (case scalar (statement_of (counted_query q)) of None \<Rightarrow> - 1 | Some n \<Rightarrow> n, q') \<and>
           s_columns q' = s_columns q \<and> fst (select_execute takes q') = Some (statement_of (counted_query q))"
  using select_count_current [OF calls_current [OF assms(1,2) current_new], of takes scalar] assms(3)
  by (auto simp: counted_def Let_def)

section \<open>The grouping of conditions\<close>

text \<open>
  A condition built as (a || b) && c is, as a value, the one built as (a && c) || b, so that its
  text says (a AND c) OR (b); and a disjunction b || c added by && to a condition a is rendered
  without parentheses, so that its text says (a AND b) OR c: the grouping of the calls is lost.
\<close>

theorem conditions_lose_grouping:
  assumes "a \<noteq> []" "b \<noteq> []" "c \<noteq> []"
  shows "and_string (or_string (where_of a) b) c = or_string (and_string (where_of a) c) b \<and>
    where_text (and_string (or_string (where_of a) b) c) = ''('' @ a @ '' AND '' @ c @ '') OR ('' @ b @ '')'' \<and>
    where_text (and_clause (where_of a) (or_string (where_of b) c)) = a @ '' AND '' @ b @ '' OR '' @ c"
  using assms by (simp_all add: where_of_def where_text_def kept_or_def brackets_def Let_def)

end
