(* ===== verification/Drivers.thy ===== *)
theory Drivers
  imports SqlQuery
begin

text \<open>
  What the three drivers contribute to the text of a statement: the placeholder of a parameter and
  the features they announce (\<^verbatim>\<open>session::bind_param\<close> and \<^verbatim>\<open>session::features\<close> of
  \<^verbatim>\<open>sqlite\<close>, \<^verbatim>\<open>postgres\<close> and \<^verbatim>\<open>mysql\<close>), and \<^verbatim>\<open>session::join_params\<close>, which lists placeholders.
\<close>

section \<open>Placeholders\<close>

text \<open>\<open>std::to_string\<close> of an index.\<close>

fun to_string :: "nat \<Rightarrow> string" where
  "to_string n = (if n < 10 then [char_of (48 + n)] else to_string (n div 10) @ [char_of (48 + n mod 10)])"

declare to_string.simps [simp del]

datatype driver = Sqlite | Postgres | Mysql

fun driver_bind_param :: "driver \<Rightarrow> nat \<Rightarrow> string" where
  "driver_bind_param Sqlite index = ''?'' @ to_string index"
| "driver_bind_param Postgres index = ''$'' @ to_string index"
| "driver_bind_param Mysql index = ''?''"

datatype feature = FEATURE_RETURNING | FEATURE_FULL_OUTER_JOIN | FEATURE_RIGHT_JOIN | FEATURE_NAMED_PARAMS

fun driver_features :: "driver \<Rightarrow> feature list" where
  "driver_features Sqlite = [FEATURE_NAMED_PARAMS]"
| "driver_features Postgres = [FEATURE_FULL_OUTER_JOIN, FEATURE_RETURNING, FEATURE_RIGHT_JOIN]"
| "driver_features Mysql = [FEATURE_RIGHT_JOIN]"

definition has_feature :: "driver \<Rightarrow> feature \<Rightarrow> bool" where
  "has_feature d f = (f \<in> set (driver_features d))"

text \<open>A session of a driver whose values are texts; \<open>keys\<close> are the primary keys of the known tables.\<close>

definition text_session :: "driver \<Rightarrow> (string \<Rightarrow> string list option) \<Rightarrow> string sess" where
  "text_session d keys =
     \<lparr>bind_param = driver_bind_param d, str = (\<lambda>v. v), of_text = (\<lambda>t. t), null_value = ''NULL'',
      returning = has_feature d FEATURE_RETURNING, primary_keys = keys\<rparr>"

text \<open>The number a list of digits stands for.\<close>

definition digits_number :: "string \<Rightarrow> nat" where
  "digits_number ds = foldl (\<lambda>n x. 10 * n + (of_char x - 48)) 0 ds"

lemma digits_number_to_string [simp]: "digits_number (to_string n) = n"
proof (induction n rule: to_string.induct)
  case (1 n)
  have digit: "of_char (char_of (48 + m) :: char) - 48 = m" if "m < 10" for m :: nat
    using that by simp
  show ?case
  proof (cases "n < 10")
    case True
    then show ?thesis by (subst to_string.simps) (simp add: digits_number_def)
  next
    case False
    have "digits_number (to_string n) = 10 * digits_number (to_string (n div 10)) + n mod 10"
      using False by (subst to_string.simps) (simp add: digits_number_def)
    then show ?thesis using 1 False by simp
  qed
qed

lemma placeholder_inj:
  "d \<noteq> Mysql \<Longrightarrow> driver_bind_param d i = driver_bind_param d j \<longleftrightarrow> i = j"
  by (cases d) (auto dest: arg_cong [of _ _ digits_number])

section \<open>Lists of placeholders\<close>

text \<open>\<open>session::join_params\<close>: from column \<open>i\<close> on.\<close>

fun join_params_from :: "'v sess \<Rightarrow> nat \<Rightarrow> string list \<Rightarrow> string \<Rightarrow> string" where
  "join_params_from c i [] op = []"
| "join_params_from c i (x # xs) op =
     (if op \<noteq> [] then x @ op else []) @ bind_param c (i + 1) @ (if xs \<noteq> [] then '','' else []) @
     join_params_from c (i + 1) xs op"

definition join_params :: "'v sess \<Rightarrow> string list \<Rightarrow> string \<Rightarrow> string" where
  "join_params c columns op = join_params_from c 0 columns op"

lemma join_params_from_eq:
  "join_params_from c i xs op =
     join_with '','' (map (\<lambda>(j, x). (if op \<noteq> [] then x @ op else []) @ bind_param c j)
       (zip [Suc i..<Suc i + length xs] xs))"
proof (induction xs arbitrary: i)
  case (Cons x xs)
  have "[Suc i..<Suc i + length (x # xs)] = Suc i # [Suc (Suc i)..<Suc (Suc i) + length xs]"
    by (simp add: upt_rec)
  then show ?case using Cons [of "Suc i"] by (cases xs) (auto simp: upt_rec)
qed simp

end
