(* ===== verification/ModifyQueries.thy ===== *)
theory ModifyQueries
  imports Drivers
begin

text \<open>
  Queries that change rows: \<^verbatim>\<open>modify_query.cpp\<close>, \<^verbatim>\<open>insert_query.cpp\<close>, \<^verbatim>\<open>update_query.cpp\<close>
  and \<^verbatim>\<open>delete_query.cpp\<close>. What the database answers to a statement is a parameter: \<open>None\<close> when
  it fails, else the number of changed rows and the last inserted id; which statements it takes is
  another. The result of an execution is a failure and the query left by it, or the number of
  changes with the statement that was run and the query after it.
\<close>

section \<open>Queries and their text\<close>

datatype failure = InvalidQuery | NotPrepared | NullStatement | NeverReturns

record 'v modify = "'v query" +
  m_changes :: nat

record 'v insert = "'v modify" +
  i_last_id :: int
  i_columns :: "string list"
  i_table :: string

record 'v update = "'v modify" +
  u_where :: where_clause
  u_columns :: "string list"
  u_table :: string

record 'v delete = "'v modify" +
  d_where :: where_clause
  d_table :: string

text \<open>The loop over the key columns of a RETURNING part: its iterator is never advanced.\<close>

partial_function (option) returning_loop :: "string list \<Rightarrow> nat \<Rightarrow> string \<Rightarrow> string option" where
  "returning_loop keys it buf =
     (if it + 1 < length keys then returning_loop keys it (buf @ keys ! it @ '','') else Some (buf @ keys ! it))"

definition generate_returning :: "'v sess \<Rightarrow> string \<Rightarrow> string option" where
  "generate_returning c tableName =
     (if returning c
      then case primary_keys c tableName of
          None \<Rightarrow> Some []
        | Some keys \<Rightarrow> if keys \<noteq> [] then returning_loop keys 0 '' RETURNING '' else Some []
      else Some [])"

definition generate_insert :: "'v sess \<Rightarrow> 'v insert \<Rightarrow> string option" where
  "generate_insert c q =
     map_option (\<lambda>r. ''INSERT INTO '' @ i_table q @ ''('' @ join_csv (i_columns q) @ '') VALUES('' @
         join_params c (i_columns q) [] @ '')'' @ r @ '';'')
       (generate_returning c (i_table q))"

definition generate_update :: "'v sess \<Rightarrow> 'v update \<Rightarrow> string" where
  "generate_update c q =
     ''UPDATE '' @ u_table q @
     (if u_columns q \<noteq> [] then '' SET '' @ join_params c (u_columns q) (type_values OpEq) else []) @
     (if \<not> where_empty (u_where q) then '' WHERE '' @ where_text (u_where q) else []) @ '';''"

definition generate_delete :: "'v delete \<Rightarrow> string" where
  "generate_delete q =
     ''DELETE FROM '' @ d_table q @
     (if \<not> where_empty (d_where q) then '' WHERE '' @ where_text (d_where q) else []) @ '';''"

section \<open>The calls that build a query\<close>

text \<open>The constructors leave \<open>lastId_\<close> unset; it is read after an execution only.\<close>

definition new_insert :: "string \<Rightarrow> string list \<Rightarrow> 'v insert" where
  "new_insert tableName columns =
     \<lparr>q_dirty = False, q_params = [], q_named = Map.empty, q_stmt = None, q_sql = [],
      m_changes = 0, i_last_id = 0, i_columns = columns, i_table = tableName\<rparr>"

definition new_update :: "string \<Rightarrow> string list \<Rightarrow> 'v update" where
  "new_update tableName columns =
     \<lparr>q_dirty = False, q_params = [], q_named = Map.empty, q_stmt = None, q_sql = [],
      m_changes = 0, u_where = empty_where, u_columns = columns, u_table = tableName\<rparr>"

definition new_delete :: "string \<Rightarrow> 'v delete" where
  "new_delete tableName =
     \<lparr>q_dirty = False, q_params = [], q_named = Map.empty, q_stmt = None, q_sql = [],
      m_changes = 0, d_where = empty_where, d_table = tableName\<rparr>"

definition insert_into :: "string \<Rightarrow> 'v insert \<Rightarrow> 'v insert" where
  "insert_into value q = set_modified (q\<lparr>i_table := value\<rparr>)"

definition insert_columns :: "string list \<Rightarrow> 'v insert \<Rightarrow> 'v insert" where
  "insert_columns columns q = set_modified (q\<lparr>i_columns := columns\<rparr>)"

definition update_table :: "string \<Rightarrow> 'v update \<Rightarrow> 'v update" where
  "update_table value q = set_modified (q\<lparr>u_table := value\<rparr>)"

definition update_columns :: "string list \<Rightarrow> 'v update \<Rightarrow> 'v update" where
  "update_columns columns q = set_modified (q\<lparr>u_columns := columns\<rparr>)"

definition delete_from :: "string \<Rightarrow> 'v delete \<Rightarrow> 'v delete" where
  "delete_from value q = set_modified (q\<lparr>d_table := value\<rparr>)"

text \<open>\<open>column\<close>, by which the variadic \<open>columns\<close> adds one column after the other\<close>

definition insert_column :: "string \<Rightarrow> 'v insert \<Rightarrow> 'v insert" where
  "insert_column value q = (if value \<noteq> [] then set_modified (q\<lparr>i_columns := i_columns q @ [value]\<rparr>) else q)"

definition update_column :: "string \<Rightarrow> 'v update \<Rightarrow> 'v update" where
  "update_column value q = (if value \<noteq> [] then set_modified (q\<lparr>u_columns := u_columns q @ [value]\<rparr>) else q)"

text \<open>\<open>values\<close> and \<open>value\<close> of an insertion and of an update\<close>

definition put_values :: "'v sess \<Rightarrow> 'v list \<Rightarrow> ('v, 'z) query_scheme \<Rightarrow> ('v, 'z) query_scheme option" where
  "put_values c vs q = map_option set_modified (bind_values c 1 vs q)"

definition put_value :: "'v sess \<Rightarrow> 'v \<Rightarrow> ('v, 'z) query_scheme \<Rightarrow> ('v, 'z) query_scheme option" where
  "put_value c v q = map_option set_modified (bind_index c (length (q_params q) + 1) v q)"

definition put_named :: "string \<Rightarrow> 'v \<Rightarrow> ('v, 'z) query_scheme \<Rightarrow> ('v, 'z) query_scheme" where
  "put_named name v q = set_modified (bind_name name v q)"

definition update_where :: "'v sess \<Rightarrow> 'v sql_operator \<Rightarrow> 'v update \<Rightarrow> 'v update option" where
  "update_where c p q =
     map_option set_modified
       (bind_operator c (next_index q) p (q\<lparr>u_where := reset_where_to (operator_text c (next_index q) p)\<rparr>))"

definition update_where_clause :: "where_clause \<Rightarrow> 'v update \<Rightarrow> 'v update" where
  "update_where_clause w q = set_modified (q\<lparr>u_where := w\<rparr>)"

definition delete_where :: "'v sess \<Rightarrow> 'v sql_operator \<Rightarrow> 'v delete \<Rightarrow> 'v delete option" where
  "delete_where c p q =
     map_option set_modified
       (bind_operator c (next_index q) p (q\<lparr>d_where := reset_where_to (operator_text c (next_index q) p)\<rparr>))"

definition delete_where_clause :: "where_clause \<Rightarrow> 'v delete \<Rightarrow> 'v delete" where
  "delete_where_clause w q = set_modified (q\<lparr>d_where := w\<rparr>)"

section \<open>Execution\<close>

text \<open>
  \<open>query::reset\<close> after an execution: its statement is there, and keeps its text and its values.
\<close>

definition cleared :: "('v, 'z) query_scheme \<Rightarrow> ('v, 'z) query_scheme" where
  "cleared q = q\<lparr>q_params := [], q_named := Map.empty, q_dirty := False\<rparr>"

lemma query_reset_cleared: "q_stmt q = Some st \<Longrightarrow> query_reset q = Some (cleared q)"
  by (simp add: query_reset_def cleared_def Let_def)

type_synonym ('v, 'q) execution = "failure \<times> 'q + nat \<times> 'v stmt \<times> 'q"

definition modify_execute ::
  "('v stmt \<Rightarrow> taken) \<Rightarrow> (('v, 'z) modify_scheme \<Rightarrow> string) \<Rightarrow> bool \<Rightarrow> ('v stmt \<Rightarrow> (nat \<times> int) option) \<Rightarrow>
   ('v, 'z) modify_scheme \<Rightarrow> ('v, ('v, 'z) modify_scheme) execution" where
  "modify_execute takes generate valid answer q =
     (if \<not> valid then Inl (InvalidQuery, q)
      else case prepare_text takes generate q of
          (None, q1) \<Rightarrow> Inl (NotPrepared, q1)
        | (Some st, q1) \<Rightarrow>
            let n = (case answer st of Some (changes, _) \<Rightarrow> changes | None \<Rightarrow> 0);
                q2 = q1\<lparr>m_changes := n\<rparr>
            in case query_reset q2 of None \<Rightarrow> Inl (NullStatement, q2) | Some q3 \<Rightarrow> Inr (n, st, q3))"

definition update_execute ::
  "'v sess \<Rightarrow> ('v stmt \<Rightarrow> taken) \<Rightarrow> ('v stmt \<Rightarrow> (nat \<times> int) option) \<Rightarrow> 'v update \<Rightarrow> ('v, 'v update) execution" where
  "update_execute c takes answer q = modify_execute takes (generate_update c) (u_table q \<noteq> []) answer q"

definition delete_execute ::
  "('v stmt \<Rightarrow> taken) \<Rightarrow> ('v stmt \<Rightarrow> (nat \<times> int) option) \<Rightarrow> 'v delete \<Rightarrow> ('v, 'v delete) execution" where
  "delete_execute takes answer q = modify_execute takes generate_delete (d_table q \<noteq> []) answer q"

definition insert_execute ::
  "'v sess \<Rightarrow> ('v stmt \<Rightarrow> taken) \<Rightarrow> ('v stmt \<Rightarrow> (nat \<times> int) option) \<Rightarrow> 'v insert \<Rightarrow> ('v, 'v insert) execution" where
  "insert_execute c takes answer q =
     (if i_table q = [] then Inl (InvalidQuery, q)
      else
        case if q_sql q \<noteq> [] then Some (q_sql q) else generate_insert c q of
          None \<Rightarrow> Inl (NeverReturns, q)
        | Some sql \<Rightarrow>
            case prepare_text takes (\<lambda>_. sql) q of
              (None, q1) \<Rightarrow> Inl (NotPrepared, q1)
            | (Some st, q1) \<Rightarrow>
                let (n, new_id) = (case answer st of Some r \<Rightarrow> r | None \<Rightarrow> (0, 0));
                    q2 = q1\<lparr>m_changes := n, i_last_id := new_id\<rparr>
                in case query_reset q2 of None \<Rightarrow> Inl (NullStatement, q2) | Some q3 \<Rightarrow> Inr (n, st, q3))"

end
