(* ===== verification/ModifyProps.thy ===== *)
theory ModifyProps
  imports ModifyQueries
begin

text \<open>
  What insertions, updates and deletions ask of the database, when the text of an insertion is
  generated at all, and what the order of the calls on an update does to its parameters.
\<close>

section \<open>The text of an insertion\<close>

text \<open>The text meant: the first key column, if any, is returned.\<close>

definition insert_sql :: "'v sess \<Rightarrow> 'v insert \<Rightarrow> string" where
  "insert_sql c q =
     ''INSERT INTO '' @ i_table q @ ''('' @ join_csv (i_columns q) @ '') VALUES('' @
     join_with '','' (map (bind_param c) [1..<Suc (length (i_columns q))]) @ '')'' @
     (case primary_keys c (i_table q) of
        Some (key # _) \<Rightarrow> if returning c then '' RETURNING '' @ key else []
      | _ \<Rightarrow> []) @ '';''"

definition several_keys :: "'v sess \<Rightarrow> string \<Rightarrow> bool" where
  "several_keys c tableName =
     (returning c \<and> (case primary_keys c tableName of Some keys \<Rightarrow> 1 < length keys | None \<Rightarrow> False))"

text \<open>Returning at all would need a loop that ends: by induction over its approximations.\<close>

lemma returning_loop_Some: "returning_loop keys it buf = Some r \<Longrightarrow> length keys \<le> it + 1"
  by (erule returning_loop.raw_induct [where P = "\<lambda>keys it buf r. length keys \<le> it + 1", rotated])
     (auto split: if_splits)

lemma returning_loop_None: "1 < length keys \<Longrightarrow> returning_loop keys 0 buf = None"
  by (cases "returning_loop keys 0 buf") (auto dest: returning_loop_Some)

lemma returning_loop_single: "returning_loop [key] 0 buf = Some (buf @ key)"
  by (subst returning_loop.simps) simp

lemma generate_returning_eq:
  "generate_returning c tableName =
     (if several_keys c tableName then None
      else Some (case primary_keys c tableName of
          Some (key # _) \<Rightarrow> if returning c then '' RETURNING '' @ key else []
        | _ \<Rightarrow> []))"
proof (cases "primary_keys c tableName")
  case (Some keys)
  then show ?thesis
    by (cases keys rule: list.exhaust [case_product list.exhaust [of "tl keys"]])
       (auto simp: generate_returning_def several_keys_def returning_loop_None returning_loop_single
          split: list.splits)
qed (simp add: generate_returning_def several_keys_def)

lemma join_params_plain:
  "join_params c xs [] = join_with '','' (map (bind_param c) [1..<Suc (length xs)])"
proof -
  have "map (\<lambda>(j, x). bind_param c j) (zip [Suc 0..<Suc (length xs)] xs) = map (bind_param c) [Suc 0..<Suc (length xs)]"
    by (rule nth_equalityI) (auto simp del: upt_Suc)
  then show ?thesis by (simp add: join_params_def join_params_from_eq split_def del: upt_Suc)
qed

lemma insert_text_generated_eq:
  "generate_insert c q = (if several_keys c (i_table q) then None else Some (insert_sql c q))"
  by (simp add: generate_insert_def generate_returning_eq insert_sql_def join_params_plain)

text \<open>
  C16: The text of an insertion is generated, and is the one meant with the first key column
  returned, unless the database returns keys and the table is known to have several key columns:
  then generating the text never ends.
\<close>

theorem insert_text_generated:
  "generate_insert c q = (if several_keys c (i_table q) then None else Some (insert_sql c q))"
  by (rule insert_text_generated_eq)

section \<open>The contract of an execution\<close>

text \<open>
  An execution runs the statement \<open>st\<close>, reports what the database answered, and leaves the query
  cleared but with that statement.
\<close>

definition changes_of :: "('v stmt \<Rightarrow> (nat \<times> int) option) \<Rightarrow> 'v stmt \<Rightarrow> nat" where
  "changes_of answer st = (case answer st of Some (n, _) \<Rightarrow> n | None \<Rightarrow> 0)"

definition ran :: "('v stmt \<Rightarrow> (nat \<times> int) option) \<Rightarrow> 'v stmt \<Rightarrow>
    ('v, ('v, 'z) modify_scheme) execution \<Rightarrow> ('v, 'z) modify_scheme \<Rightarrow> bool" where
  "ran answer st r q' =
     (r = Inr (changes_of answer st, st, q') \<and> m_changes q' = changes_of answer st \<and>
      q_params q' = [] \<and> q_named q' = Map.empty \<and> \<not> q_dirty q' \<and> q_stmt q' = Some st \<and> q_sql q' \<noteq> [])"

text \<open>An execution that raises because the database does not take its statement.\<close>

definition refused :: "('v, ('v, 'z) modify_scheme) execution \<Rightarrow> bool" where
  "refused r = (\<exists>q'. r = Inl (NotPrepared, q'))"

lemma query_reset_Some:
  "q_stmt q = Some st \<Longrightarrow> query_reset q = Some (q\<lparr>q_params := [], q_named := Map.empty, q_dirty := False\<rparr>)"
  by (simp add: query_reset_cleared cleared_def)

locale modified = executed generate for generate :: "('v, 'z) modify_scheme \<Rightarrow> string"
begin

lemma prepare_current:
  "current q \<Longrightarrow> takes (own_statement generate q) = Taken \<Longrightarrow>
   fst (prepare_text takes generate q) = Some (own_statement generate q)"
  by (simp add: execute_current(1))

lemma prepare_refused:
  "current q \<Longrightarrow> \<not> settled q \<Longrightarrow> takes (own_statement generate q) \<noteq> Taken \<Longrightarrow>
   fst (prepare_text takes generate q) = None"
  by (simp add: execute_current(1))

lemma prepare_again: "ran answer st r q \<Longrightarrow> prepare_text takes generate q = (Some st, q)"
  by (rule execute_kept) (simp_all add: ran_def)

lemma execute_ran:
  assumes "fst (prepare_text takes generate q) = Some st"
  shows "\<exists>q'. ran answer st (modify_execute takes generate True answer q) q'"
proof -
  obtain q1 where q1: "prepare_text takes generate q = (Some st, q1)"
    using assms by (cases "prepare_text takes generate q") simp
  then have "q_stmt q1 = Some st" "q_sql q1 \<noteq> []"
    using execute_settles [OF assms] by simp_all
  then show ?thesis
    by (auto simp: modify_execute_def q1 ran_def changes_of_def query_reset_Some Let_def split: option.splits)
qed

lemma execute_refused:
  "fst (prepare_text takes generate q) = None \<Longrightarrow> refused (modify_execute takes generate True answer q)"
  by (cases "prepare_text takes generate q") (simp add: modify_execute_def refused_def)

text \<open>A query whose parts changed runs its own statement, or raises when the database refuses it.\<close>

lemma execute_outcome:
  assumes "current q" "\<not> settled q"
  shows "if takes (own_statement generate q) = Taken
    then \<exists>q'. ran answer (own_statement generate q) (modify_execute takes generate True answer q) q'
    else refused (modify_execute takes generate True answer q)"
  using execute_ran [OF prepare_current [OF assms(1)]] execute_refused [OF prepare_refused [OF assms]] by simp

end

interpretation insert_gen: modified "insert_sql c" for c
  by unfold_locales (simp_all add: insert_sql_def)

interpretation update_gen: modified "generate_update c" for c
  by unfold_locales (simp_all add: generate_update_def)

interpretation delete_gen: modified generate_delete
  by unfold_locales (simp_all add: generate_delete_def)

text \<open>An insertion whose text can be generated is executed like any other change.\<close>

lemma insert_prepares:
  assumes "\<not> several_keys c (i_table q)"
  shows "(if q_sql q \<noteq> [] then Some (q_sql q) else generate_insert c q) = Some (kept_or (q_sql q) (insert_sql c q))"
    and "prepare_text takes (\<lambda>_. kept_or (q_sql q) (insert_sql c q)) q = prepare_text takes (insert_sql c) q"
  using assms by (simp_all add: insert_text_generated_eq prepare_text_def kept_or_def)

lemma insert_execute_ran:
  assumes "i_table q \<noteq> []" "\<not> several_keys c (i_table q)"
    and "fst (prepare_text takes (insert_sql c) q) = Some st"
  shows "\<exists>q'. ran answer st (insert_execute c takes answer q) q' \<and> i_table q' = i_table q \<and>
    i_last_id q' = (case answer st of Some (_, new_id) \<Rightarrow> new_id | None \<Rightarrow> 0)"
proof -
  obtain q1 where q1: "prepare_text takes (insert_sql c) q = (Some st, q1)"
    using assms(3) by (cases "prepare_text takes (insert_sql c) q") simp
  then have "q_stmt q1 = Some st" "q_sql q1 \<noteq> []"
    using insert_gen.execute_settles [OF assms(3)] by simp_all
  moreover have "i_table q1 = i_table q"
    using q1 by (auto simp: prepare_text_def prepare_def Let_def split: if_splits taken.splits)
  ultimately show ?thesis
    using assms(1)
    by (auto simp: insert_execute_def insert_prepares [OF assms(2)] q1 ran_def changes_of_def query_reset_Some Let_def
        split: option.splits)
qed

lemma insert_execute_refused:
  assumes "i_table q \<noteq> []" "\<not> several_keys c (i_table q)"
    and "fst (prepare_text takes (insert_sql c) q) = None"
  shows "refused (insert_execute c takes answer q)"
  using assms(1,3) by (cases "prepare_text takes (insert_sql c) q")
    (simp add: insert_execute_def insert_prepares [OF assms(2)] refused_def)

section \<open>Sessions of an insertion\<close>

datatype 'v insert_op =
    Into string
  | InsertColumns "string list"
  | InsertColumn string
  | Values "'v list"
  | Value 'v
  | NamedValue string 'v
  | BindValue nat 'v
  | InsertExecute

text \<open>An execution that raises leaves the query as it was then, and the session goes on.\<close>

fun insert_call ::
  "'v sess \<Rightarrow> ('v stmt \<Rightarrow> taken) \<Rightarrow> ('v stmt \<Rightarrow> (nat \<times> int) option) \<Rightarrow> 'v insert_op \<Rightarrow> 'v insert \<Rightarrow> 'v insert option" where
  "insert_call c takes answer (Into t) q = Some (insert_into t q)"
| "insert_call c takes answer (InsertColumns ts) q = Some (insert_columns ts q)"
| "insert_call c takes answer (InsertColumn t) q = Some (insert_column t q)"
| "insert_call c takes answer (Values vs) q = put_values c vs q"
| "insert_call c takes answer (Value v) q = put_value c v q"
| "insert_call c takes answer (NamedValue n v) q = Some (put_named n v q)"
| "insert_call c takes answer (BindValue i v) q = bind_index c i v q"
| "insert_call c takes answer InsertExecute q =
     (case insert_execute c takes answer q of
        Inr (_, _, q') \<Rightarrow> Some q'
      | Inl (e, q') \<Rightarrow> if e = NeverReturns then None else Some q')"

definition insert_calls ::
  "'v sess \<Rightarrow> ('v stmt \<Rightarrow> taken) \<Rightarrow> ('v stmt \<Rightarrow> (nat \<times> int) option) \<Rightarrow> 'v insert_op list \<Rightarrow> 'v insert \<Rightarrow>
   'v insert option" where
  "insert_calls c takes answer xs q = fold (\<lambda>x m. Option.bind m (insert_call c takes answer x)) xs (Some q)"

text \<open>Calls that change the query.\<close>

fun changing :: "'v insert_op \<Rightarrow> bool" where
  "changing (InsertColumn t) = (t \<noteq> [])"
| "changing InsertExecute = False"
| "changing _ = True"

lemma insert_call_current:
  "insert_call c takes answer x q = Some q' \<Longrightarrow> changing x \<Longrightarrow> insert_gen.current c q'"
  by (cases x)
     (auto simp: insert_into_def insert_columns_def insert_column_def put_values_def put_value_def
        put_named_def bind_index_def insert_gen.current_set_modified split: if_splits)

lemma insert_calls_current:
  assumes "insert_calls c takes answer xs (new_insert tableName columns) = Some q"
    and "xs = [] \<or> changing (last xs)"
  shows "insert_gen.current c q"
proof (cases xs rule: rev_cases)
  case Nil
  then show ?thesis
    using assms by (auto simp: insert_calls_def new_insert_def insert_gen.coherent_def intro!: insert_gen.current_fresh)
next
  case (snoc ys x)
  then obtain r where "insert_call c takes answer x r = Some q"
    using assms(1) by (auto simp: insert_calls_def bind_Some_iff)
  then show ?thesis using snoc assms(2) insert_call_current by fastforce
qed

text \<open>
  An insertion whose last call changed it, on a table whose keys are not several, runs the
  statement of its current table, columns and values when the database takes it, and reports the
  answer; it is then without values, yet executing it once more runs the same statement with the
  same values.
\<close>

theorem insert_runs_current_values:
  assumes "insert_calls c takes answer xs (new_insert tableName columns) = Some q"
    and "xs = [] \<or> changing (last xs)" and "i_table q \<noteq> []" and "\<not> several_keys c (i_table q)"
    and "takes (own_statement (insert_sql c) q) = Taken"
  shows "\<exists>q1 q2. ran answer (own_statement (insert_sql c) q) (insert_execute c takes answer q) q1 \<and>
    ran answer (own_statement (insert_sql c) q) (insert_execute c takes answer q1) q2"
proof -
  have "fst (prepare_text takes (insert_sql c) q) = Some (own_statement (insert_sql c) q)"
    using insert_gen.prepare_current insert_calls_current [OF assms(1,2)] assms(5) by blast
  from insert_execute_ran [OF assms(3,4) this] obtain q1 where
    q1: "ran answer (own_statement (insert_sql c) q) (insert_execute c takes answer q) q1"
    "i_table q1 = i_table q" by blast
  then have "fst (prepare_text takes (insert_sql c) q1) = Some (own_statement (insert_sql c) q)"
    using insert_gen.prepare_again [OF q1(1)] by simp
  from insert_execute_ran [OF _ _ this] q1 assms(3,4) show ?thesis by metis
qed

section \<open>The order of the calls on an update\<close>

lemma bind_index_at:
  assumes "i \<le> length (q_params q)"
  shows "bind_index c (Suc i) v q =
    Some (set_modified (q\<lparr>q_params := take i (q_params q) @ v # drop (Suc i) (q_params q)\<rparr>))"
proof (cases "i = length (q_params q)")
  case True
  then show ?thesis using bind_index_next [of c q v] by (simp add: next_index_def)
next
  case False
  then show ?thesis
    using assms by (simp add: bind_index_def assert_binding_index_def upd_conv_take_nth_drop)
qed

lemma bind_values_at:
  "i \<le> length (q_params q) \<Longrightarrow> bind_values c (Suc i) vs q =
     Some (q\<lparr>q_params := take i (q_params q) @ vs @ drop (i + length vs) (q_params q),
             q_dirty := q_dirty q \<or> vs \<noteq> [], q_sql := (if vs = [] then q_sql q else [])\<rparr>)"
proof (induction vs arbitrary: i q)
  case (Cons v vs)
  let ?q = "set_modified (q\<lparr>q_params := take i (q_params q) @ v # drop (Suc i) (q_params q)\<rparr>)"
  have "Suc i \<le> length (q_params ?q)" using Cons.prems by simp
  from Cons.IH [OF this] Cons.prems show ?case
    by (simp add: bind_index_at min_def drop_Cons')
qed simp

lemma put_values_eq:
  "put_values c vs q =
     Some (set_modified (q\<lparr>q_params := vs @ drop (length vs) (q_params q)\<rparr>))"
  using bind_values_at [of 0 q c vs] by (simp add: put_values_def set_modified_def)

lemma update_where_eq:
  "bound_values c p = [v] \<Longrightarrow> update_where c p q =
     Some (set_modified (q\<lparr>u_where := reset_where_to (operator_text c (next_index q) p),
                           q_params := q_params q @ [v]\<rparr>))"
  using bind_operator_values [of c "q\<lparr>u_where := reset_where_to (operator_text c (next_index q) p)\<rparr>" p]
  by (simp add: update_where_def next_index_def Let_def set_modified_def)

text \<open>The update of a row chosen by an operator whose value is parameter \<open>i\<close>.\<close>

definition update_sql :: "'v sess \<Rightarrow> string \<Rightarrow> string list \<Rightarrow> nat \<Rightarrow> 'v sql_operator \<Rightarrow> string" where
  "update_sql c tableName columns i p =
     ''UPDATE '' @ tableName @ '' SET '' @ join_params c columns ''='' @
     '' WHERE '' @ operator_text c i p @ '';''"

lemma generate_update_where:
  "u_columns q \<noteq> [] \<Longrightarrow> u_where q = reset_where_to (operator_text c i p) \<Longrightarrow>
   generate_update c q = update_sql c (u_table q) (u_columns q) i p"
  by (simp add: generate_update_def update_sql_def reset_where_to_def where_empty_def)
     (simp add: where_of_def)

lemma update_outcome:
  assumes "update_gen.current c q" "\<not> settled q" "u_table q \<noteq> []"
  shows "if takes (own_statement (generate_update c) q) = Taken
    then \<exists>q'. ran answer (own_statement (generate_update c) q) (update_execute c takes answer q) q'
    else refused (update_execute c takes answer q)"
  using update_gen.execute_outcome [OF assms(1,2)] assms(3) by (simp add: update_execute_def)

text \<open>
  Values given to an update before its condition are assigned to the columns in order and the
  value of the condition follows them, as the placeholders say. Given after the condition, the
  values take its parameter too: the statement compares the key with the first new value. Both
  statements are run when the database takes them.
\<close>

theorem update_call_order:
  assumes "columns \<noteq> []" "length vs = length columns" "bound_values c p = [v]" "tableName \<noteq> []" "\<And>st. takes st = Taken"
  shows "\<exists>q q' r r'.
    Option.bind (put_values c vs (new_update tableName columns)) (update_where c p) = Some q \<and>
    Option.bind (update_where c p (new_update tableName columns)) (put_values c vs) = Some q' \<and>
    ran answer \<lparr>st_sql = update_sql c tableName columns (Suc (length columns)) p,
        st_params = vs @ [v], st_named = Map.empty\<rparr> (update_execute c takes answer q) r \<and>
    ran answer \<lparr>st_sql = update_sql c tableName columns 1 p,
        st_params = vs, st_named = Map.empty\<rparr> (update_execute c takes answer q') r'"
proof -
  let ?new = "new_update tableName columns :: 'a update"
  let ?q = "set_modified (set_modified (?new\<lparr>q_params := vs\<rparr>)
      \<lparr>u_where := reset_where_to (operator_text c (Suc (length columns)) p), q_params := vs @ [v]\<rparr>)"
  let ?q' = "set_modified (set_modified (?new
      \<lparr>u_where := reset_where_to (operator_text c 1 p), q_params := [v]\<rparr>)\<lparr>q_params := vs\<rparr>)"
  have calls: "Option.bind (put_values c vs ?new) (update_where c p) = Some ?q"
    "Option.bind (update_where c p ?new) (put_values c vs) = Some ?q'"
    using assms by (simp_all add: put_values_eq update_where_eq next_index_def new_update_def Suc_leI)
  have sql: "generate_update c ?q = update_sql c tableName columns (Suc (length columns)) p"
    "generate_update c ?q' = update_sql c tableName columns 1 p"
    using assms(1) generate_update_where [of ?q c "Suc (length columns)" p] generate_update_where [of ?q' c 1 p]
    by (simp_all add: set_modified_def new_update_def)
  have st: "own_statement (generate_update c) ?q = \<lparr>st_sql = update_sql c tableName columns (Suc (length columns)) p,
      st_params = vs @ [v], st_named = Map.empty\<rparr>"
    "own_statement (generate_update c) ?q' = \<lparr>st_sql = update_sql c tableName columns 1 p,
      st_params = vs, st_named = Map.empty\<rparr>"
    unfolding own_statement_def sql by (simp_all add: new_update_def set_modified_def)
  have "u_table ?q \<noteq> []" "u_table ?q' \<noteq> []"
    using assms(4) by (simp_all add: set_modified_def new_update_def)
  then show ?thesis
    using calls update_outcome [of c ?q takes answer] update_outcome [of c ?q' takes answer] assms(5)
    unfolding st by (metis update_gen.current_set_modified not_settled_modified)
qed

end
