(* ===== verification/Records.thy ===== *)
theory Records
  imports Schema SelectProps ModifyProps
begin

text \<open>
  \<^verbatim>\<open>record.cpp\<close>: a row of a table held in memory, saved, found again and removed by the queries of
  the other theories. The database is a parameter: the columns of a table (\<open>load\<close>), the first value
  a statement selects (\<open>scalar\<close>), the rows it selects (\<open>rows\<close>), what a change answers (\<open>answer\<close>) and
  which statements it takes at all (\<open>takes\<close>). Operations list the statements they ran, in order;
  \<open>None\<close> is an exception or a call that never returns.
\<close>

section \<open>Values\<close>

record 'v row_record =
  r_schema :: schema
  r_values :: "string \<Rightarrow> 'v option"

record 'v database =
  load :: "string \<Rightarrow> column_definition list option"
  scalar :: "'v stmt \<Rightarrow> int option"
  rows :: "'v stmt \<Rightarrow> (string \<times> 'v) list list option"
  answer :: "'v stmt \<Rightarrow> (nat \<times> int) option"
  of_id :: "int \<Rightarrow> 'v"
  takes :: "'v stmt \<Rightarrow> taken"

definition new_record :: "schema \<Rightarrow> 'v row_record" where
  "new_record s = \<lparr>r_schema = s, r_values = Map.empty\<rparr>"

definition record_has :: "'v row_record \<Rightarrow> string \<Rightarrow> bool" where
  "record_has r name = (name \<noteq> [] \<and> r_values r name \<noteq> None)"

definition record_get :: "'v sess \<Rightarrow> 'v row_record \<Rightarrow> string \<Rightarrow> 'v" where
  "record_get c r name =
     (if \<not> record_has r name then null_value c else case r_values r name of Some v \<Rightarrow> v | None \<Rightarrow> null_value c)"

fun record_get_all :: "'v sess \<Rightarrow> 'v row_record \<Rightarrow> string list \<Rightarrow> 'v list" where
  "record_get_all c r [] = []"
| "record_get_all c r (column # columns) =
     (if record_has r column then record_get c r column # record_get_all c r columns
      else record_get_all c r columns)"

definition record_set :: "string \<Rightarrow> 'v \<Rightarrow> 'v row_record \<Rightarrow> 'v row_record" where
  "record_set name v r = r\<lparr>r_values := (r_values r)(name \<mapsto> v)\<rparr>"

definition record_unset :: "string \<Rightarrow> 'v row_record \<Rightarrow> 'v row_record" where
  "record_unset name r = r\<lparr>r_values := (r_values r)(name := None)\<rparr>"

definition record_reset :: "'v row_record \<Rightarrow> 'v row_record" where
  "record_reset r = r\<lparr>r_values := Map.empty\<rparr>"

text \<open>\<open>record::init\<close> with the named values of a row\<close>

fun record_init :: "(string \<times> 'v) list \<Rightarrow> 'v row_record \<Rightarrow> 'v row_record" where
  "record_init [] r = r"
| "record_init ((name, v) # row) r = record_init row (record_set name v r)"

text \<open>\<open>record::schema\<close>: the schema, initialised when it is not valid yet\<close>

definition record_schema :: "'v database \<Rightarrow> 'v row_record \<Rightarrow> 'v row_record option" where
  "record_schema db r =
     (if \<not> schema_valid (r_schema r)
      then map_option (\<lambda>s. r\<lparr>r_schema := s\<rparr>) (schema_init (load db) (r_schema r))
      else Some r)"

definition record_key :: "'v database \<Rightarrow> 'v row_record \<Rightarrow> (string \<times> 'v row_record) option" where
  "record_key db r =
     Option.bind (record_schema db r) (\<lambda>r'.
       map_option (\<lambda>pk. (pk, r')) (schema_primary_key (r_schema r')))"

definition record_id :: "'v sess \<Rightarrow> 'v database \<Rightarrow> 'v row_record \<Rightarrow> 'v option" where
  "record_id c db r = map_option (\<lambda>(pk, r'). record_get c r' pk) (record_key db r)"

definition record_set_id :: "'v database \<Rightarrow> 'v \<Rightarrow> 'v row_record \<Rightarrow> 'v row_record option" where
  "record_set_id db v r = map_option (\<lambda>(pk, r'). record_set pk v r') (record_key db r)"

fun copy_available :: "'v row_record \<Rightarrow> bool \<Rightarrow> string \<Rightarrow> string list \<Rightarrow> string list" where
  "copy_available r exists pk [] = []"
| "copy_available r exists pk (column # columns) =
     (if record_has r column \<and> (exists \<or> column \<noteq> pk) then column # copy_available r exists pk columns
      else copy_available r exists pk columns)"

definition available_columns :: "'v row_record \<Rightarrow> bool \<Rightarrow> string \<Rightarrow> string list" where
  "available_columns r exists pk = copy_available r exists pk (column_names (r_schema r))"

section \<open>Operations on the database\<close>

definition key_operator :: "'v sess \<Rightarrow> 'v row_record \<Rightarrow> string \<Rightarrow> 'v sql_operator" where
  "key_operator c r name = op_equals (of_text c name) (record_get c r name)"

text \<open>A query of the record's schema.\<close>

definition schema_select :: "'v row_record \<Rightarrow> 'v select" where
  "schema_select r = new_select (column_names (r_schema r)) (sc_table (r_schema r))"

definition count_rows :: "'v database \<Rightarrow> 'v select \<Rightarrow> int \<times> 'v stmt list" where
  "count_rows db q =
     (fst (select_count (takes db) (scalar db) q),
      case select_execute (takes db) (q\<lparr>s_columns := [''COUNT(*)'']\<rparr>) of
        (None, _) \<Rightarrow> []
      | (Some _, q1) \<Rightarrow> (case fst (select_execute (takes db) q1) of None \<Rightarrow> [] | Some st \<Rightarrow> [st]))"

definition record_exists ::
  "'v sess \<Rightarrow> 'v database \<Rightarrow> 'v row_record \<Rightarrow> (bool \<times> 'v stmt list \<times> 'v row_record) option" where
  "record_exists c db r =
     Option.bind (record_key db r) (\<lambda>(pk, r').
       if \<not> record_has r' pk then Some (False, [], r')
       else map_option (\<lambda>q. let (n, sts) = count_rows db q in (n > 0, sts, r'))
              (select_where c (key_operator c r' pk) (schema_select r')))"

fun statements_of :: "('v, 'z) execution \<Rightarrow> (nat \<times> 'v stmt list \<times> 'z) option" where
  "statements_of (Inl _) = None"
| "statements_of (Inr (n, st, q)) = Some (n, [st], q)"

definition save_update ::
  "'v sess \<Rightarrow> 'v database \<Rightarrow> string \<Rightarrow> string list \<Rightarrow> 'v row_record \<Rightarrow>
   (bool \<times> 'v stmt list \<times> 'v row_record) option" where
  "save_update c db pk columns r =
     Option.bind (bind_values c 1 (record_get_all c r columns) (new_update (sc_table (r_schema r)) columns)) (\<lambda>q.
     Option.bind (update_where c (key_operator c r pk) q) (\<lambda>q.
     Option.bind (statements_of (update_execute c (takes db) (answer db) q)) (\<lambda>(n, sts, _).
     Some (n \<noteq> 0, sts, r))))"

definition save_insert ::
  "'v sess \<Rightarrow> 'v database \<Rightarrow> string \<Rightarrow> string list \<Rightarrow> 'v row_record \<Rightarrow>
   (bool \<times> 'v stmt list \<times> 'v row_record) option" where
  "save_insert c db pk columns r =
     Option.bind (bind_values c 1 (record_get_all c r columns) (new_insert (sc_table (r_schema r)) columns)) (\<lambda>q.
     Option.bind (statements_of (insert_execute c (takes db) (answer db) q)) (\<lambda>(n, sts, q').
     Some (n \<noteq> 0, sts, if n \<noteq> 0 then record_set pk (of_id db (i_last_id q')) r else r)))"

definition record_save ::
  "'v sess \<Rightarrow> 'v database \<Rightarrow> 'v row_record \<Rightarrow> (bool \<times> 'v stmt list \<times> 'v row_record) option" where
  "record_save c db r =
     Option.bind (record_exists c db r) (\<lambda>(exists, counted, r1).
     Option.bind (record_key db r1) (\<lambda>(pk, r2).
       let columns = available_columns r2 exists pk
       in map_option (\<lambda>(ok, sts, r3). (ok, counted @ sts, r3))
            (if exists then save_update c db pk columns r2 else save_insert c db pk columns r2)))"

definition record_remove ::
  "'v sess \<Rightarrow> 'v database \<Rightarrow> 'v row_record \<Rightarrow> (bool \<times> 'v stmt list \<times> 'v row_record) option" where
  "record_remove c db r =
     Option.bind (record_key db r) (\<lambda>(pk, r').
       if \<not> record_has r' pk then Some (False, [], r')
       else
         Option.bind (delete_where c (key_operator c r' pk) (new_delete (sc_table (r_schema r')))) (\<lambda>q.
         Option.bind (statements_of (delete_execute (takes db) (answer db) q)) (\<lambda>(n, sts, _). Some (n \<noteq> 0, sts, r'))))"

definition record_refresh_by ::
  "'v sess \<Rightarrow> 'v database \<Rightarrow> string \<Rightarrow> 'v row_record \<Rightarrow> (bool \<times> 'v stmt list \<times> 'v row_record) option" where
  "record_refresh_by c db name r =
     (if \<not> record_has r name then Some (False, [], r)
      else
        Option.bind (record_schema db r) (\<lambda>r'.
        Option.bind (select_where c (key_operator c r' name) (schema_select r')) (\<lambda>q.
          case fst (select_execute (takes db) (select_limit ''1'' q)) of
            None \<Rightarrow> None
          | Some st \<Rightarrow>
              map_option (\<lambda>found. case found of
                  [] \<Rightarrow> (False, [st], r')
                | row # _ \<Rightarrow> (True, [st], record_init row r')) (rows db st))))"

definition record_refresh ::
  "'v sess \<Rightarrow> 'v database \<Rightarrow> 'v row_record \<Rightarrow> (bool \<times> 'v stmt list \<times> 'v row_record) option" where
  "record_refresh c db r = Option.bind (record_key db r) (\<lambda>(pk, r'). record_refresh_by c db pk r')"

end
