(* ===== verification/RecordProps.thy ===== *)
theory RecordProps
  imports Records
begin

text \<open>
  The statements that saving, finding and removing a record send to the database.
\<close>

section \<open>The columns that are saved\<close>

lemma copy_available_eq:
  "copy_available r exists pk columns = filter (\<lambda>column. record_has r column \<and> (exists \<or> column \<noteq> pk)) columns"
  by (induction columns) auto

lemma record_get_all_eq: "record_get_all c r columns = map (record_get c r) (filter (record_has r) columns)"
  by (induction columns) auto

lemma record_get_available:
  "record_get_all c r (available_columns r exists pk) = map (record_get c r) (available_columns r exists pk)"
  by (simp add: record_get_all_eq available_columns_def copy_available_eq conj_commute)

lemma key_available:
  "schema_primary_key (r_schema r) = Some pk \<Longrightarrow> record_has r pk \<Longrightarrow> available_columns r True pk \<noteq> []"
  using primary_key_is_column by (auto simp: available_columns_def copy_available_eq filter_empty_conv)

section \<open>The statements\<close>

definition key_text :: "'v sess \<Rightarrow> 'v row_record \<Rightarrow> string \<Rightarrow> nat \<Rightarrow> string" where
  "key_text c r name i = operator_text c i (key_operator c r name)"

definition count_statement :: "'v sess \<Rightarrow> 'v row_record \<Rightarrow> string \<Rightarrow> 'v stmt" where
  "count_statement c r pk =
     \<lparr>st_sql = ''SELECT COUNT(*) FROM '' @ sc_table (r_schema r) @ '' WHERE '' @ key_text c r pk 1 @ '';'',
      st_params = [record_get c r pk], st_named = Map.empty\<rparr>"

definition update_statement :: "'v sess \<Rightarrow> 'v row_record \<Rightarrow> string \<Rightarrow> 'v stmt" where
  "update_statement c r pk =
     (let columns = available_columns r True pk in
      \<lparr>st_sql = update_sql c (sc_table (r_schema r)) columns (Suc (length columns)) (key_operator c r pk),
       st_params = map (record_get c r) columns @ [record_get c r pk], st_named = Map.empty\<rparr>)"

definition insert_statement :: "'v sess \<Rightarrow> 'v row_record \<Rightarrow> bool \<Rightarrow> string \<Rightarrow> 'v stmt" where
  "insert_statement c r exists pk =
     (let columns = available_columns r exists pk in
      \<lparr>st_sql = insert_sql c (new_insert (sc_table (r_schema r)) columns),
       st_params = map (record_get c r) columns, st_named = Map.empty\<rparr>)"

definition delete_statement :: "'v sess \<Rightarrow> 'v row_record \<Rightarrow> string \<Rightarrow> 'v stmt" where
  "delete_statement c r pk =
     \<lparr>st_sql = ''DELETE FROM '' @ sc_table (r_schema r) @ '' WHERE '' @ key_text c r pk 1 @ '';'',
      st_params = [record_get c r pk], st_named = Map.empty\<rparr>"

text \<open>A record that can be looked up: its schema is loaded and has a key, which is not taken for a name.\<close>

definition keyed :: "'v sess \<Rightarrow> 'v row_record \<Rightarrow> string \<Rightarrow> bool" where
  "keyed c r pk =
     (schema_valid (r_schema r) \<and> sc_table (r_schema r) \<noteq> [] \<and>
      schema_primary_key (r_schema r) = Some pk \<and> \<not> is_named c (record_get c r pk))"

lemma record_key_keyed: "keyed c r pk \<Longrightarrow> record_key db r = Some (pk, r)"
  by (simp add: keyed_def record_key_def record_schema_def)

lemma key_operator_bound: "keyed c r pk \<Longrightarrow> bound_values c (key_operator c r pk) = [record_get c r pk]"
  by (simp add: keyed_def bound_values_def key_operator_def op_equals_def operator_of_def)

lemma key_operator_text: "operator_text c i (key_operator c r pk) = key_text c r pk i"
  by (simp add: key_text_def)

lemma key_text_ne [simp]: "key_text c r pk i \<noteq> []"
  by (simp add: key_text_def)

lemma next_index_new [simp]:
  "next_index (schema_select r) = 1" "next_index (new_update t cs) = 1" "next_index (new_delete t) = 1"
  by (simp_all add: next_index_def schema_select_def new_select_def new_update_def new_delete_def)

text \<open>The query of a key.\<close>

definition key_select :: "'v sess \<Rightarrow> 'v row_record \<Rightarrow> string \<Rightarrow> 'v select" where
  "key_select c r pk =
     set_modified (schema_select r\<lparr>s_where := where_of (key_text c r pk 1), q_params := [record_get c r pk]\<rparr>)"

lemma select_where_key: "keyed c r pk \<Longrightarrow> select_where c (key_operator c r pk) (schema_select r) = Some (key_select c r pk)"
  by (simp add: where_eq key_operator_bound key_select_def reset_where_to_def key_operator_text)
     (simp add: schema_select_def new_select_def)

lemma key_select_simps [simp]:
  "q_params (key_select c r pk) = [record_get c r pk]" "q_named (key_select c r pk) = Map.empty"
  "q_sql (key_select c r pk) = []"
  by (simp_all add: key_select_def schema_select_def new_select_def)

lemma generate_where_of:
  "t \<noteq> [] \<Longrightarrow> \<not> where_empty (where_of t)"
  by (simp add: where_of_def where_empty_def)

lemma count_columns_key:
  "statement_of (counted_query (key_select c r pk)) = count_statement c r pk"
  by (simp add: counted_query_def statement_of_def count_statement_def count_columns_def)
     (simp add: key_select_def schema_select_def new_select_def generate_select_def set_modified_def
        generate_where_of join_csv_def)

lemma key_select_current: "select_gen.current (key_select c r pk)" "\<not> settled (key_select c r pk)"
  unfolding key_select_def by (simp_all add: select_gen.current_set_modified)

text \<open>What the database counts for a statement: nothing when it does not take it.\<close>

definition counts :: "'v database \<Rightarrow> 'v stmt \<Rightarrow> int option" where
  "counts db st = (if takes db st = Taken then scalar db st else None)"

definition ran_if_taken :: "'v database \<Rightarrow> 'v stmt \<Rightarrow> 'v stmt list" where
  "ran_if_taken db st = (if takes db st = Taken then [st] else [])"

lemma count_rows_key:
  "count_rows db (key_select c r pk) =
     (case counts db (count_statement c r pk) of None \<Rightarrow> - 1 | Some n \<Rightarrow> n,
      ran_if_taken db (count_statement c r pk))"
proof -
  let ?q = "key_select c r pk" and ?st = "count_statement c r pk"
  have first: "fst (select_execute (takes db) (count_columns ?q)) = (if takes db ?st = Taken then Some ?st else None)"
    by (simp add: count_first_statement key_select_current count_columns_key)
  have sts: "(case select_execute (takes db) (count_columns ?q) of
        (None, _) \<Rightarrow> []
      | (Some _, q1) \<Rightarrow> (case fst (select_execute (takes db) q1) of None \<Rightarrow> [] | Some st \<Rightarrow> [st])) =
    ran_if_taken db ?st"
    using first select_gen.execute_again [of "takes db" "count_columns ?q" ?st "takes db"]
    by (cases "select_execute (takes db) (count_columns ?q)")
      (simp add: ran_if_taken_def select_execute_def split: if_splits)
  from select_count_current [OF key_select_current(1), of "takes db" "scalar db" c r pk] obtain q' where
    "select_count (takes db) (scalar db) ?q = (case counts db ?st of None \<Rightarrow> - 1 | Some n \<Rightarrow> n, q')"
    by (auto simp: counted_def counts_def Let_def count_columns_key key_select_current)
  then show ?thesis by (simp add: count_rows_def sts [unfolded count_columns_def])
qed

lemma record_exists_keyed:
  assumes "keyed c r pk"
  shows "record_exists c db r =
    (if record_has r pk
     then Some ((case counts db (count_statement c r pk) of None \<Rightarrow> False | Some n \<Rightarrow> n > 0),
                ran_if_taken db (count_statement c r pk), r)
     else Some (False, [], r))"
  by (simp add: record_exists_def record_key_keyed [OF assms] select_where_key [OF assms] count_rows_key
      split: option.split)

section \<open>Changes\<close>

lemma statements_of_ran:
  "ran a st res q' \<Longrightarrow> statements_of res = Some (changes_of a st, [st], q')"
  by (simp add: ran_def)

lemma statements_of_refused: "refused res \<Longrightarrow> statements_of res = None"
  by (auto simp: refused_def)

lemma update_where_key:
  assumes "keyed c r pk" "q_params q = vs"
  shows "update_where c (key_operator c r pk) q =
    Some (set_modified (q\<lparr>u_where := reset_where_to (key_text c r pk (Suc (length vs))),
                          q_params := vs @ [record_get c r pk]\<rparr>))"
  using update_where_eq [OF key_operator_bound [OF assms(1)]] assms(2)
  by (simp add: next_index_def key_operator_text)

lemma bind_values_new:
  "q_params q = [] \<Longrightarrow> bind_values c (Suc 0) vs q =
     Some (q\<lparr>q_params := vs, q_dirty := q_dirty q \<or> vs \<noteq> [], q_sql := (if vs = [] then q_sql q else [])\<rparr>)"
  using bind_values_at [of 0 q c vs] by simp

lemma save_update_keyed:
  assumes k: "keyed c r pk" and "record_has r pk"
  shows "save_update c db pk (available_columns r True pk) r =
    (if takes db (update_statement c r pk) = Taken
     then Some (changes_of (answer db) (update_statement c r pk) \<noteq> 0, [update_statement c r pk], r)
     else None)"
proof -
  let ?cs = "available_columns r True pk" and ?t = "sc_table (r_schema r)"
  let ?vs = "map (record_get c r) ?cs"
  define q :: "'a update" where "q = new_update ?t ?cs\<lparr>q_params := ?vs, q_dirty := ?vs \<noteq> []\<rparr>"
  have bound: "bind_values c (Suc 0) (record_get_all c r ?cs) (new_update ?t ?cs) = Some q"
    by (simp add: bind_values_new record_get_available new_update_def q_def)
  define q2 where "q2 = set_modified (q\<lparr>u_where := reset_where_to (key_text c r pk (Suc (length ?vs))),
      q_params := ?vs @ [record_get c r pk]\<rparr>)"
  have w: "update_where c (key_operator c r pk) q = Some q2"
    unfolding q2_def by (rule update_where_key [OF k]) (simp add: q_def)
  have ne: "?cs \<noteq> []" using assms by (intro key_available) (simp_all add: keyed_def)
  have sql: "generate_update c q2 = update_sql c ?t ?cs (Suc (length ?cs)) (key_operator c r pk)"
    using ne generate_update_where [of q2 c "Suc (length ?cs)" "key_operator c r pk"]
    by (simp add: q2_def q_def new_update_def set_modified_def key_operator_text)
  have st: "own_statement (generate_update c) q2 = update_statement c r pk"
    unfolding own_statement_def sql by (simp add: update_statement_def q2_def q_def new_update_def Let_def)
  have "update_gen.current c q2" unfolding q2_def by (rule update_gen.current_set_modified)
  moreover have "u_table q2 \<noteq> []" using k by (simp add: q2_def q_def new_update_def set_modified_def keyed_def)
  moreover have "\<not> settled q2" by (simp add: q2_def)
  ultimately have "if takes db (update_statement c r pk) = Taken
      then \<exists>q'. ran (answer db) (update_statement c r pk) (update_execute c (takes db) (answer db) q2) q'
      else refused (update_execute c (takes db) (answer db) q2)"
    using update_outcome [of c q2 "takes db"] unfolding st by blast
  then show ?thesis
    by (auto simp: save_update_def bound w statements_of_refused dest: statements_of_ran split: if_splits)
qed

lemma save_insert_keyed:
  assumes k: "keyed c r pk" and single: "\<not> several_keys c (sc_table (r_schema r))"
  shows "save_insert c db pk (available_columns r exists pk) r =
    (let st = insert_statement c r exists pk; n = changes_of (answer db) st
     in if takes db st = Taken
        then Some (n \<noteq> 0, [st],
          if n \<noteq> 0 then record_set pk (of_id db (case answer db st of Some (_, i) \<Rightarrow> i | None \<Rightarrow> 0)) r else r)
        else None)"
proof -
  let ?cs = "available_columns r exists pk" and ?t = "sc_table (r_schema r)" and ?st = "insert_statement c r exists pk"
  let ?vs = "map (record_get c r) ?cs"
  define q :: "'a insert" where "q = new_insert ?t ?cs\<lparr>q_params := ?vs, q_dirty := ?vs \<noteq> []\<rparr>"
  have bound: "bind_values c (Suc 0) (record_get_all c r ?cs) (new_insert ?t ?cs) = Some q"
    by (simp add: bind_values_new record_get_available new_insert_def q_def)
  have current: "insert_gen.current c q" "\<not> settled q"
    by (simp_all add: insert_gen.current_def insert_gen.coherent_def reflects_def settled_def q_def new_insert_def)
  have "insert_sql c q = insert_sql c (new_insert ?t ?cs)"
    by (simp add: insert_sql_def q_def new_insert_def)
  then have st: "own_statement (insert_sql c) q = ?st"
    by (simp add: own_statement_def insert_statement_def q_def Let_def new_insert_def)
  have t: "i_table q = ?t" by (simp add: q_def new_insert_def)
  then have table: "i_table q \<noteq> []" "\<not> several_keys c (i_table q)" using k single by (simp_all add: keyed_def)
  show ?thesis
  proof (cases "takes db ?st = Taken")
    case True
    have "fst (prepare_text (takes db) (insert_sql c) q) = Some ?st"
      using insert_gen.prepare_current [OF current(1), of "takes db"] True unfolding st .
    from insert_execute_ran [OF table this, of "answer db"] obtain q' where
      q': "ran (answer db) ?st (insert_execute c (takes db) (answer db) q) q'"
        "i_last_id q' = (case answer db ?st of Some (_, i) \<Rightarrow> i | None \<Rightarrow> 0)" by blast
    from statements_of_ran [OF q'(1)] q'(2) True show ?thesis by (simp add: save_insert_def bound Let_def)
  next
    case False
    have "fst (prepare_text (takes db) (insert_sql c) q) = None"
      using insert_gen.prepare_refused [OF current, of "takes db"] False unfolding st .
    from statements_of_refused [OF insert_execute_refused [OF table this, of "answer db"]] False
    show ?thesis by (simp add: save_insert_def bound Let_def)
  qed
qed



section \<open>Removing and refreshing\<close>

lemma delete_where_key:
  "keyed c r pk \<Longrightarrow> delete_where c (key_operator c r pk) (new_delete t) =
    Some (set_modified (new_delete t\<lparr>d_where := where_of (key_text c r pk 1), q_params := [record_get c r pk]\<rparr>))"
  using bind_operator_values [of c "new_delete t\<lparr>d_where := where_of (key_text c r pk 1)\<rparr>" "key_operator c r pk"]
  by (simp add: delete_where_def key_operator_bound key_operator_text reset_where_to_def next_index_def
      set_modified_def new_delete_def Let_def)

text \<open>
  Removing a record with a key runs one deletion, of the rows with that key, and succeeds when
  the database reports a change; it raises when the database does not take the deletion. A record
  without a key runs nothing.
\<close>

theorem remove_deletes_by_key:
  assumes "keyed c r pk"
  shows "record_remove c db r =
    (if \<not> record_has r pk then Some (False, [], r)
     else if takes db (delete_statement c r pk) = Taken
     then Some (changes_of (answer db) (delete_statement c r pk) \<noteq> 0, [delete_statement c r pk], r)
     else None)"
proof -
  let ?q = "set_modified (new_delete (sc_table (r_schema r))
      \<lparr>d_where := where_of (key_text c r pk 1), q_params := [record_get c r pk]\<rparr>)"
  have "generate_delete ?q = st_sql (delete_statement c r pk)"
    by (simp add: generate_delete_def delete_statement_def new_delete_def set_modified_def generate_where_of)
  then have st: "own_statement generate_delete ?q = delete_statement c r pk"
    by (simp add: own_statement_def delete_statement_def new_delete_def)
  have "d_table ?q \<noteq> []" using assms by (simp add: keyed_def set_modified_def new_delete_def)
  then have "if takes db (delete_statement c r pk) = Taken
      then \<exists>q'. ran (answer db) (delete_statement c r pk) (delete_execute (takes db) (answer db) ?q) q'
      else refused (delete_execute (takes db) (answer db) ?q)"
    using delete_gen.execute_outcome [OF delete_gen.current_set_modified not_settled_modified, of "takes db"]
    unfolding st [symmetric] by (simp add: delete_execute_def)
  then show ?thesis
    by (auto simp: record_remove_def record_key_keyed [OF assms] delete_where_key [OF assms] statements_of_refused
        dest: statements_of_ran split: if_splits)
qed

end
