(* ===== verification/RecordFind.thy ===== *)
theory RecordFind
  imports RecordProps
begin

text \<open>
  The finders of \<^verbatim>\<open>record.h\<close> and the methods of \<open>generic::record\<close> that call them with the schema of a
  record: the queries they build, and the records made of the rows found. A \<open>std::map\<close> of names and
  values is the list of its entries in the order of the names; a callback is called once for each
  record of the result, in order.
\<close>

section \<open>Finders\<close>

fun find_conditions :: "'v sess \<Rightarrow> (string \<times> 'v) list \<Rightarrow> 'v select \<Rightarrow> 'v select option" where
  "find_conditions c [] q = Some q"
| "find_conditions c ((name, v) # kvs) q =
     Option.bind (select_where_and c (op_equals (of_text c name) v) q) (find_conditions c kvs)"

definition query_of :: "schema \<Rightarrow> 'v select" where
  "query_of s = new_select (column_names s) (sc_table s)"

definition record_of_row :: "schema \<Rightarrow> (string \<times> 'v) list \<Rightarrow> 'v row_record" where
  "record_of_row s row = record_init row (new_record s)"

definition find_by ::
  "'v sess \<Rightarrow> 'v database \<Rightarrow> schema \<Rightarrow> (string \<times> 'v) list \<Rightarrow> ('v row_record list \<times> 'v stmt list) option" where
  "find_by c db s kvs =
     Option.bind (find_conditions c kvs (query_of s)) (\<lambda>q.
       case fst (select_execute (takes db) q) of
         None \<Rightarrow> None
       | Some st \<Rightarrow> map_option (\<lambda>found. (map (record_of_row s) found, [st])) (rows db st))"

definition find_all :: "'v sess \<Rightarrow> 'v database \<Rightarrow> schema \<Rightarrow> ('v row_record list \<times> 'v stmt list) option" where
  "find_all c db s = find_by c db s []"

text \<open>\<open>find_one\<close> may be called without a schema.\<close>

definition find_one ::
  "'v sess \<Rightarrow> 'v database \<Rightarrow> schema option \<Rightarrow> (string \<times> 'v) list \<Rightarrow>
   ('v row_record option \<times> 'v stmt list) option" where
  "find_one c db schema kvs =
     (case schema of
        None \<Rightarrow> Some (None, [])
      | Some s \<Rightarrow>
          Option.bind (find_conditions c kvs (query_of s)) (\<lambda>q.
            case fst (select_execute (takes db) (select_limit ''1'' q)) of
              None \<Rightarrow> None
            | Some st \<Rightarrow>
                map_option (\<lambda>found.
                  (case found of [] \<Rightarrow> None | row # _ \<Rightarrow> Some (record_of_row s row), [st])) (rows db st)))"

definition find_by_id ::
  "'v sess \<Rightarrow> 'v database \<Rightarrow> schema \<Rightarrow> 'v \<Rightarrow> ('v row_record option \<times> 'v stmt list) option" where
  "find_by_id c db s v = Option.bind (schema_primary_key s) (\<lambda>pk. find_one c db (Some s) [(pk, v)])"

text \<open>The methods of a record, which initialise its schema first; the record after them comes last.\<close>

definition record_find_by ::
  "'v sess \<Rightarrow> 'v database \<Rightarrow> 'v row_record \<Rightarrow> (string \<times> 'v) list \<Rightarrow>
   ('v row_record list \<times> 'v stmt list \<times> 'v row_record) option" where
  "record_find_by c db r kvs =
     Option.bind (record_schema db r) (\<lambda>r'.
       map_option (\<lambda>(found, sts). (found, sts, r')) (find_by c db (r_schema r') kvs))"

definition record_find_all ::
  "'v sess \<Rightarrow> 'v database \<Rightarrow> 'v row_record \<Rightarrow> ('v row_record list \<times> 'v stmt list \<times> 'v row_record) option" where
  "record_find_all c db r =
     Option.bind (record_schema db r) (\<lambda>r'.
       map_option (\<lambda>(found, sts). (found, sts, r')) (find_all c db (r_schema r')))"

definition record_find_one ::
  "'v sess \<Rightarrow> 'v database \<Rightarrow> 'v row_record \<Rightarrow> (string \<times> 'v) list \<Rightarrow>
   ('v row_record option \<times> 'v stmt list \<times> 'v row_record) option" where
  "record_find_one c db r kvs =
     Option.bind (record_schema db r) (\<lambda>r'.
       map_option (\<lambda>(found, sts). (found, sts, r')) (find_one c db (Some (r_schema r')) kvs))"

definition record_find_by_id ::
  "'v sess \<Rightarrow> 'v database \<Rightarrow> 'v row_record \<Rightarrow> 'v \<Rightarrow>
   ('v row_record option \<times> 'v stmt list \<times> 'v row_record) option" where
  "record_find_by_id c db r v =
     Option.bind (record_schema db r) (\<lambda>r'.
       map_option (\<lambda>(found, sts). (found, sts, r')) (find_by_id c db (r_schema r') v))"

section \<open>The query of a finder\<close>

definition equalities :: "'v sess \<Rightarrow> (string \<times> 'v) list \<Rightarrow> 'v sql_operator list" where
  "equalities c kvs = map (\<lambda>(name, v). op_equals (of_text c name) v) kvs"

text \<open>Adding conditions to a query whose text and statement were never asked.\<close>

lemma find_conditions_params:
  "\<exists>q'. find_conditions c kvs q = Some q' \<and>
     q_params q' = q_params q @ concat (map (bound_values c) (equalities c kvs)) \<and>
     s_columns q' = s_columns q \<and> s_table q' = s_table q \<and> s_join q' = s_join q \<and> s_limit q' = s_limit q \<and>
     s_order q' = s_order q \<and> s_group q' = s_group q \<and> s_union q' = s_union q \<and> q_named q' = q_named q \<and>
     q_stmt q' = q_stmt q \<and> (q_sql q = [] \<longrightarrow> q_sql q' = [])"
proof (induction c kvs q rule: find_conditions.induct)
  case (2 c name v kvs q)
  let ?p = "op_equals (of_text c name) v"
  obtain q1 where q1: "select_where_and c ?p q = Some q1" by (simp add: where_and_eq Let_def)
  with 2 [OF q1] show ?case
    by (auto simp: equalities_def where_and_eq Let_def simp del: append_assoc)
qed (simp add: equalities_def)

lemma where_and_first: "and_string empty_where t = (if t = [] then empty_where else condition_chain [t])"
  by (simp add: empty_where_def condition_chain_def)

lemma find_conditions_where:
  assumes "s_where q = (if ts = [] then empty_where else condition_chain ts)" "ts \<noteq> [] \<longrightarrow> hd ts \<noteq> []"
    "find_conditions c kvs q = Some q'"
  shows "s_where q' =
    (let us = ts @ rendered c (next_index q) (equalities c kvs)
     in if us = [] then empty_where else condition_chain us)"
  using assms
proof (induction c kvs q arbitrary: ts rule: find_conditions.induct)
  case (2 c name v kvs q)
  let ?p = "op_equals (of_text c name) v"
  obtain q1 where q1: "select_where_and c ?p q = Some q1" by (simp add: where_and_eq Let_def)
  then have w: "s_where q1 = condition_chain (ts @ [operator_text c (next_index q) ?p])"
    using "2.prems"(1,2) by (auto simp: where_and_eq Let_def chain_and_string where_and_first)
  have n: "next_index q1 = next_index q + length (bound_values c ?p)"
    using q1 by (auto simp: where_and_eq Let_def next_index_def)
  have f: "find_conditions c kvs q1 = Some q'" using "2.prems"(3) q1 by simp
  have h: "hd (ts @ [operator_text c (next_index q) ?p]) \<noteq> []" using "2.prems"(2) by (cases ts) simp_all
  from "2.IH" [OF q1 _ _ f, of "ts @ [operator_text c (next_index q) ?p]"] w h show ?case
    by (simp add: equalities_def n)
qed (simp add: equalities_def)


definition find_statement :: "'v sess \<Rightarrow> schema \<Rightarrow> (string \<times> 'v) list \<Rightarrow> string \<Rightarrow> 'v stmt" where
  "find_statement c s kvs limit =
     \<lparr>st_sql = ''SELECT '' @ (if column_names s = [] then ''*'' else join_csv (column_names s)) @ '' FROM '' @ sc_table s @
        (if kvs = [] then [] else '' WHERE '' @ join_with '' AND '' (rendered c 1 (equalities c kvs))) @ limit @ '';'',
      st_params = concat (map (bound_values c) (equalities c kvs)), st_named = Map.empty\<rparr>"

lemma find_query:
  obtains q where "find_conditions c kvs (query_of s) = Some q"
    "q_params q = concat (map (bound_values c) (equalities c kvs))" "q_named q = Map.empty" "q_stmt q = None" "q_sql q = []"
    "s_where q = (if kvs = [] then empty_where else condition_chain (rendered c 1 (equalities c kvs)))"
    "s_columns q = column_names s" "s_table q = sc_table s" "s_join q = []" "s_limit q = []" "s_order q = []"
    "s_group q = []" "s_union q = None"
proof -
  obtain q where q: "find_conditions c kvs (query_of s) = Some q"
    "q_params q = concat (map (bound_values c) (equalities c kvs))" "q_named q = Map.empty" "q_stmt q = None" "q_sql q = []"
    "s_columns q = column_names s" "s_table q = sc_table s" "s_join q = []" "s_limit q = []" "s_order q = []"
    "s_group q = []" "s_union q = None"
    using find_conditions_params [of c kvs "query_of s"] by (auto simp: query_of_def new_select_def)
  from q(1) have "s_where q = (if kvs = [] then empty_where else condition_chain (rendered c 1 (equalities c kvs)))"
    using find_conditions_where [of "query_of s" "[]" c kvs q]
    by (simp add: query_of_def new_select_def next_index_def equalities_def Let_def)
  with q show thesis by (intro that [of q])
qed

lemma condition_chain_ne: "ts \<noteq> [] \<Longrightarrow> hd ts \<noteq> [] \<Longrightarrow> \<not> where_empty (condition_chain ts)"
  by (simp add: where_empty_def condition_chain_def)

lemma hd_rendered: "ps \<noteq> [] \<Longrightarrow> hd (rendered c i ps) \<noteq> []"
  by (cases ps) simp_all

lemma find_generate:
  assumes "s_where q = (if kvs = [] then empty_where else condition_chain (rendered c 1 (equalities c kvs)))"
    "s_columns q = column_names s" "s_table q = sc_table s" "s_join q = []" "s_order q = []" "s_group q = []" "s_union q = None"
  shows "generate_select q =
    st_sql (find_statement c s kvs (if s_limit q = [] then [] else '' LIMIT '' @ s_limit q))"
proof -
  have "where_empty empty_where" by (simp add: where_empty_def empty_where_def)
  moreover have "\<not> where_empty (s_where q)" "where_text (s_where q) = join_with '' AND '' (rendered c 1 (equalities c kvs))"
    if "kvs \<noteq> []"
  proof -
    have e: "equalities c kvs \<noteq> []" using that by (simp add: equalities_def)
    then show "\<not> where_empty (s_where q)" 
      using that assms(1) condition_chain_ne [of "rendered c 1 (equalities c kvs)"] hd_rendered [OF e] by simp
    show "where_text (s_where q) = join_with '' AND '' (rendered c 1 (equalities c kvs))"
      using that e assms(1) where_text_chain by simp
  qed
  ultimately show ?thesis using assms by (simp add: generate_select_def find_statement_def)
qed

text \<open>A query executed for the first time runs its own statement, when the database takes it.\<close>

lemma fresh_statement:
  assumes "q_stmt q = None" "q_sql q = []"
  shows "fst (select_execute accepts q) = (if accepts (statement_of q) = Taken then Some (statement_of q) else None)"
proof -
  have "select_gen.current q" by (rule select_gen.current_fresh) (simp_all add: assms select_gen.coherent_def)
  moreover have "\<not> settled q" using assms by (simp add: settled_def)
  ultimately show ?thesis by (simp add: select_execute_current)
qed

text \<open>What the database answers to a statement that it has to be given first.\<close>

definition selected :: "'v database \<Rightarrow> 'v stmt \<Rightarrow> (string \<times> 'v) list list option" where
  "selected db st = (if takes db st = Taken then rows db st else None)"

lemma find_by_eq:
  "find_by c db s kvs =
    (let st = find_statement c s kvs [] in map_option (\<lambda>found. (map (record_of_row s) found, [st])) (selected db st))"
proof (rule find_query [of c kvs s])
  fix q
  assume q: "find_conditions c kvs (query_of s) = Some q"
    "q_params q = concat (map (bound_values c) (equalities c kvs))" "q_named q = Map.empty" "q_stmt q = None" "q_sql q = []"
    "s_where q = (if kvs = [] then empty_where else condition_chain (rendered c 1 (equalities c kvs)))"
    "s_columns q = column_names s" "s_table q = sc_table s" "s_join q = []" "s_limit q = []" "s_order q = []"
    "s_group q = []" "s_union q = None"
  have "statement_of q = find_statement c s kvs []"
    using find_generate [OF q(6,7,8,9,11,12,13)] q(2,3,10) by (simp add: find_statement_def statement_of_def)
  then show ?thesis
    using fresh_statement [OF q(4,5), of "takes db"] by (simp add: find_by_def q(1) Let_def selected_def)
qed

lemma find_one_eq:
  "find_one c db (Some s) kvs =
    (let st = find_statement c s kvs '' LIMIT 1''
     in map_option (\<lambda>found. (case found of [] \<Rightarrow> None | row # _ \<Rightarrow> Some (record_of_row s row), [st])) (selected db st))"
proof (rule find_query [of c kvs s])
  fix q
  assume q: "find_conditions c kvs (query_of s) = Some q"
    "q_params q = concat (map (bound_values c) (equalities c kvs))" "q_named q = Map.empty" "q_stmt q = None" "q_sql q = []"
    "s_where q = (if kvs = [] then empty_where else condition_chain (rendered c 1 (equalities c kvs)))"
    "s_columns q = column_names s" "s_table q = sc_table s" "s_join q = []" "s_limit q = []" "s_order q = []"
    "s_group q = []" "s_union q = None"
  let ?q = "select_limit ''1'' q" and ?st = "find_statement c s kvs '' LIMIT 1''"
  have l: "q_stmt ?q = None" "q_sql ?q = []" "q_params ?q = q_params q" "q_named ?q = q_named q" "s_limit ?q = ''1''"
    using q(4) by (simp_all add: select_limit_def) (simp add: set_modified_def)
  have "generate_select ?q = st_sql (find_statement c s kvs (if s_limit ?q = [] then [] else '' LIMIT '' @ s_limit ?q))"
    by (rule find_generate) (simp_all add: select_limit_def set_modified_def q)
  then have "statement_of ?q = ?st"
    using l(3-5) q(2,3) by (simp add: find_statement_def statement_of_def)
  then show ?thesis
    using fresh_statement [OF l(1,2), of "takes db"] by (simp add: find_one_def q(1) Let_def selected_def)
qed

lemma record_init_values: "r_values (record_init row r) = r_values r ++ map_of (rev row) \<and> r_schema (record_init row r) = r_schema r"
proof (induction row r rule: record_init.induct)
  case (2 name v row r)
  then show ?case by (auto simp: record_set_def map_add_def fun_eq_iff split: option.split)
qed simp


section \<open>What finders ask and return\<close>

lemma record_of_row_eq: "record_of_row s row = \<lparr>r_schema = s, r_values = map_of (rev row)\<rparr>"
  using record_init_values [of row "new_record s"] by (simp add: record_of_row_def new_record_def row_record.equality)

definition equality_text :: "'v sess \<Rightarrow> nat \<Rightarrow> string \<Rightarrow> string" where
  "equality_text c i name = str c (of_text c name) @ '' = '' @ bind_param c i"

lemma equality_text: "operator_text c i (op_equals (of_text c name) v) = equality_text c i name"
  by (simp add: operator_text_def op_equals_def operator_of_def equality_text_def)

lemma bound_equality: "bound_values c (op_equals l v) = (if is_named c v then [] else [v])"
  by (simp add: bound_values_def op_equals_def operator_of_def)

text \<open>
  The equalities a finder asks for, from a first number on: a value that is taken for the name of a
  parameter keeps its number free for the next one.
\<close>

fun equality_texts :: "'v sess \<Rightarrow> nat \<Rightarrow> (string \<times> 'v) list \<Rightarrow> string list" where
  "equality_texts c i [] = []"
| "equality_texts c i ((name, v) # kvs) =
     equality_text c i name # equality_texts c (if is_named c v then i else Suc i) kvs"

lemma rendered_equalities:
  "rendered c i (equalities c kvs) = equality_texts c i kvs"
  "concat (map (bound_values c) (equalities c kvs)) = filter (\<lambda>v. \<not> is_named c v) (map snd kvs)"
  by (induction c i kvs rule: equality_texts.induct) (auto simp: equalities_def equality_text bound_equality)

lemma equality_texts_numbered:
  "list_all (\<lambda>(name, v). \<not> is_named c v) kvs \<Longrightarrow>
   equality_texts c i kvs = map2 (equality_text c) [i..<i + length kvs] (map fst kvs)"
  by (induction c i kvs rule: equality_texts.induct) (auto simp: upt_rec)

lemma filter_not_named:
  "list_all (\<lambda>(name, v). \<not> is_named c v) kvs \<Longrightarrow> filter (\<lambda>v. \<not> is_named c v) (map snd kvs) = map snd kvs"
  by (induction kvs) auto

text \<open>
  C33: Finding records by the values of some columns runs at most one statement. It selects the
  columns of the schema where every given column equals a placeholder. The values bound are the given
  ones in the order of the columns, but those whose text starts with a colon or an at sign: these
  are taken for names of parameters, nothing is bound for them, and the next column has the same
  placeholder. When no value is such a text the placeholders are numbered from 1, one for each value
  in order. The records found are the rows of the result, in order, each with the schema and the last
  value its row has for a name; the call raises when the database does not take the statement or
  fails to answer it.
\<close>

theorem find_by_selects_matching:
  "\<exists>st. find_by c db s kvs =
      (if takes db st = Taken
       then map_option (\<lambda>found. (map (\<lambda>row. \<lparr>r_schema = s, r_values = map_of (rev row)\<rparr>) found, [st])) (rows db st)
       else None) \<and>
    st_sql st = ''SELECT '' @ (if column_names s = [] then ''*'' else join_csv (column_names s)) @ '' FROM '' @ sc_table s @
      (if kvs = [] then [] else '' WHERE '' @ join_with '' AND '' (equality_texts c 1 kvs)) @ '';'' \<and>
    st_params st = filter (\<lambda>v. \<not> is_named c v) (map snd kvs) \<and> st_named st = Map.empty \<and>
    (list_all (\<lambda>(name, v). \<not> is_named c v) kvs \<longrightarrow>
       equality_texts c 1 kvs = map2 (equality_text c) [1..<1 + length kvs] (map fst kvs) \<and> st_params st = map snd kvs)"
proof (intro exI [of _ "find_statement c s kvs []"] conjI impI)
  show "find_by c db s kvs =
      (if takes db (find_statement c s kvs []) = Taken
       then map_option (\<lambda>found. (map (\<lambda>row. \<lparr>r_schema = s, r_values = map_of (rev row)\<rparr>) found, [find_statement c s kvs []]))
         (rows db (find_statement c s kvs []))
       else None)"
    by (simp add: find_by_eq Let_def selected_def record_of_row_eq [abs_def])
qed (auto simp: find_statement_def rendered_equalities equality_texts_numbered filter_not_named simp del: upt_Suc)

text \<open>
  Finding a record by its id needs a schema with a key. It runs one statement, limited to one row,
  whose only value is the id, and returns the record of the first row of its result, or none.
\<close>

theorem find_by_id_takes_first:
  assumes "\<not> is_named c v"
  shows "find_by_id c db s v =
    (case schema_primary_key s of
       None \<Rightarrow> None
     | Some pk \<Rightarrow>
         let st = \<lparr>st_sql = ''SELECT '' @ join_csv (column_names s) @ '' FROM '' @ sc_table s @ '' WHERE '' @
                     equality_text c 1 pk @ '' LIMIT 1;'',
                   st_params = [v], st_named = Map.empty\<rparr>
         in map_option (\<lambda>found. (case found of
                    [] \<Rightarrow> None
                  | row # _ \<Rightarrow> Some \<lparr>r_schema = s, r_values = map_of (rev row)\<rparr>, [st])) (selected db st))"
proof (cases "schema_primary_key s")
  case (Some pk)
  then have "column_names s \<noteq> []" using primary_key_is_column by fastforce
  moreover have "find_statement c s [(pk, v)] '' LIMIT 1'' =
      \<lparr>st_sql = ''SELECT '' @ (if column_names s = [] then ''*'' else join_csv (column_names s)) @ '' FROM '' @ sc_table s @
         '' WHERE '' @ equality_text c 1 pk @ '' LIMIT 1;'', st_params = [v], st_named = Map.empty\<rparr>"
    using assms by (simp add: find_statement_def equalities_def equality_text bound_equality)
  ultimately show ?thesis
    using Some find_one_eq [of c db s "[(pk, v)]"] by (simp add: find_by_id_def record_of_row_eq Let_def cong: option.case_cong list.case_cong)
qed (simp add: find_by_id_def)

end
