(* ===== verification/SqlExamples.thy ===== *)
theory SqlExamples
  imports RecordFind
begin

text \<open>
  The properties of queries and records applied at concrete inputs: sessions of the three drivers
  whose values are texts, a table of users with an automatic key.
\<close>

definition lite :: "string sess" where
  "lite = text_session Sqlite (\<lambda>_. None)"

text \<open>A database that takes every statement.\<close>

definition every_statement :: "string stmt \<Rightarrow> taken" where
  "every_statement st = Taken"

definition named_bryan :: "string sql_operator" where
  "named_bryan = op_equals ''first_name'' ''Bryan''"


text \<open>A database that refuses one text, asked twice by a query that was never changed.\<close>

definition refuses :: "string \<Rightarrow> 'v stmt \<Rightarrow> taken" where
  "refuses t st = (if st_sql st = t then Refused else Taken)"

theorem refused_query_runs_unprepared_witness:
  "\<exists>q. select_execute (refuses ''SELECT id FROM nowhere;'') (new_select [''id''] ''nowhere'' :: string select) = (None, q) \<and>
     fst (select_execute (refuses ''SELECT id FROM nowhere;'') q) = Some unprepared"
proof -
  have "refuses ''SELECT id FROM nowhere;'' (statement_of (new_select [''id''] ''nowhere'' :: string select)) = Refused"
    by code_simp
  from refused_query_runs_unprepared [of "refuses ''SELECT id FROM nowhere;''", OF this] show ?thesis .
qed


theorem count_poisons_execute_witness:
  "\<exists>q q' st. select_calls lite every_statement (\<lambda>_. Some 3) [From ''users''] (new_select [''id''] []) = Some q \<and>
     select_count every_statement (\<lambda>_. Some 3) q = (3, q') \<and> fst (select_execute every_statement q') = Some st \<and>
     st_sql st = ''SELECT COUNT(*) FROM users;''"
proof -
  have "map_option (\<lambda>q. generate_select (counted_query q))
      (select_calls lite every_statement (\<lambda>_. Some 3) [From ''users''] (new_select [''id''] [])) =
    Some ''SELECT COUNT(*) FROM users;''"
    by code_simp
  then obtain q where q: "select_calls lite every_statement (\<lambda>_. Some 3) [From ''users''] (new_select [''id''] []) = Some q"
    "generate_select (counted_query q) = ''SELECT COUNT(*) FROM users;''"
    by auto
  have "tame_session lite every_statement (\<lambda>_. Some 3) (new_select [''id''] []) [From ''users'']" by code_simp
  from count_poisons_execute [OF q(1) this] q show ?thesis by (auto simp: statement_of_def every_statement_def)
qed

theorem conditions_lose_grouping_witness:
  "where_text (and_string (or_string (where_of ''a'') ''b'') ''c'') = ''(a AND c) OR (b)''"
proof -
  from conditions_lose_grouping [of "''a''" "''b''" "''c''"]
  have "where_text (and_string (or_string (where_of ''a'') ''b'') ''c'') =
      ''('' @ ''a'' @ '' AND '' @ ''c'' @ '') OR ('' @ ''b'' @ '')''"
    by blast
  then show ?thesis by simp
qed

theorem insert_runs_current_values_witness:
  "\<exists>q q1 st. insert_calls lite every_statement (\<lambda>_. Some (1, 7)) [InsertColumns [''first_name''], Values [''Bob'']]
      (new_insert ''users'' []) = Some q \<and>
     ran (\<lambda>_. Some (1, 7)) st (insert_execute lite every_statement (\<lambda>_. Some (1, 7)) q) q1 \<and>
     st_sql st = ''INSERT INTO users(first_name) VALUES(?1);'' \<and> st_params st = [''Bob'']"
proof -
  let ?xs = "[InsertColumns [''first_name''], Values [''Bob'']]"
  have "map_option (\<lambda>q. (insert_sql lite q, q_params q, i_table q))
      (insert_calls lite every_statement (\<lambda>_. Some (1, 7)) ?xs (new_insert ''users'' [])) =
    Some (''INSERT INTO users(first_name) VALUES(?1);'', [''Bob''], ''users'')"
    by code_simp
  then obtain q where q: "insert_calls lite every_statement (\<lambda>_. Some (1, 7)) ?xs (new_insert ''users'' []) = Some q"
    "insert_sql lite q = ''INSERT INTO users(first_name) VALUES(?1);''" "q_params q = [''Bob'']" "i_table q = ''users''"
    by auto
  moreover have "\<not> several_keys lite (i_table q)" by (simp add: several_keys_def lite_def text_session_def has_feature_def)
  ultimately obtain q1 where
    "ran (\<lambda>_. Some (1, 7)) (own_statement (insert_sql lite) q) (insert_execute lite every_statement (\<lambda>_. Some (1, 7)) q) q1"
    using insert_runs_current_values [OF q(1)] by (auto simp: every_statement_def)
  then show ?thesis using q
    by (intro exI [of _ q] exI [of _ q1] exI [of _ "own_statement (insert_sql lite) q"]) (simp add: own_statement_def)
qed

theorem update_call_order_witness:
  "\<exists>q' r'. Option.bind (update_where lite named_bryan (new_update ''users'' [''last_name''])) (put_values lite [''Smith'']) = Some q' \<and>
     ran (\<lambda>_. None) \<lparr>st_sql = ''UPDATE users SET last_name=?1 WHERE first_name = ?1;'',
         st_params = [''Smith''], st_named = Map.empty\<rparr> (update_execute lite every_statement (\<lambda>_. None) q') r'"
proof -
  have b: "bound_values lite named_bryan = [''Bryan'']" by code_simp
  have t: "update_sql lite ''users'' [''last_name''] 1 named_bryan = ''UPDATE users SET last_name=?1 WHERE first_name = ?1;''"
    by code_simp
  from update_call_order [of "[''last_name'']" "[''Smith'']" lite named_bryan "''Bryan''" "''users''" every_statement "\<lambda>_. None"]
  show ?thesis unfolding t using b by (auto simp: every_statement_def)
qed

section \<open>Records\<close>

definition users :: schema where
  "users = \<lparr>sc_table = ''users'', sc_columns =
     [\<lparr>col_name = ''id'', col_pk = True, col_autoincrement = True, col_type = ''integer'', col_default = []\<rparr>,
      \<lparr>col_name = ''first_name'', col_pk = False, col_autoincrement = False, col_type = ''text'', col_default = []\<rparr>]\<rparr>"

text \<open>A database that takes every statement, counts one row and changes one row, inserted with identifier 7.\<close>

definition one_row :: "string database" where
  "one_row = \<lparr>load = (\<lambda>_. None), scalar = (\<lambda>_. Some 1), rows = (\<lambda>_. Some []), answer = (\<lambda>_. Some (1, 7)),
     of_id = (\<lambda>i. to_string (nat i)), takes = every_statement\<rparr>"

definition bryan :: "string row_record" where
  "bryan = record_set ''first_name'' ''Bryan'' (new_record users)"

definition saved_bryan :: "string row_record" where
  "saved_bryan = record_set ''id'' ''7'' bryan"

lemma keyed_users: "keyed lite bryan ''id''" "keyed lite saved_bryan ''id''"
  by code_simp+



theorem remove_deletes_by_key_witness:
  "\<exists>st. record_remove lite one_row saved_bryan = Some (True, [st], saved_bryan) \<and>
     st_sql st = ''DELETE FROM users WHERE id = ?1;'' \<and> st_params st = [''7'']"
proof -
  have "record_has saved_bryan ''id''" by code_simp
  moreover have "st_sql (delete_statement lite saved_bryan ''id'') = ''DELETE FROM users WHERE id = ?1;''"
    "st_params (delete_statement lite saved_bryan ''id'') = [''7'']"
    by code_simp+
  ultimately show ?thesis
    using remove_deletes_by_key [OF keyed_users(2), of one_row] by (simp add: changes_of_def one_row_def every_statement_def)
qed


section \<open>Finders\<close>

definition one_found :: "string database" where
  "one_found = one_row\<lparr>rows := (\<lambda>_. Some [[(''id'', ''7''), (''first_name'', ''Bryan'')]])\<rparr>"

lemma found_row: "\<lparr>r_schema = users, r_values = map_of (rev [(''id'', ''7''), (''first_name'', ''Bryan'')])\<rparr> = saved_bryan"
  by (simp add: saved_bryan_def bryan_def record_set_def new_record_def fun_upd_twist)

theorem find_by_id_takes_first_witness:
  "\<exists>st. find_by_id lite one_found users ''7'' = Some (Some saved_bryan, [st]) \<and>
     st_sql st = ''SELECT id,first_name FROM users WHERE id = ?1 LIMIT 1;'' \<and> st_params st = [''7'']"
proof -
  have n: "\<not> is_named lite ''7''" and k: "schema_primary_key users = Some ''id''" by code_simp+
  have t: "''SELECT '' @ join_csv (column_names users) @ '' FROM '' @ sc_table users @ '' WHERE '' @
      equality_text lite 1 ''id'' @ '' LIMIT 1;'' = ''SELECT id,first_name FROM users WHERE id = ?1 LIMIT 1;''"
    by code_simp
  from find_by_id_takes_first [OF n, of one_found users] show ?thesis
    unfolding k option.case t 
    by (simp add: Let_def selected_def one_found_def one_row_def every_statement_def found_row [simplified])
qed

theorem find_by_selects_matching_witness:
  "\<exists>st. find_by lite one_found users [(''first_name'', ''Bryan''), (''id'', ''7'')] = Some ([saved_bryan], [st]) \<and>
     st_sql st = ''SELECT id,first_name FROM users WHERE first_name = ?1 AND id = ?2;'' \<and>
     st_params st = [''Bryan'', ''7'']"
proof -
  let ?kvs = "[(''first_name'', ''Bryan''), (''id'', ''7'')]"
  have t: "''SELECT '' @ (if column_names users = [] then ''*'' else join_csv (column_names users)) @ '' FROM '' @ sc_table users @
      (if ?kvs = [] then [] else '' WHERE '' @ join_with '' AND '' (equality_texts lite 1 ?kvs)) @ '';'' =
      ''SELECT id,first_name FROM users WHERE first_name = ?1 AND id = ?2;''"
    "filter (\<lambda>v. \<not> is_named lite v) (map snd ?kvs) = [''Bryan'', ''7'']"
    by code_simp+
  from find_by_selects_matching [of lite one_found users ?kvs] show ?thesis
    unfolding t by (auto simp: one_found_def one_row_def every_statement_def found_row [simplified])
qed

text \<open>A value that starts with an at sign is not bound, though its placeholder is asked for.\<close>

lemma named_value_is_not_bound:
  "equality_texts lite 1 [(''first_name'', ''@ryan''), (''id'', ''7'')] = [''first_name = ?1'', ''id = ?1''] \<and>
   filter (\<lambda>v. \<not> is_named lite v) (map snd [(''first_name'', ''@ryan''), (''id'', ''7'')]) = [''7'']"
  by code_simp

end
