(* ===== verification/Uri.thy ===== *)
theory Uri
  imports Prelude
begin

text \<open>
  \<^verbatim>\<open>uri.cpp\<close>: the parts of a database address, and \<^verbatim>\<open>sqldb.cpp\<close>: the driver registered for its
  protocol. Iterators into the text are the rest of the text from there on; reading the end of the
  text gives the terminating zero. \<open>None\<close> is an exception: a range that ends before it starts is a
  \<open>length_error\<close> of the assigned string.
\<close>

section \<open>Parsing\<close>

record uri =
  protocol :: string
  user :: string
  password :: string
  host :: string
  port :: string
  path :: string
  query :: string
  uri_value :: string

definition empty_uri :: uri where
  "empty_uri = \<lparr>protocol = [], user = [], password = [], host = [], port = [], path = [], query = [],
     uri_value = []\<rparr>"

definition tolower :: "char \<Rightarrow> char" where
  "tolower x =
     (if 65 \<le> (of_char x :: nat) \<and> (of_char x :: nat) \<le> 90 then char_of ((of_char x :: nat) + 32) else x)"

text \<open>\<open>std::search\<close> for the end of the protocol: what is before it, and the text from it on.\<close>

fun find_text :: "string \<Rightarrow> string \<Rightarrow> string \<times> string" where
  "find_text pat [] = ([], [])"
| "find_text pat (x # xs) =
     (if take (length pat) (x # xs) = pat then ([], x # xs)
      else let (before, rest) = find_text pat xs in (x # before, rest))"

abbreviation until :: "char \<Rightarrow> string \<Rightarrow> string" where
  "until x \<equiv> takeWhile (\<lambda>y. y \<noteq> x)"

abbreviation from_char :: "char \<Rightarrow> string \<Rightarrow> string" where
  "from_char x \<equiv> dropWhile (\<lambda>y. y \<noteq> x)"

definition parse_user :: "string \<Rightarrow> uri \<Rightarrow> uri \<times> string" where
  "parse_user pos u =
     (case from_char (CHR ''@'') pos of
        [] \<Rightarrow> (u, pos)
      | _ # rest \<Rightarrow>
          let part = until (CHR ''@'') pos in
          case from_char (CHR '':'') part of
            [] \<Rightarrow> (u\<lparr>user := part\<rparr>, rest)
          | _ # pwd \<Rightarrow> (u\<lparr>password := pwd, user := until (CHR '':'') part\<rparr>, rest))"

definition parse_path :: "string \<Rightarrow> uri \<Rightarrow> uri" where
  "parse_path path_i u =
     (let segment = until (CHR ''?'') path_i
      in u\<lparr>path := (case path_i of x # _ \<Rightarrow> if x = CHR ''/'' then tl segment else segment | [] \<Rightarrow> []),
           query := drop 1 (from_char (CHR ''?'') path_i)\<rparr>)"

definition parse_host :: "string \<Rightarrow> uri \<Rightarrow> uri option" where
  "parse_host pos u =
     (let slash = from_char (CHR ''/'') pos;
          (before, path_i) = (if slash = [] then ([], pos) else (until (CHR ''/'') pos, slash));
          port_i = from_char (CHR '':'') before @ path_i
      in map_option (\<lambda>u'. parse_path path_i (u'\<lparr>host := host u' @ map tolower (until (CHR '':'') before)\<rparr>))
           (case port_i of
              [] \<Rightarrow> Some u
            | x # _ \<Rightarrow>
                if x = CHR '':'' then
                  case from_char (CHR '':'') before of
                    [] \<Rightarrow> None
                  | _ # number \<Rightarrow> Some (u\<lparr>port := number\<rparr>)
                else Some (u\<lparr>port := []\<rparr>)))"

definition parse_uri :: "string \<Rightarrow> uri \<Rightarrow> uri option" where
  "parse_uri url u =
     (let (prot, pos) = find_text ''://'' url;
          u1 = u\<lparr>uri_value := url, protocol := protocol u @ map tolower prot\<rparr>
      in if pos = [] then Some u1
         else let (u2, rest) = parse_user (drop 3 pos) u1 in parse_host rest u2)"

definition new_uri :: "string \<Rightarrow> uri option" where
  "new_uri url = parse_uri url empty_uri"

section \<open>Printing\<close>

text \<open>An address with the given parts; empty parts are left out, their separators too.\<close>

definition part_before :: "char \<Rightarrow> string \<Rightarrow> string" where
  "part_before sep t = (if t = [] then [] else sep # t)"

definition user_part :: "uri \<Rightarrow> string" where
  "user_part u =
     (if user u = [] \<and> password u = [] then [] else user u @ part_before (CHR '':'') (password u) @ ''@'')"

definition rest_part :: "uri \<Rightarrow> string" where
  "rest_part u =
     host u @ part_before (CHR '':'') (port u) @ ''/'' @ path u @ part_before (CHR ''?'') (query u)"

definition print_uri :: "uri \<Rightarrow> string" where
  "print_uri u = protocol u @ ''://'' @ user_part u @ rest_part u"

definition lower :: "string \<Rightarrow> bool" where
  "lower t = (map tolower t = t)"

definition wf_uri :: "uri \<Rightarrow> bool" where
  "wf_uri u =
     (lower (protocol u) \<and> CHR '':'' \<notin> set (protocol u) \<and>
      CHR ''@'' \<notin> set (user u) \<and> CHR '':'' \<notin> set (user u) \<and> CHR ''@'' \<notin> set (password u) \<and>
      (user_part u = [] \<longrightarrow> CHR ''@'' \<notin> set (rest_part u)) \<and>
      lower (host u) \<and> CHR '':'' \<notin> set (host u) \<and> CHR ''/'' \<notin> set (host u) \<and>
      CHR ''/'' \<notin> set (port u) \<and> CHR ''?'' \<notin> set (path u))"

section \<open>Round trip\<close>

lemma find_text_found:
  "CHR '':'' \<notin> set p \<Longrightarrow> find_text ''://'' (p @ ''://'' @ t) = (p, ''://'' @ t)"
  by (induction p) auto

lemma until_append: "x \<notin> set s \<Longrightarrow> until x (s @ x # t) = s"
  by (induction s) auto

lemma from_char_append: "x \<notin> set s \<Longrightarrow> from_char x (s @ x # t) = x # t"
  by (induction s) auto

lemma until_none: "x \<notin> set s \<Longrightarrow> until x s = s"
  by (induction s) auto

lemma from_char_none: "x \<notin> set s \<Longrightarrow> from_char x s = []"
  by (induction s) auto

lemmas char_search = until_append from_char_append until_none from_char_none

lemma parse_user_part:
  assumes "wf_uri u"
  shows "parse_user (user_part u @ rest_part u) v =
    (if user_part u = [] then (v, rest_part u)
     else (v\<lparr>user := user u, password := (if password u = [] then password v else password u)\<rparr>, rest_part u))"
proof (cases "user_part u = []")
  case True
  then show ?thesis using assms by (simp add: parse_user_def wf_uri_def char_search)
next
  case False
  let ?part = "user u @ part_before (CHR '':'') (password u)"
  have n: "CHR ''@'' \<notin> set ?part"
    using assms by (auto simp: wf_uri_def part_before_def)
  have split: "user_part u @ rest_part u = ?part @ CHR ''@'' # rest_part u"
    using False by (simp add: user_part_def split: if_splits)
  have "until (CHR ''@'') (user_part u @ rest_part u) = ?part"
    "from_char (CHR ''@'') (user_part u @ rest_part u) = CHR ''@'' # rest_part u"
    unfolding split by (rule until_append [OF n], rule from_char_append [OF n])
  then show ?thesis
    using assms False by (simp add: parse_user_def wf_uri_def part_before_def char_search Let_def)
qed

lemma parse_host_part:
  assumes "wf_uri u"
  shows "parse_host (rest_part u) v =
    Some (v\<lparr>host := host v @ host u, port := port u, path := path u, query := query u\<rparr>)"
proof -
  let ?before = "host u @ part_before (CHR '':'') (port u)"
  let ?path = "path u @ part_before (CHR ''?'') (query u)"
  have rest: "rest_part u = ?before @ CHR ''/'' # ?path" by (simp add: rest_part_def)
  have n: "CHR ''/'' \<notin> set ?before" using assms by (auto simp: wf_uri_def part_before_def)
  have slash: "from_char (CHR ''/'') (rest_part u) = CHR ''/'' # ?path"
    "until (CHR ''/'') (rest_part u) = ?before"
    unfolding rest by (rule from_char_append [OF n], rule until_append [OF n])
  have "CHR ''?'' \<notin> set (CHR ''/'' # path u)" using assms by (simp add: wf_uri_def)
  then have path: "parse_path (CHR ''/'' # ?path) w = w\<lparr>path := path u, query := query u\<rparr>" for w
    by (cases "query u = []")
       (simp_all add: parse_path_def part_before_def char_search Let_def)
  have colon: "CHR '':'' \<notin> set (host u)" "map tolower (host u) = host u"
    using assms by (simp_all add: wf_uri_def lower_def)
  show ?thesis
  proof (cases "port u = []")
    case True
    then have "?before = host u" by (simp add: part_before_def)
    with colon True show ?thesis by (simp add: parse_host_def slash path Let_def char_search)
  next
    case False
    then have "?before = host u @ CHR '':'' # port u" by (simp add: part_before_def)
    with colon show ?thesis
      by (simp add: parse_host_def slash path Let_def from_char_append [OF colon(1)] until_append [OF colon(1)])
  qed
qed

text \<open>
  C18: Parsing the printed form of an address gives its parts back: every address whose parts do not
  contain the separators that end them, and whose protocol and host are in lower case.
\<close>

theorem uri_roundtrip:
  assumes "wf_uri u"
  shows "new_uri (print_uri u) = Some (u\<lparr>uri_value := print_uri u\<rparr>)"
proof -
  have "find_text ''://'' (print_uri u) = (protocol u, ''://'' @ user_part u @ rest_part u)"
    unfolding print_uri_def by (rule find_text_found) (use assms in \<open>simp add: wf_uri_def\<close>)
  moreover have "map tolower (protocol u) = protocol u" using assms by (simp add: wf_uri_def lower_def)
  ultimately show ?thesis
    by (simp add: new_uri_def parse_uri_def Let_def parse_user_part [OF assms] parse_host_part [OF assms] empty_uri_def)
       (auto simp: user_part_def split: if_splits)
qed

theorem uri_roundtrip_witness:
  "let u = \<lparr>protocol = ''mysql'', user = ''root'', password = ''a:b'', host = ''mysql'', port = ''3306'',
           path = ''test'', query = ''x=1'', uri_value = []\<rparr>
   in wf_uri u \<and> print_uri u = ''mysql://root:a:b@mysql:3306/test?x=1'' \<and>
      new_uri (print_uri u) = Some (u\<lparr>uri_value := print_uri u\<rparr>)"
proof -
  let ?u = "\<lparr>protocol = ''mysql'', user = ''root'', password = ''a:b'', host = ''mysql'', port = ''3306'',
           path = ''test'', query = ''x=1'', uri_value = []\<rparr>"
  have "wf_uri ?u" by code_simp
  moreover have "print_uri ?u = ''mysql://root:a:b@mysql:3306/test?x=1''" by code_simp
  moreover note uri_roundtrip [OF calculation(1)]
  ultimately show ?thesis by (simp add: Let_def)
qed

section \<open>The driver of an address\<close>

type_synonym 'f registry = "string \<Rightarrow> 'f option"

definition register_session :: "string \<Rightarrow> 'f option \<Rightarrow> 'f registry \<Rightarrow> 'f registry option" where
  "register_session prot factory reg =
     (if prot = [] then None
      else case factory of None \<Rightarrow> None | Some f \<Rightarrow> Some (reg(prot \<mapsto> f)))"

definition create_session :: "'f registry \<Rightarrow> string \<Rightarrow> ('f \<times> uri) option" where
  "create_session reg uristr =
     Option.bind (new_uri uristr) (\<lambda>u. case reg (protocol u) of None \<Rightarrow> None | Some f \<Rightarrow> Some (f, u))"

text \<open>What follows the user part, when there is an end of the protocol.\<close>

definition authority :: "string \<Rightarrow> string option" where
  "authority url =
     (let (_, pos) = find_text ''://'' url
      in if pos = [] then None
         else Some (case from_char (CHR ''@'') (drop 3 pos) of [] \<Rightarrow> drop 3 pos | _ # rest \<Rightarrow> rest))"

text \<open>A port without a host before it and without a path after it.\<close>

definition bare_port :: "string \<Rightarrow> bool" where
  "bare_port t = (CHR ''/'' \<notin> set t \<and> take 1 t = '':'')"

definition protocol_of :: "string \<Rightarrow> string" where
  "protocol_of url = map tolower (fst (find_text ''://'' url))"

lemma from_char_Nil: "from_char x s = [] \<longleftrightarrow> x \<notin> set s"
  by (induction s) auto

lemma from_char_Cons: "from_char x s = y # t \<Longrightarrow> y = x"
  by (induction s) (auto split: if_splits)

lemma parse_host_slash:
  assumes "from_char (CHR ''/'') pos = CHR ''/'' # t"
  shows "\<exists>n. parse_host pos u = Some (parse_path (CHR ''/'' # t)
    (u\<lparr>port := n, host := host u @ map tolower (until (CHR '':'') (until (CHR ''/'') pos))\<rparr>))"
proof (cases "from_char (CHR '':'') (until (CHR ''/'') pos)")
  case Nil
  then show ?thesis using assms
    by (intro exI [of _ "[]"]) (simp add: parse_host_def Let_def del: dropWhile_eq_Nil_conv)
next
  case (Cons x n)
  then have "x = CHR '':''" by (rule from_char_Cons)
  then show ?thesis using assms Cons by (intro exI [of _ n]) (simp add: parse_host_def Let_def)
qed

lemma parse_host_no_slash:
  assumes "CHR ''/'' \<notin> set pos"
  shows "parse_host pos u =
    (if bare_port pos then None
     else Some (parse_path pos (if pos = [] then u\<lparr>host := host u\<rparr> else u\<lparr>port := [], host := host u\<rparr>)))"
  using assms by (cases pos) (simp_all add: parse_host_def bare_port_def from_char_Nil)

lemma from_slash: "CHR ''/'' \<in> set pos \<Longrightarrow> \<exists>t. from_char (CHR ''/'') pos = CHR ''/'' # t"
  by (induction pos) auto

lemma parse_host_None: "parse_host pos u = None \<longleftrightarrow> bare_port pos"
proof (cases "CHR ''/'' \<in> set pos")
  case True
  then obtain t where "from_char (CHR ''/'') pos = CHR ''/'' # t" using from_slash by blast
  from parse_host_slash [OF this] True show ?thesis by (auto simp: bare_port_def)
next
  case False
  then show ?thesis by (simp add: parse_host_no_slash)
qed

lemma parse_path_protocol [simp]: "protocol (parse_path t u) = protocol u"
  by (simp add: parse_path_def Let_def)

lemma parse_host_protocol:
  assumes "parse_host pos u = Some v"
  shows "protocol v = protocol u"
proof (cases "CHR ''/'' \<in> set pos")
  case True
  then obtain t where "from_char (CHR ''/'') pos = CHR ''/'' # t" using from_slash by blast
  from parse_host_slash [OF this, of u] assms show ?thesis by auto
next
  case False
  then show ?thesis using assms by (auto simp: parse_host_no_slash split: if_splits)
qed

lemma parse_user_protocol: "protocol (fst (parse_user pos u)) = protocol u"
  by (simp add: parse_user_def Let_def split: list.split)

lemma parse_user_rest:
  "snd (parse_user pos u) = (case from_char (CHR ''@'') pos of [] \<Rightarrow> pos | _ # rest \<Rightarrow> rest)"
proof (cases "from_char (CHR ''@'') pos")
  case Nil
  then show ?thesis by (simp only: parse_user_def list.case snd_conv)
next
  case (Cons x t)
  then show ?thesis by (simp only: parse_user_def list.case Let_def) (simp split: list.split)
qed

lemma new_uri_protocol: "new_uri url = Some u \<Longrightarrow> protocol u = protocol_of url"
  by (auto simp: new_uri_def parse_uri_def protocol_of_def empty_uri_def Let_def split_def parse_user_protocol
      dest!: parse_host_protocol split: if_splits)

lemma new_uri_None: "new_uri url = None \<longleftrightarrow> (\<exists>t. authority url = Some t \<and> bare_port t)"
  by (simp add: new_uri_def parse_uri_def authority_def Let_def split_def parse_host_None parse_user_rest)

text \<open>
  C19: Creating a session fails exactly when no driver is registered for the lower-cased protocol of
  the address, or when parsing the address raises: when after the protocol and the user there is no
  slash and a colon comes first, as in the address of a database in memory.
\<close>

theorem create_session_fails_iff:
  "create_session reg url = None \<longleftrightarrow>
     reg (protocol_of url) = None \<or> (\<exists>t. authority url = Some t \<and> bare_port t)"
proof (cases "new_uri url")
  case None
  then have "\<exists>t. authority url = Some t \<and> bare_port t" using new_uri_None [of url] by blast
  then show ?thesis using None by (simp add: create_session_def)
next
  case (Some u)
  then have "\<not> (\<exists>t. authority url = Some t \<and> bare_port t)" using new_uri_None [of url] by simp
  then show ?thesis
    using Some by (simp add: create_session_def new_uri_protocol split: option.split)
qed

text \<open>The address of a database in memory.\<close>

lemma memory_address_raises: "new_uri ''sqlite://:memory:'' = None"
  by code_simp

end
