(* ===== verification/Transactions.thy ===== *)
theory Transactions
  imports Prelude
begin

text \<open>
  \<^verbatim>\<open>transaction.cpp\<close> and the transactions of the three drivers. The connection is code of the client
  libraries: its answer to a statement and whether it is in a transaction
  (\<open>PQtransactionStatus\<close>, \<open>sqlite3_get_autocommit\<close>) are parameters. \<open>srv_begun\<close> is not read by the code: it
  says whether the transaction was opened by a starting statement, not by a savepoint, which the
  documentation of what a release does depends on.
\<close>

section \<open>Starting statements\<close>

datatype access = AccessNone | ReadWrite | ReadOnly
datatype isolation = IsolationNone | Serializable | RepeatableRead | ReadCommited | ReadUncommited
datatype sqlite_type = SqliteNone | Deferred | Immediate | Exclusive

datatype tx_mode =
    SqliteMode sqlite_type
  | PostgresMode isolation access int
  | MysqlMode access

fun access_text :: "access \<Rightarrow> string" where
  "access_text AccessNone = []"
| "access_text ReadWrite = '' READ WRITE''"
| "access_text ReadOnly = '' READ ONLY''"

fun isolation_text :: "isolation \<Rightarrow> string" where
  "isolation_text IsolationNone = []"
| "isolation_text Serializable = '' ISOLATION LEVEL SERIALIZABLE''"
| "isolation_text RepeatableRead = '' ISOLATION LEVEL REPEATABLE READ''"
| "isolation_text ReadCommited = '' ISOLATION LEVEL READ COMMITTED''"
| "isolation_text ReadUncommited = '' ISOLATION LEVEL READ UNCOMMITTED''"

fun sqlite_type_text :: "sqlite_type \<Rightarrow> string" where
  "sqlite_type_text SqliteNone = []"
| "sqlite_type_text Deferred = '' DEFERRED''"
| "sqlite_type_text Immediate = '' IMMEDIATE''"
| "sqlite_type_text Exclusive = '' EXCLUSIVE''"

definition sqlite_start :: "sqlite_type \<Rightarrow> string" where
  "sqlite_start ty = ''BEGIN'' @ sqlite_type_text ty @ '' TRANSACTION;''"

definition postgres_start :: "isolation \<Rightarrow> access \<Rightarrow> int \<Rightarrow> string" where
  "postgres_start level ty deferrable =
     ''START TRANSACTION'' @ isolation_text level @ access_text ty @
     (if deferrable \<noteq> 0 \<and> level = Serializable \<and> ty = ReadOnly
      then if deferrable = 1 then '' DEFERABLE'' else '' NOT DEFERABLE'' else []) @ '';''"

definition mysql_start :: "access \<Rightarrow> string" where
  "mysql_start ty = ''START TRANSACTION'' @ access_text ty @ '';''"

fun start_text :: "tx_mode \<Rightarrow> string" where
  "start_text (SqliteMode ty) = sqlite_start ty"
| "start_text (PostgresMode level ty deferrable) = postgres_start level ty deferrable"
| "start_text (MysqlMode ty) = mysql_start ty"

section \<open>Transaction objects on a session\<close>

record 'c server =
  srv_exec :: "string \<Rightarrow> 'c \<Rightarrow> bool \<times> 'c"
  srv_in_tx :: "'c \<Rightarrow> bool"
  srv_begun :: "'c \<Rightarrow> bool"

text \<open>A transaction object; \<open>tx_active\<close> is the flag of the MySQL driver, set by a start, never cleared.\<close>

record transaction =
  tx_mode :: tx_mode
  tx_successful :: bool
  tx_active :: bool

record 'c tx_link =
  conn :: 'c
  sent :: "string list"
  objects :: "nat \<Rightarrow> transaction option"

definition new_transaction :: "tx_mode \<Rightarrow> transaction" where
  "new_transaction mode = \<lparr>tx_mode = mode, tx_successful = False, tx_active = False\<rparr>"

definition is_active :: "'c server \<Rightarrow> 'c \<Rightarrow> transaction \<Rightarrow> bool" where
  "is_active srv s t = (case tx_mode t of MysqlMode _ \<Rightarrow> tx_active t | _ \<Rightarrow> srv_in_tx srv s)"

text \<open>The result of an operation: it returned, or raised a \<open>transaction_exception\<close>.\<close>

definition tx_execute :: "'c server \<Rightarrow> string \<Rightarrow> 'c tx_link \<Rightarrow> bool \<times> 'c tx_link" where
  "tx_execute srv sql w =
     (let (ok, s) = srv_exec srv sql (conn w) in (ok, w\<lparr>conn := s, sent := sent w @ [sql]\<rparr>))"

definition tx_start :: "'c server \<Rightarrow> nat \<Rightarrow> transaction \<Rightarrow> 'c tx_link \<Rightarrow> bool \<times> 'c tx_link" where
  "tx_start srv i t w =
     (let (ok, w') = tx_execute srv (start_text (tx_mode t)) w
      in (ok, if ok then w'\<lparr>objects := (objects w')(i \<mapsto> t\<lparr>tx_active := True\<rparr>)\<rparr> else w'))"

definition tx_commit :: "'c server \<Rightarrow> 'c tx_link \<Rightarrow> bool \<times> 'c tx_link" where
  "tx_commit srv w = tx_execute srv ''COMMIT;'' w"

definition tx_rollback :: "'c server \<Rightarrow> 'c tx_link \<Rightarrow> bool \<times> 'c tx_link" where
  "tx_rollback srv w = tx_execute srv ''ROLLBACK;'' w"

definition tx_save :: "'c server \<Rightarrow> string \<Rightarrow> 'c tx_link \<Rightarrow> bool \<times> 'c tx_link" where
  "tx_save srv name w = (if name = [] then (True, w) else tx_execute srv (''SAVEPOINT '' @ name @ '';'') w)"

definition tx_release :: "'c server \<Rightarrow> string \<Rightarrow> 'c tx_link \<Rightarrow> bool \<times> 'c tx_link" where
  "tx_release srv name w =
     (if name = [] then (True, w) else tx_execute srv (''RELEASE SAVEPOINT '' @ name @ '';'') w)"

definition tx_rollback_to :: "'c server \<Rightarrow> string \<Rightarrow> 'c tx_link \<Rightarrow> bool \<times> 'c tx_link" where
  "tx_rollback_to srv name w =
     (if name = [] then (True, w) else tx_execute srv (''ROLLBACK TO SAVEPOINT '' @ name @ '';'') w)"

text \<open>The destructor\<close>

definition tx_destroy :: "'c server \<Rightarrow> nat \<Rightarrow> transaction \<Rightarrow> 'c tx_link \<Rightarrow> bool \<times> 'c tx_link" where
  "tx_destroy srv i t w =
     (let (ok, w') =
        (if is_active srv (conn w) t then if tx_successful t then tx_commit srv w else tx_rollback srv w
         else (True, w))
      in (ok, w'\<lparr>objects := (objects w')(i := None)\<rparr>))"

datatype tx_event =
    Create nat tx_mode
  | Start nat
  | SetSuccessful nat bool
  | Commit nat
  | Rollback nat
  | Save nat string
  | Release nat string
  | RollbackTo nat string
  | Destroy nat

fun tx_step :: "'c server \<Rightarrow> tx_event \<Rightarrow> 'c tx_link \<Rightarrow> bool \<times> 'c tx_link" where
  "tx_step srv (Create i mode) w = (True, w\<lparr>objects := (objects w)(i \<mapsto> new_transaction mode)\<rparr>)"
| "tx_step srv (Start i) w = (case objects w i of None \<Rightarrow> (False, w) | Some t \<Rightarrow> tx_start srv i t w)"
| "tx_step srv (SetSuccessful i b) w =
     (case objects w i of None \<Rightarrow> (False, w)
      | Some t \<Rightarrow> (True, w\<lparr>objects := (objects w)(i \<mapsto> t\<lparr>tx_successful := b\<rparr>)\<rparr>))"
| "tx_step srv (Commit i) w = (if objects w i = None then (False, w) else tx_commit srv w)"
| "tx_step srv (Rollback i) w = (if objects w i = None then (False, w) else tx_rollback srv w)"
| "tx_step srv (Save i name) w = (if objects w i = None then (False, w) else tx_save srv name w)"
| "tx_step srv (Release i name) w = (if objects w i = None then (False, w) else tx_release srv name w)"
| "tx_step srv (RollbackTo i name) w = (if objects w i = None then (False, w) else tx_rollback_to srv name w)"
| "tx_step srv (Destroy i) w = (case objects w i of None \<Rightarrow> (False, w) | Some t \<Rightarrow> tx_destroy srv i t w)"

section \<open>Sessions\<close>

fun mysql_mode :: "tx_mode \<Rightarrow> bool" where
  "mysql_mode (MysqlMode _) = True"
| "mysql_mode _ = False"

lemma is_active_eq: "is_active srv s t = (if mysql_mode (tx_mode t) then tx_active t else srv_in_tx srv s)"
  by (cases "tx_mode t") (simp_all add: is_active_def)

text \<open>
  Sessions in which nothing raises, a transaction is started only outside of one, and committed,
  rolled back or given savepoints, with names without a semicolon, only inside one.
\<close>

definition one_word :: "string \<Rightarrow> bool" where
  "one_word name = (CHR '';'' \<notin> set name)"

fun tx_enabled :: "'c server \<Rightarrow> tx_event \<Rightarrow> 'c tx_link \<Rightarrow> bool" where
  "tx_enabled srv (Create i mode) w = (objects w i = None)"
| "tx_enabled srv (Start i) w = (\<not> srv_in_tx srv (conn w))"
| "tx_enabled srv (SetSuccessful i b) w = True"
| "tx_enabled srv (Destroy i) w = True"
| "tx_enabled srv (Save i name) w = (srv_in_tx srv (conn w) \<and> one_word name)"
| "tx_enabled srv (Release i name) w = (srv_in_tx srv (conn w) \<and> one_word name)"
| "tx_enabled srv (RollbackTo i name) w = (srv_in_tx srv (conn w) \<and> one_word name)"
| "tx_enabled srv _ w = srv_in_tx srv (conn w)"

inductive tx_session :: "'c server \<Rightarrow> 'c \<Rightarrow> tx_event list \<Rightarrow> 'c tx_link \<Rightarrow> bool" for srv s0 where
  opened: "tx_session srv s0 [] \<lparr>conn = s0, sent = [], objects = Map.empty\<rparr>"
| event: "tx_session srv s0 es w \<Longrightarrow> tx_enabled srv e w \<Longrightarrow> tx_step srv e w = (True, w') \<Longrightarrow>
    tx_session srv s0 (es @ [e]) w'"

inductive_cases session_snocE: "tx_session srv s0 (es @ [e]) w"

text \<open>
  The documented behaviour of a connection, for the statements the code sends and when they succeed:
  a starting statement outside of a transaction begins one, \<open>COMMIT;\<close> and \<open>ROLLBACK;\<close> leave none, and
  the statements about a savepoint stay in a transaction that was begun.
\<close>

definition is_start :: "string \<Rightarrow> bool" where
  "is_start sql = (take 5 sql = ''START'' \<or> take 5 sql = ''BEGIN'')"

definition is_end :: "string \<Rightarrow> bool" where
  "is_end sql = (sql = ''COMMIT;'' \<or> sql = ''ROLLBACK;'')"

definition is_savepoint :: "string \<Rightarrow> bool" where
  "is_savepoint sql =
     (\<exists>name. name \<noteq> [] \<and> one_word name \<and>
        sql \<in> {''SAVEPOINT '' @ name @ '';'', ''RELEASE SAVEPOINT '' @ name @ '';'', ''ROLLBACK TO SAVEPOINT '' @ name @ '';''})"

definition documented :: "'c server \<Rightarrow> bool" where
  "documented srv =
     (\<forall>sql s s'. srv_exec srv sql s = (True, s') \<longrightarrow>
        ((\<exists>m. sql = start_text m) \<and> \<not> srv_in_tx srv s \<longrightarrow> srv_begun srv s' \<and> srv_in_tx srv s') \<and>
        (is_end sql \<longrightarrow> \<not> srv_in_tx srv s') \<and>
        (is_savepoint sql \<and> srv_begun srv s \<and> srv_in_tx srv s \<longrightarrow> srv_begun srv s' \<and> srv_in_tx srv s'))"

definition starts :: "string list \<Rightarrow> nat" where
  "starts sqls = length (filter is_start sqls)"

definition ends :: "string list \<Rightarrow> nat" where
  "ends sqls = length (filter is_end sqls)"

section \<open>Every start is ended once\<close>

lemma start_text_kind [simp]: "is_start (start_text m)" "\<not> is_end (start_text m)" "\<not> is_savepoint (start_text m)"
proof -
  have "take 5 (start_text m) = ''START'' \<or> take 5 (start_text m) = ''BEGIN''"
    by (cases m) (simp_all add: sqlite_start_def postgres_start_def mysql_start_def)
  then show "is_start (start_text m)" "\<not> is_end (start_text m)" "\<not> is_savepoint (start_text m)"
    by (auto simp: is_start_def is_end_def is_savepoint_def)
qed

text \<open>A connection is balanced when its transactions were started once more than ended while one is open.\<close>

definition balanced :: "'c server \<Rightarrow> 'c tx_link \<Rightarrow> bool" where
  "balanced srv w =
     (starts (sent w) = ends (sent w) + (if srv_in_tx srv (conn w) then 1 else 0))"

definition no_mysql :: "'c tx_link \<Rightarrow> bool" where
  "no_mysql w = (\<forall>i t. objects w i = Some t \<longrightarrow> \<not> mysql_mode (tx_mode t))"

lemma is_active_no_mysql: "no_mysql w \<Longrightarrow> objects w i = Some t \<Longrightarrow> is_active srv s t = srv_in_tx srv s"
  by (auto simp: no_mysql_def is_active_eq)

lemma balanced_objects [simp]: "balanced srv (w\<lparr>objects := m\<rparr>) = balanced srv w"
  by (simp add: balanced_def)

text \<open>The invariant: balanced, and in a transaction only when it was begun by a starting statement.\<close>

definition orderly :: "'c server \<Rightarrow> 'c tx_link \<Rightarrow> bool" where
  "orderly srv w = (balanced srv w \<and> no_mysql w \<and> (srv_in_tx srv (conn w) \<longrightarrow> srv_begun srv (conn w)))"

text \<open>The statements that keep it, and where.\<close>

definition sent_in_order :: "'c server \<Rightarrow> 'c tx_link \<Rightarrow> string \<Rightarrow> bool" where
  "sent_in_order srv w sql =
     ((\<exists>m. sql = start_text m) \<and> \<not> srv_in_tx srv (conn w) \<or>
      (is_end sql \<or> is_savepoint sql) \<and> srv_in_tx srv (conn w))"

lemma end_texts [simp]:
  "is_end ''COMMIT;''" "is_end ''ROLLBACK;''" "\<not> is_start ''COMMIT;''" "\<not> is_start ''ROLLBACK;''"
  by (simp_all add: is_end_def is_start_def)

lemma end_not_start: "is_end sql \<Longrightarrow> \<not> is_start sql"
  by (auto simp: is_end_def)

lemma savepoint_kinds: "is_savepoint sql \<Longrightarrow> \<not> is_start sql \<and> \<not> is_end sql"
  by (auto simp: is_savepoint_def is_start_def is_end_def)

lemma execute_orderly:
  assumes "documented srv" "tx_execute srv sql w = (True, w')" "orderly srv w" "sent_in_order srv w sql"
  shows "orderly srv w'"
    and "srv_in_tx srv (conn w') = (if is_start sql then True else if is_end sql then False else srv_in_tx srv (conn w))"
    and "objects w' = objects w"
proof -
  obtain s where s: "srv_exec srv sql (conn w) = (True, s)" "w' = w\<lparr>conn := s, sent := sent w @ [sql]\<rparr>"
    using assms(2) by (auto simp: tx_execute_def Let_def split: prod.splits)
  have doc: "(\<exists>m. sql = start_text m) \<and> \<not> srv_in_tx srv (conn w) \<longrightarrow> srv_begun srv s \<and> srv_in_tx srv s"
    "is_end sql \<longrightarrow> \<not> srv_in_tx srv s"
    "is_savepoint sql \<and> srv_begun srv (conn w) \<and> srv_in_tx srv (conn w) \<longrightarrow> srv_begun srv s \<and> srv_in_tx srv s"
    using assms(1) s(1) unfolding documented_def by blast+
  have in_tx: "srv_in_tx srv s = (if is_start sql then True else if is_end sql then False else srv_in_tx srv (conn w))"
    and begun: "srv_in_tx srv s \<longrightarrow> srv_begun srv s"
    and kind: "is_start sql \<longrightarrow> \<not> is_end sql \<and> \<not> srv_in_tx srv (conn w)" "is_end sql \<longrightarrow> srv_in_tx srv (conn w)"
    using doc assms(3,4) savepoint_kinds [of sql] by (auto simp: sent_in_order_def orderly_def is_end_def)
  then show "srv_in_tx srv (conn w') = (if is_start sql then True else if is_end sql then False else srv_in_tx srv (conn w))"
    by (simp add: s)
  show "orderly srv w'"
    using assms(3) kind in_tx begun by (auto simp: orderly_def no_mysql_def balanced_def s starts_def ends_def)
  show "objects w' = objects w" by (simp add: s)
qed

lemma destroy_orderly:
  assumes doc: "documented srv" and step: "tx_destroy srv i t w = (True, w')" and ok: "orderly srv w"
    and t: "objects w i = Some t"
  shows "orderly srv w' \<and> \<not> srv_in_tx srv (conn w')"
proof (cases "srv_in_tx srv (conn w)")
  case True
  define sql where "sql = (if tx_successful t then ''COMMIT;'' else ''ROLLBACK;'')"
  have e: "is_end sql" "\<not> is_start sql" by (simp_all add: sql_def)
  then have order: "sent_in_order srv w sql" using True by (simp add: sent_in_order_def)
  have a: "is_active srv (conn w) t" using is_active_no_mysql [of w i t srv "conn w"] ok t True by (simp add: orderly_def)
  from step a obtain w1 where
    w1: "tx_execute srv sql w = (True, w1)" "w' = w1\<lparr>objects := (objects w1)(i := None)\<rparr>"
    by (cases "tx_execute srv sql w")
       (auto simp: tx_destroy_def tx_commit_def tx_rollback_def sql_def split: if_splits)
  from execute_orderly [OF doc w1(1) ok order] e
  show ?thesis by (auto simp: w1(2) orderly_def no_mysql_def)
next
  case False
  then have "\<not> is_active srv (conn w) t" using is_active_no_mysql [of w i t srv "conn w"] ok t by (simp add: orderly_def)
  then show ?thesis using step ok False
    by (auto simp: tx_destroy_def orderly_def no_mysql_def split: if_splits)
qed

lemma start_orderly:
  assumes "documented srv" "tx_start srv i t w = (True, w')" "orderly srv w" "objects w i = Some t"
    and "\<not> srv_in_tx srv (conn w)"
  shows "orderly srv w'"
proof -
  from assms(2) obtain w1 where
    w1: "tx_execute srv (start_text (tx_mode t)) w = (True, w1)"
      "w' = w1\<lparr>objects := (objects w1)(i \<mapsto> t\<lparr>tx_active := True\<rparr>)\<rparr>"
    by (cases "tx_execute srv (start_text (tx_mode t)) w") (auto simp: tx_start_def)
  have "sent_in_order srv w (start_text (tx_mode t))" using assms(5) by (auto simp: sent_in_order_def)
  from execute_orderly [OF assms(1) w1(1) assms(3) this] assms(4)
  show ?thesis by (auto simp: w1(2) orderly_def no_mysql_def)
qed

lemma calls_orderly:
  assumes doc: "documented srv" and ok: "orderly srv w" and tx: "srv_in_tx srv (conn w)"
  shows "tx_commit srv w = (True, w') \<Longrightarrow> orderly srv w'"
    and "tx_rollback srv w = (True, w') \<Longrightarrow> orderly srv w'"
    and "one_word name \<Longrightarrow> tx_save srv name w = (True, w') \<Longrightarrow> orderly srv w'"
    and "one_word name \<Longrightarrow> tx_release srv name w = (True, w') \<Longrightarrow> orderly srv w'"
    and "one_word name \<Longrightarrow> tx_rollback_to srv name w = (True, w') \<Longrightarrow> orderly srv w'"
proof -
  have run: "tx_execute srv sql w = (True, w') \<Longrightarrow> is_end sql \<or> is_savepoint sql \<Longrightarrow> orderly srv w'" for sql
    by (rule execute_orderly(1) [OF doc _ ok]) (use tx in \<open>auto simp: sent_in_order_def\<close>)
  show "tx_commit srv w = (True, w') \<Longrightarrow> orderly srv w'" "tx_rollback srv w = (True, w') \<Longrightarrow> orderly srv w'"
    unfolding tx_commit_def tx_rollback_def by (erule run; simp)+
  assume "one_word name"
  then have kinds: "is_savepoint (''SAVEPOINT '' @ name @ '';'')" "is_savepoint (''RELEASE SAVEPOINT '' @ name @ '';'')"
    "is_savepoint (''ROLLBACK TO SAVEPOINT '' @ name @ '';'')" if "name \<noteq> []"
    using that unfolding is_savepoint_def by blast+
  show "tx_save srv name w = (True, w') \<Longrightarrow> orderly srv w'"
    using run [OF _ disjI2 [OF kinds(1)]] ok unfolding tx_save_def by (cases "name = []") auto
  show "tx_release srv name w = (True, w') \<Longrightarrow> orderly srv w'"
    using run [OF _ disjI2 [OF kinds(2)]] ok unfolding tx_release_def by (cases "name = []") auto
  show "tx_rollback_to srv name w = (True, w') \<Longrightarrow> orderly srv w'"
    using run [OF _ disjI2 [OF kinds(3)]] ok unfolding tx_rollback_to_def by (cases "name = []") auto
qed

lemma step_orderly:
  assumes "documented srv" "tx_step srv e w = (True, w')" "tx_enabled srv e w" "orderly srv w"
    and "\<forall>i m. e = Create i m \<longrightarrow> \<not> mysql_mode m"
  shows "orderly srv w' \<and> ((\<exists>i. e = Destroy i) \<longrightarrow> \<not> srv_in_tx srv (conn w'))"
proof (cases e)
  case (Start i)
  then show ?thesis using assms start_orderly by (auto split: option.splits)
next
  case (Destroy i)
  then obtain t where t: "objects w i = Some t" "tx_destroy srv i t w = (True, w')"
    using assms(2) by (auto split: option.splits)
  show ?thesis using destroy_orderly [OF assms(1) t(2) assms(4) t(1)] by simp
next
  case (Create i m)
  then show ?thesis using assms
    by (auto simp: orderly_def no_mysql_def new_transaction_def split: if_splits)
next
  case (SetSuccessful i b)
  then show ?thesis using assms
    by (auto simp: orderly_def no_mysql_def split: option.splits if_splits)
qed (use assms calls_orderly [OF assms(1,4)] in \<open>auto split: if_splits\<close>)

lemma session_orderly:
  assumes "tx_session srv s0 es w" "documented srv" "\<not> srv_in_tx srv s0"
    and "\<forall>i m. Create i m \<in> set es \<longrightarrow> \<not> mysql_mode m"
  shows "orderly srv w"
  using assms
proof (induction rule: tx_session.induct)
  case opened
  then show ?case by (simp add: orderly_def balanced_def no_mysql_def starts_def ends_def)
next
  case (event es w e w')
  then have "orderly srv w" by simp
  then show ?case using step_orderly [OF event.prems(1) event.hyps(3,2)] event.prems(3) by simp
qed

text \<open>
  C17: With SQLite and PostgreSQL, take a session of transaction objects on one connection in which no
  statement fails, no transaction is started inside another, and commits, rollbacks and savepoints
  are asked inside one only. Then each started transaction is ended exactly once: the COMMIT and
  ROLLBACK statements sent are as many as the starting ones, one less while a transaction is open,
  and when the last event was the end of an object none is open.
\<close>

theorem transactions_end_once:
  assumes "tx_session srv s0 es w" "documented srv" "\<not> srv_in_tx srv s0"
    and "\<forall>i m. Create i m \<in> set es \<longrightarrow> \<not> mysql_mode m"
  shows "starts (sent w) = ends (sent w) + (if srv_in_tx srv (conn w) then 1 else 0) \<and>
    ((\<exists>es' i. es = es' @ [Destroy i]) \<longrightarrow> \<not> srv_in_tx srv (conn w))"
proof -
  have "\<not> srv_in_tx srv (conn w)" if es: "es = es' @ [Destroy i]" for es' i
  proof -
    from assms(1) es obtain w1 where w1: "tx_session srv s0 es' w1" "tx_enabled srv (Destroy i) w1"
      "tx_step srv (Destroy i) w1 = (True, w)"
      by (auto elim: session_snocE)
    have "orderly srv w1" by (rule session_orderly [OF w1(1) assms(2,3)]) (use assms(4) es in simp)
    from step_orderly [OF assms(2) w1(3,2) this] show ?thesis by simp
  qed
  then show ?thesis using session_orderly [OF assms] by (auto simp: orderly_def balanced_def)
qed

section \<open>Objects that outlive their transaction\<close>

fun tx_run :: "'c server \<Rightarrow> tx_event list \<Rightarrow> 'c tx_link \<Rightarrow> bool \<times> 'c tx_link" where
  "tx_run srv [] w = (True, w)"
| "tx_run srv (e # es) w = (let (ok, w') = tx_step srv e w in if ok then tx_run srv es w' else (False, w'))"

definition opened_link :: "'c \<Rightarrow> 'c tx_link" where
  "opened_link s = \<lparr>conn = s, sent = [], objects = Map.empty\<rparr>"

text \<open>A documented connection on which no statement fails that is sent in order.\<close>

definition reliable :: "'c server \<Rightarrow> bool" where
  "reliable srv =
     (documented srv \<and> (\<forall>m s. \<not> srv_in_tx srv s \<longrightarrow> fst (srv_exec srv (start_text m) s)) \<and>
      (\<forall>sql s. is_end sql \<and> srv_in_tx srv s \<longrightarrow> fst (srv_exec srv sql s)))"

lemma reliable_start:
  assumes "reliable srv" "\<not> srv_in_tx srv x"
  obtains s where "srv_exec srv (start_text m) x = (True, s)" "srv_in_tx srv s"
  using assms unfolding reliable_def documented_def by (metis prod.collapse)

lemma reliable_end:
  assumes "reliable srv" "is_end sql" "srv_in_tx srv x \<or> fst (srv_exec srv sql x)"
  obtains s where "srv_exec srv sql x = (True, s)" "\<not> srv_in_tx srv s"
  using assms unfolding reliable_def documented_def by (metis prod.collapse)

text \<open>
  With every driver, an object whose transaction was committed still ends a transaction when it
  is destroyed: another object's, when one is open on the session by then; and with MySQL, which
  accepts that, it rolls back, or commits, once more even when none is.
\<close>

theorem committed_object_ends_again:
  assumes "reliable srv" "\<not> srv_in_tx srv s0" "i \<noteq> j"
    and "mysql_mode m \<longrightarrow> (\<forall>s. fst (srv_exec srv ''ROLLBACK;'' s))"
  shows "(\<exists>w. tx_run srv [Create i m, Create j n, Start i, Commit i, Start j, Destroy i] (opened_link s0) = (True, w) \<and>
       sent w = [start_text m, ''COMMIT;'', start_text n, ''ROLLBACK;''] \<and>
       \<not> srv_in_tx srv (conn w) \<and> objects w j \<noteq> None) \<and>
    (\<exists>w. tx_run srv [Create i m, Start i, Commit i, Destroy i] (opened_link s0) = (True, w) \<and>
       sent w = [start_text m, ''COMMIT;''] @ (if mysql_mode m then [''ROLLBACK;''] else []))"
proof -
  obtain s1 where s1: "srv_exec srv (start_text m) s0 = (True, s1)" "srv_in_tx srv s1"
    using reliable_start [OF assms(1,2)] .
  obtain s2 where s2: "srv_exec srv ''COMMIT;'' s1 = (True, s2)" "\<not> srv_in_tx srv s2"
    using reliable_end [OF assms(1) end_texts(1)] s1(2) by blast
  obtain s3 where s3: "srv_exec srv (start_text n) s2 = (True, s3)" "srv_in_tx srv s3"
    using reliable_start [OF assms(1) s2(2)] .
  obtain s4 where s4: "srv_exec srv ''ROLLBACK;'' s3 = (True, s4)" "\<not> srv_in_tx srv s4"
    using reliable_end [OF assms(1) end_texts(2)] s3(2) by blast
  obtain s5 where s5: "mysql_mode m \<longrightarrow> srv_exec srv ''ROLLBACK;'' s2 = (True, s5)"
    using assms(4) by (metis prod.collapse)
  note defs = opened_link_def new_transaction_def tx_start_def tx_commit_def tx_rollback_def tx_execute_def
    tx_destroy_def is_active_eq
  show ?thesis
    using assms(3) s5 by (simp add: defs s1 s2 s3 s4)
qed

text \<open>A connection that never fails: it is in a transaction after a start and until an end.\<close>

definition plain_server :: "bool server" where
  "plain_server =
     \<lparr>srv_exec = (\<lambda>sql s. (True, if is_start sql then True else if is_end sql then False else s)),
      srv_in_tx = (\<lambda>s. s), srv_begun = (\<lambda>s. s)\<rparr>"

lemma plain_server_reliable: "reliable plain_server" "documented plain_server"
  using savepoint_kinds end_not_start by (auto simp: reliable_def documented_def plain_server_def)

theorem transactions_end_once_witness:
  "\<exists>w. tx_session plain_server False [Create 0 (SqliteMode Deferred), Start 0, SetSuccessful 0 True, Destroy 0] w \<and>
     starts (sent w) = ends (sent w) \<and> \<not> srv_in_tx plain_server (conn w)"
proof -
  let ?t = "new_transaction (SqliteMode Deferred)"
  let ?es = "[Create 0 (SqliteMode Deferred), Start 0, SetSuccessful 0 True, Destroy 0]"
  let ?w = "\<lparr>conn = False, sent = [''BEGIN DEFERRED TRANSACTION;'', ''COMMIT;''],
      objects = (Map.empty(0 \<mapsto> ?t\<lparr>tx_active := True, tx_successful := True\<rparr>))(0 := None)\<rparr>"
  note defs = plain_server_def tx_start_def tx_execute_def sqlite_start_def is_start_def is_end_def Let_def
    tx_destroy_def tx_commit_def is_active_eq new_transaction_def
  have "tx_session plain_server False (((([] @ [Create 0 (SqliteMode Deferred)]) @ [Start 0]) @ [SetSuccessful 0 True]) @
      [Destroy 0]) ?w"
    by (rule tx_session.intros | simp add: defs)+
  then have s: "tx_session plain_server False ?es ?w" by simp
  have "\<not> srv_in_tx plain_server False" by (simp add: plain_server_def)
  from transactions_end_once [OF s plain_server_reliable(2) this] s show ?thesis by fastforce
qed

theorem committed_object_ends_again_witness:
  "\<exists>w. tx_run plain_server [Create 0 (MysqlMode ReadWrite), Start 0, Commit 0, Destroy 0] (opened_link False) = (True, w) \<and>
     sent w = [''START TRANSACTION READ WRITE;'', ''COMMIT;'', ''ROLLBACK;'']"
  using committed_object_ends_again [OF plain_server_reliable(1), of False 0 "Suc 0" "MysqlMode ReadWrite" "MysqlMode ReadWrite"]
  by (simp add: plain_server_def mysql_start_def)

end
