(* ===== verification/SqlTime.thy ===== *)
theory SqlTime
  imports Drivers "HOL-Library.Word"
begin

text \<open>
  \<^verbatim>\<open>sql_time.cpp\<close>: dates and times as a number of seconds with a format, read from and printed to
  text, with what the code uses of the C library: \<open>timegm\<close>, \<open>gmtime\<close>, \<open>strptime\<close>, \<open>strftime\<close> and
  \<open>std::stoul\<close>. As in the GNU library, \<open>strptime\<close> stores each field as it reads it, also when it fails
  later; \<open>time_t\<close> and \<open>unsigned long\<close> have 64 bits.
\<close>

section \<open>The calendar\<close>

record tm =
  tm_year :: int
  tm_mon :: nat
  tm_mday :: int
  tm_hour :: int
  tm_min :: int
  tm_sec :: int

definition leap :: "int \<Rightarrow> bool" where
  "leap y = (4 dvd y \<and> (\<not> 100 dvd y \<or> 400 dvd y))"

definition year_length :: "int \<Rightarrow> int" where
  "year_length y = (if leap y then 366 else 365)"

definition month_length :: "int \<Rightarrow> nat \<Rightarrow> int" where
  "month_length y m = (if m = 1 then (if leap y then 29 else 28) else if m \<in> {3, 5, 8, 10} then 30 else 31)"

text \<open>Days from the epoch to the start of a year, and from there to the start of a month.\<close>

definition leaps :: "int \<Rightarrow> int" where
  "leaps y = y div 4 - y div 100 + y div 400"

definition days_before_year :: "int \<Rightarrow> int" where
  "days_before_year y = 365 * (y - 1970) + leaps (y - 1) - leaps 1969"

fun days_before_month :: "int \<Rightarrow> nat \<Rightarrow> int" where
  "days_before_month y 0 = 0"
| "days_before_month y (Suc m) = days_before_month y m + month_length y m"

definition timegm :: "tm \<Rightarrow> int" where
  "timegm tp =
     (let y = 1900 + tm_year tp in
      86400 * (days_before_year y + days_before_month y (tm_mon tp) + tm_mday tp - 1) +
      3600 * tm_hour tp + 60 * tm_min tp + tm_sec tp)"

text \<open>The year and the day in it that a number of days from the start of a year leads to.\<close>

function advance_year :: "int \<Rightarrow> int \<Rightarrow> int \<times> int" where
  "advance_year y d = (if d < year_length y then (y, d) else advance_year (y + 1) (d - year_length y))"
  by auto

termination
  by (relation "measure (\<lambda>(y, d). nat d)") (auto simp: year_length_def split: if_splits)

function advance_month :: "int \<Rightarrow> nat \<Rightarrow> int \<Rightarrow> nat \<times> int" where
  "advance_month y m d =
     (if d < month_length y m \<or> 11 \<le> m then (m, d) else advance_month y (Suc m) (d - month_length y m))"
  by auto

termination
  by (relation "measure (\<lambda>(y, m, d). 11 - m)") auto

declare advance_year.simps [simp del] advance_month.simps [simp del]

text \<open>\<open>gmtime\<close>; \<open>None\<close> is the null pointer, when the year is not an \<open>int\<close>.\<close>

definition broken_down :: "int \<Rightarrow> tm" where
  "broken_down t =
     (let d = t div 86400; s = t mod 86400;
          (y, yd) = advance_year (1970 + 400 * (d div 146097)) (d mod 146097);
          (m, md) = advance_month y 0 yd
      in \<lparr>tm_year = y - 1900, tm_mon = m, tm_mday = md + 1,
          tm_hour = s div 3600, tm_min = s mod 3600 div 60, tm_sec = s mod 60\<rparr>)"

definition gmtime :: "int \<Rightarrow> tm option" where
  "gmtime t = (let tp = broken_down t in if - (2 ^ 31) \<le> tm_year tp \<and> tm_year tp < 2 ^ 31 then Some tp else None)"

lemma div_step: "0 < k \<Longrightarrow> y div k = (y - 1) div k + (if k dvd y then 1 else 0)" for y k :: int
proof -
  assume k: "0 < k"
  have y: "y = k * ((y - 1) div k) + (y - 1) mod k + 1" by simp
  show ?thesis
  proof (cases "(y - 1) mod k = k - 1")
    case True
    with y have "y = k * ((y - 1) div k + 1)" by (simp add: algebra_simps)
    then show ?thesis using k by (metis dvd_triv_left nonzero_mult_div_cancel_left less_irrefl)
  next
    case False
    let ?r = "(y - 1) mod k + 1"
    from False k have r: "0 < ?r" "?r < k" using pos_mod_bound [of k "y - 1"] pos_mod_sign [of k "y - 1"] by linarith+
    have "y = k * ((y - 1) div k) + ?r" using y by linarith
    then have "y div k = (y - 1) div k" "y mod k = ?r"
      using r by (metis div_pos_pos_trivial div_mult_self2 add.commute add_0 less_imp_le less_irrefl k,
        metis mod_mult_self2 add.commute mod_pos_pos_trivial less_imp_le)
    then show ?thesis using r by (auto simp: dvd_eq_mod_eq_0)
  qed
qed

lemma leaps_step: "leaps y = leaps (y - 1) + (if leap y then 1 else 0)"
proof -
  have s: "y div 4 = (y - 1) div 4 + (if 4 dvd y then 1 else 0)"
    "y div 100 = (y - 1) div 100 + (if 100 dvd y then 1 else 0)"
    "y div 400 = (y - 1) div 400 + (if 400 dvd y then 1 else 0)"
    by (rule div_step; simp)+
  have d: "100 dvd y \<longrightarrow> 4 dvd y" "400 dvd y \<longrightarrow> 100 dvd y"
    by (auto intro: dvd_trans [of 4 100] dvd_trans [of 100 400])
  show ?thesis
    unfolding leaps_def leap_def s using d by (simp only: split: if_split) linarith
qed

lemma days_before_next_year: "days_before_year (y + 1) = days_before_year y + year_length y"
  using leaps_step [of y] by (simp add: days_before_year_def year_length_def)

lemma days_before_era: "days_before_year (1970 + 400 * k) = 146097 * k"
proof -
  have "(1969 + 400 * k) div 4 = 492 + 100 * k" "(1969 + 400 * k) div 100 = 19 + 4 * k"
    "(1969 + 400 * k) div 400 = 4 + k"
    using div_mult_self1 [of 4 1969 "100 * k"] div_mult_self1 [of 100 1969 "4 * k"]
      div_mult_self1 [of 400 1969 k]
    by (simp_all add: mult.commute mult.left_commute)
  then show ?thesis by (simp add: days_before_year_def leaps_def)
qed

lemma advance_year_day:
  assumes "0 \<le> d" "advance_year y d = (y', d')"
  shows "0 \<le> d' \<and> d' < year_length y' \<and> days_before_year y' + d' = days_before_year y + d"
  using assms
proof (induction y d rule: advance_year.induct)
  case (1 y d)
  then show ?case
    using days_before_next_year [of y] by (cases "d < year_length y") (auto simp: advance_year.simps [of y d])
qed

lemma days_before_months: "days_before_month y 12 = year_length y"
  by (simp add: numeral_eq_Suc month_length_def year_length_def)

lemma advance_month_day:
  assumes "0 \<le> d" "m \<le> 11" "days_before_month y m + d < year_length y" "advance_month y m d = (m', d')"
  shows "m' \<le> 11 \<and> 0 \<le> d' \<and> d' < month_length y m' \<and> days_before_month y m' + d' = days_before_month y m + d"
  using assms
proof (induction y m d rule: advance_month.induct)
  case (1 y m d)
  show ?case
  proof (cases "d < month_length y m \<or> 11 \<le> m")
    case True
    then have r: "m' = m" "d' = d" using "1.prems"(4) by (auto simp: advance_month.simps [of y m d])
    have "d < month_length y m" if "m = 11"
      using that "1.prems"(3) days_before_months [of y] by (simp add: numeral_eq_Suc)
    with True r "1.prems" show ?thesis by auto
  next
    case False
    then show ?thesis using 1 by (auto simp: advance_month.simps [of y m d])
  qed
qed


text \<open>The fields of a broken-down time are in their ranges and lead back to the number of seconds.\<close>

definition in_ranges :: "tm \<Rightarrow> bool" where
  "in_ranges tp =
     (tm_mon tp \<le> 11 \<and> 1 \<le> tm_mday tp \<and> tm_mday tp \<le> month_length (1900 + tm_year tp) (tm_mon tp) \<and>
      0 \<le> tm_hour tp \<and> tm_hour tp < 24 \<and> 0 \<le> tm_min tp \<and> tm_min tp < 60 \<and> 0 \<le> tm_sec tp \<and> tm_sec tp < 60)"

lemma month_length_31: "month_length y m \<le> 31"
  by (simp add: month_length_def)

lemma clock_split: "3600 * (s div 3600) + 60 * (s mod 3600 div 60) + s mod 60 = s" for s :: int
proof -
  have "s mod 60 = s mod 3600 mod 60" by (simp add: mod_mod_cancel)
  then show ?thesis
    using mult_div_mod_eq [of 3600 s] mult_div_mod_eq [of 60 "s mod 3600"] by linarith
qed

lemma div_less_iff: "0 < c \<Longrightarrow> a div c < e \<longleftrightarrow> a < c * e" for a c e :: int
proof
  assume c: "0 < c" and "a div c < e"
  then have "c * (a div c + 1) \<le> c * e" by (intro mult_left_mono) simp_all
  then show "a < c * e"
    using mult_div_mod_eq [of c a] pos_mod_bound [OF c, of a] by (simp only: distrib_left)
next
  assume c: "0 < c" and l: "a < c * e"
  show "a div c < e"
  proof (rule ccontr)
    assume "\<not> a div c < e"
    then have "c * e \<le> c * (a div c)" using c by (intro mult_left_mono) simp_all
    then show False using l mult_div_mod_eq [of c a] pos_mod_sign [OF c, of a] by linarith
  qed
qed

lemma clock_ranges:
  fixes s :: int
  assumes "0 \<le> s" "s < 86400"
  shows "0 \<le> s div 3600 \<and> s div 3600 < 24 \<and> 0 \<le> s mod 3600 div 60 \<and> s mod 3600 div 60 < 60"
  using assms by (simp add: div_less_iff pos_imp_zdiv_nonneg_iff)

lemma broken_down_parts:
  obtains y yd m md where
    "broken_down t = \<lparr>tm_year = y - 1900, tm_mon = m, tm_mday = md + 1, tm_hour = t mod 86400 div 3600,
       tm_min = t mod 86400 mod 3600 div 60, tm_sec = t mod 86400 mod 60\<rparr>"
    "0 \<le> yd" "yd < year_length y" "days_before_year y + yd = t div 86400"
    "m \<le> 11" "0 \<le> md" "md < month_length y m" "days_before_month y m + md = yd"
proof -
  let ?d = "t div 86400"
  obtain y yd where y: "advance_year (1970 + 400 * (?d div 146097)) (?d mod 146097) = (y, yd)" by fastforce
  obtain m md where m: "advance_month y 0 yd = (m, md)" by fastforce
  have 1: "0 \<le> yd \<and> yd < year_length y \<and> days_before_year y + yd = ?d"
    using advance_year_day [OF _ y] mult_div_mod_eq [of 146097 ?d] by (simp add: days_before_era)
  then have 2: "m \<le> 11 \<and> 0 \<le> md \<and> md < month_length y m \<and> days_before_month y m + md = yd"
    using advance_month_day [OF _ _ _ m] by simp
  show thesis
    by (rule that [of y m md yd]) (use 1 2 in \<open>simp_all add: broken_down_def y m Let_def\<close>)
qed

lemma broken_down_ranges: "in_ranges (broken_down t)"
proof (cases t rule: broken_down_parts)
  case (1 y yd m md)
  then show ?thesis using clock_ranges [of "t mod 86400"] by (simp add: in_ranges_def)
qed

lemma timegm_parts:
  "timegm \<lparr>tm_year = y - 1900, tm_mon = m, tm_mday = md + 1, tm_hour = s div 3600,
       tm_min = s mod 3600 div 60, tm_sec = s mod 60\<rparr> =
     86400 * (days_before_year y + (days_before_month y m + md)) + s"
  using clock_split [of s] by (simp add: timegm_def Let_def del: mult_div_mod_eq)

lemma timegm_broken_down: "timegm (broken_down t) = t"
proof (cases t rule: broken_down_parts)
  case (1 y yd m md)
  show ?thesis
    unfolding 1(1) timegm_parts 1(8) 1(4) by simp
qed

lemma days_before_year_mono: "y \<le> z \<Longrightarrow> days_before_year y \<le> days_before_year z"
proof (induction z rule: int_ge_induct)
  case (step z)
  then show ?case using days_before_next_year [of z] by (simp add: year_length_def split: if_splits)
qed simp

lemma year_before:
  "1900 + tm_year (broken_down t) < y \<longleftrightarrow> t < 86400 * days_before_year y"
proof (cases t rule: broken_down_parts)
  case (1 z yd m md)
  have lt: "t < 86400 * e \<longleftrightarrow> t div 86400 < e" for e
    by (simp add: div_less_iff)
  show ?thesis
  proof (cases "z < y")
    case True
    then have "days_before_year (z + 1) \<le> days_before_year y" by (intro days_before_year_mono) simp
    then show ?thesis using 1 True days_before_next_year [of z] by (simp add: lt)
  next
    case False
    then have "days_before_year y \<le> days_before_year z" by (intro days_before_year_mono) simp
    then show ?thesis using 1 False by (simp add: lt)
  qed
qed

lemma four_digit_years:
  "1000 \<le> 1900 + tm_year (broken_down t) \<longleftrightarrow> - 30610224000 \<le> t"
  "1900 + tm_year (broken_down t) \<le> 9999 \<longleftrightarrow> t < 253402300800"
  using year_before [of t 1000] year_before [of t 10000] by (auto simp: days_before_year_def leaps_def)


section \<open>Reading numbers\<close>

definition isspace :: "char \<Rightarrow> bool" where
  "isspace c = (c = CHR '' '' \<or> (9 \<le> (of_char c :: nat) \<and> (of_char c :: nat) \<le> 13))"

definition isdigit :: "char \<Rightarrow> bool" where
  "isdigit c = (48 \<le> (of_char c :: nat) \<and> (of_char c :: nat) \<le> 57)"

definition digit :: "char \<Rightarrow> nat" where
  "digit c = of_char c - 48"

text \<open>A field of \<open>strptime\<close>: up to \<open>n\<close> digits, as long as the next one could keep the number in its range.\<close>

fun more_digits :: "nat \<Rightarrow> nat \<Rightarrow> nat \<Rightarrow> string \<Rightarrow> nat \<times> string" where
  "more_digits 0 hi v s = (v, s)"
| "more_digits (Suc n) hi v [] = (v, [])"
| "more_digits (Suc n) hi v (c # s) =
     (if 10 * v \<le> hi \<and> isdigit c then more_digits n hi (10 * v + digit c) s else (v, c # s))"

definition get_number :: "nat \<Rightarrow> nat \<Rightarrow> nat \<Rightarrow> string \<Rightarrow> (nat \<times> string) option" where
  "get_number lo hi n s =
     (case dropWhile isspace s of
        [] \<Rightarrow> None
      | c # s' \<Rightarrow>
          if \<not> isdigit c then None
          else let (v, rest) = more_digits (n - 1) hi (digit c) s'
               in if lo \<le> v \<and> v \<le> hi then Some (v, rest) else None)"

definition read_field :: "char \<Rightarrow> string \<Rightarrow> tm \<Rightarrow> (string \<times> tm) option" where
  "read_field c s tp =
     (if c = CHR ''Y'' then map_option (\<lambda>(v, r). (r, tp\<lparr>tm_year := int v - 1900\<rparr>)) (get_number 0 9999 4 s)
      else if c = CHR ''m'' then map_option (\<lambda>(v, r). (r, tp\<lparr>tm_mon := v - 1\<rparr>)) (get_number 1 12 2 s)
      else if c = CHR ''d'' then map_option (\<lambda>(v, r). (r, tp\<lparr>tm_mday := int v\<rparr>)) (get_number 1 31 2 s)
      else if c = CHR ''H'' then map_option (\<lambda>(v, r). (r, tp\<lparr>tm_hour := int v\<rparr>)) (get_number 0 23 2 s)
      else if c = CHR ''M'' then map_option (\<lambda>(v, r). (r, tp\<lparr>tm_min := int v\<rparr>)) (get_number 0 59 2 s)
      else if c = CHR ''S'' then map_option (\<lambda>(v, r). (r, tp\<lparr>tm_sec := int v\<rparr>)) (get_number 0 61 2 s)
      else None)"

text \<open>What is left of the text, unless it does not match, and the fields stored up to there.\<close>

fun strptime :: "string \<Rightarrow> string \<Rightarrow> tm \<Rightarrow> string option \<times> tm" where
  "strptime s [] tp = (Some s, tp)"
| "strptime s (f # fmt) tp =
     (if f = CHR ''%'' then
        (case fmt of
           [] \<Rightarrow> (None, tp)
         | c # fmt' \<Rightarrow>
             (case read_field c s tp of
                None \<Rightarrow> (None, tp)
              | Some (s', tp') \<Rightarrow> strptime s' fmt' tp'))
      else if isspace f then strptime (dropWhile isspace s) fmt tp
      else (case s of
              [] \<Rightarrow> (None, tp)
            | c # s' \<Rightarrow> if c = f then strptime s' fmt tp else (None, tp)))"

text \<open>\<open>std::stoul\<close>; \<open>None\<close> is one of its exceptions.\<close>

definition digits_int :: "string \<Rightarrow> int" where
  "digits_int ds = foldl (\<lambda>n c. 10 * n + int (digit c)) 0 ds"

definition digits_value :: "string \<Rightarrow> 64 word option" where
  "digits_value s =
     (let ds = takeWhile isdigit s; n = digits_int ds
      in if ds = [] \<or> 2 ^ 64 \<le> n then None else Some (of_int n))"

definition stoul :: "string \<Rightarrow> 64 word option" where
  "stoul s =
     (case dropWhile isspace s of
        [] \<Rightarrow> None
      | c # s' \<Rightarrow>
          if c = CHR ''-'' then map_option uminus (digits_value s')
          else if c = CHR ''+'' then digits_value s' else digits_value (c # s'))"

section \<open>Printing\<close>

definition two_digits :: "nat \<Rightarrow> string" where
  "two_digits n = (if n < 10 then ''0'' else []) @ to_string n"

definition decimal :: "int \<Rightarrow> string" where
  "decimal i = (if i < 0 then ''-'' else []) @ to_string (nat \<bar>i\<bar>)"

definition print_field :: "char \<Rightarrow> tm \<Rightarrow> string" where
  "print_field c tp =
     (if c = CHR ''Y'' then decimal (1900 + tm_year tp)
      else if c = CHR ''m'' then two_digits (tm_mon tp + 1)
      else if c = CHR ''d'' then two_digits (nat (tm_mday tp))
      else if c = CHR ''H'' then two_digits (nat (tm_hour tp))
      else if c = CHR ''M'' then two_digits (nat (tm_min tp))
      else if c = CHR ''S'' then two_digits (nat (tm_sec tp))
      else [])"

fun strftime :: "string \<Rightarrow> tm \<Rightarrow> string" where
  "strftime [] tp = []"
| "strftime (f # fmt) tp =
     (if f = CHR ''%'' then (case fmt of [] \<Rightarrow> [] | c # fmt' \<Rightarrow> print_field c tp @ strftime fmt' tp)
      else f # strftime fmt tp)"

section \<open>The class\<close>

datatype formats = DATE | TIME | TIMESTAMP | DATETIME

record sql_time =
  t_value :: int
  t_format :: formats

definition zero_tm :: tm where
  "zero_tm = \<lparr>tm_year = 0, tm_mon = 0, tm_mday = 0, tm_hour = 0, tm_min = 0, tm_sec = 0\<rparr>"

definition c_str :: "string \<Rightarrow> string" where
  "c_str s = takeWhile (\<lambda>c. c \<noteq> CHR 0x00) s"

text \<open>\<open>sql_time::parse\<close>: one structure is used for all three formats.\<close>

definition time_parse :: "string \<Rightarrow> sql_time option" where
  "time_parse value =
     (if value = [] then None
      else case strptime (c_str value) ''%Y-%m-%d %H:%M:%S'' zero_tm of
        (Some _, tp) \<Rightarrow> Some \<lparr>t_value = timegm tp, t_format = DATETIME\<rparr>
      | (None, tp) \<Rightarrow>
      (case strptime (c_str value) ''%Y-%m-%d'' tp of
        (Some _, tp) \<Rightarrow> Some \<lparr>t_value = timegm tp, t_format = DATE\<rparr>
      | (None, tp) \<Rightarrow>
      (case strptime (c_str value) ''%H:%M:%S'' tp of
        (Some _, tp) \<Rightarrow>
          Some \<lparr>t_value = timegm (tp\<lparr>tm_year := 70, tm_mon := 0, tm_mday := 1\<rparr>), t_format = TIME\<rparr>
      | (None, _) \<Rightarrow> map_option (\<lambda>v. \<lparr>t_value = sint v, t_format = TIMESTAMP\<rparr>) (stoul (c_str value)))))"

fun time_format :: "formats \<Rightarrow> string" where
  "time_format DATE = ''%Y-%m-%d''"
| "time_format TIME = ''%H:%M:%S''"
| "time_format _ = ''%Y-%m-%d %H:%M:%S''"

definition time_to_string :: "sql_time \<Rightarrow> string option" where
  "time_to_string t = map_option (strftime (time_format (t_format t))) (gmtime (t_value t))"

definition time_eq :: "sql_time \<Rightarrow> sql_time \<Rightarrow> bool" where
  "time_eq t u = (t_value t = t_value u \<and> t_format t = t_format u)"

end
