(* ===== verification/TimeProps.thy ===== *)
theory TimeProps
  imports SqlTime
begin

text \<open>
  Which times survive being printed and read back, what is left over from a format that did not
  match, and how numbers of seconds are read.
\<close>

section \<open>Digits\<close>

lemma char_zero: "CHR ''0'' = char_of (48 :: nat)"
  by code_simp

lemma isdigit_char [simp]: "a < 10 \<Longrightarrow> isdigit (char_of (48 + a))" for a :: nat
  by (simp add: isdigit_def)

lemma digit_char [simp]: "a < 10 \<Longrightarrow> digit (char_of (48 + a)) = a" for a :: nat
  by (simp add: digit_def)

lemma space_code: "isspace c \<Longrightarrow> (of_char c :: nat) \<le> 32"
  by (auto simp: isspace_def)

lemma digit_not_space [simp]: "a < 10 \<Longrightarrow> \<not> isspace (char_of (48 + a))" for a :: nat
proof
  assume "a < 10" "isspace (char_of (48 + a))"
  then show False using space_code [of "char_of (48 + a)"] by simp
qed

lemma two_digits_eq: "n < 100 \<Longrightarrow> two_digits n = [char_of (48 + n div 10), char_of (48 + n mod 10)]"
  by (cases "n < 10") (simp_all add: two_digits_def to_string.simps char_zero)

lemma get_number_two:
  assumes "lo \<le> n" "n \<le> hi" "hi < 100"
  shows "get_number lo hi 2 (two_digits n @ r) = Some (n, r)"
proof -
  have n: "n < 100" "n div 10 < 10" "n mod 10 < 10" "10 * (n div 10) \<le> hi" using assms by auto
  then show ?thesis using assms by (simp add: two_digits_eq get_number_def)
qed

lemma decimal_year:
  assumes "1000 \<le> n" "n < 10000"
  shows "to_string n =
    [char_of (48 + n div 1000), char_of (48 + n div 100 mod 10), char_of (48 + n div 10 mod 10), char_of (48 + n mod 10)]"
proof -
  have "\<not> n div 100 < 10" "\<not> n div 10 < 10" "\<not> n < 10" "n div 1000 < 10" using assms by simp_all
  then show ?thesis
    by (simp add: to_string.simps [of n] to_string.simps [of "n div 10"] to_string.simps [of "n div 100"]
        to_string.simps [of "n div 1000"] div_mult2_eq [symmetric])
qed

lemma get_number_year:
  assumes "1000 \<le> n" "n < 10000"
  shows "get_number 0 9999 4 (to_string n @ r) = Some (n, r)"
proof -
  have "n div 1000 < 10" "n div 100 mod 10 < 10" "n div 10 mod 10 < 10" "n mod 10 < 10" using assms by auto
  moreover have "10 * (n div 1000) + n div 100 mod 10 = n div 100" "10 * (n div 100) + n div 10 mod 10 = n div 10"
    "10 * (n div 10) + n mod 10 = n"
    by (simp_all add: div_mult2_eq [of n 100 10, simplified] div_mult2_eq [of n 10 10, simplified])
  moreover have "n div 1000 \<le> 999" "n div 100 \<le> 999" "n div 10 \<le> 999" using assms by auto
  ultimately show ?thesis using assms
    by (simp add: decimal_year get_number_def numeral_3_eq_3)
qed


section \<open>Fields\<close>

definition four_digit_year :: "tm \<Rightarrow> bool" where
  "four_digit_year tp = (1000 \<le> 1900 + tm_year tp \<and> 1900 + tm_year tp \<le> 9999)"

lemma read_year:
  assumes "1000 \<le> y" "y \<le> 9999"
  shows "read_field CHR ''Y'' (decimal y @ r) tp = Some (r, tp\<lparr>tm_year := y - 1900\<rparr>)"
proof -
  have "1000 \<le> nat y" "nat y < 10000" using assms by linarith+
  then show ?thesis using assms get_number_year [of "nat y" r] by (simp add: read_field_def decimal_def)
qed

lemma read_month: "m \<le> 11 \<Longrightarrow> read_field CHR ''m'' (two_digits (Suc m) @ r) tp = Some (r, tp\<lparr>tm_mon := m\<rparr>)"
  using get_number_two [of 1 "m + 1" 12 r] by (simp add: read_field_def)

lemma read_day:
  "1 \<le> d \<Longrightarrow> d \<le> 31 \<Longrightarrow> read_field CHR ''d'' (two_digits (nat d) @ r) tp = Some (r, tp\<lparr>tm_mday := d\<rparr>)"
  using get_number_two [of 1 "nat d" 31 r] by (simp add: read_field_def)

lemma read_hour:
  "0 \<le> h \<Longrightarrow> h < 24 \<Longrightarrow> read_field CHR ''H'' (two_digits (nat h) @ r) tp = Some (r, tp\<lparr>tm_hour := h\<rparr>)"
  using get_number_two [of 0 "nat h" 23 r] by (simp add: read_field_def)

lemma read_minute:
  "0 \<le> m \<Longrightarrow> m < 60 \<Longrightarrow> read_field CHR ''M'' (two_digits (nat m) @ r) tp = Some (r, tp\<lparr>tm_min := m\<rparr>)"
  using get_number_two [of 0 "nat m" 59 r] by (simp add: read_field_def)

lemma read_second:
  "0 \<le> s \<Longrightarrow> s < 60 \<Longrightarrow> read_field CHR ''S'' (two_digits (nat s) @ r) tp = Some (r, tp\<lparr>tm_sec := s\<rparr>)"
  using get_number_two [of 0 "nat s" 61 r] by (simp add: read_field_def)

lemmas reads = read_year read_month read_day read_hour read_minute read_second

lemma read_nothing [simp]: "read_field c [] tp = None"
  by (simp add: read_field_def get_number_def)

lemma not_spaces [simp]:
  "\<not> isspace CHR ''-''" "\<not> isspace CHR '':''" "isspace CHR '' ''" "\<not> isdigit CHR ''-''" "\<not> isdigit CHR '':''"
  by (simp_all add: isspace_def isdigit_def)

lemma date_in_ranges:
  "in_ranges tp \<Longrightarrow> tm_mon tp \<le> 11 \<and> 1 \<le> tm_mday tp \<and> tm_mday tp \<le> 31"
  using month_length_31 [of "1900 + tm_year tp" "tm_mon tp"] by (auto simp: in_ranges_def)

lemma strptime_date:
  assumes "in_ranges tp" "four_digit_year tp"
  shows "strptime (strftime ''%Y-%m-%d'' tp @ s) (''%Y-%m-%d'' @ fmt) tp0 =
    strptime s fmt (tp0\<lparr>tm_year := tm_year tp, tm_mon := tm_mon tp, tm_mday := tm_mday tp\<rparr>)"
  using assms date_in_ranges [of tp] by (simp add: print_field_def reads four_digit_year_def)

lemma strptime_clock:
  assumes "in_ranges tp"
  shows "strptime (strftime ''%H:%M:%S'' tp @ s) (''%H:%M:%S'' @ fmt) tp0 =
    strptime s fmt (tp0\<lparr>tm_hour := tm_hour tp, tm_min := tm_min tp, tm_sec := tm_sec tp\<rparr>)"
  using assms by (simp add: print_field_def reads in_ranges_def)

lemma strftime_both: "strftime ''%Y-%m-%d %H:%M:%S'' tp =
    strftime ''%Y-%m-%d'' tp @ '' '' @ strftime ''%H:%M:%S'' tp"
  by (simp add: print_field_def)


section \<open>Reading back what was printed\<close>

lemma nul_no_digit: "\<not> isdigit CHR 0x00"
  by (simp add: isdigit_def)

lemma no_nul_digits: "CHR 0x00 \<notin> set (to_string n)"
proof (induction n rule: to_string.induct)
  case (1 n)
  have "char_of (48 + a) \<noteq> CHR 0x00" if "a < 10" for a :: nat
    using isdigit_char [OF that] nul_no_digit by metis
  with 1 show ?case by (subst to_string.simps) (auto simp: eq_commute [of "CHR 0x00"])
qed

lemma no_nul_field: "CHR 0x00 \<notin> set (print_field c tp)"
  using no_nul_digits by (simp add: print_field_def two_digits_def decimal_def)

lemma no_nul_strftime: "CHR 0x00 \<notin> set fmt \<Longrightarrow> CHR 0x00 \<notin> set (strftime fmt tp)"
  by (induction fmt tp rule: strftime.induct) (auto simp: no_nul_field split: list.splits)

lemma c_str_whole: "CHR 0x00 \<notin> set s \<Longrightarrow> c_str s = s"
  by (auto simp: c_str_def takeWhile_eq_all_conv)

lemma gmtime_four_digits: "four_digit_year (broken_down t) \<Longrightarrow> gmtime t = Some (broken_down t)"
  by (simp add: gmtime_def four_digit_year_def Let_def)

definition date_of :: "int \<Rightarrow> string" where
  "date_of t = strftime ''%Y-%m-%d'' (broken_down t)"

definition clock_of :: "int \<Rightarrow> string" where
  "clock_of t = strftime ''%H:%M:%S'' (broken_down t)"

lemma time_texts:
  assumes "four_digit_year (broken_down t)"
  shows "time_to_string \<lparr>t_value = t, t_format = DATE\<rparr> = Some (date_of t)"
    "time_to_string \<lparr>t_value = t, t_format = TIME\<rparr> = Some (clock_of t)"
    "f \<in> {TIMESTAMP, DATETIME} \<Longrightarrow> time_to_string \<lparr>t_value = t, t_format = f\<rparr> = Some (date_of t @ '' '' @ clock_of t)"
  unfolding time_to_string_def date_of_def clock_of_def using gmtime_four_digits [OF assms] strftime_both
  by auto

lemma no_nul_texts: "CHR 0x00 \<notin> set (date_of t)" "CHR 0x00 \<notin> set (clock_of t)"
  unfolding date_of_def clock_of_def by (rule no_nul_strftime; simp)+

text \<open>The fields of a date, with the time that was read before it.\<close>

definition on_date :: "int \<Rightarrow> tm \<Rightarrow> tm" where
  "on_date t tp0 = tp0\<lparr>tm_year := tm_year (broken_down t), tm_mon := tm_mon (broken_down t),
     tm_mday := tm_mday (broken_down t)\<rparr>"

lemma read_date:
  "four_digit_year (broken_down t) \<Longrightarrow> strptime (date_of t @ s) (''%Y-%m-%d'' @ fmt) tp0 = strptime s fmt (on_date t tp0)"
  unfolding date_of_def on_date_def by (rule strptime_date [OF broken_down_ranges])

lemma timegm_fields:
  "timegm tp = timegm (tp\<lparr>tm_hour := 0, tm_min := 0, tm_sec := 0\<rparr>) + 3600 * tm_hour tp + 60 * tm_min tp + tm_sec tp"
  by (simp add: timegm_def Let_def)

lemma clock_of_day:
  "3600 * tm_hour (broken_down t) + 60 * tm_min (broken_down t) + tm_sec (broken_down t) = t mod 86400"
proof (cases t rule: broken_down_parts)
  case (1 y yd m md)
  show ?thesis unfolding 1(1) using clock_split [of "t mod 86400"] by simp
qed

lemma split_day:
  "t div 86400 * 86400 + 3600 * tm_hour (broken_down t) + 60 * tm_min (broken_down t) + tm_sec (broken_down t) = t"
  unfolding add.assoc clock_of_day [unfolded add.assoc] by (rule div_mult_mod_eq)

lemma timegm_on_date: "timegm (on_date t tp0) = t div 86400 * 86400 + 3600 * tm_hour tp0 + 60 * tm_min tp0 + tm_sec tp0"
proof -
  have "timegm (on_date t tp0\<lparr>tm_hour := 0, tm_min := 0, tm_sec := 0\<rparr>) =
      timegm (broken_down t\<lparr>tm_hour := 0, tm_min := 0, tm_sec := 0\<rparr>)"
    by (simp add: on_date_def timegm_def)
  also have "\<dots> = t - t mod 86400"
    using timegm_fields [of "broken_down t"] clock_of_day [of t] by (simp add: timegm_broken_down)
  also have "\<dots> = t div 86400 * 86400" by (simp add: minus_mod_eq_div_mult)
  finally show ?thesis using timegm_fields [of "on_date t tp0"] by (simp add: on_date_def)
qed


text \<open>The clock after a date, with or without a space before it.\<close>

lemma read_clock:
  "strptime (clock_of t @ s) (''%H:%M:%S'' @ fmt) tp0 =
    strptime s fmt (tp0\<lparr>tm_hour := tm_hour (broken_down t), tm_min := tm_min (broken_down t),
      tm_sec := tm_sec (broken_down t)\<rparr>)"
  unfolding clock_of_def by (rule strptime_clock [OF broken_down_ranges])

lemma two_digits_not_space: "n < 100 \<Longrightarrow> dropWhile isspace (two_digits n @ s) = two_digits n @ s"
  using digit_not_space [of "n div 10"] by (simp add: two_digits_eq)

lemma hour_bound: "nat (tm_hour (broken_down t)) < 24"
  using broken_down_ranges [of t] unfolding in_ranges_def by linarith

lemma texts_ne [simp]: "date_of t \<noteq> []" "clock_of t \<noteq> []"
  by (simp_all add: date_of_def clock_of_def print_field_def)

lemma clock_not_space: "dropWhile isspace (clock_of t) = clock_of t"
proof -
  have "nat (tm_hour (broken_down t)) < 100" using hour_bound [of t] by simp
  from two_digits_not_space [OF this] show ?thesis by (simp add: clock_of_def print_field_def)
qed

lemma parse_datetime:
  assumes "four_digit_year (broken_down t)"
  shows "time_parse (date_of t @ '' '' @ clock_of t) = Some \<lparr>t_value = t, t_format = DATETIME\<rparr>"
proof -
  let ?tp = "on_date t zero_tm\<lparr>tm_hour := tm_hour (broken_down t), tm_min := tm_min (broken_down t),
      tm_sec := tm_sec (broken_down t)\<rparr>"
  have "strptime (date_of t @ '' '' @ clock_of t) (''%Y-%m-%d'' @ '' %H:%M:%S'') zero_tm = (Some [], ?tp)"
    unfolding read_date [OF assms] using read_clock [of t "[]" "[]"] by (simp add: clock_not_space)
  moreover have "timegm ?tp = timegm (on_date t ?tp)" by (simp add: timegm_def on_date_def)
  then have "timegm ?tp = t"
    unfolding timegm_on_date by (simp add: split_day)
  moreover have "c_str (date_of t @ '' '' @ clock_of t) = date_of t @ '' '' @ clock_of t"
    using no_nul_texts by (intro c_str_whole) simp
  ultimately show ?thesis by (simp add: time_parse_def del: strptime.simps)
qed


lemma not_a_clock [simp]: "strptime [] '' %H:%M:%S'' tp = (None, tp)"
  by simp

lemma parse_date:
  assumes "four_digit_year (broken_down t)"
  shows "time_parse (date_of t) = Some \<lparr>t_value = t div 86400 * 86400, t_format = DATE\<rparr>"
proof -
  let ?tp = "on_date t zero_tm"
  have 1: "strptime (date_of t) (''%Y-%m-%d'' @ '' %H:%M:%S'') zero_tm = (None, ?tp)"
    using read_date [OF assms, of "[]" "'' %H:%M:%S''" zero_tm] by (simp del: strptime.simps)
  have 2: "strptime (date_of t) ''%Y-%m-%d'' ?tp = (Some [], ?tp)"
    using read_date [OF assms, of "[]" "[]" ?tp] by (simp add: on_date_def)
  show ?thesis
    using 1 2 timegm_on_date [of t zero_tm] c_str_whole [OF no_nul_texts(1)]
    by (simp add: time_parse_def zero_tm_def del: strptime.simps)
qed

text \<open>A clock is no date: its first number is taken for a year, and then a dash is missing.\<close>

lemma clock_no_date:
  "\<exists>y. strptime (clock_of t) (''%Y-%m-%d'' @ fmt) tp0 = (None, tp0\<lparr>tm_year := y\<rparr>)"
proof -
  let ?h = "nat (tm_hour (broken_down t))"
  have h: "?h < 24" by (rule hour_bound)
  have "get_number 0 9999 4 (two_digits ?h @ CHR '':'' # s) = Some (?h, CHR '':'' # s)" for s
  proof -
    have "?h div 10 < 10" "?h mod 10 < 10" "10 * (?h div 10) \<le> 9999" "?h < 100" "10 * ?h \<le> 9999" using h by auto
    then show ?thesis by (simp add: two_digits_eq get_number_def numeral_3_eq_3)
  qed
  then show ?thesis by (auto simp: clock_of_def print_field_def read_field_def)
qed

lemma parse_clock: "time_parse (clock_of t) = Some \<lparr>t_value = t mod 86400, t_format = TIME\<rparr>"
proof -
  obtain y where 1: "strptime (clock_of t) (''%Y-%m-%d'' @ '' %H:%M:%S'') zero_tm = (None, zero_tm\<lparr>tm_year := y\<rparr>)"
    using clock_no_date by blast
  obtain z where 2: "strptime (clock_of t) (''%Y-%m-%d'' @ []) (zero_tm\<lparr>tm_year := y\<rparr>) = (None, zero_tm\<lparr>tm_year := z\<rparr>)"
    using clock_no_date [of t "[]" "zero_tm\<lparr>tm_year := y\<rparr>"] by auto
  let ?tp = "zero_tm\<lparr>tm_year := z, tm_hour := tm_hour (broken_down t), tm_min := tm_min (broken_down t),
      tm_sec := tm_sec (broken_down t)\<rparr>"
  have 3: "strptime (clock_of t) ''%H:%M:%S'' (zero_tm\<lparr>tm_year := z\<rparr>) = (Some [], ?tp)"
    using read_clock [of t "[]" "[]" "zero_tm\<lparr>tm_year := z\<rparr>"] by (simp del: strptime.simps add: strptime.simps(1))
  have "timegm (?tp\<lparr>tm_year := 70, tm_mon := 0, tm_mday := 1\<rparr>) = t mod 86400"
    using clock_of_day [of t] by (simp add: timegm_def days_before_year_def leaps_def)
  with 1 2 3 show ?thesis using c_str_whole [OF no_nul_texts(2)]
    by (simp add: time_parse_def del: strptime.simps)
qed


section \<open>Texts that are no dates\<close>

lemma isdigit_to_string: "list_all isdigit (to_string n)"
proof (induction n rule: to_string.induct)
  case (1 n)
  then show ?case by (subst to_string.simps) simp
qed

lemma to_string_ne [simp]: "to_string n \<noteq> []"
  by (subst to_string.simps) simp

lemma more_digits_split: "more_digits k hi v s = (w, r) \<Longrightarrow> \<exists>p. s = p @ r \<and> list_all isdigit p \<and> length p \<le> k"
proof (induction k hi v s rule: more_digits.induct)
  case (3 n hi v c s)
  then show ?case by (force split: if_splits simp: Cons_eq_append_conv)
qed auto

text \<open>A field read from a number leaves nothing, or another digit.\<close>

definition before_digit :: "string \<Rightarrow> bool" where
  "before_digit r = (case r of [] \<Rightarrow> True | c # _ \<Rightarrow> isdigit c)"

lemma get_number_left:
  assumes "get_number lo hi (Suc k) (ds @ x) = Some (v, r)" "list_all isdigit ds" "ds \<noteq> []" "x = [] \<or> Suc k < length ds"
  shows "before_digit r"
proof -
  obtain c ds' where ds: "ds = c # ds'" using assms(3) by (cases ds) auto
  have "\<not> isspace c" using assms(2) ds by (auto simp: isdigit_def dest: space_code)
  with assms(1,2) obtain w where "more_digits k hi (digit c) (ds' @ x) = (w, r)"
    by (auto simp: ds get_number_def split: if_splits prod.splits)
  then obtain p where p: "ds' @ x = p @ r" "length p \<le> k" by (auto dest: more_digits_split)
  show ?thesis
  proof (cases "length p < length ds'")
    case True
    then have "r = drop (length p) ds' @ x" using arg_cong [OF p(1), of "drop (length p)"] by simp
    moreover obtain a l where "drop (length p) ds' = a # l" using True by (metis Cons_nth_drop_Suc)
    moreover have "list_all isdigit (drop (length p) ds')"
      using assms(2) ds by (auto simp: list_all_iff dest: in_set_dropD)
    ultimately show ?thesis by (simp add: before_digit_def)
  next
    case False
    then have "x = []" using assms(4) p(2) ds by auto
    with p(1) False have "r = []" by (metis append_Nil2 append_eq_conv_conj drop_eq_Nil linorder_not_less)
    then show ?thesis by (simp add: before_digit_def)
  qed
qed

lemma separator_missing:
  assumes "list_all isdigit ds" "ds \<noteq> []" "x = [] \<or> 4 < length ds" "\<not> isdigit f" "\<not> isspace f" "f \<noteq> CHR ''%''"
    and "c \<in> {CHR ''Y'', CHR ''H''}"
  shows "fst (strptime (ds @ x) (CHR ''%'' # c # f # fmt) tp) = None"
proof -
  have 4: "before_digit r" if "get_number lo hi 4 (ds @ x) = Some (v, r)" for lo hi v r
    using get_number_left [of lo hi 3 ds x v r] that assms by (simp add: eval_nat_numeral)
  have 2: "before_digit r" if "get_number lo hi 2 (ds @ x) = Some (v, r)" for lo hi v r
    using get_number_left [of lo hi 1 ds x v r] that assms by (auto simp: eval_nat_numeral)
  show ?thesis
  proof (cases "read_field c (ds @ x) tp")
    case (Some a)
    obtain r tp' where a: "a = (r, tp')" by fastforce
    from Some assms(7) have "before_digit r" unfolding a read_field_def by (auto dest: 4 2)
    then show ?thesis using Some assms(4-6) by (cases r) (auto simp: a before_digit_def)
  qed simp
qed


lemma to_string_long:
  assumes "10000 \<le> n"
  shows "4 < length (to_string n)"
proof -
  have "\<not> n div 1000 < 10" "\<not> n div 100 < 10" "\<not> n div 10 < 10" "\<not> n < 10" using assms by simp_all
  moreover have "0 < length (to_string (n div 10000))" by simp
  ultimately show ?thesis
    by (simp add: to_string.simps [of n] to_string.simps [of "n div 10"] to_string.simps [of "n div 100"]
        to_string.simps [of "n div 1000"] div_mult2_eq [symmetric] del: to_string_ne length_greater_0_conv)
qed

text \<open>Such a text is read as a number of seconds.\<close>

lemma read_as_number:
  assumes "x = [] \<or> 4 < length (to_string n)" "CHR 0x00 \<notin> set x"
  shows "time_parse (to_string n @ x) =
    map_option (\<lambda>v. \<lparr>t_value = sint v, t_format = TIMESTAMP\<rparr>) (stoul (to_string n @ x))"
proof -
  have none: "fst (strptime (to_string n @ x) (CHR ''%'' # c # f # fmt) tp) = None"
    if "c \<in> {CHR ''Y'', CHR ''H''}" "f \<in> {CHR ''-'', CHR '':''}" for c f fmt tp
    by (rule separator_missing) (use that assms(1) isdigit_to_string in auto)
  have c: "c_str (to_string n @ x) = to_string n @ x"
    using assms(2) no_nul_digits by (intro c_str_whole) simp
  show ?thesis
    using none [of "CHR ''Y''" "CHR ''-''" "''%m-%d %H:%M:%S''"] none [of "CHR ''Y''" "CHR ''-''" "''%m-%d''"]
      none [of "CHR ''H''" "CHR '':''" "''%M:%S''"]
    by (auto simp: time_parse_def c simp del: strptime.simps split: prod.splits option.splits) (metis fst_conv option.distinct(1))+
qed

lemma digits_int_number: "digits_int (to_string n) = int n"
proof (induction n rule: to_string.induct)
  case (1 n)
  have "digits_int (to_string n) = 10 * digits_int (to_string (n div 10)) + int (n mod 10)" if "\<not> n < 10"
    using that by (subst to_string.simps) (simp add: digits_int_def)
  moreover have "10 * int (n div 10) + int (n mod 10) = int n"
    by (simp add: of_nat_div of_nat_mod)
  ultimately show ?case using 1 by (cases "n < 10") (simp_all add: to_string.simps [of n] digits_int_def)
qed

lemma takeWhile_digits: "x = [] \<or> \<not> isdigit (hd x) \<Longrightarrow> takeWhile isdigit (to_string n @ x) = to_string n"
  using isdigit_to_string [of n] by (cases x) (auto simp: list_all_iff takeWhile_append)

lemma stoul_number:
  assumes "x = [] \<or> \<not> isdigit (hd x)"
  shows "stoul (to_string n @ x) = (if n < 2 ^ 64 then Some (of_nat n) else None)"
proof -
  obtain c ds where ds: "to_string n = c # ds" by (cases "to_string n") auto
  have c: "isdigit c" using isdigit_to_string [of n] ds by simp
  then have "c \<noteq> CHR ''-''" "c \<noteq> CHR ''+''" "\<not> isspace c" by (auto simp: isdigit_def dest: space_code)
  then have "stoul (to_string n @ x) = digits_value (to_string n @ x)" by (simp add: stoul_def ds)
  also have "\<dots> = (if 2 ^ 64 \<le> int n then None else Some (of_int (int n)))"
    by (simp add: digits_value_def takeWhile_digits [OF assms] digits_int_number)
  also have "(2 ^ 64 \<le> int n) = (\<not> n < 2 ^ 64)" by (simp add: not_less)
  finally show ?thesis by simp
qed

lemma sint_seconds:
  assumes "n < 2 ^ 64"
  shows "sint (of_nat n :: 64 word) = (if n < 2 ^ 63 then int n else int n - 2 ^ 64)"
proof -
  have "sint (of_nat n :: 64 word) = signed_take_bit 63 (int n)"
    by (simp add: signed_of_nat)
  also have "\<dots> = take_bit 64 (int n + 2 ^ 63) - 2 ^ 63"
    by (simp add: signed_take_bit_eq_take_bit_shift)
  also have "\<dots> = (if n < 2 ^ 63 then int n else int n - 2 ^ 64)"
  proof (cases "n < 2 ^ 63")
    case False
    then have "(int n + 2 ^ 63 - 2 ^ 64) mod 2 ^ 64 = int n + 2 ^ 63 - 2 ^ 64"
      using assms by (intro mod_pos_pos_trivial) (simp_all add: not_less)
    then have "(int n + 2 ^ 63) mod 2 ^ 64 = int n + 2 ^ 63 - 2 ^ 64" by (simp only: minus_mod_self2)
    then show ?thesis using False by (simp add: take_bit_eq_mod)
  qed (use assms in \<open>simp add: take_bit_eq_mod\<close>)
  finally show ?thesis .
qed


section \<open>Times through text\<close>

lemma four_digit_yearI: "- 30610224000 \<le> t \<Longrightarrow> t < 253402300800 \<Longrightarrow> four_digit_year (broken_down t)"
  using four_digit_years [of t] by (simp add: four_digit_year_def)

text \<open>
  C20: A time of a year of four digits, printed and read back, keeps its second when it is printed
  with a date and a clock, and is then a \<open>DATETIME\<close> also when it was a \<open>TIMESTAMP\<close>; a \<open>DATE\<close> becomes
  its midnight and a \<open>TIME\<close> the same time on the first day of the epoch.
\<close>

theorem time_roundtrip:
  assumes "- 30610224000 \<le> t" "t < 253402300800"
  shows "Option.bind (time_to_string \<lparr>t_value = t, t_format = f\<rparr>) time_parse =
    Some (case f of
            DATE \<Rightarrow> \<lparr>t_value = t div 86400 * 86400, t_format = DATE\<rparr>
          | TIME \<Rightarrow> \<lparr>t_value = t mod 86400, t_format = TIME\<rparr>
          | TIMESTAMP \<Rightarrow> \<lparr>t_value = t, t_format = DATETIME\<rparr>
          | DATETIME \<Rightarrow> \<lparr>t_value = t, t_format = DATETIME\<rparr>)"
  using four_digit_yearI [OF assms]
  by (cases f) (simp_all add: time_texts parse_date parse_clock parse_datetime [simplified])

theorem time_roundtrip_witness:
  "Option.bind (time_to_string \<lparr>t_value = 1546423872, t_format = TIMESTAMP\<rparr>) time_parse =
     Some \<lparr>t_value = 1546423872, t_format = DATETIME\<rparr> \<and>
   Option.bind (time_to_string \<lparr>t_value = 1546423872, t_format = DATE\<rparr>) time_parse =
     Some \<lparr>t_value = 1546387200, t_format = DATE\<rparr>"
  using time_roundtrip [of 1546423872 TIMESTAMP] time_roundtrip [of 1546423872 DATE] by simp

text \<open>
  A printed date followed by a space, an hour of two digits and no colon is read as a date whose
  value is that hour of the day: the hour stored before the format with a clock failed is not reset
  for the next format. The result differs from the same date alone, though both print the same.
\<close>

theorem date_keeps_hour:
  assumes "- 30610224000 \<le> t" "t < 253402300800" "time_to_string \<lparr>t_value = t, t_format = DATE\<rparr> = Some d"
    and "h < 24" "take 1 junk \<noteq> '':''"
  shows "time_parse (d @ '' '' @ two_digits h @ junk) =
    Some \<lparr>t_value = t div 86400 * 86400 + 3600 * int h, t_format = DATE\<rparr>"
proof -
  note y = four_digit_yearI [OF assms(1,2)]
  then have d: "d = date_of t" using assms(3) by (simp add: time_texts)
  let ?h = "two_digits h" and ?tp = "on_date t zero_tm"
  define j where "j = c_str junk"
  have j: "j = [] \<or> (\<exists>c j'. j = c # j' \<and> c \<noteq> CHR '':'')" using assms(5)
    by (cases junk) (auto simp: j_def c_str_def)
  have c: "c_str (date_of t @ '' '' @ ?h @ junk) = date_of t @ '' '' @ ?h @ j"
    using no_nul_texts(1) [of t] no_nul_digits [of h]
    by (simp add: c_str_def j_def two_digits_def takeWhile_append)
  have "strptime (?h @ j) ''%H:%M:%S'' tp = (None, tp\<lparr>tm_hour := int h\<rparr>)" for tp
    using read_hour [of "int h" j tp] assms(4) j by auto
  then have 1: "strptime (date_of t @ '' '' @ ?h @ j) (''%Y-%m-%d'' @ '' %H:%M:%S'') zero_tm = (None, ?tp\<lparr>tm_hour := int h\<rparr>)"
    unfolding read_date [OF y] using two_digits_not_space [of h j] assms(4) by simp
  have 2: "strptime (date_of t @ '' '' @ ?h @ j) (''%Y-%m-%d'' @ []) (?tp\<lparr>tm_hour := int h\<rparr>) =
      (Some ('' '' @ ?h @ j), on_date t (?tp\<lparr>tm_hour := int h\<rparr>))"
    unfolding read_date [OF y] by simp
  have "timegm (on_date t (?tp\<lparr>tm_hour := int h\<rparr>)) = t div 86400 * 86400 + 3600 * int h"
    unfolding timegm_on_date by (simp add: on_date_def zero_tm_def)
  with 1 2 c show ?thesis by (simp add: time_parse_def d del: strptime.simps)
qed

theorem date_keeps_hour_witness:
  "time_parse ''2019-01-02 10h'' = Some \<lparr>t_value = 1546387200 + 36000, t_format = DATE\<rparr> \<and>
   \<not> time_eq \<lparr>t_value = 1546387200 + 36000, t_format = DATE\<rparr> \<lparr>t_value = 1546387200, t_format = DATE\<rparr>"
proof -
  have "time_to_string \<lparr>t_value = 1546387200, t_format = DATE\<rparr> = Some ''2019-01-02''" "two_digits 10 = ''10''"
    by code_simp+
  then show ?thesis using date_keeps_hour [of 1546387200 "''2019-01-02''" 10 "''h''"] by (simp add: time_eq_def)
qed

text \<open>
  A text of decimal digits is read as a number of seconds, of 64 bits: from half of its range on
  the value is negative, and beyond the range the text is refused.
\<close>

theorem timestamps_wrap:
  "time_parse (to_string n) =
    (if n < 2 ^ 63 then Some \<lparr>t_value = int n, t_format = TIMESTAMP\<rparr>
     else if n < 2 ^ 64 then Some \<lparr>t_value = int n - 2 ^ 64, t_format = TIMESTAMP\<rparr>
     else None)"
proof -
  have "time_parse (to_string n) = map_option (\<lambda>v. \<lparr>t_value = sint v, t_format = TIMESTAMP\<rparr>) (stoul (to_string n))"
    using read_as_number [of "[]" n] by simp
  also have "\<dots> = (if n < 2 ^ 64 then Some \<lparr>t_value = sint (of_nat n :: 64 word), t_format = TIMESTAMP\<rparr> else None)"
    using stoul_number [of "[]" n] by simp
  also have "\<dots> = (if n < 2 ^ 63 then Some \<lparr>t_value = int n, t_format = TIMESTAMP\<rparr>
     else if n < 2 ^ 64 then Some \<lparr>t_value = int n - 2 ^ 64, t_format = TIMESTAMP\<rparr> else None)"
  proof (cases "n < 2 ^ 64")
    case True
    then show ?thesis by (simp only: sint_seconds [OF True] if_True split: if_split) simp
  qed simp
  finally show ?thesis .
qed

text \<open>
  From the year 10000 on, a time printed with its date is read back as the number of seconds that
  its year is, since only four digits of a year are read as one.
\<close>

theorem far_years_become_seconds:
  assumes "253402300800 \<le> t" "time_to_string \<lparr>t_value = t, t_format = f\<rparr> = Some d" "f \<noteq> TIME"
  shows "time_parse d = Some \<lparr>t_value = 1900 + tm_year (broken_down t), t_format = TIMESTAMP\<rparr>"
proof -
  let ?y = "nat (1900 + tm_year (broken_down t))"
  have y: "10000 \<le> ?y" using assms(1) four_digit_years(2) [of t] by linarith
  have g: "gmtime t = Some (broken_down t)" "?y < 2 ^ 63"
    using assms(2) by (auto simp: time_to_string_def gmtime_def Let_def split: if_splits)
  obtain x where d: "d = to_string ?y @ CHR ''-'' # x" "CHR 0x00 \<notin> set d"
  proof -
    have "CHR 0x00 \<notin> set d" using assms(2) g(1) no_nul_field by (cases f) (auto simp: time_to_string_def)
    moreover have "\<exists>x. d = to_string ?y @ CHR ''-'' # x"
      using assms(2,3) g(1) y by (cases f) (auto simp: time_to_string_def print_field_def decimal_def)
    ultimately show thesis using that by blast
  qed
  have "4 < length (to_string ?y)"
    using y by (rule to_string_long)
  then have "time_parse d = map_option (\<lambda>v. \<lparr>t_value = sint v, t_format = TIMESTAMP\<rparr>) (stoul d)"
    using read_as_number [of "CHR ''-'' # x" ?y] d by simp
  also have "stoul d = Some (of_nat ?y)"
    using stoul_number [of "CHR ''-'' # x" ?y] d(1) g(2) by simp
  finally show ?thesis using sint_seconds [of ?y] g(2) y by simp
qed

theorem far_years_become_seconds_witness:
  "time_parse ''10000-01-01 00:00:00'' = Some \<lparr>t_value = 10000, t_format = TIMESTAMP\<rparr>"
proof -
  have b: "broken_down 253402300800 =
      \<lparr>tm_year = 8100, tm_mon = 0, tm_mday = 1, tm_hour = 0, tm_min = 0, tm_sec = 0\<rparr>"
    by code_simp
  have "char_of (49 :: nat) = CHR ''1''" by code_simp
  then have n: "to_string 10000 = ''10000''" "to_string 0 = ''0''" "to_string (Suc 0) = ''1''"
    by (simp_all add: to_string.simps char_zero)
  have "time_to_string \<lparr>t_value = 253402300800, t_format = DATETIME\<rparr> = Some ''10000-01-01 00:00:00''"
    by (simp add: time_to_string_def gmtime_def b print_field_def decimal_def two_digits_def n)
  from far_years_become_seconds [OF _ this] b show ?thesis by simp
qed

end
