(* ===== verification/ResultSet.thy ===== *)
theory ResultSet
  imports Prelude
begin

text \<open>
  \<^verbatim>\<open>resultset.h\<close>, \<^verbatim>\<open>resultset.cpp\<close>: a set of rows read through a driver's \<open>resultset_impl\<close>, the iterator over
  it and what loops over it see; with the implementations of PostgreSQL and SQLite. All iterators of a
  result set move the one cursor of the driver. \<open>None\<close> is an exception or a loop that never ends.
\<close>

section \<open>Result sets and iterators\<close>

text \<open>
  The virtual methods of a driver's result set, as functions of its state; and what a row object
  shows in a state, since the rows of a driver may be views of its cursor.
\<close>

record ('s, 'r, 'v) resultset_impl =
  im_next :: "'s \<Rightarrow> (bool \<times> 's) option"
  im_current_row :: "'s \<Rightarrow> 'r"
  im_reset :: "'s \<Rightarrow> 's option"
  im_read :: "'r \<Rightarrow> 's \<Rightarrow> 'v"

record 'r rs_iterator =
  it_pos :: int
  it_value :: "'r option"

definition it_new :: "('s, 'r, 'v) resultset_impl \<Rightarrow> int \<Rightarrow> 's \<Rightarrow> 'r rs_iterator" where
  "it_new impl position s =
     \<lparr>it_pos = position, it_value = (if position \<ge> 0 then Some (im_current_row impl s) else None)\<rparr>"

definition it_advance :: "('s, 'r, 'v) resultset_impl \<Rightarrow> 'r rs_iterator \<Rightarrow> 's \<Rightarrow> ('r rs_iterator \<times> 's) option" where
  "it_advance impl it s =
     (if it_pos it = - 1 then Some (it, s)
      else map_option (\<lambda>(res, s').
          (if res then \<lparr>it_pos = it_pos it + 1, it_value = Some (im_current_row impl s')\<rparr>
           else \<lparr>it_pos = - 1, it_value = None\<rparr>, s'))
        (im_next impl s))"

definition rs_end :: "('s, 'r, 'v) resultset_impl \<Rightarrow> 's \<Rightarrow> 'r rs_iterator" where
  "rs_end impl s = it_new impl (- 1) s"

definition rs_begin :: "('s, 'r, 'v) resultset_impl \<Rightarrow> 's \<Rightarrow> ('r rs_iterator \<times> 's) option" where
  "rs_begin impl s =
     Option.bind (im_reset impl s) (\<lambda>s1.
       map_option (\<lambda>(res, s2). (if res then it_new impl 0 s2 else rs_end impl s2, s2)) (im_next impl s1))"

text \<open>
  A loop from an iterator to the end, whose body may use the result set; \<open>a\<close> is what it changes besides.
\<close>

partial_function (option) rs_loop ::
  "('s, 'r, 'v) resultset_impl \<Rightarrow> ('r \<Rightarrow> 's \<Rightarrow> 'a \<Rightarrow> ('s \<times> 'a) option) \<Rightarrow> 'r rs_iterator \<Rightarrow> 's \<Rightarrow> 'a \<Rightarrow> ('s \<times> 'a) option" where
  "rs_loop impl body it s a =
     (if it_pos it = - 1 then Some (s, a)
      else case it_value it of
        None \<Rightarrow> None
      | Some r \<Rightarrow>
          Option.bind (body r s a) (\<lambda>(s', a').
            Option.bind (it_advance impl it s') (\<lambda>(it', s''). rs_loop impl body it' s'' a')))"

text \<open>\<open>each\<close>, and every range-based loop.\<close>

definition rs_each ::
  "('s, 'r, 'v) resultset_impl \<Rightarrow> ('r \<Rightarrow> 's \<Rightarrow> 'a \<Rightarrow> ('s \<times> 'a) option) \<Rightarrow> 's \<Rightarrow> 'a \<Rightarrow> ('s \<times> 'a) option" where
  "rs_each impl funk s a = Option.bind (rs_begin impl s) (\<lambda>(it, s'). rs_loop impl funk it s' a)"

text \<open>\<open>size\<close> is the distance from the first row to the end.\<close>

definition rs_size :: "('s, 'r, 'v) resultset_impl \<Rightarrow> 's \<Rightarrow> ('s \<times> nat) option" where
  "rs_size impl s = rs_each impl (\<lambda>r s n. Some (s, Suc n)) s 0"

definition rs_empty :: "('s, 'r, 'v) resultset_impl \<Rightarrow> 's \<Rightarrow> ('s \<times> bool) option" where
  "rs_empty impl s = map_option (\<lambda>(it, s'). (s', it_pos it = it_pos (rs_end impl s'))) (rs_begin impl s)"

text \<open>A loop whose body does not use the result set: it acts on the rows, and may raise.\<close>

definition outside ::
  "('s, 'r, 'v) resultset_impl \<Rightarrow> ('v \<Rightarrow> 'a \<Rightarrow> 'a option) \<Rightarrow> 'r \<Rightarrow> 's \<Rightarrow> 'a \<Rightarrow> ('s \<times> 'a) option" where
  "outside impl f r s a = map_option (Pair s) (f (im_read impl r s) a)"

fun visits :: "('v \<Rightarrow> 'a \<Rightarrow> 'a option) \<Rightarrow> 'v list \<Rightarrow> 'a \<Rightarrow> 'a option" where
  "visits f [] a = Some a"
| "visits f (v # vs) a = Option.bind (f v a) (visits f vs)"

text \<open>A loop that keeps the row objects.\<close>

definition keep :: "'r \<Rightarrow> 's \<Rightarrow> 'r list \<Rightarrow> ('s \<times> 'r list) option" where
  "keep r s rs = Some (s, rs @ [r])"

section \<open>Cursors\<close>

text \<open>
  What a loop relies on: the driver moves through the selected rows from the first to the last, and
  its reset goes back before the first.
\<close>

locale cursor =
  fixes impl :: "('s, 'r, 'v) resultset_impl"
    and selected :: "'s \<Rightarrow> 'v list"
    and ahead :: "'s \<Rightarrow> 'v list"
    and good :: "'s \<Rightarrow> bool"
  assumes next_row: "good s \<Longrightarrow> ahead s = v # vs \<Longrightarrow>
      \<exists>s'. im_next impl s = Some (True, s') \<and> good s' \<and> ahead s' = vs \<and>
        im_read impl (im_current_row impl s') s' = v \<and> selected s' = selected s"
    and next_end: "good s \<Longrightarrow> ahead s = [] \<Longrightarrow>
      \<exists>s'. im_next impl s = Some (False, s') \<and> good s' \<and> ahead s' = [] \<and> selected s' = selected s"
    and reset_first: "good s \<Longrightarrow> \<exists>s'. im_reset impl s = Some s' \<and> good s' \<and> ahead s' = selected s \<and> selected s' = selected s"
begin

text \<open>An iterator in step with the cursor.\<close>

definition at :: "'r rs_iterator \<Rightarrow> 's \<Rightarrow> bool" where
  "at it s = (if it_pos it = - 1 then it_value it = None \<and> ahead s = [] else 0 \<le> it_pos it \<and> it_value it \<noteq> None)"

definition from_here :: "'r rs_iterator \<Rightarrow> 's \<Rightarrow> 'v list" where
  "from_here it s = (case it_value it of None \<Rightarrow> [] | Some r \<Rightarrow> im_read impl r s # ahead s)"

lemma begin_ok:
  assumes "good s"
  shows "\<exists>it s'. rs_begin impl s = Some (it, s') \<and> good s' \<and> selected s' = selected s \<and> at it s' \<and>
    from_here it s' = selected s \<and> (it_pos it = (if selected s = [] then - 1 else 0)) \<and>
    ahead s' = tl (selected s)"
proof -
  obtain s1 where s1: "im_reset impl s = Some s1" "good s1" "ahead s1 = selected s" "selected s1 = selected s"
    using reset_first [OF assms] by auto
  show ?thesis
  proof (cases "selected s")
    case Nil
    obtain s2 where "im_next impl s1 = Some (False, s2)" "good s2" "ahead s2 = []" "selected s2 = selected s1"
      using next_end [OF s1(2)] s1(3) Nil by auto
    then show ?thesis using s1 Nil by (simp add: rs_begin_def it_new_def rs_end_def at_def from_here_def)
  next
    case (Cons r rs)
    obtain s2 where "im_next impl s1 = Some (True, s2)" "good s2" "ahead s2 = rs"
      "im_read impl (im_current_row impl s2) s2 = r" "selected s2 = selected s1"
      using next_row [OF s1(2)] s1(3) Cons by metis
    then show ?thesis using s1 Cons by (simp add: rs_begin_def it_new_def at_def from_here_def)
  qed
qed

lemma advance_ok:
  assumes "good s" "0 \<le> it_pos it"
  shows "\<exists>it' s'. it_advance impl it s = Some (it', s') \<and> good s' \<and> selected s' = selected s \<and> at it' s' \<and>
    from_here it' s' = ahead s \<and> ahead s' = tl (ahead s)"
proof (cases "ahead s")
  case Nil
  obtain s2 where "im_next impl s = Some (False, s2)" "good s2" "ahead s2 = []" "selected s2 = selected s"
    using next_end [OF assms(1) Nil] by auto
  then show ?thesis using Nil assms(2)
    by (intro exI [of _ "\<lparr>it_pos = - 1, it_value = None\<rparr>"] exI [of _ s2]) (simp add: it_advance_def at_def from_here_def)
next
  case (Cons r rs)
  obtain s2 where "im_next impl s = Some (True, s2)" "good s2" "ahead s2 = rs"
    "im_read impl (im_current_row impl s2) s2 = r" "selected s2 = selected s"
    using next_row [OF assms(1) Cons] by metis
  then show ?thesis using Cons assms(2)
    by (intro exI [of _ "\<lparr>it_pos = it_pos it + 1, it_value = Some (im_current_row impl s2)\<rparr>"] exI [of _ s2])
      (simp add: it_advance_def at_def from_here_def)
qed

lemma loop_end: "it_pos it = - 1 \<Longrightarrow> rs_loop impl body it s a = Some (s, a)"
  by (simp add: rs_loop.simps)

lemma outside_step:
  assumes "good s" "at it s" "from_here it s = v # rs"
  obtains it' s' where "good s'" "selected s' = selected s" "at it' s'" "from_here it' s' = rs"
    "\<And>a. rs_loop impl (outside impl f) it s a = Option.bind (f v a) (rs_loop impl (outside impl f) it' s')"
proof -
  have p: "it_pos it \<noteq> - 1" using assms(2,3) by (auto simp: at_def from_here_def)
  then obtain r where v: "it_value it = Some r" "im_read impl r s = v" "rs = ahead s" "0 \<le> it_pos it"
    using assms(2,3) by (auto simp: at_def from_here_def split: option.splits)
  obtain it' s' where n: "it_advance impl it s = Some (it', s')" "good s'" "selected s' = selected s" "at it' s'" "from_here it' s' = rs"
    using advance_ok [OF assms(1) v(4)] v(3) by auto
  have "rs_loop impl (outside impl f) it s a = Option.bind (f v a) (rs_loop impl (outside impl f) it' s')" for a
    by (subst rs_loop.simps) (cases "f v a"; simp add: p v(1,2) outside_def n(1))
  with n show thesis by (intro that [of s' it']) auto
qed

lemma loop_visits:
  assumes "good s" "at it s"
  shows "case visits f (from_here it s) a of
      None \<Rightarrow> rs_loop impl (outside impl f) it s a = None
    | Some a' \<Rightarrow> \<exists>s'. rs_loop impl (outside impl f) it s a = Some (s', a') \<and> good s' \<and> ahead s' = [] \<and> selected s' = selected s"
  using assms
proof (induction "from_here it s" arbitrary: it s a)
  case Nil
  then have "it_pos it = - 1" "ahead s = []" "visits f (from_here it s) a = Some a"
    by (auto simp: from_here_def at_def split: option.splits if_splits)
  then show ?case using Nil by (auto simp: loop_end)
next
  case (Cons r rs)
  obtain it' s' where n: "good s'" "selected s' = selected s" "at it' s'" "from_here it' s' = rs"
    "\<And>a. rs_loop impl (outside impl f) it s a = Option.bind (f r a) (rs_loop impl (outside impl f) it' s')"
    using outside_step [OF Cons.prems Cons.hyps(2) [symmetric], of f] by metis
  have v: "visits f (from_here it s) a = Option.bind (f r a) (visits f rs)"
    by (simp flip: Cons.hyps(2))
  show ?case
  proof (cases "f r a")
    case (Some a')
    then show ?thesis using Cons.hyps(1) [OF n(4) [symmetric] n(1,3), of a'] by (simp add: v n split: option.splits)
  qed (simp add: v n)
qed

text \<open>A loop visits all rows from the first, whatever was read before, and leaves the cursor at the end.\<close>

lemma each_visits:
  assumes "good s"
  shows "case visits f (selected s) a of
      None \<Rightarrow> rs_each impl (outside impl f) s a = None
    | Some a' \<Rightarrow> \<exists>s'. rs_each impl (outside impl f) s a = Some (s', a') \<and> good s' \<and> ahead s' = [] \<and> selected s' = selected s"
proof -
  obtain it s1 where b: "rs_begin impl s = Some (it, s1)" "good s1" "selected s1 = selected s" "at it s1" "from_here it s1 = selected s"
    using begin_ok [OF assms] by auto
  from loop_visits [OF b(2,4), of f a] show ?thesis using b by (simp add: rs_each_def split: option.splits)
qed

lemma size_counts:
  assumes "good s"
  shows "\<exists>s'. rs_size impl s = Some (s', length (selected s)) \<and> good s' \<and> ahead s' = [] \<and> selected s' = selected s"
proof -
  have v: "visits (\<lambda>r n. Some (Suc n)) rs n = Some (length rs + n)" for rs :: "'v list" and n
    by (induction rs arbitrary: n) auto
  have "(\<lambda>(r :: 'r) (s :: 's) n. Some (s, Suc n)) = outside impl (\<lambda>v n. Some (Suc n))" by (simp add: outside_def fun_eq_iff)
  then show ?thesis using each_visits [OF assms, of "\<lambda>r n. Some (Suc n)" 0] by (simp add: rs_size_def v)
qed

lemma empty_asks:
  assumes "good s"
  shows "\<exists>s'. rs_empty impl s = Some (s', selected s = []) \<and> good s' \<and> ahead s' = tl (selected s) \<and> selected s' = selected s"
  using begin_ok [OF assms] by (auto simp: rs_empty_def rs_end_def it_new_def)

text \<open>The rows kept by a loop, when rows do not change.\<close>

lemma keep_step:
  assumes "good s" "at it s" "from_here it s = v # vs"
  obtains r it' s' where "im_read impl r s = v" "good s'" "selected s' = selected s" "at it' s'" "from_here it' s' = vs"
    "\<And>rs. rs_loop impl keep it s rs = rs_loop impl keep it' s' (rs @ [r])"
proof -
  have p: "it_pos it \<noteq> - 1" using assms(2,3) by (auto simp: at_def from_here_def)
  then obtain r where v: "it_value it = Some r" "im_read impl r s = v" "vs = ahead s" "0 \<le> it_pos it"
    using assms(2,3) by (auto simp: at_def from_here_def split: option.splits)
  obtain it' s' where n: "it_advance impl it s = Some (it', s')" "good s'" "selected s' = selected s" "at it' s'" "from_here it' s' = vs"
    using advance_ok [OF assms(1) v(4)] v(3) by auto
  have "rs_loop impl keep it s rs = rs_loop impl keep it' s' (rs @ [r])" for rs
    by (subst rs_loop.simps) (simp add: p v(1,2) keep_def n(1))
  with n v(2) show thesis by (intro that [of r s' it']) auto
qed

lemma loop_keeps:
  assumes "good s" "at it s"
  shows "\<exists>s' rs. rs_loop impl keep it s acc = Some (s', acc @ rs) \<and> good s' \<and> length rs = length (from_here it s) \<and>
    ((\<forall>r s s'. im_read impl r s = im_read impl r s') \<longrightarrow> map (\<lambda>r. im_read impl r s') rs = from_here it s)"
  using assms
proof (induction "from_here it s" arbitrary: it s acc)
  case Nil
  then have "it_pos it = - 1" by (auto simp: from_here_def at_def split: option.splits if_splits)
  then show ?case using Nil by (auto simp: loop_end)
next
  case (Cons v vs)
  obtain r it' s' where n: "im_read impl r s = v" "good s'" "at it' s'" "from_here it' s' = vs"
    "\<And>rs. rs_loop impl keep it s rs = rs_loop impl keep it' s' (rs @ [r])"
    using keep_step [OF Cons.prems Cons.hyps(2) [symmetric]] by metis
  from Cons.hyps(1) [OF n(4) [symmetric] n(2,3), of "acc @ [r]"] obtain s2 rs where
    2: "rs_loop impl keep it' s' (acc @ [r]) = Some (s2, (acc @ [r]) @ rs)" "good s2" "length rs = length vs"
    "(\<forall>r s s'. im_read impl r s = im_read impl r s') \<longrightarrow> map (\<lambda>r. im_read impl r s2) rs = vs"
    unfolding n(4) by blast
  have "(\<forall>r s s'. im_read impl r s = im_read impl r s') \<longrightarrow> map (\<lambda>r. im_read impl r s2) (r # rs) = from_here it s"
    using 2(4) n(1) by (auto simp flip: Cons.hyps(2))
  moreover have "rs_loop impl keep it s acc = Some (s2, acc @ (r # rs))" "length (r # rs) = length (from_here it s)"
    using 2(1,3) n(5) by (simp_all flip: Cons.hyps(2))
  ultimately show ?case using 2(2) by blast
qed

lemma each_keeps:
  assumes "good s"
  shows "\<exists>s' rs. rs_each impl keep s [] = Some (s', rs) \<and> good s' \<and> length rs = length (selected s) \<and>
    ((\<forall>r s s'. im_read impl r s = im_read impl r s') \<longrightarrow> map (\<lambda>r. im_read impl r s') rs = selected s)"
proof -
  obtain it s1 where b: "rs_begin impl s = Some (it, s1)" "good s1" "at it s1" "from_here it s1 = selected s"
    using begin_ok [OF assms] by auto
  from loop_keeps [OF b(2,3), of "[]"] show ?thesis using b by (simp add: rs_each_def)
qed

text \<open>A body that leaves the cursor at the end is run for one row only.\<close>

lemma each_ends_after_first:
  assumes "good s" "selected s = v # vs"
    and "\<And>r s. good s \<Longrightarrow> selected s = v # vs \<Longrightarrow> im_read impl r s = v \<Longrightarrow> \<exists>s'. body r s a = Some (s', a') \<and> good s' \<and> ahead s' = []"
  shows "\<exists>s'. rs_each impl body s a = Some (s', a')"
proof -
  obtain it s1 where b: "rs_begin impl s = Some (it, s1)" "good s1" "selected s1 = selected s" "at it s1" "from_here it s1 = selected s"
    "it_pos it = 0"
    using begin_ok [OF assms(1)] assms(2) by auto
  obtain r where r: "it_value it = Some r" "im_read impl r s1 = v"
    using b(5) assms(2) by (auto simp: from_here_def split: option.splits)
  then obtain s2 where s2: "body r s1 a = Some (s2, a')" "good s2" "ahead s2 = []"
    using assms(3) [OF b(2)] b(3) assms(2) by auto
  obtain it3 s3 where s3: "it_advance impl it s2 = Some (it3, s3)" "at it3 s3" "from_here it3 s3 = []"
    using advance_ok [OF s2(2), of it] b(6) s2(3) by auto
  then have e: "it_pos it3 = - 1" by (auto simp: at_def from_here_def split: if_splits option.splits)
  have "rs_loop impl body it s1 a = Some (s3, a')"
    by (subst rs_loop.simps) (simp add: b(6) r(1) s2(1) s3(1) loop_end [OF e])
  then show ?thesis using b(1) by (simp add: rs_each_def)
qed

text \<open>A body that leaves the cursor after the first row makes a loop over two or more rows run for ever.\<close>

lemma loop_restarted:
  assumes rewinds: "\<And>r s a s' a'. good s \<Longrightarrow> body r s a = Some (s', a') \<Longrightarrow>
      good s' \<and> ahead s' = tl (selected s) \<and> selected s' = selected s"
  shows "rs_loop impl body it s a = Some y \<Longrightarrow> good s \<Longrightarrow> at it s \<Longrightarrow> it_pos it \<noteq> - 1 \<Longrightarrow> length (selected s) < 2"
proof -
  let ?P = "\<lambda>impl' body' it s (a :: 'a) (y :: 's \<times> 'a).
      impl' = impl \<longrightarrow> body' = body \<longrightarrow> good s \<longrightarrow> at it s \<longrightarrow> it_pos it \<noteq> - 1 \<longrightarrow> length (selected s) < 2"
  assume run: "rs_loop impl body it s a = Some y"
  have "?P impl body it s a y"
  proof (rule rs_loop.raw_induct [where P = ?P, OF _ run])
    fix loop :: "('s, 'r, 'v) resultset_impl \<Rightarrow> ('r \<Rightarrow> 's \<Rightarrow> 'a \<Rightarrow> ('s \<times> 'a) option) \<Rightarrow> 'r rs_iterator \<Rightarrow> 's \<Rightarrow> 'a \<Rightarrow> ('s \<times> 'a) option"
    fix impl' body' it s a y
    assume ih: "\<And>impl' body' it s a y. loop impl' body' it s a = Some y \<Longrightarrow> ?P impl' body' it s a y"
      and step: "(if it_pos it = - 1 then Some (s, a)
          else case it_value it of None \<Rightarrow> None
            | Some r \<Rightarrow> body' r s a \<bind> (\<lambda>(s', a'). it_advance impl' it s' \<bind> (\<lambda>(it', s''). loop impl' body' it' s'' a'))) = Some y"
    show "?P impl' body' it s a y"
    proof (intro impI)
      assume e: "impl' = impl" "body' = body" "good s" "at it s" "it_pos it \<noteq> - 1"
      then obtain r s1 a1 where b: "body r s a = Some (s1, a1)"
        "it_advance impl it s1 \<bind> (\<lambda>(it', s''). loop impl body it' s'' a1) = Some y"
        using step by (auto split: option.splits bind_splits)
      have 1: "good s1" "ahead s1 = tl (selected s)" "selected s1 = selected s" using rewinds [OF e(3) b(1)] by auto
      obtain it2 s2 where 2: "it_advance impl it s1 = Some (it2, s2)" "good s2" "selected s2 = selected s" "at it2 s2" "from_here it2 s2 = tl (selected s)"
        using advance_ok [OF 1(1), of it] 1(2,3) e(4,5) by (auto simp: at_def)
      then have "loop impl body it2 s2 a1 = Some y" using b(2) by simp
      from ih [OF this] have "it_pos it2 \<noteq> - 1 \<Longrightarrow> length (selected s) < 2" using 2 by auto
      moreover have "tl (selected s) = []" if "it_pos it2 = - 1"
        using 2(4,5) that by (auto simp: at_def from_here_def)
      ultimately show "length (selected s) < 2" by (cases "selected s") auto
    qed
  qed
  then show "good s \<Longrightarrow> at it s \<Longrightarrow> it_pos it \<noteq> - 1 \<Longrightarrow> length (selected s) < 2" by blast
qed

lemma each_restarted:
  assumes rewinds: "\<And>r s a s' a'. good s \<Longrightarrow> body r s a = Some (s', a') \<Longrightarrow>
      good s' \<and> ahead s' = tl (selected s) \<and> selected s' = selected s"
    and "good s" "2 \<le> length (selected s)"
  shows "rs_each impl body s a = None"
proof -
  have ne: "selected s \<noteq> []" using assms(3) by auto
  obtain it s1 where b: "rs_begin impl s = Some (it, s1)" "good s1" "selected s1 = selected s" "at it s1" "it_pos it = 0"
    using begin_ok [OF assms(2)] ne by auto
  then have "rs_loop impl body it s1 a \<noteq> Some y" for y
    using loop_restarted [of body it s1 a y] rewinds assms(3) by auto
  then have "rs_loop impl body it s1 a = None" by (cases "rs_loop impl body it s1 a") auto
  then show ?thesis using b(1) by (simp add: rs_each_def)
qed

end

end
