(* ===== verification/ResultDrivers.thy ===== *)
theory ResultDrivers
  imports ResultSet
begin

text \<open>
  The result sets of PostgreSQL and SQLite (\<^verbatim>\<open>resultset.cpp\<close> and \<^verbatim>\<open>row.cpp\<close> of the drivers), and what
  loops over them do: visit every row, stop early when their body counts the rows, run for ever when
  it asks whether there are any, and which rows may be kept.
\<close>

section \<open>PostgreSQL\<close>

text \<open>A \<open>PGresult\<close> holds all rows in memory; a row object is the result with a number.\<close>

type_synonym 'v columns = "(string \<times> 'v) list"

record 'v pg_resultset =
  pg_stmt :: "'v columns list"
  pg_currentRow :: int

record 'v pg_row =
  pr_stmt :: "'v columns list"
  pr_row :: int

definition pg_next :: "'v pg_resultset \<Rightarrow> bool \<times> 'v pg_resultset" where
  "pg_next s =
     (let i = pg_currentRow s + 1 in (i < int (length (pg_stmt s)), s\<lparr>pg_currentRow := i\<rparr>))"

definition pg_reset :: "'v pg_resultset \<Rightarrow> 'v pg_resultset option" where
  "pg_reset s = Some (s\<lparr>pg_currentRow := - 1\<rparr>)"

definition pg_current_row :: "'v pg_resultset \<Rightarrow> 'v pg_row" where
  "pg_current_row s = \<lparr>pr_stmt = pg_stmt s, pr_row = pg_currentRow s\<rparr>"

text \<open>The columns of a row; a number out of range has none.\<close>

definition pg_columns :: "'v pg_row \<Rightarrow> 'v columns" where
  "pg_columns r =
     (if 0 \<le> pr_row r \<and> pr_row r < int (length (pr_stmt r)) then pr_stmt r ! nat (pr_row r) else [])"

definition pg_impl :: "('v pg_resultset, 'v pg_row, 'v columns) resultset_impl" where
  "pg_impl = \<lparr>im_next = (\<lambda>s. Some (pg_next s)), im_current_row = pg_current_row, im_reset = pg_reset, im_read = (\<lambda>r s. pg_columns r)\<rparr>"

definition pg_new :: "'v columns list \<Rightarrow> 'v pg_resultset" where
  "pg_new tuples = \<lparr>pg_stmt = tuples, pg_currentRow = - 1\<rparr>"

definition pg_ahead :: "'v pg_resultset \<Rightarrow> 'v columns list" where
  "pg_ahead s = drop (nat (pg_currentRow s + 1)) (pg_stmt s)"

definition pg_good :: "'v pg_resultset \<Rightarrow> bool" where
  "pg_good s = (- 1 \<le> pg_currentRow s)"

lemma drop_Cons: "drop n xs = y # ys \<Longrightarrow> n < length xs \<and> xs ! n = y \<and> drop (Suc n) xs = ys"
  by (metis Cons_nth_drop_Suc drop_eq_Nil leI list.distinct(1) list.inject)

interpretation pg: cursor pg_impl pg_stmt pg_ahead pg_good
proof
  fix s :: "'v pg_resultset" and v vs
  assume g: "pg_good s" and a: "pg_ahead s = v # vs"
  define n where "n = nat (pg_currentRow s + 1)"
  have n: "pg_currentRow s + 1 = int n" using g by (simp add: n_def pg_good_def)
  have "n < length (pg_stmt s)" "pg_stmt s ! n = v" "drop (Suc n) (pg_stmt s) = vs"
    using drop_Cons [of n "pg_stmt s" v vs] a by (simp_all add: pg_ahead_def n_def)
  then show "\<exists>s'. im_next pg_impl s = Some (True, s') \<and> pg_good s' \<and> pg_ahead s' = vs \<and>
      im_read pg_impl (im_current_row pg_impl s') s' = v \<and> pg_stmt s' = pg_stmt s"
    by (simp add: pg_impl_def pg_next_def Let_def pg_good_def pg_ahead_def pg_columns_def pg_current_row_def n
        nat_add_distrib)
next
  fix s :: "'v pg_resultset"
  assume g: "pg_good s" and a: "pg_ahead s = []"
  then show "\<exists>s'. im_next pg_impl s = Some (False, s') \<and> pg_good s' \<and> pg_ahead s' = [] \<and> pg_stmt s' = pg_stmt s"
    by (auto simp: pg_impl_def pg_next_def Let_def pg_good_def pg_ahead_def)
next
  fix s :: "'v pg_resultset"
  assume "pg_good s"
  show "\<exists>s'. im_reset pg_impl s = Some s' \<and> pg_good s' \<and> pg_ahead s' = pg_stmt s \<and> pg_stmt s' = pg_stmt s"
    by (simp add: pg_impl_def pg_reset_def pg_good_def pg_ahead_def)
qed

section \<open>SQLite\<close>

text \<open>
  The functions of the client library that the driver calls are parameters: stepping a statement,
  resetting it, and the columns of its current row.
\<close>

record ('st, 'v) sqlite_api =
  sq_step :: "'st \<Rightarrow> int \<times> 'st"
  sq_reset :: "'st \<Rightarrow> int \<times> 'st"
  sq_columns :: "'st \<Rightarrow> 'v columns"

abbreviation SQLITE_OK :: int where "SQLITE_OK \<equiv> 0"
abbreviation SQLITE_ROW :: int where "SQLITE_ROW \<equiv> 100"
abbreviation SQLITE_DONE :: int where "SQLITE_DONE \<equiv> 101"

record 'st sqlite_resultset =
  sq_stmt :: 'st
  sq_status :: int

definition sqlite_next :: "('st, 'v) sqlite_api \<Rightarrow> 'st sqlite_resultset \<Rightarrow> bool \<times> 'st sqlite_resultset" where
  "sqlite_next api s =
     (if sq_status s = SQLITE_DONE then (False, s)
      else let (status, st) = sq_step api (sq_stmt s)
           in (status = SQLITE_ROW, s\<lparr>sq_stmt := st, sq_status := status\<rparr>))"

definition sqlite_reset :: "('st, 'v) sqlite_api \<Rightarrow> 'st sqlite_resultset \<Rightarrow> 'st sqlite_resultset option" where
  "sqlite_reset api s =
     (let (code, st) = sq_reset api (sq_stmt s)
      in if code \<noteq> SQLITE_OK then None else Some (s\<lparr>sq_stmt := st, sq_status := - 1\<rparr>))"

text \<open>A row object only holds the statement: it shows whatever row the statement is at.\<close>

datatype sqlite_row = RowOfStatement

definition sqlite_impl :: "('st, 'v) sqlite_api \<Rightarrow> ('st sqlite_resultset, sqlite_row, 'v columns) resultset_impl" where
  "sqlite_impl api =
     \<lparr>im_next = (\<lambda>s. Some (sqlite_next api s)), im_current_row = (\<lambda>s. RowOfStatement), im_reset = sqlite_reset api,
      im_read = (\<lambda>r s. sq_columns api (sq_stmt s))\<rparr>"

text \<open>
  The documented behaviour of the client library: a statement has a list of rows, \<open>todo\<close> are those it
  has not returned since it was reset; a step returns the next one or reports the end, after which
  nothing is said of another step until a reset.
\<close>

definition sqlite_contract :: "('st, 'v) sqlite_api \<Rightarrow> ('st \<Rightarrow> 'v columns list) \<Rightarrow> ('st \<Rightarrow> 'v columns list) \<Rightarrow> bool" where
  "sqlite_contract api all todo =
     (\<forall>st. (case todo st of
         [] \<Rightarrow> \<exists>st'. sq_step api st = (SQLITE_DONE, st') \<and> all st' = all st
       | v # vs \<Rightarrow> \<exists>st'. sq_step api st = (SQLITE_ROW, st') \<and> all st' = all st \<and> todo st' = vs \<and> sq_columns api st' = v) \<and>
       (\<exists>st'. sq_reset api st = (SQLITE_OK, st') \<and> all st' = all st \<and> todo st' = all st))"

definition sqlite_ahead :: "('st \<Rightarrow> 'v columns list) \<Rightarrow> 'st sqlite_resultset \<Rightarrow> 'v columns list" where
  "sqlite_ahead todo s = (if sq_status s = SQLITE_DONE then [] else todo (sq_stmt s))"

lemma sqlite_contractD:
  assumes "sqlite_contract api all todo"
  shows "todo st = v # vs \<Longrightarrow>
      \<exists>st'. sq_step api st = (SQLITE_ROW, st') \<and> all st' = all st \<and> todo st' = vs \<and> sq_columns api st' = v"
    and "todo st = [] \<Longrightarrow> \<exists>st'. sq_step api st = (SQLITE_DONE, st') \<and> all st' = all st"
    and "\<exists>st'. sq_reset api st = (SQLITE_OK, st') \<and> all st' = all st \<and> todo st' = all st"
  using spec [OF assms [unfolded sqlite_contract_def], of st] by simp_all

lemma sqlite_cursor:
  fixes api :: "('st, 'v) sqlite_api"
  assumes "sqlite_contract api all todo"
  shows "cursor (sqlite_impl api) (\<lambda>s. all (sq_stmt s)) (sqlite_ahead todo) (\<lambda>s. True)"
proof
  fix s :: "'st sqlite_resultset" and v vs
  assume "sqlite_ahead todo s = v # vs"
  then have "sq_status s \<noteq> SQLITE_DONE" "todo (sq_stmt s) = v # vs" by (auto simp: sqlite_ahead_def split: if_splits)
  moreover from this(2) obtain st' where "sq_step api (sq_stmt s) = (SQLITE_ROW, st')" "all st' = all (sq_stmt s)"
    "todo st' = vs" "sq_columns api st' = v"
    using sqlite_contractD(1) [OF assms] by blast
  ultimately show "\<exists>s'. im_next (sqlite_impl api) s = Some (True, s') \<and> True \<and> sqlite_ahead todo s' = vs \<and>
      im_read (sqlite_impl api) (im_current_row (sqlite_impl api) s') s' = v \<and> all (sq_stmt s') = all (sq_stmt s)"
    by (simp add: sqlite_impl_def sqlite_next_def sqlite_ahead_def)
next
  fix s :: "'st sqlite_resultset"
  assume a: "sqlite_ahead todo s = []"
  show "\<exists>s'. im_next (sqlite_impl api) s = Some (False, s') \<and> True \<and> sqlite_ahead todo s' = [] \<and>
      all (sq_stmt s') = all (sq_stmt s)"
  proof (cases "sq_status s = SQLITE_DONE")
    case False
    then obtain st' where "sq_step api (sq_stmt s) = (SQLITE_DONE, st')" "all st' = all (sq_stmt s)"
      using a sqlite_contractD(2) [OF assms, of "sq_stmt s"] by (auto simp: sqlite_ahead_def)
    with False show ?thesis by (simp add: sqlite_impl_def sqlite_next_def sqlite_ahead_def)
  qed (simp add: sqlite_impl_def sqlite_next_def sqlite_ahead_def)
next
  fix s :: "'st sqlite_resultset"
  obtain st' where "sq_reset api (sq_stmt s) = (SQLITE_OK, st')" "all st' = all (sq_stmt s)" "todo st' = all (sq_stmt s)"
    using sqlite_contractD(3) [OF assms] by blast
  then show "\<exists>s'. im_reset (sqlite_impl api) s = Some s' \<and> True \<and> sqlite_ahead todo s' = all (sq_stmt s) \<and>
      all (sq_stmt s') = all (sq_stmt s)"
    by (simp add: sqlite_impl_def sqlite_reset_def sqlite_ahead_def)
qed


section \<open>Loops over the rows\<close>

text \<open>
  C21: A loop whose body does not use the result set runs it once for every row, in order and from the
  first whatever was read before, unless the body raises; it then ends, and there is no next row.
  This holds for PostgreSQL, and for SQLite as its client library is documented, where stepping a
  statement that reported its end must be avoided.
\<close>

theorem loops_visit_every_row:
  fixes p :: "'w pg_resultset" and s :: "'st sqlite_resultset"
  assumes "sqlite_contract api all todo" "- 1 \<le> pg_currentRow p"
  shows "(case visits f (pg_stmt p) a of
            None \<Rightarrow> rs_each pg_impl (outside pg_impl f) p a = None
          | Some a' \<Rightarrow> \<exists>p'. rs_each pg_impl (outside pg_impl f) p a = Some (p', a') \<and> \<not> fst (pg_next p')) \<and>
    (case visits g (all (sq_stmt s)) b of
       None \<Rightarrow> rs_each (sqlite_impl api) (outside (sqlite_impl api) g) s b = None
     | Some b' \<Rightarrow> \<exists>s'. rs_each (sqlite_impl api) (outside (sqlite_impl api) g) s b = Some (s', b') \<and>
         \<not> fst (sqlite_next api s'))"
proof -
  note sqlite = sqlite_cursor [OF assms(1)]
  have p: "pg_good p" using assms(2) by (simp add: pg_good_def)
  have "\<not> fst (pg_next p')" if "pg_good p'" "pg_ahead p' = []" for p' :: "'w pg_resultset"
    using pg.next_end [OF that] by (auto simp: pg_impl_def)
  moreover have "\<not> fst (sqlite_next api s')" if "sqlite_ahead todo s' = []" for s'
    using cursor.next_end [OF sqlite _ that] by (auto simp: sqlite_impl_def)
  ultimately show ?thesis
    using pg.each_visits [OF p, of f a] cursor.each_visits [OF sqlite TrueI, of g s b] by (auto split: option.splits)
qed

text \<open>A concrete statement: its rows and the number of those returned.\<close>

definition listed :: "(('v columns list \<times> nat), 'v) sqlite_api" where
  "listed =
     \<lparr>sq_step = (\<lambda>(vs, n). if n < length vs then (SQLITE_ROW, (vs, Suc n)) else (SQLITE_DONE, (vs, n))),
      sq_reset = (\<lambda>(vs, n). (SQLITE_OK, (vs, 0))),
      sq_columns = (\<lambda>(vs, n). vs ! (n - 1))\<rparr>"

lemma listed_contract: "sqlite_contract listed fst (\<lambda>(vs, n). drop n vs)"
proof -
  have "drop n vs = v # us \<Longrightarrow> n < length vs \<and> vs ! n = v \<and> drop (Suc n) vs = us" for n and vs :: "'a columns list" and v us
    by (rule drop_Cons)
  then show ?thesis by (auto simp: sqlite_contract_def listed_def split: list.splits)
qed

theorem loops_visit_every_row_witness:
  "\<exists>p' s'. rs_each pg_impl (outside pg_impl (\<lambda>v n. Some (n + length v))) (pg_new [[(''id'', 7 :: int)], [(''id'', 8)]]) 0 = Some (p', 2) \<and>
     rs_each (sqlite_impl listed) (outside (sqlite_impl listed) (\<lambda>v n. Some (n + length v)))
       \<lparr>sq_stmt = ([[(''id'', 7)], [(''id'', 8)], [(''id'', (9 :: int))]], 2), sq_status = SQLITE_DONE\<rparr> 0 = Some (s', 3) \<and>
     \<not> fst (sqlite_next listed s')"
  using loops_visit_every_row [OF listed_contract, of "pg_new [[(''id'', 7 :: int)], [(''id'', 8)]]" "\<lambda>v n. Some (n + length v)" 0
      "\<lambda>v n. Some (n + length v)" "\<lparr>sq_stmt = ([[(''id'', 7)], [(''id'', 8)], [(''id'', (9 :: int))]], 2), sq_status = SQLITE_DONE\<rparr>" 0]
  by (auto simp: pg_new_def numeral_eq_Suc)

text \<open>
  A loop over the rows of a result of PostgreSQL whose body asks for the number of rows sees only
  the first row: counting moves the cursor of the loop to the end. One whose body asks whether the
  result is empty never ends when there are two rows: the question moves the cursor back each time.
\<close>

theorem questions_move_the_loop:
  assumes "pg_stmt s = v # vs" "- 1 \<le> pg_currentRow s"
  shows "(\<exists>s'. rs_each pg_impl (\<lambda>r s seen. map_option (\<lambda>(s', n). (s', seen @ [(pg_columns r, n)])) (rs_size pg_impl s)) s [] =
      Some (s', [(v, length (v # vs))])) \<and>
    (rs_each pg_impl (\<lambda>r s seen. map_option (\<lambda>(s', e). (s', seen @ [(pg_columns r, e)])) (rs_empty pg_impl s)) s [] = None) =
      (vs \<noteq> [])"
proof
  have good: "pg_good s" using assms(2) by (simp add: pg_good_def)
  have read: "im_read pg_impl r s = pg_columns r" for r :: "'a pg_row" and s by (simp add: pg_impl_def)
  let ?size = "\<lambda>r s seen. map_option (\<lambda>(s', n). (s', seen @ [(pg_columns r, n)])) (rs_size pg_impl s)"
  let ?empty = "\<lambda>r s seen. map_option (\<lambda>(s', e). (s', seen @ [(pg_columns r, e)])) (rs_empty pg_impl s)"
  show "\<exists>s'. rs_each pg_impl ?size s [] = Some (s', [(v, length (v # vs))])"
  proof (rule pg.each_ends_after_first [OF good assms(1)])
    fix r :: "'a pg_row" and s :: "'a pg_resultset"
    assume "pg_good s" "pg_stmt s = v # vs" "im_read pg_impl r s = v"
    then show "\<exists>s'. ?size r s [] = Some (s', [(v, length (v # vs))]) \<and> pg_good s' \<and> pg_ahead s' = []"
      using pg.size_counts [of s] by (auto simp: read)
  qed
  show "(rs_each pg_impl ?empty s [] = None) = (vs \<noteq> [])"
  proof (cases vs)
    case Nil
    have "\<exists>s'. rs_each pg_impl ?empty s [] = Some (s', [(v, False)])"
    proof (rule pg.each_ends_after_first [OF good assms(1)])
      fix r :: "'a pg_row" and s :: "'a pg_resultset"
      assume "pg_good s" "pg_stmt s = v # vs" "im_read pg_impl r s = v"
      then show "\<exists>s'. ?empty r s [] = Some (s', [(v, False)]) \<and> pg_good s' \<and> pg_ahead s' = []"
        using pg.empty_asks [of s] Nil by (auto simp: read)
    qed
    then show ?thesis using Nil by auto
  next
    case (Cons w ws)
    have "rs_each pg_impl ?empty s [] = None"
    proof (rule pg.each_restarted [OF _ good])
      fix r :: "'a pg_row" and s seen s' seen'
      assume "pg_good s" "?empty r s seen = Some (s', seen')"
      then show "pg_good s' \<and> pg_ahead s' = tl (pg_stmt s) \<and> pg_stmt s' = pg_stmt s"
        using pg.empty_asks [of s] by auto
    qed (simp add: assms(1) Cons)
    then show ?thesis using Cons by simp
  qed
qed

theorem questions_move_the_loop_witness:
  "\<exists>s'. rs_each pg_impl (\<lambda>r s seen. map_option (\<lambda>(s', n). (s', seen @ [(pg_columns r, n)])) (rs_size pg_impl s))
       (pg_new [[(''id'', 7 :: int)], [(''id'', 8)]]) [] = Some (s', [([(''id'', 7)], 2)]) \<and>
     rs_each pg_impl (\<lambda>r s seen. map_option (\<lambda>(s', e). (s', seen @ [(pg_columns r, e)])) (rs_empty pg_impl s))
       (pg_new [[(''id'', 7 :: int)], [(''id'', 8)]]) [] = None"
  using questions_move_the_loop [of "pg_new [[(''id'', 7 :: int)], [(''id'', 8)]]" "[(''id'', 7)]" "[[(''id'', 8)]]"]
  by (simp add: pg_new_def numeral_2_eq_2)

text \<open>
  The row objects kept by a loop over a result of PostgreSQL show, after the loop, the rows they
  were made for. Those kept by a loop over a result of SQLite all show one and the same row, whatever
  the statement is at when they are read.
\<close>

theorem kept_rows:
  fixes s :: "'st sqlite_resultset"
  assumes "sqlite_contract api all todo"
  shows "(\<exists>p' rs. rs_each pg_impl keep (pg_new tuples) [] = Some (p', rs) \<and> map pg_columns rs = tuples) \<and>
    (\<exists>s' rs. rs_each (sqlite_impl api) keep s [] = Some (s', rs) \<and>
      map (\<lambda>r. im_read (sqlite_impl api) r s') rs = replicate (length (all (sq_stmt s))) (sq_columns api (sq_stmt s')))"
proof -
  have "pg_good (pg_new tuples)" by (simp add: pg_good_def pg_new_def)
  from pg.each_keeps [OF this] cursor.each_keeps [OF sqlite_cursor [OF assms] TrueI, of s]
  show ?thesis by (auto simp: pg_impl_def sqlite_impl_def pg_new_def map_replicate_const)
qed

theorem kept_rows_witness:
  "\<exists>s' rs. rs_each (sqlite_impl listed) keep \<lparr>sq_stmt = ([[(''id'', 7 :: int)], [(''id'', 8)]], 0), sq_status = - 1\<rparr> [] = Some (s', rs) \<and>
     (\<exists>v. map (\<lambda>r. im_read (sqlite_impl listed) r s') rs = [v, v])"
  using kept_rows [OF listed_contract, of "[]" "\<lparr>sq_stmt = ([[(''id'', 7 :: int)], [(''id'', 8)]], 0), sq_status = - 1\<rparr>"]
  by (auto simp: numeral_eq_Suc)

end
