(* ===== verification/MysqlResults.thy ===== *)
theory MysqlResults
  imports ResultDrivers
begin

text \<open>
  \<^verbatim>\<open>mysql/resultset.cpp\<close>: the rows of a query, which the client library keeps in memory, and the rows of
  a statement, which are fetched one by one into its buffers after it was executed. Loops over both
  visit every row; those over a statement execute it again.
\<close>

section \<open>Results of queries\<close>

record ('st, 'r, 'v) mysql_results_api =
  mr_fetch_row :: "'st \<Rightarrow> 'r option \<times> 'st"
  mr_data_seek_first :: "'st \<Rightarrow> 'st"
  mr_columns :: "'r \<Rightarrow> 'v columns"

text \<open>A query that is no selection has no result; \<open>mr_open\<close> is whether the session is open.\<close>

record ('st, 'r) mysql_resultset =
  mr_res :: "'st option"
  mr_row :: "'r option"
  mr_open :: bool

definition mysql_next ::
  "('st, 'r, 'v) mysql_results_api \<Rightarrow> ('st, 'r) mysql_resultset \<Rightarrow> bool \<times> ('st, 'r) mysql_resultset" where
  "mysql_next api s =
     (case mr_res s of
        None \<Rightarrow> (False, s)
      | Some st \<Rightarrow>
          if \<not> mr_open s then (False, s)
          else case mr_fetch_row api st of (r, st') \<Rightarrow> (r \<noteq> None, s\<lparr>mr_res := Some st', mr_row := r\<rparr>))"

definition mysql_reset ::
  "('st, 'r, 'v) mysql_results_api \<Rightarrow> ('st, 'r) mysql_resultset \<Rightarrow> ('st, 'r) mysql_resultset" where
  "mysql_reset api s = (case mr_res s of None \<Rightarrow> s | Some st \<Rightarrow> s\<lparr>mr_res := Some (mr_data_seek_first api st)\<rparr>)"

text \<open>A row object keeps the row; the object cannot be made without one.\<close>

definition mysql_impl ::
  "('st, 'r, 'v) mysql_results_api \<Rightarrow> (('st, 'r) mysql_resultset, 'r option, 'v columns) resultset_impl" where
  "mysql_impl api =
     \<lparr>im_next = (\<lambda>s. Some (mysql_next api s)), im_current_row = mr_row, im_reset = (\<lambda>s. Some (mysql_reset api s)),
      im_read = (\<lambda>r s. case r of None \<Rightarrow> [] | Some row \<Rightarrow> mr_columns api row)\<rparr>"

text \<open>
  The documentation of a stored result: fetching returns its rows from the first, then nothing, and
  seeking starts again.
\<close>

definition results_documented ::
  "('st, 'r, 'v) mysql_results_api \<Rightarrow> ('st \<Rightarrow> 'v columns list) \<Rightarrow> ('st \<Rightarrow> 'v columns list) \<Rightarrow> bool" where
  "results_documented api all todo =
     (\<forall>st. all (mr_data_seek_first api st) = all st \<and> todo (mr_data_seek_first api st) = all st \<and>
        (case mr_fetch_row api st of
           (r, st') \<Rightarrow> all st' = all st \<and>
             (case todo st of
                [] \<Rightarrow> r = None \<and> todo st' = []
              | v # vs \<Rightarrow> (\<exists>row. r = Some row \<and> mr_columns api row = v) \<and> todo st' = vs)))"

definition of_res :: "('st \<Rightarrow> 'a list) \<Rightarrow> ('st, 'r) mysql_resultset \<Rightarrow> 'a list" where
  "of_res f s = (case mr_res s of None \<Rightarrow> [] | Some st \<Rightarrow> f st)"

lemma mysql_cursor:
  fixes api :: "('st, 'r, 'v) mysql_results_api"
  assumes "results_documented api all todo"
  shows "cursor (mysql_impl api) (of_res all) (of_res todo) mr_open"
proof
  fix s :: "('st, 'r) mysql_resultset" and v vs
  assume s: "mr_open s" "of_res todo s = v # vs"
  then obtain st where st: "mr_res s = Some st" "todo st = v # vs" by (auto simp: of_res_def split: option.splits)
  obtain r st' where f: "mr_fetch_row api st = (r, st')" by fastforce
  show "\<exists>s'. im_next (mysql_impl api) s = Some (True, s') \<and> mr_open s' \<and> of_res todo s' = vs \<and>
      im_read (mysql_impl api) (im_current_row (mysql_impl api) s') s' = v \<and> of_res all s' = of_res all s"
    using s st f spec [OF assms [unfolded results_documented_def], of st]
    by (auto simp: mysql_impl_def mysql_next_def of_res_def)
next
  fix s :: "('st, 'r) mysql_resultset"
  assume s: "mr_open s" "of_res todo s = []"
  show "\<exists>s'. im_next (mysql_impl api) s = Some (False, s') \<and> mr_open s' \<and> of_res todo s' = [] \<and> of_res all s' = of_res all s"
  proof (cases "mr_res s")
    case (Some st)
    obtain r st' where f: "mr_fetch_row api st = (r, st')" by fastforce
    have "todo st = []" using s Some by (simp add: of_res_def)
    then show ?thesis using s Some f spec [OF assms [unfolded results_documented_def], of st]
      by (auto simp: mysql_impl_def mysql_next_def of_res_def)
  qed (use s in \<open>auto simp: mysql_impl_def mysql_next_def of_res_def\<close>)
next
  fix s :: "('st, 'r) mysql_resultset"
  assume s: "mr_open s"
  show "\<exists>s'. im_reset (mysql_impl api) s = Some s' \<and> mr_open s' \<and> of_res todo s' = of_res all s \<and> of_res all s' = of_res all s"
    using s assms by (cases "mr_res s") (auto simp: mysql_impl_def mysql_reset_def of_res_def results_documented_def)
qed

section \<open>Results of statements\<close>

text \<open>Codes of the client library; fetching a row writes it to the buffers.\<close>

abbreviation MYSQL_NO_DATA :: int where "MYSQL_NO_DATA \<equiv> 100"
abbreviation MYSQL_DATA_TRUNCATED :: int where "MYSQL_DATA_TRUNCATED \<equiv> 101"
abbreviation INVALID :: int where "INVALID \<equiv> - 1"

record ('st, 'v) mysql_fetch_api =
  mf_execute :: "'st \<Rightarrow> int \<times> 'st"
  mf_has_metadata :: "'st \<Rightarrow> bool"
  mf_bind_result :: "'st \<Rightarrow> int \<times> 'st"
  mf_fetch :: "'st \<Rightarrow> int \<times> 'st"
  mf_reset :: "'st \<Rightarrow> int \<times> 'st"
  mf_columns :: "'st \<Rightarrow> 'v columns"

record 'st mysql_stmt_resultset =
  mq_stmt :: 'st
  mq_status :: int

text \<open>\<open>None\<close> is a \<open>database_exception\<close>.\<close>

definition prepare_results ::
  "('st, 'v) mysql_fetch_api \<Rightarrow> 'st mysql_stmt_resultset \<Rightarrow> 'st mysql_stmt_resultset option" where
  "prepare_results api s =
     (if mq_status s \<noteq> INVALID then Some s
      else case mf_execute api (mq_stmt s) of
        (rc, st) \<Rightarrow>
          if rc \<noteq> 0 then None
          else if \<not> mf_has_metadata api st then None
          else case mf_bind_result api st of
            (code, st') \<Rightarrow> if code \<noteq> 0 then None else Some (s\<lparr>mq_stmt := st', mq_status := rc\<rparr>))"

definition mysql_stmt_next ::
  "('st, 'v) mysql_fetch_api \<Rightarrow> 'st mysql_stmt_resultset \<Rightarrow> (bool \<times> 'st mysql_stmt_resultset) option" where
  "mysql_stmt_next api s =
     Option.bind (prepare_results api s) (\<lambda>s.
       if mq_status s = INVALID then Some (False, s)
       else case mf_fetch api (mq_stmt s) of
         (res, st) \<Rightarrow>
           if res = 1 \<or> res = MYSQL_DATA_TRUNCATED then None
           else Some (res \<noteq> MYSQL_NO_DATA, s\<lparr>mq_stmt := st\<rparr>))"

definition mysql_results_reset ::
  "('st, 'v) mysql_fetch_api \<Rightarrow> 'st mysql_stmt_resultset \<Rightarrow> 'st mysql_stmt_resultset option" where
  "mysql_results_reset api s =
     (case mf_reset api (mq_stmt s) of
        (rc, st) \<Rightarrow> if rc \<noteq> 0 then None else Some (s\<lparr>mq_stmt := st, mq_status := INVALID\<rparr>))"

text \<open>A row object shares the buffers: until the results are reset it shows the row fetched last.\<close>

datatype mysql_stmt_row = BuffersOfStatement

definition mysql_stmt_impl ::
  "('st, 'v) mysql_fetch_api \<Rightarrow> ('st mysql_stmt_resultset, mysql_stmt_row, 'v columns) resultset_impl" where
  "mysql_stmt_impl api =
     \<lparr>im_next = mysql_stmt_next api, im_current_row = (\<lambda>s. BuffersOfStatement), im_reset = mysql_results_reset api,
      im_read = (\<lambda>r s. mf_columns api (mq_stmt s))\<rparr>"

text \<open>
  The documentation of a statement that selects, when no call fails: executing it starts its rows from
  the first, and fetching returns the next one, or reports the end, also when asked again.
\<close>

definition fetch_documented ::
  "('st, 'v) mysql_fetch_api \<Rightarrow> ('st \<Rightarrow> 'v columns list) \<Rightarrow> ('st \<Rightarrow> 'v columns list) \<Rightarrow> bool" where
  "fetch_documented api all todo =
     (\<forall>st. (\<exists>st'. mf_execute api st = (0, st') \<and> mf_has_metadata api st' \<and> all st' = all st \<and> todo st' = all st) \<and>
        (\<exists>st'. mf_bind_result api st = (0, st') \<and> all st' = all st \<and> todo st' = todo st) \<and>
        (\<exists>st'. mf_reset api st = (0, st') \<and> all st' = all st) \<and>
        (case todo st of
           [] \<Rightarrow> \<exists>st'. mf_fetch api st = (MYSQL_NO_DATA, st') \<and> all st' = all st \<and> todo st' = []
         | v # vs \<Rightarrow> \<exists>st'. mf_fetch api st = (0, st') \<and> all st' = all st \<and> todo st' = vs \<and> mf_columns api st' = v))"

definition fetch_ahead :: "('st \<Rightarrow> 'v columns list) \<Rightarrow> ('st \<Rightarrow> 'v columns list) \<Rightarrow> 'st mysql_stmt_resultset \<Rightarrow> 'v columns list" where
  "fetch_ahead all todo s = (if mq_status s = INVALID then all (mq_stmt s) else todo (mq_stmt s))"

lemma prepared:
  assumes "fetch_documented api all todo" "mq_status s \<in> {INVALID, 0}"
  shows "\<exists>s'. prepare_results api s = Some s' \<and> mq_status s' = 0 \<and> all (mq_stmt s') = all (mq_stmt s) \<and>
    todo (mq_stmt s') = fetch_ahead all todo s"
proof (cases "mq_status s = INVALID")
  case True
  obtain st where st: "mf_execute api (mq_stmt s) = (0, st)" "mf_has_metadata api st" "all st = all (mq_stmt s)" "todo st = all (mq_stmt s)"
    using assms(1) unfolding fetch_documented_def by blast
  moreover obtain st' where "mf_bind_result api st = (0, st')" "all st' = all st" "todo st' = todo st"
    using assms(1) unfolding fetch_documented_def by blast
  ultimately show ?thesis using True by (simp add: prepare_results_def fetch_ahead_def)
qed (use assms(2) in \<open>simp add: prepare_results_def fetch_ahead_def\<close>)

lemma mysql_stmt_cursor:
  fixes api :: "('st, 'v) mysql_fetch_api"
  assumes "fetch_documented api all todo"
  shows "cursor (mysql_stmt_impl api) (\<lambda>s. all (mq_stmt s)) (fetch_ahead all todo) (\<lambda>s. mq_status s \<in> {INVALID, 0})"
proof
  fix s :: "'st mysql_stmt_resultset" and v vs
  assume s: "mq_status s \<in> {INVALID, 0}" "fetch_ahead all todo s = v # vs"
  obtain s' where s': "prepare_results api s = Some s'" "mq_status s' = 0" "all (mq_stmt s') = all (mq_stmt s)"
    "todo (mq_stmt s') = v # vs"
    using prepared [OF assms s(1)] s(2) by auto
  then obtain st where "mf_fetch api (mq_stmt s') = (0, st)" "all st = all (mq_stmt s')" "todo st = vs" "mf_columns api st = v"
    using spec [OF assms [unfolded fetch_documented_def], of "mq_stmt s'"] by auto
  then show "\<exists>s'. im_next (mysql_stmt_impl api) s = Some (True, s') \<and> mq_status s' \<in> {INVALID, 0} \<and>
      fetch_ahead all todo s' = vs \<and> im_read (mysql_stmt_impl api) (im_current_row (mysql_stmt_impl api) s') s' = v \<and>
      all (mq_stmt s') = all (mq_stmt s)"
    using s' by (simp add: mysql_stmt_impl_def mysql_stmt_next_def fetch_ahead_def)
next
  fix s :: "'st mysql_stmt_resultset"
  assume s: "mq_status s \<in> {INVALID, 0}" "fetch_ahead all todo s = []"
  obtain s' where s': "prepare_results api s = Some s'" "mq_status s' = 0" "all (mq_stmt s') = all (mq_stmt s)"
    "todo (mq_stmt s') = []"
    using prepared [OF assms s(1)] s(2) by auto
  then obtain st where "mf_fetch api (mq_stmt s') = (MYSQL_NO_DATA, st)" "all st = all (mq_stmt s')" "todo st = []"
    using spec [OF assms [unfolded fetch_documented_def], of "mq_stmt s'"] by auto
  then show "\<exists>s'. im_next (mysql_stmt_impl api) s = Some (False, s') \<and> mq_status s' \<in> {INVALID, 0} \<and>
      fetch_ahead all todo s' = [] \<and> all (mq_stmt s') = all (mq_stmt s)"
    using s' by (simp add: mysql_stmt_impl_def mysql_stmt_next_def fetch_ahead_def)
next
  fix s :: "'st mysql_stmt_resultset"
  obtain st where "mf_reset api (mq_stmt s) = (0, st)" "all st = all (mq_stmt s)"
    using assms unfolding fetch_documented_def by blast
  then show "\<exists>s'. im_reset (mysql_stmt_impl api) s = Some s' \<and> mq_status s' \<in> {INVALID, 0} \<and>
      fetch_ahead all todo s' = all (mq_stmt s) \<and> all (mq_stmt s') = all (mq_stmt s)"
    by (simp add: mysql_stmt_impl_def mysql_results_reset_def fetch_ahead_def)
qed

section \<open>Loops over the rows\<close>

text \<open>
  C22: A loop whose body does not use the result set runs it once for every row, in order and from the
  first, unless the body raises, and then ends; whatever was read before, and whether or not the
  statement was executed before. The library is assumed to behave as documented and not to fail.
\<close>

theorem mysql_loops_visit_every_row:
  fixes s :: "('q, 'r) mysql_resultset" and t :: "'st mysql_stmt_resultset"
  assumes "results_documented api all todo" "mr_open s"
    and "fetch_documented stmts rows ahead" "mq_status t \<in> {INVALID, 0}"
  shows "(case visits f (of_res all s) a of
            None \<Rightarrow> rs_each (mysql_impl api) (outside (mysql_impl api) f) s a = None
          | Some a' \<Rightarrow> \<exists>s'. rs_each (mysql_impl api) (outside (mysql_impl api) f) s a = Some (s', a') \<and>
              \<not> fst (mysql_next api s')) \<and>
    (case visits g (rows (mq_stmt t)) b of
       None \<Rightarrow> rs_each (mysql_stmt_impl stmts) (outside (mysql_stmt_impl stmts) g) t b = None
     | Some b' \<Rightarrow> \<exists>t'. rs_each (mysql_stmt_impl stmts) (outside (mysql_stmt_impl stmts) g) t b = Some (t', b') \<and>
         map_option fst (mysql_stmt_next stmts t') = Some False)"
proof -
  note query = mysql_cursor [OF assms(1)]
  note stmt = mysql_stmt_cursor [OF assms(3)]
  have "\<not> fst (mysql_next api s')" if "mr_open s'" "of_res todo s' = []" for s'
    using cursor.next_end [OF query that] by (auto simp: mysql_impl_def)
  moreover have "map_option fst (mysql_stmt_next stmts t') = Some False"
    if "mq_status t' \<in> {INVALID, 0}" "fetch_ahead rows ahead t' = []" for t'
    using cursor.next_end [OF stmt that] by (auto simp: mysql_stmt_impl_def)
  ultimately show ?thesis
    using cursor.each_visits [OF query assms(2), of f a] cursor.each_visits [OF stmt assms(4), of g b]
    by (auto split: option.splits)
qed

text \<open>Concrete libraries: a list of rows and the number of those returned.\<close>

definition stored :: "('v columns list \<times> nat, 'v columns, 'v) mysql_results_api" where
  "stored =
     \<lparr>mr_fetch_row = (\<lambda>(vs, n). if n < length vs then (Some (vs ! n), (vs, Suc n)) else (None, (vs, n))),
      mr_data_seek_first = (\<lambda>(vs, n). (vs, 0)), mr_columns = (\<lambda>r. r)\<rparr>"

definition fetched :: "('v columns list \<times> nat, 'v) mysql_fetch_api" where
  "fetched =
     \<lparr>mf_execute = (\<lambda>(vs, n). (0, (vs, 0))), mf_has_metadata = (\<lambda>st. True), mf_bind_result = (\<lambda>st. (0, st)),
      mf_fetch = (\<lambda>(vs, n). if n < length vs then (0, (vs, Suc n)) else (MYSQL_NO_DATA, (vs, n))),
      mf_reset = (\<lambda>st. (0, st)), mf_columns = (\<lambda>(vs, n). vs ! (n - 1))\<rparr>"

lemma stored_documented: "results_documented stored fst (\<lambda>(vs, n). drop n vs)"
  by (auto simp: results_documented_def stored_def dest: drop_Cons split: list.splits)

lemma fetched_documented: "fetch_documented fetched fst (\<lambda>(vs, n). drop n vs)"
  by (auto simp: fetch_documented_def fetched_def dest: drop_Cons split: list.splits)

theorem mysql_loops_visit_every_row_witness:
  "\<exists>s' t'. rs_each (mysql_impl stored) (outside (mysql_impl stored) (\<lambda>v n. Some (n + length v)))
       \<lparr>mr_res = Some ([[(''id'', 7 :: int)], [(''id'', 8)]], 1), mr_row = None, mr_open = True\<rparr> 0 = Some (s', 2) \<and>
     rs_each (mysql_stmt_impl fetched) (outside (mysql_stmt_impl fetched) (\<lambda>v n. Some (n + length v)))
       \<lparr>mq_stmt = ([[(''id'', 7 :: int)], [(''id'', 8)], [(''id'', 9)]], 2), mq_status = 0\<rparr> 0 = Some (t', 3) \<and>
     map_option fst (mysql_stmt_next fetched t') = Some False"
  using mysql_loops_visit_every_row [OF stored_documented _ fetched_documented,
      of "\<lparr>mr_res = Some ([[(''id'', 7 :: int)], [(''id'', 8)]], 1), mr_row = None, mr_open = True\<rparr>"
        "\<lparr>mq_stmt = ([[(''id'', 7 :: int)], [(''id'', 8)], [(''id'', 9)]], 2), mq_status = 0\<rparr>"
        "\<lambda>v n. Some (n + length v)" 0 "\<lambda>v n. Some (n + length v)" 0]
  by (auto simp: of_res_def numeral_eq_Suc)

end
