(* ===== verification/OperatorLiterals.thy ===== *)
theory OperatorLiterals
  imports SqlQuery
begin

text \<open>
  The operators written with literals, \<^verbatim>\<open>"name"_op < value\<close>, of \<^verbatim>\<open>sql_operator_builder\<close>. A literal is an
  operator whose type is not set yet: the constructor leaves it as it finds it, so it is a parameter.
  Each method sets the type and the right-hand side, and leaves a negation where it is.
\<close>

definition literal_op :: "'v sess \<Rightarrow> op_type \<Rightarrow> string \<Rightarrow> 'v sql_operator" where
  "literal_op c unset lvalue =
     \<lparr>op_not = False, op_lvalue = of_text c lvalue, op_type = unset, op_rvalue = One (null_value c)\<rparr>"

definition lit_equals :: "'v \<Rightarrow> 'v sql_operator \<Rightarrow> 'v sql_operator" where
  "lit_equals rvalue p = p\<lparr>op_type := OpEq, op_rvalue := One rvalue\<rparr>"

definition lit_nequals :: "'v \<Rightarrow> 'v sql_operator \<Rightarrow> 'v sql_operator" where
  "lit_nequals rvalue p = p\<lparr>op_type := OpEq, op_not := True, op_rvalue := One rvalue\<rparr>"

definition lit_like :: "'v sess \<Rightarrow> string \<Rightarrow> 'v sql_operator \<Rightarrow> 'v sql_operator" where
  "lit_like c rvalue p = p\<lparr>op_type := OpLike, op_rvalue := One (of_text c rvalue)\<rparr>"

definition lit_equals_lesser :: "'v \<Rightarrow> 'v sql_operator \<Rightarrow> 'v sql_operator" where
  "lit_equals_lesser rvalue p = p\<lparr>op_type := OpEqLesser, op_rvalue := One rvalue\<rparr>"

definition lit_equals_greater :: "'v \<Rightarrow> 'v sql_operator \<Rightarrow> 'v sql_operator" where
  "lit_equals_greater rvalue p = p\<lparr>op_type := OpEqGreater, op_rvalue := One rvalue\<rparr>"

definition lit_lesser :: "'v \<Rightarrow> 'v sql_operator \<Rightarrow> 'v sql_operator" where
  "lit_lesser rvalue p = p\<lparr>op_type := OpLesser, op_rvalue := One rvalue\<rparr>"

definition lit_greater :: "'v \<Rightarrow> 'v sql_operator \<Rightarrow> 'v sql_operator" where
  "lit_greater rvalue p = p\<lparr>op_type := OpGreater, op_rvalue := One rvalue\<rparr>"

definition lit_contains :: "'v sess \<Rightarrow> string \<Rightarrow> 'v sql_operator \<Rightarrow> 'v sql_operator" where
  "lit_contains c rvalue p = p\<lparr>op_type := OpLike, op_rvalue := One (of_text c (''%'' @ rvalue @ ''%''))\<rparr>"

definition lit_in :: "'v list \<Rightarrow> 'v sql_operator \<Rightarrow> 'v sql_operator" where
  "lit_in vs p = p\<lparr>op_type := OpIn, op_rvalue := Many vs\<rparr>"

definition lit_between :: "'v \<Rightarrow> 'v \<Rightarrow> 'v sql_operator \<Rightarrow> 'v sql_operator" where
  "lit_between v1 v2 p = p\<lparr>op_type := OpBetween, op_rvalue := Range v1 v2\<rparr>"

definition lit_is_null :: "'v sess \<Rightarrow> 'v sql_operator \<Rightarrow> 'v sql_operator" where
  "lit_is_null c p = p\<lparr>op_type := OpIsNull, op_rvalue := One (null_value c)\<rparr>"

definition lit_is_not_null :: "'v sess \<Rightarrow> 'v sql_operator \<Rightarrow> 'v sql_operator" where
  "lit_is_not_null c p = p\<lparr>op_type := OpIsNull, op_not := True, op_rvalue := One (null_value c)\<rparr>"

lemmas literal_defs = literal_op_def lit_equals_def lit_nequals_def lit_like_def lit_equals_lesser_def
  lit_equals_greater_def lit_lesser_def lit_greater_def lit_contains_def lit_in_def lit_between_def
  lit_is_null_def lit_is_not_null_def

lemmas operator_defs = operator_of_def op_equals_def op_like_def op_equals_lesser_def op_equals_greater_def
  op_lesser_def op_greater_def op_contains_def op_in_def op_between_def op_is_null_def op_negate_def

text \<open>On a fresh literal each method gives the operator of the function it abbreviates.\<close>

lemma literals_are_operators:
  "lit_equals v (literal_op c ty n) = op_equals (of_text c n) v"
  "lit_nequals v (literal_op c ty n) = op_negate (op_equals (of_text c n) v)"
  "lit_like c t (literal_op c ty n) = op_like c (of_text c n) t"
  "lit_equals_lesser v (literal_op c ty n) = op_equals_lesser (of_text c n) v"
  "lit_equals_greater v (literal_op c ty n) = op_equals_greater (of_text c n) v"
  "lit_lesser v (literal_op c ty n) = op_lesser (of_text c n) v"
  "lit_greater v (literal_op c ty n) = op_greater (of_text c n) v"
  "lit_contains c t (literal_op c ty n) = op_contains c (of_text c n) t"
  "lit_in vs (literal_op c ty n) = op_in (of_text c n) vs"
  "lit_between v w (literal_op c ty n) = op_between (of_text c n) v w"
  "lit_is_null c (literal_op c ty n) = op_is_null c (of_text c n)"
  "lit_is_not_null c (literal_op c ty n) = op_negate (op_is_null c (of_text c n))"
  by (simp_all add: literal_defs operator_defs)

end
