(* ===== verification/SqlValue.thy ===== *)
theory SqlValue
  imports TimeProps
begin

text \<open>
  \<^verbatim>\<open>sql_number.h\<close>, \<^verbatim>\<open>sql_number.cpp\<close> and \<^verbatim>\<open>sql_value.cpp\<close>: numbers that remember the type they were made of,
  values that may be null, a number, a text, a time or bytes, their conversions and comparisons.
  \<open>None\<close> is a \<open>value_conversion_error\<close>. Wide strings are left out; the arithmetic of floating point
  numbers and the address of bytes are parameters.
\<close>

section \<open>Numbers\<close>

datatype int_type =
  BoolT | CharT | UCharT | WCharT | ShortT | UShortT | IntT | UIntT | LongT | ULongT | LongLongT | ULongLongT

datatype float_type = Float | Double | LongDouble

datatype 'f sql_number = NullNumber | Integer int_type int | Floating float_type 'f

text \<open>The conversion of an integer to a type (64-bit Linux).\<close>

fun wrap :: "int_type \<Rightarrow> int \<Rightarrow> int" where
  "wrap BoolT i = (if i = 0 then 0 else 1)"
| "wrap CharT i = signed_take_bit 7 i"
| "wrap UCharT i = take_bit 8 i"
| "wrap WCharT i = signed_take_bit 31 i"
| "wrap ShortT i = signed_take_bit 15 i"
| "wrap UShortT i = take_bit 16 i"
| "wrap IntT i = signed_take_bit 31 i"
| "wrap UIntT i = take_bit 32 i"
| "wrap LongT i = signed_take_bit 63 i"
| "wrap ULongT i = take_bit 64 i"
| "wrap LongLongT i = signed_take_bit 63 i"
| "wrap ULongLongT i = take_bit 64 i"

record 'f floats =
  from_text :: "float_type \<Rightarrow> string \<Rightarrow> 'f option"
  float_text :: "'f \<Rightarrow> string"
  of_integer :: "float_type \<Rightarrow> int \<Rightarrow> 'f"
  rounded :: "float_type \<Rightarrow> 'f \<Rightarrow> 'f"
  truncated :: "int_type \<Rightarrow> 'f \<Rightarrow> int"
  float_eq :: "'f \<Rightarrow> 'f \<Rightarrow> bool"
  address :: "string \<Rightarrow> string"

text \<open>\<open>as\<close> with an integral and with a floating type\<close>

fun as_integral :: "'f floats \<Rightarrow> int_type \<Rightarrow> 'f sql_number \<Rightarrow> int" where
  "as_integral fl ty NullNumber = 0"
| "as_integral fl ty (Integer ty' i) = wrap ty i"
| "as_integral fl ty (Floating ft x) = truncated fl ty x"

fun as_floating :: "'f floats \<Rightarrow> float_type \<Rightarrow> 'f sql_number \<Rightarrow> 'f" where
  "as_floating fl ft NullNumber = of_integer fl ft 0"
| "as_floating fl ft (Integer ty i) = of_integer fl ft i"
| "as_floating fl ft (Floating ft' x) = rounded fl ft x"

text \<open>\<open>helper::is_bool\<close>\<close>

definition toupper :: "char \<Rightarrow> char" where
  "toupper c = (let n = of_char c in if 97 \<le> n \<and> n \<le> (122 :: nat) then char_of (n - 32) else c)"

definition equals_nocase :: "string \<Rightarrow> string \<Rightarrow> bool" where
  "equals_nocase s t = (map toupper s = map toupper t)"

definition is_bool :: "string \<Rightarrow> int" where
  "is_bool value =
     (if equals_nocase value ''true'' \<or> equals_nocase value ''yes'' \<or> value = ''1'' then 1
      else if equals_nocase value ''false'' \<or> equals_nocase value ''no'' \<or> value = ''0'' then - 1
      else 0)"

text \<open>\<open>strtol\<close> without its range, and the functions of the library that add one; \<open>None\<close> is an exception.\<close>

definition magnitude :: "string \<Rightarrow> int option" where
  "magnitude s = (let ds = takeWhile isdigit s in if ds = [] then None else Some (digits_int ds))"

definition read_integer :: "string \<Rightarrow> int option" where
  "read_integer s =
     (case dropWhile isspace (c_str s) of
        [] \<Rightarrow> None
      | c # s' \<Rightarrow>
          if c = CHR ''-'' then map_option uminus (magnitude s')
          else if c = CHR ''+'' then magnitude s' else magnitude (c # s'))"

definition in_range :: "int_type \<Rightarrow> int \<Rightarrow> bool" where
  "in_range ty i = (wrap ty i = i)"

text \<open>\<open>stoi\<close>, \<open>stol\<close> and \<open>stoll\<close>; then \<open>stoul\<close> and \<open>stoull\<close>, which take a negative number modulo \<open>2 ^ 64\<close>.\<close>

definition sto_signed :: "int_type \<Rightarrow> string \<Rightarrow> int option" where
  "sto_signed ty s = Option.bind (read_integer s) (\<lambda>i. if in_range ty i then Some i else None)"

definition sto_unsigned :: "int_type \<Rightarrow> string \<Rightarrow> int option" where
  "sto_unsigned ty s = Option.bind (read_integer s) (\<lambda>i. if \<bar>i\<bar> < 2 ^ 64 then Some (wrap ty i) else None)"

fun or_else :: "'a option \<Rightarrow> 'a option \<Rightarrow> 'a option" where
  "or_else (Some x) y = Some x"
| "or_else None y = y"

definition parse_bool :: "string \<Rightarrow> 'f sql_number option" where
  "parse_bool value = (if is_bool value \<noteq> 0 then Some (Integer BoolT (if is_bool value > 0 then 1 else 0)) else None)"

definition number_of_text :: "'f floats \<Rightarrow> string \<Rightarrow> 'f sql_number option" where
  "number_of_text fl value =
     (if \<not> list_ex isdigit value then parse_bool value
      else if CHR ''.'' \<in> set value then
        or_else (map_option (Floating Float) (from_text fl Float value))
          (or_else (map_option (Floating Double) (from_text fl Double value))
            (map_option (Floating LongDouble) (from_text fl LongDouble value)))
      else
        or_else (map_option (Integer IntT) (sto_signed IntT value))
          (or_else (map_option (Integer LongT) (sto_signed LongT value))
            (or_else (map_option (Integer ULongT) (sto_unsigned ULongT value))
              (or_else (map_option (Integer LongLongT) (sto_signed LongLongT value))
                (map_option (Integer ULongLongT) (sto_unsigned ULongLongT value))))))"

fun number_to_string :: "'f floats \<Rightarrow> 'f sql_number \<Rightarrow> string" where
  "number_to_string fl NullNumber = ''NULL''"
| "number_to_string fl (Integer ty i) = decimal i"
| "number_to_string fl (Floating ft x) = float_text fl x"

text \<open>\<open>operator==\<close> of numbers: the other number is converted to the type of this one.\<close>

fun number_eq :: "'f floats \<Rightarrow> 'f sql_number \<Rightarrow> 'f sql_number \<Rightarrow> bool" where
  "number_eq fl NullNumber other = (other = NullNumber)"
| "number_eq fl (Integer ty i) other = (as_integral fl ty other = i)"
| "number_eq fl (Floating ft x) other = float_eq fl (as_floating fl ft other) x"

section \<open>Values\<close>

datatype 'f sql_value = Null | Number "'f sql_number" | Text string | Time sql_time | Blob string

fun as_number :: "'f floats \<Rightarrow> 'f sql_value \<Rightarrow> 'f sql_number option" where
  "as_number fl Null = Some NullNumber"
| "as_number fl (Number n) = Some n"
| "as_number fl (Text s) = number_of_text fl s"
| "as_number fl (Time t) = Some (Integer LongT (t_value t))"
| "as_number fl (Blob b) = None"

definition number_to_time :: "'f floats \<Rightarrow> 'f sql_number \<Rightarrow> sql_time" where
  "number_to_time fl n = \<lparr>t_value = as_integral fl LongT n, t_format = TIMESTAMP\<rparr>"

fun as_time :: "'f floats \<Rightarrow> 'f sql_value \<Rightarrow> sql_time option" where
  "as_time fl Null = None"
| "as_time fl (Number n) = Some (number_to_time fl n)"
| "as_time fl (Text s) = time_parse s"
| "as_time fl (Time t) = Some t"
| "as_time fl (Blob b) = None"

text \<open>A time that cannot be printed has no text.\<close>

fun as_text :: "'f floats \<Rightarrow> 'f sql_value \<Rightarrow> string option" where
  "as_text fl Null = Some ''NULL''"
| "as_text fl (Number n) = Some (number_to_string fl n)"
| "as_text fl (Text s) = Some s"
| "as_text fl (Time t) = time_to_string t"
| "as_text fl (Blob b) = Some (if b = [] then ''NULL'' else address fl b)"

fun as_blob :: "'f sql_value \<Rightarrow> string option" where
  "as_blob Null = Some []"
| "as_blob (Number n) = None"
| "as_blob (Text s) = Some s"
| "as_blob (Time t) = None"
| "as_blob (Blob b) = Some b"

text \<open>The conversion operators to an integral type: what cannot be converted is 0.\<close>

definition to_integral :: "'f floats \<Rightarrow> int_type \<Rightarrow> 'f sql_value \<Rightarrow> int" where
  "to_integral fl ty v = (case as_number fl v of None \<Rightarrow> 0 | Some n \<Rightarrow> as_integral fl ty n)"

text \<open>
  Comparing with bytes: both sides are then bytes, which have no comparison of their own, so that the
  one of bytes with a value is taken, and it compares the value with the bytes again.
\<close>

partial_function (option) eq_blob :: "'f sql_value \<Rightarrow> string \<Rightarrow> bool option" where
  "eq_blob v b = (case as_blob v of None \<Rightarrow> Some False | Some b' \<Rightarrow> eq_blob (Blob b) b')"

text \<open>\<open>operator==\<close> of values, by the alternative of the left one.\<close>

fun value_eq :: "'f floats \<Rightarrow> 'f sql_value \<Rightarrow> 'f sql_value \<Rightarrow> bool option" where
  "value_eq fl Null other = Some (other = Null)"
| "value_eq fl (Number n) other =
     Some (case as_number fl other of None \<Rightarrow> False | Some m \<Rightarrow> number_eq fl m n)"
| "value_eq fl (Text s) other = map_option (\<lambda>t. t = s) (as_text fl other)"
| "value_eq fl (Time t) other = Some (case as_time fl other of None \<Rightarrow> False | Some u \<Rightarrow> time_eq u t)"
| "value_eq fl (Blob b) other = eq_blob other b"

end
