(* ===== verification/ValueProps.thy ===== *)
theory ValueProps
  imports SqlValue
begin

text \<open>
  Integers through text, what conversions to integers give, and what the comparison of values means: it
  depends on which value is on the left, and for bytes it never returns.
\<close>

section \<open>Ranges\<close>

lemma in_range_iff [simp]:
  "in_range IntT i \<longleftrightarrow> - (2 ^ 31) \<le> i \<and> i < 2 ^ 31"
  "in_range LongT i \<longleftrightarrow> - (2 ^ 63) \<le> i \<and> i < 2 ^ 63"
  "in_range LongLongT i \<longleftrightarrow> - (2 ^ 63) \<le> i \<and> i < 2 ^ 63"
  "in_range ULongT i \<longleftrightarrow> 0 \<le> i \<and> i < 2 ^ 64"
  by (simp_all only: in_range_def wrap.simps signed_take_bit_int_eq_self_iff take_bit_int_eq_self_iff)

lemma wrap_in_range [simp]: "in_range ty (wrap ty i)"
  by (cases ty) (simp_all add: in_range_def)

lemma in_range_bounds: "in_range ty i \<Longrightarrow> - (2 ^ 63) \<le> i \<and> i < 2 ^ 64"
  by (cases ty)
    (auto simp: in_range_def signed_take_bit_int_eq_self_iff take_bit_int_eq_self_iff split: if_splits)

lemma wrap_ULong: "\<bar>i\<bar> < 2 ^ 64 \<Longrightarrow> wrap ULongT i = (if i < 0 then i + 2 ^ 64 else i)"
proof -
  assume i: "\<bar>i\<bar> < 2 ^ 64"
  show ?thesis
  proof (cases "i < 0")
    case True
    then have "i mod 2 ^ 64 = (i + 2 ^ 64) mod 2 ^ 64" by simp
    also have "\<dots> = i + 2 ^ 64" using i True by (intro mod_pos_pos_trivial) auto
    finally show ?thesis using True by (simp add: take_bit_eq_mod)
  qed (use i in \<open>simp add: take_bit_eq_mod\<close>)
qed

section \<open>Reading integers\<close>

text \<open>What may follow a number without changing what is read: nothing, or no digit, and no point.\<close>

definition trailing :: "string \<Rightarrow> bool" where
  "trailing x = ((x = [] \<or> \<not> isdigit (hd x)) \<and> CHR ''.'' \<notin> set x)"

lemma trailing_c_str: "x = [] \<or> \<not> isdigit (hd x) \<Longrightarrow> c_str x = [] \<or> \<not> isdigit (hd (c_str x))"
  by (cases x) (auto simp: c_str_def)

lemma c_str_number: "c_str (to_string n @ x) = to_string n @ c_str x"
  using no_nul_digits [of n] by (auto simp: c_str_def takeWhile_append)

lemma magnitude_number: "x = [] \<or> \<not> isdigit (hd x) \<Longrightarrow> magnitude (to_string n @ x) = Some (int n)"
  by (simp add: magnitude_def takeWhile_digits digits_int_number)

lemma first_digit: obtains c ds where "to_string n = c # ds" "isdigit c" "c \<noteq> CHR ''-''" "c \<noteq> CHR ''+''" "\<not> isspace c"
proof -
  obtain c ds where ds: "to_string n = c # ds" by (cases "to_string n") auto
  have "isdigit c" using isdigit_to_string [of n] ds by simp
  then show thesis using ds by (intro that [of c ds]) (auto simp: isdigit_def dest: space_code)
qed

lemma read_decimal:
  assumes "x = [] \<or> \<not> isdigit (hd x)"
  shows "read_integer (decimal i @ x) = Some i"
proof -
  obtain c ds where c: "to_string (nat \<bar>i\<bar>) = c # ds" "isdigit c" "c \<noteq> CHR ''-''" "c \<noteq> CHR ''+''" "\<not> isspace c"
    by (rule first_digit [of "nat \<bar>i\<bar>"])
  have m: "magnitude (c # ds @ c_str x) = Some \<bar>i\<bar>"
    using magnitude_number [OF trailing_c_str [OF assms], of "nat \<bar>i\<bar>"] c(1) by simp
  have t: "c_str (c # ds @ x) = c # ds @ c_str x" using c_str_number [of "nat \<bar>i\<bar>" x] c(1) by simp
  show ?thesis
  proof (cases "i < 0")
    case True
    have "c_str (CHR ''-'' # c # ds @ x) = CHR ''-'' # c # ds @ c_str x" using t by (simp add: c_str_def)
    then show ?thesis using m True unfolding read_integer_def decimal_def c(1) by simp
  next
    case False
    then show ?thesis using m t c by (simp add: read_integer_def decimal_def)
  qed
qed

lemma c_str_decimal [simp]: "c_str (decimal i) = decimal i"
  using no_nul_digits [of "nat \<bar>i\<bar>"] by (intro c_str_whole) (simp add: decimal_def)

lemma sto_signed_decimal: "x = [] \<or> \<not> isdigit (hd x) \<Longrightarrow> sto_signed ty (decimal i @ x) = (if in_range ty i then Some i else None)"
  by (simp add: sto_signed_def read_decimal)

lemma decimal_digits: "list_ex isdigit (decimal i @ x)" "CHR ''.'' \<notin> set (decimal i)"
proof -
  obtain c ds where "to_string (nat \<bar>i\<bar>) = c # ds" "isdigit c" by (rule first_digit)
  then show "list_ex isdigit (decimal i @ x)" by (simp add: decimal_def)
  have "CHR ''.'' \<notin> set (to_string (nat \<bar>i\<bar>))"
    using isdigit_to_string [of "nat \<bar>i\<bar>"] by (auto simp: list_all_iff isdigit_def)
  then show "CHR ''.'' \<notin> set (decimal i)" by (simp add: decimal_def)
qed

text \<open>
  A decimal text of an integer, whatever follows it that is no digit and has no point, is read as
  an \<open>int\<close>, a \<open>long\<close> or an \<open>unsigned long\<close>, the first that has the number; a number below the range of
  a \<open>long\<close> becomes a positive \<open>unsigned long\<close>, and one of 65 bits or more is refused.
\<close>

theorem number_text_read:
  assumes "trailing x"
  shows "number_of_text fl (decimal i @ x) =
    (if - (2 ^ 31) \<le> i \<and> i < 2 ^ 31 then Some (Integer IntT i)
     else if - (2 ^ 63) \<le> i \<and> i < 2 ^ 63 then Some (Integer LongT i)
     else if \<bar>i\<bar> < 2 ^ 64 then Some (Integer ULongT (if i < 0 then i + 2 ^ 64 else i))
     else None)"
proof -
  have r: "read_integer (decimal i @ x) = Some i" using assms by (intro read_decimal) (simp add: trailing_def)
  have "CHR ''.'' \<notin> set (decimal i @ x)" using assms decimal_digits(2) by (simp add: trailing_def)
  then show ?thesis using decimal_digits(1) [of i x] wrap_ULong [of i]
    by (simp add: number_of_text_def sto_signed_def sto_unsigned_def r del: wrap.simps)
qed


section \<open>Numbers\<close>

lemma number_text_plain: "number_of_text fl (decimal i) = number_of_text fl (decimal i @ [])" by simp

lemma typed_text_read:
  assumes "in_range ty i" "trailing x"
  obtains ty' where "number_of_text fl (decimal i @ x) = Some (Integer ty' i)" "in_range ty' i"
proof -
  have r: "read_integer (decimal i @ x) = Some i" using assms(2) by (intro read_decimal) (simp add: trailing_def)
  have n: "CHR ''.'' \<notin> set (decimal i @ x)" using assms(2) decimal_digits(2) by (simp add: trailing_def)
  have b: "- (2 ^ 63) \<le> i" "i < 2 ^ 64" using in_range_bounds [OF assms(1)] by auto
  show thesis
  proof (cases "in_range IntT i \<or> in_range LongT i")
    case True
    then show thesis using decimal_digits(1) [of i x] n that [of IntT] that [of LongT]
      by (cases "in_range IntT i") (auto simp: number_of_text_def sto_signed_def r)
  next
    case False
    then have "in_range ULongT i" using b by auto
    then show thesis using decimal_digits(1) [of i x] n False b that [of ULongT]
      by (simp add: number_of_text_def sto_signed_def sto_unsigned_def r wrap_ULong del: wrap.simps)
  qed
qed

text \<open>
  C25: Every integer a number can hold, whatever its type, is read back from its text as the same
  integer, in a type that has it.
\<close>

theorem number_text_roundtrip:
  assumes "in_range ty i"
  shows "\<exists>ty'. number_of_text fl (number_to_string fl (Integer ty i)) = Some (Integer ty' i) \<and> in_range ty' i"
  using typed_text_read [OF assms, of "[]" fl] by (auto simp: trailing_def)

section \<open>Values of their types\<close>

fun number_typed :: "'f sql_number \<Rightarrow> bool" where
  "number_typed (Integer ty i) = in_range ty i"
| "number_typed _ = True"

fun value_typed :: "'f sql_value \<Rightarrow> bool" where
  "value_typed (Number n) = number_typed n"
| "value_typed (Time t) = in_range LongT (t_value t)"
| "value_typed _ = True"

section \<open>Conversions to integers\<close>

text \<open>The integer of a type that an integer is cut to: its residue, below zero in the upper half of a signed type.\<close>

fun type_bits :: "int_type \<Rightarrow> nat" where
  "type_bits BoolT = 1"
| "type_bits CharT = 8"
| "type_bits UCharT = 8"
| "type_bits WCharT = 32"
| "type_bits ShortT = 16"
| "type_bits UShortT = 16"
| "type_bits IntT = 32"
| "type_bits UIntT = 32"
| "type_bits LongT = 64"
| "type_bits ULongT = 64"
| "type_bits LongLongT = 64"
| "type_bits ULongLongT = 64"

definition fitted :: "int_type \<Rightarrow> int \<Rightarrow> int" where
  "fitted ty i =
     (let m = 2 ^ type_bits ty; r = i mod m
      in if ty \<in> {CharT, WCharT, ShortT, IntT, LongT, LongLongT} \<and> m div 2 \<le> r then r - m else r)"

lemma signed_residue:
  "signed_take_bit n i = (if 2 ^ n \<le> i mod 2 ^ Suc n then i mod 2 ^ Suc n - 2 ^ Suc n else i mod 2 ^ Suc n)" for i :: int
proof -
  have "take_bit (Suc n) i = take_bit n i + 2 ^ n * of_bool (bit i n)"
    by (simp add: take_bit_Suc_from_most)
  moreover have "\<not> 2 ^ n \<le> take_bit n i" "0 \<le> take_bit n i" by (simp_all add: not_le)
  ultimately have "2 ^ n \<le> take_bit (Suc n) i \<longleftrightarrow> bit i n" by (cases "bit i n") simp_all
  then show ?thesis
    by (simp only: take_bit_eq_mod [symmetric] signed_take_bit_eq_take_bit_minus) simp
qed

lemma wrap_fitted: "ty \<noteq> BoolT \<Longrightarrow> wrap ty i = fitted ty i"
  by (cases ty) (simp_all add: fitted_def Let_def signed_residue take_bit_eq_mod)

lemma fitted_modulo: "fitted ty (i + 2 ^ 64) = fitted ty i"
proof -
  have "type_bits ty \<le> 64" by (cases ty) simp_all
  then have "(2 :: int) ^ type_bits ty dvd 2 ^ 64" by (rule le_imp_power_dvd)
  then obtain k where "(2 :: int) ^ 64 = 2 ^ type_bits ty * k" by (rule dvdE)
  then have "(i + 2 ^ 64) mod 2 ^ type_bits ty = i mod 2 ^ type_bits ty" by (simp only: mod_mult_self2)
  then show ?thesis by (simp add: fitted_def)
qed

lemma upper_texts:
  "map toupper ''true'' = ''TRUE''" "map toupper ''yes'' = ''YES''" "map toupper ''false'' = ''FALSE''" "map toupper ''no'' = ''NO''"
  by code_simp+


section \<open>Comparing values\<close>

lemma number_eq_same: "in_range ty i \<Longrightarrow> number_eq fl (Integer ty i) (Integer ty' i)"
  by (simp add: in_range_def del: wrap.simps)

text \<open>
  An integer equals every text that starts with its decimal text and goes on without a digit or a
  point; seen from the text, only the one that is its decimal text is equal to it.
\<close>

theorem text_number_equality:
  assumes "in_range ty i" "trailing x"
  shows "value_eq fl (Number (Integer ty i)) (Text (decimal i @ x)) = Some True \<and>
    value_eq fl (Text (decimal i @ x)) (Number (Integer ty i)) = Some (x = [])"
proof -
  obtain ty' where t: "number_of_text fl (decimal i @ x) = Some (Integer ty' i)" "in_range ty' i"
    by (rule typed_text_read [OF assms])
  show ?thesis using number_eq_same [OF t(2), of fl ty] by (auto simp: t(1) simp del: number_eq.simps)
qed

text \<open>
  Nothing but null equals null from the left; from the right a text equals it when it spells NULL
  and bytes are compared without end; and a number without a value equals zero of every type, while
  zero does not equal it.
\<close>

theorem null_equality:
  "value_eq fl Null v = Some (v = Null) \<and>
   value_eq fl (Text s) Null = Some (s = ''NULL'') \<and>
   value_eq fl (Number (Integer ty i)) Null = Some False \<and>
   value_eq fl (Number NullNumber) (Number (Integer ty i)) = Some (i = 0) \<and>
   value_eq fl (Number (Integer ty i)) (Number NullNumber) = Some False \<and>
   value_eq fl (Time t) Null = Some False"
  by auto

lemma eq_blob_never: "eq_blob v b = Some r \<Longrightarrow> as_blob v = None"
proof (erule eq_blob.raw_induct [where P = "\<lambda>v b r. as_blob v = None", rotated])
  fix eq :: "'a sql_value \<Rightarrow> string \<Rightarrow> bool option" and v b r
  assume less: "\<And>v b r. eq v b = Some r \<Longrightarrow> as_blob v = None"
    and step: "(case as_blob v of None \<Rightarrow> Some False | Some b' \<Rightarrow> eq (Blob b) b') = Some r"
  show "as_blob v = None"
    using step less [of "Blob b"] by (auto split: option.splits)
qed

text \<open>
  Comparing bytes with bytes, with a text or with null never returns; comparing them with a number
  or a time returns that they differ.
\<close>

theorem comparing_bytes_never_returns:
  "value_eq fl (Blob b) v = (case v of Number n \<Rightarrow> Some False | Time t \<Rightarrow> Some False | _ \<Rightarrow> None)"
proof -
  have "eq_blob v b = None" if "as_blob v \<noteq> None"
    using that eq_blob_never [of v b] by (cases "eq_blob v b") auto
  moreover have "eq_blob v b = Some False" if "as_blob v = None"
    by (subst eq_blob.simps) (simp add: that)
  ultimately show ?thesis by (cases v) simp_all
qed

section \<open>Examples\<close>

text \<open>Floating point numbers are not used by the examples.\<close>

definition no_floats :: "unit floats" where
  "no_floats = \<lparr>from_text = (\<lambda>ft s. None), float_text = (\<lambda>x. []), of_integer = (\<lambda>ft i. ()), rounded = (\<lambda>ft x. x),
     truncated = (\<lambda>ty x. 0), float_eq = (\<lambda>x y. x = y), address = (\<lambda>b. [])\<rparr>"

lemma trailing_examples: "trailing '' apples''" "trailing []"
  by (simp_all add: trailing_def isdigit_def)

lemma decimal_12: "decimal 12 = ''12''"
  by code_simp

theorem number_text_read_witness:
  "number_of_text no_floats ''12 apples'' = Some (Integer IntT 12)"
  using number_text_read [OF trailing_examples(1), of no_floats 12] by (simp add: decimal_12)

theorem number_text_roundtrip_witness:
  "\<exists>ty'. number_of_text no_floats (number_to_string no_floats (Integer CharT (- 7))) = Some (Integer ty' (- 7)) \<and>
     in_range ty' (- 7)"
  by (rule number_text_roundtrip) (simp add: in_range_def)


theorem text_number_equality_witness:
  "value_eq no_floats (Number (Integer IntT 12)) (Text ''12 apples'') = Some True \<and>
   value_eq no_floats (Text ''12 apples'') (Number (Integer IntT 12)) = Some False"
proof -
  have "in_range IntT 12" by simp
  from text_number_equality [OF this trailing_examples(1), of no_floats] show ?thesis by (simp add: decimal_12)
qed

end
