(* ===== verification/DriverBind.thy ===== *)
theory DriverBind
  imports ValueProps
begin

text \<open>
  What the statements of all drivers share: the errors they raise and the loop of \<^verbatim>\<open>query::prepare\<close> that
  binds the values of a query one by one, with the contract of a driver's \<open>bind\<close> as a locale.
\<close>

datatype statement_error = DatabaseNotOpen | DatabaseError | StatementInvalid | BindingError | NoSuchParameter

section \<open>Binding the values of a query\<close>

text \<open>
  The loop of \<open>query::prepare\<close> over the values, for the \<open>bind\<close> of any driver; \<open>Inl\<close> is an exception.
\<close>

fun bind_all :: "('s \<Rightarrow> nat \<Rightarrow> 'v \<Rightarrow> 'e + 's) \<Rightarrow> nat \<Rightarrow> 'v list \<Rightarrow> 's \<Rightarrow> 'e + 's" where
  "bind_all binds i [] s = Inr s"
| "bind_all binds i (v # vs) s = (case binds s i v of Inl e \<Rightarrow> Inl e | Inr s' \<Rightarrow> bind_all binds (Suc i) vs s')"

text \<open>
  What a driver's \<open>bind\<close> promises: a value it accepts is put where its index says, nothing else
  changes, and a value it does not accept raises.
\<close>

locale driver_bind =
  fixes binds :: "'s \<Rightarrow> nat \<Rightarrow> 'v \<Rightarrow> 'e + 's" and accepts :: "'v \<Rightarrow> bool" and image :: "'v \<Rightarrow> 'c"
    and param :: "'s \<Rightarrow> nat \<Rightarrow> 'c" and room :: "'s \<Rightarrow> nat \<Rightarrow> bool" and good :: "'s \<Rightarrow> bool"
  assumes bind_accepted: "\<lbrakk>good s; accepts v; room s i; 0 < i\<rbrakk> \<Longrightarrow>
      \<exists>s'. binds s i v = Inr s' \<and> good s' \<and> room s' = room s \<and> param s' = (param s)(i := image v)"
    and bind_refused: "\<lbrakk>good s; \<not> accepts v; room s i; 0 < i\<rbrakk> \<Longrightarrow> \<exists>e. binds s i v = Inl e"
begin

lemma bind_all_params:
  assumes "good s" "0 < i" "\<forall>v\<in>set vs. accepts v" "\<forall>j<length vs. room s (i + j)"
  shows "\<exists>s'. bind_all binds i vs s = Inr s' \<and> good s' \<and> room s' = room s \<and>
    (\<forall>k. param s' k = (if i \<le> k \<and> k < i + length vs then image (vs ! (k - i)) else param s k))"
  using assms
proof (induction vs arbitrary: i s)
  case Nil
  then show ?case by auto
next
  case (Cons v vs)
  have "accepts v" "room s i" using Cons.prems by auto
  then obtain s1 where s1: "binds s i v = Inr s1" "good s1" "room s1 = room s" "param s1 = (param s)(i := image v)"
    using bind_accepted Cons.prems by blast
  have "\<forall>j<length vs. room s1 (Suc i + j)" using Cons.prems(4) by (auto simp: s1(3))
  with Cons.IH [of s1 "Suc i"] Cons.prems(3) s1(2) obtain s' where
    s': "bind_all binds (Suc i) vs s1 = Inr s'" "good s'" "room s' = room s1"
    "\<forall>k. param s' k = (if Suc i \<le> k \<and> k < Suc i + length vs then image (vs ! (k - Suc i)) else param s1 k)"
    by auto
  have "param s' k = (if i \<le> k \<and> k < i + length (v # vs) then image ((v # vs) ! (k - i)) else param s k)" for k
    using s'(4) s1(4) by (cases "k = i") (auto simp: nth_Cons')
  with s' s1 show ?case by simp
qed

lemma bind_all_refused:
  assumes "good s" "0 < i" "\<not> (\<forall>v\<in>set vs. accepts v)" "\<forall>j<length vs. room s (i + j)"
  shows "\<exists>e. bind_all binds i vs s = Inl e"
  using assms
proof (induction vs arbitrary: i s)
  case (Cons v vs)
  have r: "room s i" using Cons.prems(4) by auto
  show ?case
  proof (cases "accepts v")
    case True
    then obtain s1 where s1: "binds s i v = Inr s1" "good s1" "room s1 = room s"
      using bind_accepted Cons.prems r by blast
    have "\<forall>j<length vs. room s1 (Suc i + j)" using Cons.prems(4) by (auto simp: s1(3))
    with Cons.IH [of s1 "Suc i"] Cons.prems(3) s1 True show ?thesis by auto
  next
    case False
    then show ?thesis using bind_refused Cons.prems r by fastforce
  qed
qed simp

end

end
