(* ===== verification/SqliteStatement.thy ===== *)
theory SqliteStatement
  imports ResultDrivers DriverBind
begin

text \<open>
  \<^verbatim>\<open>sqlite/statement.cpp\<close> and \<^verbatim>\<open>sqlite/column.cpp\<close>: statements of SQLite, the values bound to their
  parameters and the values of their columns; and what becomes of a value that is bound and read
  back. The client library is a parameter, with what its documentation says as hypotheses.
\<close>

section \<open>Values bound to parameters\<close>

text \<open>The functions of the client library that bind a value; no bytes are a null pointer.\<close>

datatype 'f sqlite_call = BindInt int | BindInt64 int | BindDouble 'f | BindNull | BindText string | BindBlob string

text \<open>
  \<open>from_number\<close>: types without a function of their own are promoted to \<open>int\<close>; \<open>None\<close> is a value that
  is refused without asking the library.
\<close>

fun from_number :: "'f floats \<Rightarrow> 'f sql_number \<Rightarrow> 'f sqlite_call option" where
  "from_number fl NullNumber = Some BindNull"
| "from_number fl (Integer ty i) =
     (case ty of
        UIntT \<Rightarrow> Some (BindInt64 i)
      | LongT \<Rightarrow> Some (BindInt (wrap IntT i))
      | ULongT \<Rightarrow> Some (BindInt64 (wrap LongLongT i))
      | LongLongT \<Rightarrow> Some (BindInt64 i)
      | ULongLongT \<Rightarrow> None
      | _ \<Rightarrow> Some (BindInt i))"
| "from_number fl (Floating ft x) =
     (case ft of Float \<Rightarrow> Some (BindDouble (rounded fl Double x)) | Double \<Rightarrow> Some (BindDouble x) | LongDouble \<Rightarrow> None)"

text \<open>\<open>from_value\<close>; a time the C library has no date for, which is not printed either, counts as refused.\<close>

fun from_value :: "'f floats \<Rightarrow> 'f sql_value \<Rightarrow> 'f sqlite_call option" where
  "from_value fl Null = Some BindNull"
| "from_value fl (Number n) = from_number fl n"
| "from_value fl (Text s) = Some (BindText (c_str s))"
| "from_value fl (Time t) = map_option BindText (time_to_string t)"
| "from_value fl (Blob b) = Some (BindBlob b)"

text \<open>Whether a result code counts as success: for a null number the visitor returns the code itself.\<close>

fun bind_succeeds :: "'f sql_value \<Rightarrow> int \<Rightarrow> bool" where
  "bind_succeeds (Number NullNumber) rc = (rc \<noteq> 0)"
| "bind_succeeds _ rc = (rc = SQLITE_OK)"

section \<open>Statements\<close>

abbreviation SQLITE_INTEGER :: int where "SQLITE_INTEGER \<equiv> 1"
abbreviation SQLITE_FLOAT :: int where "SQLITE_FLOAT \<equiv> 2"
abbreviation SQLITE3_TEXT :: int where "SQLITE3_TEXT \<equiv> 3"
abbreviation SQLITE_BLOB :: int where "SQLITE_BLOB \<equiv> 4"
abbreviation SQLITE_NULL :: int where "SQLITE_NULL \<equiv> 5"

text \<open>
  The client library, beyond stepping and resetting. Preparing a text without a statement gives the
  null pointer.
\<close>

record ('st, 'f) sqlite_lib = "('st, 'f sql_value) sqlite_api" +
  sl_prepare :: "string \<Rightarrow> int \<times> 'st option"
  sl_bind :: "'st \<Rightarrow> nat \<Rightarrow> 'f sqlite_call \<Rightarrow> int \<times> 'st"
  sl_parameter_index :: "'st \<Rightarrow> string \<Rightarrow> int"
  sl_column_count :: "'st \<Rightarrow> int"
  sl_column_name :: "'st \<Rightarrow> int \<Rightarrow> string"
  sl_column_type :: "'st \<Rightarrow> int \<Rightarrow> int"
  sl_column_int64 :: "'st \<Rightarrow> int \<Rightarrow> int"
  sl_column_double :: "'st \<Rightarrow> int \<Rightarrow> 'f"
  sl_column_text :: "'st \<Rightarrow> int \<Rightarrow> string option"
  sl_column_blob :: "'st \<Rightarrow> int \<Rightarrow> string"

text \<open>A statement; \<open>ss_open\<close> is whether its session is open.\<close>

record 'st sqlite_statement =
  ss_open :: bool
  ss_stmt :: "'st option"
  ss_bound :: nat

definition sqlite_prepare ::
  "('st, 'f) sqlite_lib \<Rightarrow> string \<Rightarrow> 'st sqlite_statement \<Rightarrow> statement_error + 'st sqlite_statement" where
  "sqlite_prepare lib sql s =
     (if \<not> ss_open s then Inl DatabaseNotOpen
      else if ss_stmt s \<noteq> None then Inr s
      else case sl_prepare lib (c_str sql) of
        (rc, st) \<Rightarrow> if rc \<noteq> SQLITE_OK then Inl DatabaseError else Inr (s\<lparr>ss_stmt := st\<rparr>))"

definition sqlite_bind ::
  "'f floats \<Rightarrow> ('st, 'f) sqlite_lib \<Rightarrow> 'st sqlite_statement \<Rightarrow> nat \<Rightarrow> 'f sql_value \<Rightarrow>
   statement_error + 'st sqlite_statement" where
  "sqlite_bind fl lib s index v =
     (case ss_stmt s of
        None \<Rightarrow> Inl StatementInvalid
      | Some st \<Rightarrow>
          case from_value fl v of
            None \<Rightarrow> Inl BindingError
          | Some c \<Rightarrow>
              case sl_bind lib st index c of
                (rc, st') \<Rightarrow>
                  if bind_succeeds v rc then Inr (s\<lparr>ss_stmt := Some st', ss_bound := ss_bound s + 1\<rparr>) else Inl BindingError)"

definition sqlite_bind_name ::
  "'f floats \<Rightarrow> ('st, 'f) sqlite_lib \<Rightarrow> 'st sqlite_statement \<Rightarrow> string \<Rightarrow> 'f sql_value \<Rightarrow>
   statement_error + 'st sqlite_statement" where
  "sqlite_bind_name fl lib s name v =
     (case ss_stmt s of
        None \<Rightarrow> Inl StatementInvalid
      | Some st \<Rightarrow>
          let index = sl_parameter_index lib st (c_str name)
          in if index \<le> 0 then Inl NoSuchParameter else sqlite_bind fl lib s (nat index) v)"

definition sqlite_query :: "'st sqlite_statement \<Rightarrow> statement_error + 'st sqlite_resultset" where
  "sqlite_query s =
     (case ss_stmt s of None \<Rightarrow> Inl DatabaseError | Some st \<Rightarrow> Inr \<lparr>sq_stmt = st, sq_status = - 1\<rparr>)"

definition sqlite_execute :: "('st, 'f) sqlite_lib \<Rightarrow> 'st sqlite_statement \<Rightarrow> bool \<times> 'st sqlite_statement" where
  "sqlite_execute lib s =
     (case ss_stmt s of
        None \<Rightarrow> (False, s)
      | Some st \<Rightarrow> case sq_step lib st of (rc, st') \<Rightarrow> (rc = SQLITE_DONE, s\<lparr>ss_stmt := Some st'\<rparr>))"

definition sqlite_finish :: "'st sqlite_statement \<Rightarrow> 'st sqlite_statement" where
  "sqlite_finish s = s\<lparr>ss_stmt := None\<rparr>"

definition sqlite_stmt_reset ::
  "('st, 'f) sqlite_lib \<Rightarrow> 'st sqlite_statement \<Rightarrow> statement_error + 'st sqlite_statement" where
  "sqlite_stmt_reset lib s =
     (case ss_stmt s of
        None \<Rightarrow> Inr s
      | Some st \<Rightarrow>
          case sq_reset lib st of
            (rc, st') \<Rightarrow> if rc \<noteq> SQLITE_OK then Inl DatabaseError else Inr (s\<lparr>ss_stmt := Some st'\<rparr>))"

text \<open>The value of a column, and the columns a row of a result shows.\<close>

definition sqlite_to_value :: "('st, 'f) sqlite_lib \<Rightarrow> 'st \<Rightarrow> int \<Rightarrow> 'f sql_value" where
  "sqlite_to_value lib st column =
     (if column < 0 \<or> column \<ge> sl_column_count lib st then Null
      else let t = sl_column_type lib st column in
        if t = SQLITE_INTEGER then Number (Integer LongLongT (sl_column_int64 lib st column))
        else if t = SQLITE_FLOAT then Number (Floating Double (sl_column_double lib st column))
        else if t = SQLITE_BLOB then Blob (sl_column_blob lib st column)
        else case sl_column_text lib st column of Some s \<Rightarrow> Text s | None \<Rightarrow> Null)"

definition sqlite_columns :: "('st, 'f) sqlite_lib \<Rightarrow> 'st \<Rightarrow> 'f sql_value columns" where
  "sqlite_columns lib st =
     map (\<lambda>i. (sl_column_name lib st (int i), sqlite_to_value lib st (int i))) [0..<nat (sl_column_count lib st)]"

end
