(* ===== verification/SqliteProps.thy ===== *)
theory SqliteProps
  imports SqliteStatement
begin

text \<open>
  What binding the values of a query to a statement of SQLite does, and what reading a bound value
  back gives, when the client library behaves as documented.
\<close>

section \<open>The parameters of a statement\<close>

definition sqlite_accepts :: "'f floats \<Rightarrow> 'f sql_value \<Rightarrow> bool" where
  "sqlite_accepts fl v = (v \<noteq> Number NullNumber \<and> from_value fl v \<noteq> None)"

text \<open>
  The documentation of \<open>sqlite3_bind\<close>: on a statement that is not being stepped, the call stores the
  value for a parameter of the statement, and fails without effect for any other index.
\<close>

definition binds_documented ::
  "('st, 'f) sqlite_lib \<Rightarrow> ('st \<Rightarrow> nat \<Rightarrow> 'f sqlite_call) \<Rightarrow> ('st \<Rightarrow> nat) \<Rightarrow> ('st \<Rightarrow> bool) \<Rightarrow> bool" where
  "binds_documented lib params parameters ready =
     (\<forall>st i c. ready st \<longrightarrow>
        (case sl_bind lib st i c of
           (rc, st') \<Rightarrow> ready st' \<and> parameters st' = parameters st \<and>
             (if 0 < i \<and> i \<le> parameters st then rc = SQLITE_OK \<and> params st' = (params st)(i := c)
              else rc \<noteq> SQLITE_OK \<and> params st' = params st)))"

lemma bind_documented:
  assumes "binds_documented lib params parameters ready" "ready st" "0 < i" "i \<le> parameters st"
  obtains st' where "sl_bind lib st i c = (SQLITE_OK, st')" "ready st'" "parameters st' = parameters st"
    "params st' = (params st)(i := c)"
  using assms by (cases "sl_bind lib st i c") (auto simp: binds_documented_def split: prod.splits)

lemma bind_succeeds_OK: "v \<noteq> Number NullNumber \<Longrightarrow> bind_succeeds v SQLITE_OK"
  by (cases v) (auto, case_tac x2, auto)

definition of_stmt :: "'a \<Rightarrow> ('st \<Rightarrow> 'a) \<Rightarrow> 'st sqlite_statement \<Rightarrow> 'a" where
  "of_stmt d f s = (case ss_stmt s of None \<Rightarrow> d | Some st \<Rightarrow> f st)"

lemma of_stmt_Some [simp]: "ss_stmt s = Some st \<Longrightarrow> of_stmt d f s = f st"
  by (simp add: of_stmt_def)

lemma sqlite_driver_bind:
  fixes lib :: "('st, 'f) sqlite_lib"
  assumes "binds_documented lib params parameters ready"
  shows "driver_bind (sqlite_bind fl lib) (sqlite_accepts fl) (\<lambda>v. the (from_value fl v))
    (of_stmt (\<lambda>_. BindNull) params) (\<lambda>s i. of_stmt False (\<lambda>st. i \<le> parameters st) s) (of_stmt False ready)"
proof
  fix s :: "'st sqlite_statement" and v and i :: nat
  assume "of_stmt False ready s" and v: "sqlite_accepts fl v" and "of_stmt False (\<lambda>st. i \<le> parameters st) s" "0 < i"
  then obtain st where st: "ss_stmt s = Some st" "ready st" "i \<le> parameters st" "0 < i"
    by (auto simp: of_stmt_def split: option.splits)
  obtain c where c: "from_value fl v = Some c" using v by (auto simp: sqlite_accepts_def)
  obtain st' where st': "sl_bind lib st i c = (SQLITE_OK, st')" "ready st'" "parameters st' = parameters st"
    "params st' = (params st)(i := c)"
    by (rule bind_documented [OF assms st(2,4,3)])
  have "bind_succeeds v SQLITE_OK" using v by (intro bind_succeeds_OK) (simp add: sqlite_accepts_def)
  with st st' c show "\<exists>s'. sqlite_bind fl lib s i v = Inr s' \<and> of_stmt False ready s' \<and>
      (\<lambda>i. of_stmt False (\<lambda>st. i \<le> parameters st) s') = (\<lambda>i. of_stmt False (\<lambda>st. i \<le> parameters st) s) \<and>
      of_stmt (\<lambda>_. BindNull) params s' = (of_stmt (\<lambda>_. BindNull) params s)(i := the (from_value fl v))"
    by (simp add: sqlite_bind_def)
next
  fix s :: "'st sqlite_statement" and v and i :: nat
  assume "of_stmt False ready s" and v: "\<not> sqlite_accepts fl v" and "of_stmt False (\<lambda>st. i \<le> parameters st) s" "0 < i"
  then obtain st where st: "ss_stmt s = Some st" "ready st" "i \<le> parameters st" "0 < i"
    by (auto simp: of_stmt_def split: option.splits)
  show "\<exists>e. sqlite_bind fl lib s i v = Inl e"
  proof (cases "from_value fl v")
    case (Some c)
    then have n: "v = Number NullNumber" using v by (simp add: sqlite_accepts_def)
    obtain st' where "sl_bind lib st i c = (SQLITE_OK, st')" by (rule bind_documented [OF assms st(2,4,3)])
    then show ?thesis using st Some n by (simp add: sqlite_bind_def)
  qed (simp add: sqlite_bind_def st)
qed

text \<open>
  C26: Binding the values of a query, from the first parameter on, hands every value to the library
  under its own number and touches no other parameter, if every value can be bound; it raises if one
  cannot: a \<open>long double\<close>, an \<open>unsigned long long\<close>, a time without a date, or a number that is null.
\<close>

theorem sqlite_parameters_bound:
  assumes "binds_documented lib params parameters ready"
    and "ss_stmt s = Some st" "ready st" "length vs \<le> parameters st"
  shows "if \<forall>v\<in>set vs. sqlite_accepts fl v
    then \<exists>s' st'. bind_all (sqlite_bind fl lib) 1 vs s = Inr s' \<and> ss_stmt s' = Some st' \<and>
      (\<forall>k. params st' k = (if 1 \<le> k \<and> k \<le> length vs then the (from_value fl (vs ! (k - 1))) else params st k))
    else \<exists>e. bind_all (sqlite_bind fl lib) 1 vs s = Inl e"
proof -
  note b = sqlite_driver_bind [OF assms(1), of fl]
  have g: "of_stmt False ready s" "\<forall>j<length vs. of_stmt False (\<lambda>st. 1 + j \<le> parameters st) s"
    using assms(2-4) by simp_all
  show ?thesis
  proof (cases "\<forall>v\<in>set vs. sqlite_accepts fl v")
    case True
    then obtain s' where s': "bind_all (sqlite_bind fl lib) 1 vs s = Inr s'" "of_stmt False ready s'"
      "\<forall>k. of_stmt (\<lambda>_. BindNull) params s' k =
        (if 1 \<le> k \<and> k < 1 + length vs then the (from_value fl (vs ! (k - 1))) else of_stmt (\<lambda>_. BindNull) params s k)"
      using driver_bind.bind_all_params [OF b g(1) zero_less_one _ g(2)] by blast
    then obtain st' where "ss_stmt s' = Some st'" by (auto simp: of_stmt_def split: option.splits)
    with s' True assms(2) show ?thesis by (auto simp: less_Suc_eq_le)
  next
    case False
    then show ?thesis using driver_bind.bind_all_refused [OF b g(1) zero_less_one False g(2)] by auto
  qed
qed

section \<open>Values bound and read back\<close>

text \<open>
  The documentation of \<open>sqlite3_column\<close>, for a column that holds what a call has bound; bytes from a
  null pointer are NULL, and so is a double that is not a number, as \<open>nan\<close> tells.
\<close>

fun column_holds :: "('f \<Rightarrow> bool) \<Rightarrow> ('st, 'f) sqlite_lib \<Rightarrow> 'st \<Rightarrow> int \<Rightarrow> 'f sqlite_call \<Rightarrow> bool" where
  "column_holds nan lib st i (BindInt n) = (sl_column_type lib st i = SQLITE_INTEGER \<and> sl_column_int64 lib st i = n)"
| "column_holds nan lib st i (BindInt64 n) = (sl_column_type lib st i = SQLITE_INTEGER \<and> sl_column_int64 lib st i = n)"
| "column_holds nan lib st i (BindDouble x) =
     (if nan x then sl_column_type lib st i = SQLITE_NULL \<and> sl_column_text lib st i = None
      else sl_column_type lib st i = SQLITE_FLOAT \<and> sl_column_double lib st i = x)"
| "column_holds nan lib st i BindNull = (sl_column_type lib st i = SQLITE_NULL \<and> sl_column_text lib st i = None)"
| "column_holds nan lib st i (BindText s) = (sl_column_type lib st i = SQLITE3_TEXT \<and> sl_column_text lib st i = Some s)"
| "column_holds nan lib st i (BindBlob b) =
     (if b = [] then sl_column_type lib st i = SQLITE_NULL \<and> sl_column_text lib st i = None
      else sl_column_type lib st i = SQLITE_BLOB \<and> sl_column_blob lib st i = b)"

text \<open>The integer that comes back: types that fit are kept.\<close>

definition kept_integer :: "int_type \<Rightarrow> int \<Rightarrow> int" where
  "kept_integer ty n = (if ty = LongT then wrap IntT n else wrap LongLongT n)"

lemma fits_long_long: "in_range ty n \<Longrightarrow> ty \<noteq> ULongT \<Longrightarrow> ty \<noteq> ULongLongT \<Longrightarrow> wrap LongLongT n = n"
  by (cases ty)
    (auto simp: in_range_def signed_take_bit_int_eq_self_iff take_bit_int_eq_self_iff split: if_splits)

lemma kept_narrow: "in_range ty n \<Longrightarrow> ty \<notin> {LongT, ULongT, ULongLongT} \<Longrightarrow> kept_integer ty n = n"
  using fits_long_long [of ty n] by (simp add: kept_integer_def)

lemma bound_integer:
  assumes "in_range ty n" "from_value fl (Number (Integer ty n)) = Some c"
  shows "c = BindInt (kept_integer ty n) \<or> c = BindInt64 (kept_integer ty n)"
  using assms kept_narrow [OF assms(1)] by (cases ty) (auto simp: kept_integer_def simp del: wrap.simps)

text \<open>
  C27: A value bound to a parameter and read back from a column that stores it as it was bound is the
  same value, with these exceptions. An integer becomes a \<open>long long\<close>: a \<open>long\<close> is first cut to 32
  bits, and an \<open>unsigned long\<close> may turn negative. A float becomes a double, and what is not a number
  becomes null. A text ends at its first zero character, a time becomes its text, and no bytes
  become null.
\<close>

theorem sqlite_values_kept:
  assumes "value_typed v" "from_value fl v = Some c" "column_holds nan lib st i c" "0 \<le> i" "i < sl_column_count lib st"
  shows "sqlite_to_value lib st i =
    (case v of
       Null \<Rightarrow> Null
     | Number NullNumber \<Rightarrow> Null
     | Number (Integer ty n) \<Rightarrow> Number (Integer LongLongT (if ty = LongT then wrap IntT n else wrap LongLongT n))
     | Number (Floating ft x) \<Rightarrow>
         let d = (if ft = Float then rounded fl Double x else x) in if nan d then Null else Number (Floating Double d)
     | Text s \<Rightarrow> Text (c_str s)
     | Time t \<Rightarrow> Text (the (time_to_string t))
     | Blob b \<Rightarrow> if b = [] then Null else Blob b)"
proof (cases v)
  case (Number m)
  show ?thesis
  proof (cases m)
    case (Integer ty n)
    then show ?thesis using bound_integer [of ty n fl c] assms Number
      by (auto simp: sqlite_to_value_def Let_def kept_integer_def simp del: wrap.simps)
  next
    case (Floating ft x)
    then show ?thesis using assms Number by (cases ft) (auto simp: sqlite_to_value_def Let_def split: if_splits)
  qed (use assms Number in \<open>auto simp: sqlite_to_value_def Let_def\<close>)
qed (use assms in \<open>auto simp: sqlite_to_value_def Let_def split: if_splits\<close>)

lemma integer_back:
  assumes "in_range ty n" "from_value fl (Number (Integer ty n)) = Some c" "column_holds nan lib st i c"
    "0 \<le> i" "i < sl_column_count lib st"
  shows "sqlite_to_value lib st i = Number (Integer LongLongT (kept_integer ty n))"
  using bound_integer [OF assms(1,2)] assms(3-5) by (auto simp: sqlite_to_value_def Let_def)

text \<open>
  An integer that was bound and the one read back are equal, from either side, unless it is a
  \<open>long\<close> beyond 32 bits: then they differ.
\<close>

theorem sqlite_equal_back:
  assumes "in_range ty n" "from_value fl (Number (Integer ty n)) = Some c" "column_holds nan lib st i c"
    "0 \<le> i" "i < sl_column_count lib st"
  shows "value_eq fl (Number (Integer ty n)) (sqlite_to_value lib st i) = Some (ty \<noteq> LongT \<or> in_range IntT n) \<and>
    value_eq fl (sqlite_to_value lib st i) (Number (Integer ty n)) = Some (ty \<noteq> LongT \<or> in_range IntT n)"
proof
  show "value_eq fl (Number (Integer ty n)) (sqlite_to_value lib st i) = Some (ty \<noteq> LongT \<or> in_range IntT n)"
    unfolding integer_back [OF assms] using fits_long_long [OF assms(1)]
    by (auto simp: kept_integer_def in_range_def simp del: wrap.simps in_range_iff)
  have "wrap ty (kept_integer ty n) = (if ty = LongT then wrap IntT n else n)"
    using assms(1,2) kept_narrow [OF assms(1)]
    by (cases "ty = LongT \<or> ty = ULongT \<or> ty = ULongLongT")
      (auto simp: kept_integer_def in_range_def take_bit_signed_take_bit)
  then show "value_eq fl (sqlite_to_value lib st i) (Number (Integer ty n)) = Some (ty \<noteq> LongT \<or> in_range IntT n)"
    unfolding integer_back [OF assms] by (auto simp: in_range_def simp del: wrap.simps in_range_iff)
qed

text \<open>
  A time of a year of four digits that was bound is read back, as a time, with the same second if
  it has a date and a clock.
\<close>

theorem sqlite_times_kept:
  assumes "from_value fl (Time \<lparr>t_value = t, t_format = TIMESTAMP\<rparr>) = Some c" "column_holds nan lib st i c"
    "0 \<le> i" "i < sl_column_count lib st" "- 30610224000 \<le> t" "t < 253402300800"
  shows "as_time fl (sqlite_to_value lib st i) = Some \<lparr>t_value = t, t_format = DATETIME\<rparr>"
  using assms(1-4) four_digit_yearI [OF assms(5,6)]
  by (auto simp: sqlite_to_value_def Let_def time_texts parse_datetime [simplified])

section \<open>Examples\<close>

text \<open>A library whose statements select their parameters.\<close>

fun call_type :: "'f sqlite_call \<Rightarrow> int" where
  "call_type (BindInt n) = SQLITE_INTEGER"
| "call_type (BindInt64 n) = SQLITE_INTEGER"
| "call_type (BindDouble x) = SQLITE_FLOAT"
| "call_type BindNull = SQLITE_NULL"
| "call_type (BindText s) = SQLITE3_TEXT"
| "call_type (BindBlob b) = (if b = [] then SQLITE_NULL else SQLITE_BLOB)"

definition echo :: "((nat \<Rightarrow> unit sqlite_call) \<times> nat, unit) sqlite_lib" where
  "echo =
     \<lparr>sq_step = (\<lambda>st. (SQLITE_ROW, st)), sq_reset = (\<lambda>st. (SQLITE_OK, st)), sq_columns = (\<lambda>st. []),
      sl_prepare = (\<lambda>sql. (SQLITE_OK, Some (\<lambda>_. BindNull, 2))),
      sl_bind = (\<lambda>(p, n) i c. if 0 < i \<and> i \<le> n then (SQLITE_OK, (p(i := c), n)) else (25, (p, n))),
      sl_parameter_index = (\<lambda>st name. 0), sl_column_count = (\<lambda>(p, n). int n), sl_column_name = (\<lambda>st i. []),
      sl_column_type = (\<lambda>(p, n) i. call_type (p (nat i + 1))),
      sl_column_int64 = (\<lambda>(p, n) i. case p (nat i + 1) of BindInt m \<Rightarrow> m | BindInt64 m \<Rightarrow> m | _ \<Rightarrow> 0),
      sl_column_double = (\<lambda>st i. ()),
      sl_column_text = (\<lambda>(p, n) i. case p (nat i + 1) of BindText s \<Rightarrow> Some s | _ \<Rightarrow> None),
      sl_column_blob = (\<lambda>(p, n) i. case p (nat i + 1) of BindBlob b \<Rightarrow> b | _ \<Rightarrow> [])\<rparr>"

lemma echo_binds: "binds_documented echo fst snd (\<lambda>st. True)"
  by (auto simp: binds_documented_def echo_def)

lemma echo_holds: "p (nat i + 1) = c \<Longrightarrow> column_holds (\<lambda>_. False) echo (p, n) i c"
  by (cases c) (auto simp: echo_def)

lemma echo_count [simp]: "sl_column_count echo (p, n) = int n"
  by (simp add: echo_def)

abbreviation example_statement :: "((nat \<Rightarrow> unit sqlite_call) \<times> nat) sqlite_statement" where
  "example_statement \<equiv> \<lparr>ss_open = True, ss_stmt = Some (\<lambda>_. BindNull, 2), ss_bound = 0\<rparr>"

theorem sqlite_parameters_bound_witness:
  "(\<exists>s' st'. bind_all (sqlite_bind no_floats echo) 1 [Number (Integer IntT 5), Text ''x''] example_statement = Inr s' \<and>
      ss_stmt s' = Some st' \<and> fst st' 1 = BindInt 5 \<and> fst st' 2 = BindText ''x'') \<and>
   (\<exists>e. bind_all (sqlite_bind no_floats echo) 1 [Text ''x'', Number NullNumber] example_statement = Inl e)"
proof -
  have ok: "\<forall>v\<in>set [Number (Integer IntT 5), Text ''x'']. sqlite_accepts no_floats v"
    and bad: "\<not> (\<forall>v\<in>set [Text ''x'', Number NullNumber]. sqlite_accepts no_floats v)"
    by (simp_all add: sqlite_accepts_def)
  have st: "ss_stmt example_statement = Some (\<lambda>_. BindNull, 2)" by simp
  have len: "length [Number (Integer IntT 5), Text ''x''] \<le> snd (\<lambda>_. BindNull :: unit sqlite_call, 2)"
    "length [Text ''x'', Number NullNumber] \<le> snd (\<lambda>_. BindNull :: unit sqlite_call, 2)"
    by simp_all
  from sqlite_parameters_bound [OF echo_binds st TrueI len(1), of no_floats, unfolded if_P [OF ok]]
  obtain s' st' where "bind_all (sqlite_bind no_floats echo) 1 [Number (Integer IntT 5), Text ''x''] example_statement = Inr s'"
    "ss_stmt s' = Some st'" "fst st' 1 = BindInt 5" "fst st' 2 = BindText ''x''"
    by (fastforce simp: c_str_def)
  moreover from sqlite_parameters_bound [OF echo_binds st TrueI len(2), of no_floats, unfolded if_not_P [OF bad]]
  have "\<exists>e. bind_all (sqlite_bind no_floats echo) 1 [Text ''x'', Number NullNumber] example_statement = Inl e" .
  ultimately show ?thesis by blast
qed

theorem sqlite_values_kept_witness:
  "sqlite_to_value echo (\<lambda>_. BindInt 0, 1) 0 = Number (Integer LongLongT 0) \<and>
   sqlite_to_value echo (\<lambda>_. BindInt64 (- 1), 1) 0 = Number (Integer LongLongT (- 1))"
proof -
  have c: "from_value no_floats (Number (Integer LongT (2 ^ 32))) = Some (BindInt 0)"
    "from_value no_floats (Number (Integer ULongT (2 ^ 64 - 1))) = Some (BindInt64 (- 1))"
    by simp_all
  show ?thesis
    using sqlite_values_kept [OF _ c(1) echo_holds [of "\<lambda>_. BindInt 0" 0 "BindInt 0" 1]]
      sqlite_values_kept [OF _ c(2) echo_holds [of "\<lambda>_. BindInt64 (- 1)" 0 "BindInt64 (- 1)" 1]]
    by simp
qed

theorem sqlite_equal_back_witness:
  "value_eq no_floats (Number (Integer LongT (2 ^ 32))) (sqlite_to_value echo (\<lambda>_. BindInt 0, 1) 0) = Some False \<and>
   value_eq no_floats (Number (Integer CharT 7)) (sqlite_to_value echo (\<lambda>_. BindInt 7, 1) 0) = Some True"
proof -
  have c: "from_value no_floats (Number (Integer LongT (2 ^ 32))) = Some (BindInt 0)"
    "from_value no_floats (Number (Integer CharT 7)) = Some (BindInt 7)"
    by simp_all
  have r: "in_range LongT (2 ^ 32)" "in_range CharT 7" by (simp_all add: in_range_def)
  show ?thesis
    using sqlite_equal_back [OF r(1) c(1) echo_holds [of "\<lambda>_. BindInt 0" 0 "BindInt 0" 1]]
      sqlite_equal_back [OF r(2) c(2) echo_holds [of "\<lambda>_. BindInt 7" 0 "BindInt 7" 1]]
    by (simp del: value_eq.simps)
qed

theorem sqlite_times_kept_witness:
  "\<exists>c. as_time no_floats (sqlite_to_value echo (\<lambda>_. c, 1) 0) = Some \<lparr>t_value = 1546423872, t_format = DATETIME\<rparr>"
proof -
  have "four_digit_year (broken_down 1546423872)" by (rule four_digit_yearI) simp_all
  then obtain c where c: "from_value no_floats (Time \<lparr>t_value = 1546423872, t_format = TIMESTAMP\<rparr>) = Some c"
    by (simp add: time_texts)
  show ?thesis
    using sqlite_times_kept [OF c echo_holds [of "\<lambda>_. c" 0 c 1]] by auto
qed

end
