(* ===== verification/PgStatement.thy ===== *)
theory PgStatement
  imports DriverBind
begin

text \<open>
  \<^verbatim>\<open>postgres/binding.cpp\<close> and \<^verbatim>\<open>postgres/statement.cpp\<close>: the arrays of parameters a statement of
  PostgreSQL is run with, how values are written to them and read back, and the statement. Without
  \<open>ENABLE_PARAMETER_MAPPING\<close>, which is off by default. The client library is a parameter; memory is
  unbounded.
\<close>

section \<open>Types\<close>

abbreviation BOOLOID :: nat where "BOOLOID \<equiv> 16"
abbreviation BYTEAOID :: nat where "BYTEAOID \<equiv> 17"
abbreviation CHAROID :: nat where "CHAROID \<equiv> 18"
abbreviation INT8OID :: nat where "INT8OID \<equiv> 20"
abbreviation INT2OID :: nat where "INT2OID \<equiv> 21"
abbreviation INT4OID :: nat where "INT4OID \<equiv> 23"
abbreviation TEXTOID :: nat where "TEXTOID \<equiv> 25"
abbreviation FLOAT4OID :: nat where "FLOAT4OID \<equiv> 700"
abbreviation FLOAT8OID :: nat where "FLOAT8OID \<equiv> 701"
abbreviation UNKNOWNOID :: nat where "UNKNOWNOID \<equiv> 705"
abbreviation DATEOID :: nat where "DATEOID \<equiv> 1082"
abbreviation TIMEOID :: nat where "TIMEOID \<equiv> 1083"
abbreviation TIMESTAMPOID :: nat where "TIMESTAMPOID \<equiv> 1114"
abbreviation BITOID :: nat where "BITOID \<equiv> 1560"

text \<open>
  The text of a wide character and the bytes of an escaped text, beside the arithmetic of floating
  point numbers.
\<close>

record 'f pg_env = "'f floats" +
  wide_text :: "int \<Rightarrow> string"
  unescape :: "string \<Rightarrow> string"

section \<open>Parameters\<close>

text \<open>One entry of the four arrays: the text or the bytes (or null), the type, the length, the format.\<close>

type_synonym pg_param = "string option \<times> nat \<times> int \<times> int"

definition no_param :: pg_param where
  "no_param = (None, 0, 0, 0)"

fun pg_from_number :: "'f pg_env \<Rightarrow> 'f sql_number \<Rightarrow> pg_param" where
  "pg_from_number env NullNumber = (None, UNKNOWNOID, 0, 0)"
| "pg_from_number env (Integer ty n) =
     (case ty of
        WCharT \<Rightarrow> (Some (c_str (wide_text env n)), INT2OID, 4, 0)
      | UCharT \<Rightarrow> (Some (decimal n @ ''c''), CHAROID, 1, 0)
      | CharT \<Rightarrow> (Some (c_str [char_of (nat (n mod 256))]), CHAROID, 1, 0)
      | BoolT \<Rightarrow> (Some (decimal n), BOOLOID, 8, 0)
      | ULongLongT \<Rightarrow> (Some (decimal n), INT8OID, 8, 0)
      | LongLongT \<Rightarrow> (Some (decimal n), INT8OID, 8, 0)
      | UIntT \<Rightarrow> (Some (decimal n), INT4OID, 4, 0)
      | IntT \<Rightarrow> (Some (decimal n), INT4OID, 4, 0)
      | ULongT \<Rightarrow> (Some (decimal n), INT4OID, 8, 0)
      | LongT \<Rightarrow> (Some (decimal n), INT4OID, 8, 0)
      | ShortT \<Rightarrow> (Some (decimal n), INT2OID, 2, 0)
      | UShortT \<Rightarrow> (Some (decimal n), INT2OID, 2, 0))"
| "pg_from_number env (Floating ft x) =
     (case ft of
        Double \<Rightarrow> (Some (float_text env x), FLOAT4OID, 8, 0)
      | Float \<Rightarrow> (Some (float_text env x), FLOAT4OID, 4, 0)
      | LongDouble \<Rightarrow> (Some (float_text env x), FLOAT8OID, 16, 0))"

fun pg_time_type :: "formats \<Rightarrow> nat" where
  "pg_time_type DATE = DATEOID"
| "pg_time_type TIME = TIMEOID"
| "pg_time_type DATETIME = TIMESTAMPOID"
| "pg_time_type TIMESTAMP = TIMESTAMPOID"

text \<open>A time the C library has no date for, which is not printed, has no parameter.\<close>

fun pg_from_value :: "'f pg_env \<Rightarrow> 'f sql_value \<Rightarrow> pg_param option" where
  "pg_from_value env (Time t) = map_option (\<lambda>s. (Some (c_str s), pg_time_type (t_format t), 8, 0)) (time_to_string t)"
| "pg_from_value env Null = Some (None, UNKNOWNOID, 0, 0)"
| "pg_from_value env (Blob b) = Some (if b = [] then None else Some b, BYTEAOID, int (length b), 1)"
| "pg_from_value env (Text s) = Some (Some (c_str s), TEXTOID, int (length s), 0)"
| "pg_from_value env (Number n) = Some (pg_from_number env n)"

section \<open>The arrays\<close>

record pg_binding =
  pb_values :: "string option list"
  pb_types :: "nat list"
  pb_lengths :: "int list"
  pb_formats :: "int list"
  pb_size :: nat

definition prealloc_size :: nat where "prealloc_size = 10"

definition prealloc_increment :: nat where "prealloc_increment = 5"

definition pg_binding_new :: "nat \<Rightarrow> pg_binding" where
  "pg_binding_new n =
     \<lparr>pb_values = replicate n None, pb_types = replicate n 0, pb_lengths = replicate n 0,
      pb_formats = replicate n 0, pb_size = n\<rparr>"

text \<open>What the visitors do to the entries at an index, and \<open>clear_value\<close> of one.\<close>

fun pg_set :: "nat \<Rightarrow> pg_param \<Rightarrow> pg_binding \<Rightarrow> pg_binding" where
  "pg_set i (v, ty, len, fmt) b =
     b\<lparr>pb_values := (pb_values b)[i := v], pb_types := (pb_types b)[i := ty],
       pb_lengths := (pb_lengths b)[i := len], pb_formats := (pb_formats b)[i := fmt]\<rparr>"

definition pg_clear_value :: "nat \<Rightarrow> pg_binding \<Rightarrow> pg_binding option" where
  "pg_clear_value i b = (if i \<ge> pb_size b then None else Some (pg_set i (None, 0, 0, 0) b))"

text \<open>\<open>clear_value\<close> of all, and \<open>reset\<close>: the arrays are freed.\<close>

definition pg_binding_reset :: "pg_binding \<Rightarrow> pg_binding" where
  "pg_binding_reset b = pg_binding_new 0"

text \<open>\<open>reallocate_value\<close>, which answers whether there is an entry to write to\<close>

definition pg_reallocate_value :: "nat \<Rightarrow> pg_binding \<Rightarrow> (bool \<times> pg_binding) option" where
  "pg_reallocate_value index b =
     (if index = 0 then Some (False, b)
      else if index \<le> pb_size b then map_option (Pair True) (pg_clear_value (index - 1) b)
      else
        let n = index + prealloc_increment; more = n - pb_size b in
        Some (True, \<lparr>pb_values = pb_values b @ replicate more None, pb_types = pb_types b @ replicate more 0,
          pb_lengths = pb_lengths b @ replicate more 0, pb_formats = pb_formats b @ replicate more 0, pb_size = n\<rparr>))"

definition pg_bind :: "'f pg_env \<Rightarrow> pg_binding \<Rightarrow> nat \<Rightarrow> 'f sql_value \<Rightarrow> statement_error + pg_binding" where
  "pg_bind env b index v =
     (case pg_reallocate_value index b of
        None \<Rightarrow> Inl BindingError
      | Some (False, b') \<Rightarrow> Inr b'
      | Some (True, b') \<Rightarrow>
          case pg_from_value env v of
            None \<Rightarrow> Inl BindingError
          | Some p \<Rightarrow> Inr (pg_set (index - 1) p b'))"

definition pg_num_of_bindings :: "pg_binding \<Rightarrow> nat" where
  "pg_num_of_bindings b = length (filter (\<lambda>i. pb_types b ! i \<noteq> 0) [0..<pb_size b])"

definition pg_param_at :: "pg_binding \<Rightarrow> nat \<Rightarrow> pg_param" where
  "pg_param_at b i = (pb_values b ! i, pb_types b ! i, pb_lengths b ! i, pb_formats b ! i)"

text \<open>The parameters \<open>PQexecParams\<close> is given: as many entries as there are bindings, from the first on.\<close>

definition pg_sent :: "pg_binding \<Rightarrow> pg_param list" where
  "pg_sent b = map (pg_param_at b) [0..<pg_num_of_bindings b]"

section \<open>Values read\<close>

text \<open>\<open>data_mapper::to_value\<close>; \<open>None\<close> is an invalid number.\<close>

definition pg_to_value :: "'f pg_env \<Rightarrow> nat \<Rightarrow> string option \<Rightarrow> int \<Rightarrow> 'f sql_value option" where
  "pg_to_value env ty value len =
     (case value of
        None \<Rightarrow> Some Null
      | Some s \<Rightarrow>
          if len = 0 then Some Null
          else if ty = BYTEAOID then Some (Blob (unescape env (c_str s)))
          else if ty \<in> {BOOLOID, CHAROID, INT8OID, INT2OID, INT4OID, TIMESTAMPOID, BITOID}
          then map_option (\<lambda>n. Number (Integer LongT n)) (sto_signed LongT (c_str s))
          else if ty = FLOAT4OID then map_option (\<lambda>x. Number (Floating Double x)) (from_text env Double (c_str s))
          else if ty = FLOAT8OID then map_option (\<lambda>x. Number (Floating LongDouble x)) (from_text env LongDouble (c_str s))
          else if ty = UNKNOWNOID then Some Null
          else Some (Text (c_str s)))"

text \<open>\<open>binding::to_value\<close>, whose index starts at 0\<close>

definition pg_binding_value :: "'f pg_env \<Rightarrow> pg_binding \<Rightarrow> nat \<Rightarrow> 'f sql_value option" where
  "pg_binding_value env b index =
     (if index \<ge> pb_size b \<or> pb_values b ! index = None then Some Null
      else pg_to_value env (pb_types b ! index) (pb_values b ! index) (pb_lengths b ! index))"

section \<open>Statements\<close>

record ('r, 'd) pg_lib =
  pq_exec :: "'d \<Rightarrow> string \<Rightarrow> pg_param list \<Rightarrow> int \<times> 'r \<times> 'd"
  pq_cmd_tuples :: "'r \<Rightarrow> string"
  pq_oid :: "'r \<Rightarrow> int"
  pq_ntuples :: "'r \<Rightarrow> int"
  pq_value :: "'r \<Rightarrow> string"

abbreviation PGRES_COMMAND_OK :: int where "PGRES_COMMAND_OK \<equiv> 1"
abbreviation PGRES_TUPLES_OK :: int where "PGRES_TUPLES_OK \<equiv> 2"

text \<open>A statement, with the connection and the two numbers its session keeps.\<close>

record ('r, 'd) pg_statement =
  ps_open :: bool
  ps_db :: 'd
  ps_sql :: string
  ps_bindings :: pg_binding
  ps_stmt :: "'r option"
  ps_last_id :: int
  ps_last_changes :: int

definition pg_prepare :: "string \<Rightarrow> ('r, 'd) pg_statement \<Rightarrow> statement_error + ('r, 'd) pg_statement" where
  "pg_prepare sql s = (if \<not> ps_open s then Inl DatabaseNotOpen else Inr (s\<lparr>ps_sql := sql\<rparr>))"

definition pg_is_valid :: "('r, 'd) pg_statement \<Rightarrow> bool" where
  "pg_is_valid s = (ps_sql s \<noteq> [])"

definition pg_stmt_bind ::
  "'f pg_env \<Rightarrow> ('r, 'd) pg_statement \<Rightarrow> nat \<Rightarrow> 'f sql_value \<Rightarrow> statement_error + ('r, 'd) pg_statement" where
  "pg_stmt_bind env s index v =
     (case pg_bind env (ps_bindings s) index v of Inl e \<Rightarrow> Inl e | Inr b \<Rightarrow> Inr (s\<lparr>ps_bindings := b\<rparr>))"

text \<open>Names are not mapped to indexes: \<open>bind_mapping::bind\<close> raises.\<close>

definition pg_bind_name ::
  "('r, 'd) pg_statement \<Rightarrow> string \<Rightarrow> 'f sql_value \<Rightarrow> statement_error + ('r, 'd) pg_statement" where
  "pg_bind_name s name v = Inl DatabaseError"

definition pg_query ::
  "('r, 'd) pg_lib \<Rightarrow> ('r, 'd) pg_statement \<Rightarrow> (statement_error + 'r) \<times> ('r, 'd) pg_statement" where
  "pg_query lib s =
     (case pq_exec lib (ps_db s) (c_str (ps_sql s)) (pg_sent (ps_bindings s)) of
        (status, res, d) \<Rightarrow>
          if status \<noteq> PGRES_TUPLES_OK then (Inl DatabaseError, s\<lparr>ps_db := d\<rparr>)
          else (Inr res, s\<lparr>ps_db := d, ps_stmt := Some res\<rparr>))"

definition pg_execute :: "('r, 'd) pg_lib \<Rightarrow> ('r, 'd) pg_statement \<Rightarrow> bool \<times> ('r, 'd) pg_statement" where
  "pg_execute lib s =
     (case pq_exec lib (ps_db s) (c_str (ps_sql s)) (pg_sent (ps_bindings s)) of
        (status, res, d) \<Rightarrow>
          if status \<noteq> PGRES_COMMAND_OK \<and> status \<noteq> PGRES_TUPLES_OK then (False, s\<lparr>ps_db := d\<rparr>)
          else (True, s\<lparr>ps_db := d, ps_stmt := Some res\<rparr>))"

definition pg_finish :: "('r, 'd) pg_statement \<Rightarrow> ('r, 'd) pg_statement" where
  "pg_finish s = s\<lparr>ps_stmt := None, ps_sql := []\<rparr>"

definition pg_stmt_reset :: "('r, 'd) pg_statement \<Rightarrow> ('r, 'd) pg_statement" where
  "pg_stmt_reset s = s\<lparr>ps_stmt := None\<rparr>"

definition pg_last_number_of_changes ::
  "('r, 'd) pg_lib \<Rightarrow> ('r, 'd) pg_statement \<Rightarrow> int \<times> ('r, 'd) pg_statement" where
  "pg_last_number_of_changes lib s =
     (case ps_stmt s of
        None \<Rightarrow> (0, s)
      | Some r \<Rightarrow>
          let changes = c_str (pq_cmd_tuples lib r);
              value = if changes = [] then 0 else case sto_signed IntT changes of Some n \<Rightarrow> wrap ULongLongT n | None \<Rightarrow> 0
          in (value, s\<lparr>ps_last_changes := value\<rparr>))"

definition pg_last_insert_id ::
  "('r, 'd) pg_lib \<Rightarrow> ('r, 'd) pg_statement \<Rightarrow> int \<times> ('r, 'd) pg_statement" where
  "pg_last_insert_id lib s =
     (case ps_stmt s of
        None \<Rightarrow> (0, s)
      | Some r \<Rightarrow>
          if pq_oid lib r \<noteq> 0 then (pq_oid lib r, s)
          else if pq_ntuples lib r \<le> 0 then (0, s)
          else
            let value = case sto_signed LongLongT (c_str (pq_value lib r)) of Some n \<Rightarrow> n | None \<Rightarrow> 0
            in (value, s\<lparr>ps_last_id := value\<rparr>))"

end
