(* ===== verification/PgProps.thy ===== *)
theory PgProps
  imports PgStatement
begin

text \<open>
  The parameters a statement of PostgreSQL is run with, and the values its binding gives back.
\<close>

section \<open>The arrays of a binding\<close>

text \<open>All four arrays have as many entries as \<open>size_\<close> says.\<close>

definition pb_good :: "pg_binding \<Rightarrow> bool" where
  "pb_good b =
     (length (pb_values b) = pb_size b \<and> length (pb_types b) = pb_size b \<and>
      length (pb_lengths b) = pb_size b \<and> length (pb_formats b) = pb_size b)"

text \<open>The parameter of an index; there is none beyond the arrays.\<close>

definition pg_param :: "pg_binding \<Rightarrow> nat \<Rightarrow> pg_param" where
  "pg_param b i = (if 0 < i \<and> i \<le> pb_size b then pg_param_at b (i - 1) else no_param)"

lemma pg_new_good [simp]: "pb_good (pg_binding_new n)"
  by (simp add: pb_good_def pg_binding_new_def)

lemma pg_new_param [simp]: "pg_param (pg_binding_new n) i = no_param"
  by (auto simp: pg_param_def pg_binding_new_def pg_param_at_def no_param_def)

lemma pg_set_good: "pb_good b \<Longrightarrow> pb_good (pg_set i p b)"
  by (cases p) (simp add: pb_good_def)

lemma pg_set_size [simp]: "pb_size (pg_set i p b) = pb_size b"
  by (cases p) simp

lemma pg_set_param:
  assumes "pb_good b" "0 < i" "i \<le> pb_size b"
  shows "pg_param (pg_set (i - 1) p b) = (pg_param b)(i := p)"
proof
  fix k
  obtain v ty len fmt where p: "p = (v, ty, len, fmt)" by (cases p) auto
  show "pg_param (pg_set (i - 1) p b) k = ((pg_param b)(i := p)) k"
  proof (cases "k = i")
    case True
    then show ?thesis using assms by (simp add: pg_param_def pg_param_at_def p pb_good_def)
  next
    case False
    then have "0 < k \<Longrightarrow> i - 1 \<noteq> k - 1" using assms by auto
    then show ?thesis using False by (auto simp: pg_param_def pg_param_at_def p)
  qed
qed

lemma pg_reallocated:
  assumes "pb_good b" "0 < i"
  obtains b' where "pg_reallocate_value i b = Some (True, b')" "pb_good b'" "i \<le> pb_size b'" "pb_size b \<le> pb_size b'"
    "pg_param b' = (pg_param b)(i := no_param)"
proof (cases "i \<le> pb_size b")
  case True
  then show thesis using assms pg_set_good [OF assms(1)] pg_set_param [OF assms True, of no_param]
    by (intro that [of "pg_set (i - 1) no_param b"])
      (auto simp: pg_reallocate_value_def pg_clear_value_def no_param_def simp del: pg_set.simps)
next
  case False
  define b' where "b' = snd (the (pg_reallocate_value i b))"
  have r: "pg_reallocate_value i b = Some (True, b')" and size: "pb_size b' = i + prealloc_increment" and good: "pb_good b'"
    using False assms by (simp_all add: b'_def pg_reallocate_value_def Let_def pb_good_def prealloc_increment_def)
  have "pg_param b' k = pg_param b k" for k
    using False assms
    by (auto simp: pg_param_def b'_def pg_reallocate_value_def Let_def pg_param_at_def no_param_def pb_good_def nth_append)
  moreover have "pg_param b i = no_param" using False by (simp add: pg_param_def)
  ultimately have "pg_param b' = (pg_param b)(i := no_param)" by auto
  then show thesis using r good size False by (intro that) auto
qed

lemma pg_bind_accepted:
  assumes "pb_good b" "0 < i" "pg_from_value env v = Some p"
  shows "\<exists>b'. pg_bind env b i v = Inr b' \<and> pb_good b' \<and> pg_param b' = (pg_param b)(i := p) \<and>
    i \<le> pb_size b' \<and> pb_size b \<le> pb_size b'"
proof -
  obtain b1 where b1: "pg_reallocate_value i b = Some (True, b1)" "pb_good b1" "i \<le> pb_size b1" "pb_size b \<le> pb_size b1"
    "pg_param b1 = (pg_param b)(i := no_param)"
    by (rule pg_reallocated [OF assms(1,2)])
  then show ?thesis using assms pg_set_good [OF b1(2)] pg_set_param [OF b1(2) assms(2) b1(3), of p]
    by (simp add: pg_bind_def del: pg_set.simps)
qed

interpretation pg_params: driver_bind "pg_bind env" "\<lambda>v. pg_from_value env v \<noteq> None" "\<lambda>v. the (pg_from_value env v)"
  pg_param "\<lambda>b i. True" pb_good
  for env :: "'f pg_env"
proof
  fix b :: pg_binding and v :: "'f sql_value" and i :: nat
  assume g: "pb_good b" "0 < i"
  show "\<exists>b'. pg_bind env b i v = Inr b' \<and> pb_good b' \<and> (\<lambda>i. True) = (\<lambda>i. True) \<and>
      pg_param b' = (pg_param b)(i := the (pg_from_value env v))" if "pg_from_value env v \<noteq> None"
  proof -
    from that obtain p where "pg_from_value env v = Some p" by blast
    with pg_bind_accepted [OF g this] show ?thesis by auto
  qed
  obtain b' where "pg_reallocate_value i b = Some (True, b')" by (rule pg_reallocated [OF g])
  moreover assume "\<not> pg_from_value env v \<noteq> None"
  then have "pg_from_value env v = None" by blast
  ultimately show "\<exists>e. pg_bind env b i v = Inl e" by (simp add: pg_bind_def)
qed

section \<open>The parameters sent\<close>

lemma pg_type_of_number: "fst (snd (pg_from_number env n)) \<noteq> 0"
  by (cases n) (auto split: int_type.split float_type.split)

lemma pg_time_type_nonzero: "0 < pg_time_type f"
  by (cases f) simp_all

lemma pg_type_nonzero: "pg_from_value env v = Some p \<Longrightarrow> fst (snd p) \<noteq> 0"
  using pg_type_of_number [of env] pg_time_type_nonzero by (cases v) auto

lemma pg_num_alt: "pg_num_of_bindings b = card {i. 1 \<le> i \<and> i \<le> pb_size b \<and> fst (snd (pg_param b i)) \<noteq> 0}"
proof -
  have "pg_num_of_bindings b = card {i. i < pb_size b \<and> pb_types b ! i \<noteq> 0}"
    unfolding pg_num_of_bindings_def
    by (subst distinct_card [symmetric]) (auto intro: arg_cong [where f = card])
  also have "\<dots> = card (Suc ` {i. i < pb_size b \<and> pb_types b ! i \<noteq> 0})" by (simp add: card_image)
  also have "Suc ` {i. i < pb_size b \<and> pb_types b ! i \<noteq> 0} =
      {i. 1 \<le> i \<and> i \<le> pb_size b \<and> fst (snd (pg_param b i)) \<noteq> 0}"
    by (auto simp: pg_param_def pg_param_at_def image_iff Suc_le_eq gr0_conv_Suc)
  finally show ?thesis .
qed

lemma pg_param_beyond: "fst (snd (pg_param b i)) \<noteq> 0 \<Longrightarrow> 1 \<le> i \<and> i \<le> pb_size b"
  by (auto simp: pg_param_def no_param_def split: if_splits)

lemma pg_num_bound: "pg_num_of_bindings b = card {i. fst (snd (pg_param b i)) \<noteq> 0}"
  using pg_param_beyond by (auto simp: pg_num_alt intro!: arg_cong [where f = card])

lemma pg_sent_params: "pg_sent b = map (pg_param b) [1..<Suc (pg_num_of_bindings b)]"
proof -
  have "pg_num_of_bindings b \<le> pb_size b"
    using length_filter_le [of _ "[0..<pb_size b]"] by (simp add: pg_num_of_bindings_def)
  then have "map (pg_param_at b) [0..<pg_num_of_bindings b] = map (\<lambda>i. pg_param b (Suc i)) [0..<pg_num_of_bindings b]"
    by (intro map_cong) (auto simp: pg_param_def)
  also have "\<dots> = map (pg_param b) (map Suc [0..<pg_num_of_bindings b])" by simp
  finally show ?thesis unfolding pg_sent_def by (simp only: map_Suc_upt One_nat_def)
qed

text \<open>
  C28: Binding the values of a query to a new statement, from the first parameter on, makes the
  statement run with exactly their parameters, in order, whatever their number; it raises if one is a
  time without a date.
\<close>

theorem pg_parameters_sent:
  "if \<forall>v\<in>set vs. pg_from_value env v \<noteq> None
   then \<exists>b. bind_all (pg_bind env) 1 vs (pg_binding_new prealloc_size) = Inr b \<and>
     pg_sent b = map (\<lambda>v. the (pg_from_value env v)) vs
   else \<exists>e. bind_all (pg_bind env) 1 vs (pg_binding_new prealloc_size) = Inl e"
proof (cases "\<forall>v\<in>set vs. pg_from_value env v \<noteq> None")
  case True
  then obtain b where b: "bind_all (pg_bind env) 1 vs (pg_binding_new prealloc_size) = Inr b" "pb_good b"
    "\<And>k. pg_param b k = (if 1 \<le> k \<and> k < 1 + length vs then the (pg_from_value env (vs ! (k - 1))) else no_param)"
    using pg_params.bind_all_params [of "pg_binding_new prealloc_size" 1 vs env] by auto
  have "fst (snd (the (pg_from_value env v))) \<noteq> 0" if "v \<in> set vs" for v
    using True that pg_type_nonzero by fastforce
  then have "{i. fst (snd (pg_param b i)) \<noteq> 0} = {1..<1 + length vs}"
    by (auto simp: b(3) no_param_def nth_mem split: if_splits)
  then have "pg_sent b = map (pg_param b) [1..<Suc (length vs)]" by (simp add: pg_sent_params pg_num_bound)
  also have "\<dots> = map (\<lambda>v. the (pg_from_value env v)) vs"
    by (rule nth_equalityI) (simp_all add: b(3) del: upt_Suc)
  finally show ?thesis using True b(1) by auto
next
  case False
  then show ?thesis using pg_params.bind_all_refused [of "pg_binding_new prealloc_size" 1 vs env] by auto
qed

text \<open>
  A value bound to a parameter other than the first of a new statement is not sent: one parameter
  is, which is null and has no type, and the value stays behind; index 0 binds nothing and reports nothing.
\<close>

theorem pg_gap_loses_value:
  assumes "pg_from_value env v = Some p" "i \<noteq> 1"
  shows "\<exists>b. pg_bind env (pg_binding_new prealloc_size) i v = Inr b \<and>
    pg_sent b = (if i = 0 then [] else [(None, 0, 0, 0)]) \<and> (0 < i \<longrightarrow> pg_param b i = p)"
proof (cases "i = 0")
  case True
  have "pg_sent (pg_binding_new prealloc_size) = []" by (simp add: pg_sent_params pg_num_bound no_param_def)
  then show ?thesis using True by (simp add: pg_bind_def pg_reallocate_value_def)
next
  case False
  then obtain b where b: "pg_bind env (pg_binding_new prealloc_size) i v = Inr b"
    "pg_param b = (pg_param (pg_binding_new prealloc_size))(i := p)"
    using pg_bind_accepted [OF pg_new_good, of i env v p] assms(1) by blast
  have "{k. fst (snd (pg_param b k)) \<noteq> 0} = {i}"
    using pg_type_nonzero [OF assms(1)] by (auto simp: b(2) no_param_def)
  then have "pg_sent b = [no_param]" using assms(2) by (simp add: pg_sent_params pg_num_bound b(2))
  then show ?thesis using b False by (auto simp: no_param_def)
qed

section \<open>Values bound and read back\<close>

lemma pg_read_back:
  assumes "pb_good b" "0 < i" "pg_from_value env v = Some (s, ty, len, fmt)" "pg_bind env b i v = Inr b'"
  shows "pg_binding_value env b' (i - 1) = pg_to_value env ty s len"
proof -
  from pg_bind_accepted [OF assms(1-3)] assms(4)
  have b: "pg_param b' = (pg_param b)(i := (s, ty, len, fmt))" "i \<le> pb_size b'" by auto
  then have "pg_param_at b' (i - 1) = (s, ty, len, fmt)" using assms(2) by (metis fun_upd_same pg_param_def)
  moreover have "i - 1 < pb_size b'" using b(2) assms(2) by simp
  ultimately show ?thesis
    by (cases s) (auto simp: pg_binding_value_def pg_param_at_def pg_to_value_def)
qed

lemma date_of_year: "date_of t = decimal (1900 + tm_year (broken_down t)) @ strftime ''-%m-%d'' (broken_down t)"
  by (simp add: date_of_def print_field_def)

lemma year_in_range: "four_digit_year tp \<Longrightarrow> in_range LongT (1900 + tm_year tp)"
  by (simp add: four_digit_year_def)

lemma date_after_year: "\<exists>x. strftime ''-%m-%d'' tp = CHR ''-'' # x"
  by simp

lemma read_char: "c \<noteq> CHR 0x00 \<Longrightarrow> read_integer [c] = (if isdigit c then Some (int (of_char c) - 48) else None)"
  by (auto simp: read_integer_def c_str_def magnitude_def digits_int_def isdigit_def isspace_def digit_def Let_def)

lemma sto_char:
  assumes "- 128 \<le> n" "n < 128"
  shows "sto_signed LongT (c_str (c_str [char_of (nat (n mod 256))])) = (if 48 \<le> n \<and> n \<le> 57 then Some (n - 48) else None)"
proof -
  define c :: char where "c = char_of (nat (n mod 256))"
  have m: "n mod 256 = (if n < 0 then n + 256 else n)"
  proof (cases "n < 0")
    case True
    then have "n mod 256 = (n + 256) mod 256" by simp
    also have "\<dots> = n + 256" using True assms by (intro mod_pos_pos_trivial) auto
    finally show ?thesis using True by simp
  qed (use assms in simp)
  then have c: "int (of_char c :: nat) = (if n < 0 then n + 256 else n)" using assms by (simp add: c_def)
  show ?thesis
  proof (cases "c = CHR 0x00")
    case True
    then have "\<not> (48 \<le> n \<and> n \<le> 57)" using c by (auto split: if_splits)
    then show ?thesis using True by (simp add: c_def [symmetric] sto_signed_def read_integer_def c_str_def)
  next
    case False
    then have "isdigit c \<longleftrightarrow> 48 \<le> n \<and> n \<le> 57" "isdigit c \<Longrightarrow> int (of_char c :: nat) = n"
      using c assms by (auto simp: isdigit_def split: if_splits)
    then show ?thesis using False read_char [OF False] by (auto simp: c_def [symmetric] sto_signed_def c_str_def)
  qed
qed

lemma pg_integer_back:
  assumes "in_range ty n" "ty \<noteq> WCharT" "pg_from_number env (Integer ty n) = (s, oid, len, fmt)"
  shows "pg_to_value env oid s len =
    (if ty = CharT then (if 48 \<le> n \<and> n \<le> 57 then Some (Number (Integer LongT (n - 48))) else None)
     else if n < 2 ^ 63 then Some (Number (Integer LongT n)) else None)"
proof (cases "ty = CharT")
  case True
  then have "- 128 \<le> n" "n < 128" using assms(1) by (simp_all add: in_range_def signed_take_bit_int_eq_self_iff)
  from sto_char [OF this] show ?thesis using assms(3) True by (auto simp: pg_to_value_def)
next
  case False
  have n: "in_range LongT n = (n < 2 ^ 63)" using in_range_bounds [OF assms(1)] by simp
  have "c_str (decimal n @ ''c'') = decimal n @ ''c''"
    using c_str_decimal [of n] by (simp add: c_str_def takeWhile_append)
  then have "\<exists>x. s = Some (decimal n @ x) \<and> c_str (decimal n @ x) = decimal n @ x \<and> (x = [] \<or> \<not> isdigit (hd x)) \<and> len \<noteq> 0 \<and>
      oid \<in> {BOOLOID, CHAROID, INT8OID, INT2OID, INT4OID}"
    using assms(2,3) False by (cases ty) (force simp: isdigit_def)+
  then obtain x where x: "s = Some (decimal n @ x)" "c_str (decimal n @ x) = decimal n @ x" "x = [] \<or> \<not> isdigit (hd x)"
    "len \<noteq> 0" "oid \<in> {BOOLOID, CHAROID, INT8OID, INT2OID, INT4OID}"
    by blast
  then show ?thesis using sto_signed_decimal [OF x(3), of LongT n] False n by (auto simp: pg_to_value_def)
qed

lemma pg_time_back:
  assumes "- 30610224000 \<le> t" "t < 253402300800" "pg_from_value env (Time \<lparr>t_value = t, t_format = f\<rparr>) = Some (s, oid, len, fmt)"
  shows "pg_to_value env oid s len =
    (case f of
       DATE \<Rightarrow> map_option Text (time_to_string \<lparr>t_value = t, t_format = f\<rparr>)
     | TIME \<Rightarrow> map_option Text (time_to_string \<lparr>t_value = t, t_format = f\<rparr>)
     | _ \<Rightarrow> Some (Number (Integer LongT (1900 + tm_year (broken_down t)))))"
proof -
  let ?y = "1900 + tm_year (broken_down t)"
  have g: "four_digit_year (broken_down t)" using assms(1,2) by (rule four_digit_yearI)
  obtain x where x: "date_of t @ CHR '' '' # clock_of t = decimal ?y @ CHR ''-'' # x" by (simp add: date_of_year)
  have "c_str (date_of t @ CHR '' '' # clock_of t) = date_of t @ CHR '' '' # clock_of t"
    using no_nul_texts by (intro c_str_whole) simp
  then have c: "c_str (c_str (decimal ?y @ CHR ''-'' # x)) = decimal ?y @ CHR ''-'' # x" by (simp only: x)
  have "sto_signed LongT (decimal ?y @ CHR ''-'' # x) = Some ?y"
    using sto_signed_decimal [of "CHR ''-'' # x" LongT ?y] year_in_range [OF g] by (simp add: isdigit_def)
  moreover have "time_to_string \<lparr>t_value = t, t_format = f'\<rparr> = Some (decimal ?y @ CHR ''-'' # x)" if "f' \<in> {TIMESTAMP, DATETIME}" for f'
    using time_texts(3) [OF g that] x by simp
  ultimately show ?thesis using assms(3) c
    by (cases f)
      (auto simp: pg_to_value_def time_texts(1,2) [OF g] c_str_whole [OF no_nul_texts(1)] c_str_whole [OF no_nul_texts(2)])
qed

text \<open>
  C29: What the binding gives back for an integer, a text, a time or null: an integer in the range of a
  \<open>long\<close> is kept (an \<open>unsigned char\<close> too, though it was written with a letter), a larger one raises, a
  \<open>char\<close> is read as the digit it is or raises; a text ends at its first zero character, and the empty
  text is null; a date or a time of day becomes its text, but a time with both becomes the number of
  its year.
\<close>

theorem pg_values_read_back:
  assumes "value_typed v" "0 < i" "pg_bind env (pg_binding_new prealloc_size) i v = Inr b"
    and "case v of Time t \<Rightarrow> - 30610224000 \<le> t_value t \<and> t_value t < 253402300800
      | Number (Integer ty n) \<Rightarrow> ty \<noteq> WCharT | Number (Floating ft x) \<Rightarrow> False | Blob bs \<Rightarrow> bs = [] | _ \<Rightarrow> True"
  shows "pg_binding_value env b (i - 1) =
    (case v of
       Number (Integer ty n) \<Rightarrow>
         if ty = CharT then (if 48 \<le> n \<and> n \<le> 57 then Some (Number (Integer LongT (n - 48))) else None)
         else if n < 2 ^ 63 then Some (Number (Integer LongT n)) else None
     | Text s \<Rightarrow> if s = [] then Some Null else Some (Text (c_str s))
     | Time t \<Rightarrow>
         (case t_format t of
            DATE \<Rightarrow> map_option Text (time_to_string t)
          | TIME \<Rightarrow> map_option Text (time_to_string t)
          | _ \<Rightarrow> Some (Number (Integer LongT (1900 + tm_year (broken_down (t_value t))))))
     | _ \<Rightarrow> Some Null)"
proof -
  have "pg_from_value env v \<noteq> None"
    using pg_params.bind_refused [OF pg_new_good, of env v i prealloc_size] assms(2,3) by auto
  then obtain s oid len fmt where p: "pg_from_value env v = Some (s, oid, len, fmt)" by auto
  note rb = pg_read_back [OF pg_new_good assms(2) p assms(3)]
  show ?thesis
  proof (cases v)
    case (Number m)
    show ?thesis
    proof (cases m)
      case (Integer ty n)
      then have "in_range ty n" "ty \<noteq> WCharT" "pg_from_number env (Integer ty n) = (s, oid, len, fmt)"
        using assms(1,4) p Number by simp_all
      from pg_integer_back [OF this] show ?thesis by (simp only: rb Number Integer sql_value.case sql_number.case)
    qed (use assms(4) p rb Number in \<open>simp_all add: pg_to_value_def\<close>)
  next
    case (Time t)
    obtain u f where t: "t = \<lparr>t_value = u, t_format = f\<rparr>" by (cases t)
    have "- 30610224000 \<le> u" "u < 253402300800" "pg_from_value env (Time \<lparr>t_value = u, t_format = f\<rparr>) = Some (s, oid, len, fmt)"
      using assms(4) p by (simp_all add: Time t)
    from pg_time_back [OF this] show ?thesis by (cases f) (simp_all add: rb [simplified] Time t)
  next
    case (Text x)
    then show ?thesis using p rb by (auto simp: pg_to_value_def c_str_def)
  qed (use assms(4) p rb in \<open>auto simp: pg_to_value_def\<close>)
qed

section \<open>Examples\<close>

definition no_env :: "unit pg_env" where
  "no_env = \<lparr>from_text = (\<lambda>ft s. None), float_text = (\<lambda>x. []), of_integer = (\<lambda>ft i. ()), rounded = (\<lambda>ft x. x),
     truncated = (\<lambda>ty x. 0), float_eq = (\<lambda>x y. x = y), address = (\<lambda>b. []), wide_text = (\<lambda>n. []), unescape = (\<lambda>s. s)\<rparr>"

theorem pg_parameters_sent_witness:
  "\<exists>b. bind_all (pg_bind no_env) 1 [Number (Integer IntT 5), Text ''x'', Null] (pg_binding_new prealloc_size) = Inr b \<and>
     pg_sent b = [(Some ''5'', INT4OID, 4, 0), (Some ''x'', TEXTOID, 1, 0), (None, UNKNOWNOID, 0, 0)]"
proof -
  have ok: "\<forall>v\<in>set [Number (Integer IntT 5), Text ''x'', Null]. pg_from_value no_env v \<noteq> None" by simp
  have "decimal 5 = ''5''" by code_simp
  with pg_parameters_sent [of "[Number (Integer IntT 5), Text ''x'', Null]" no_env, unfolded if_P [OF ok]]
  show ?thesis by (simp add: c_str_def del: bind_all.simps)
qed

theorem pg_gap_loses_value_witness:
  "\<exists>b. pg_bind no_env (pg_binding_new prealloc_size) 2 (Text ''x'') = Inr b \<and>
     pg_sent b = [(None, 0, 0, 0)] \<and> pg_param b 2 = (Some ''x'', TEXTOID, 1, 0)"
  using pg_gap_loses_value [of no_env "Text ''x''" "(Some ''x'', TEXTOID, 1, 0)" 2] by (simp add: c_str_def)

lemma pg_bound_somewhere:
  "0 < i \<Longrightarrow> pg_from_value env v = Some p \<Longrightarrow> \<exists>b. pg_bind env (pg_binding_new prealloc_size) i v = Inr b"
  using pg_bind_accepted [OF pg_new_good] by blast

theorem pg_values_read_back_witness:
  "\<exists>b c. pg_bind no_env (pg_binding_new prealloc_size) 11 (Number (Integer UCharT 65)) = Inr b \<and>
     pg_binding_value no_env b 10 = Some (Number (Integer LongT 65)) \<and>
     pg_bind no_env (pg_binding_new prealloc_size) 1 (Text []) = Inr c \<and> pg_binding_value no_env c 0 = Some Null"
proof -
  obtain b where b: "pg_bind no_env (pg_binding_new prealloc_size) 11 (Number (Integer UCharT 65)) = Inr b"
    using pg_bound_somewhere [of 11 no_env "Number (Integer UCharT 65)"] by auto
  obtain c where c: "pg_bind no_env (pg_binding_new prealloc_size) 1 (Text []) = Inr c"
    using pg_bound_somewhere [of 1 no_env "Text []"] by auto
  have "in_range UCharT 65" by (simp add: in_range_def)
  then show ?thesis
    using pg_values_read_back [OF _ _ b] pg_values_read_back [OF _ _ c] b c by simp
qed

end
