(* ===== verification/MysqlStatement.thy ===== *)
theory MysqlStatement
  imports DriverBind
begin

text \<open>
  \<^verbatim>\<open>mysql/binding.cpp\<close> and \<^verbatim>\<open>mysql/statement.cpp\<close>: the array of buffers a statement of MySQL takes its
  parameters from and puts its rows into, how values are written to buffers and read from them, and
  the values of rows that come as text. Without \<open>ENABLE_PARAMETER_MAPPING\<close>. Memory is little-endian
  and unbounded.
\<close>

section \<open>Buffers\<close>

datatype mysql_type =
    T_DECIMAL | T_TINY | T_SHORT | T_LONG | T_FLOAT | T_DOUBLE | T_NULL | T_TIMESTAMP | T_LONGLONG | T_INT24
  | T_DATE | T_TIME | T_DATETIME | T_NEWDATE | T_VARCHAR | T_BIT | T_NEWDECIMAL | T_ENUM | T_SET | T_TINY_BLOB
  | T_MEDIUM_BLOB | T_LONG_BLOB | T_BLOB | T_VAR_STRING | T_STRING | T_GEOMETRY

text \<open>\<open>MYSQL_TIME\<close>, whose year is an \<open>unsigned int\<close>\<close>

record mysql_time =
  mt_year :: int
  mt_month :: nat
  mt_day :: int
  mt_hour :: int
  mt_minute :: int
  mt_second :: int

text \<open>
  What the memory of a buffer holds: the bytes of an integer as a number, followed by zeros; a floating
  point number of a type; the characters of a text up to its end; a time; bytes.
\<close>

datatype 'f buffer = IntBuffer int | FloatBuffer float_type 'f | TextBuffer string | TimeBuffer mysql_time | BlobBuffer string

record 'f mysql_bind =
  mb_type :: mysql_type
  mb_buffer :: "'f buffer option"
  mb_buffer_length :: nat
  mb_unsigned :: bool
  mb_length :: "nat option"
  mb_is_null :: "bool option"

definition zero_bind :: "'f mysql_bind" where
  "zero_bind =
     \<lparr>mb_type = T_DECIMAL, mb_buffer = None, mb_buffer_length = 0, mb_unsigned = False, mb_length = None, mb_is_null = None\<rparr>"

section \<open>Values written\<close>

text \<open>The bytes of an integral type; \<open>to_cptr\<close> stores that many.\<close>

fun type_bytes :: "int_type \<Rightarrow> nat" where
  "type_bytes BoolT = 1"
| "type_bytes CharT = 1"
| "type_bytes UCharT = 1"
| "type_bytes WCharT = 4"
| "type_bytes ShortT = 2"
| "type_bytes UShortT = 2"
| "type_bytes IntT = 4"
| "type_bytes UIntT = 4"
| "type_bytes LongT = 8"
| "type_bytes ULongT = 8"
| "type_bytes LongLongT = 8"
| "type_bytes ULongLongT = 8"

definition to_cptr :: "int_type \<Rightarrow> int \<Rightarrow> 'f buffer" where
  "to_cptr ty n = IntBuffer (take_bit (8 * type_bytes ty) n)"

text \<open>\<open>from_number\<close>: the type and whether it is unsigned; a wide character is promoted to \<open>int\<close>.\<close>

fun mysql_int_type :: "int_type \<Rightarrow> mysql_type \<times> bool" where
  "mysql_int_type BoolT = (T_TINY, False)"
| "mysql_int_type CharT = (T_TINY, False)"
| "mysql_int_type UCharT = (T_TINY, True)"
| "mysql_int_type WCharT = (T_LONG, False)"
| "mysql_int_type ShortT = (T_SHORT, False)"
| "mysql_int_type UShortT = (T_SHORT, True)"
| "mysql_int_type IntT = (T_LONG, False)"
| "mysql_int_type UIntT = (T_LONG, True)"
| "mysql_int_type LongT = (T_LONG, False)"
| "mysql_int_type ULongT = (T_LONG, True)"
| "mysql_int_type LongLongT = (T_LONGLONG, False)"
| "mysql_int_type ULongLongT = (T_LONGLONG, True)"

fun float_bytes :: "float_type \<Rightarrow> nat" where
  "float_bytes Float = 4"
| "float_bytes Double = 8"
| "float_bytes LongDouble = 16"

fun mysql_from_number :: "'f sql_number \<Rightarrow> 'f mysql_bind \<Rightarrow> 'f mysql_bind" where
  "mysql_from_number NullNumber b = b\<lparr>mb_type := T_NULL\<rparr>"
| "mysql_from_number (Integer ty n) b =
     (let (t, u) = mysql_int_type ty;
          b' = b\<lparr>mb_type := t, mb_buffer := Some (to_cptr ty n), mb_buffer_length := type_bytes ty\<rparr>
      in if u then b'\<lparr>mb_unsigned := True\<rparr> else b')"
| "mysql_from_number (Floating ft x) b =
     b\<lparr>mb_type := (if ft = Float then T_FLOAT else T_DOUBLE), mb_buffer := Some (FloatBuffer ft x),
       mb_buffer_length := float_bytes ft\<rparr>"

fun mysql_time_type :: "formats \<Rightarrow> mysql_type" where
  "mysql_time_type DATE = T_DATE"
| "mysql_time_type TIME = T_TIME"
| "mysql_time_type DATETIME = T_DATETIME"
| "mysql_time_type TIMESTAMP = T_TIMESTAMP"

definition set_time :: "sql_time \<Rightarrow> 'f mysql_bind \<Rightarrow> 'f mysql_bind option" where
  "set_time t b =
     map_option (\<lambda>gmt. b\<lparr>mb_type := mysql_time_type (t_format t),
         mb_buffer := Some (TimeBuffer \<lparr>mt_year = take_bit 32 (tm_year gmt + 1900), mt_month = tm_mon gmt + 1,
           mt_day = tm_mday gmt, mt_hour = tm_hour gmt, mt_minute = tm_min gmt, mt_second = tm_sec gmt\<rparr>),
         mb_buffer_length := 40\<rparr>)
       (gmtime (t_value t))"

text \<open>\<open>from_value\<close>; \<open>None\<close> is a time the C library has no date for.\<close>

fun mysql_from_value :: "'f sql_value \<Rightarrow> 'f mysql_bind \<Rightarrow> 'f mysql_bind option" where
  "mysql_from_value (Time t) b = set_time t b"
| "mysql_from_value Null b = Some (b\<lparr>mb_type := T_NULL\<rparr>)"
| "mysql_from_value (Blob bs) b =
     Some (b\<lparr>mb_type := T_BLOB, mb_buffer := if bs = [] then None else Some (BlobBuffer bs),
       mb_buffer_length := length bs, mb_length := Some (length bs)\<rparr>)"
| "mysql_from_value (Number n) b = Some (mysql_from_number n b)"
| "mysql_from_value (Text s) b =
     Some (b\<lparr>mb_type := T_STRING, mb_buffer := Some (TextBuffer (c_str s)), mb_buffer_length := length s,
       mb_length := Some (length s)\<rparr>)"

section \<open>Values read\<close>

text \<open>The bits of a \<open>long double\<close> read as a \<open>double\<close>, beside the arithmetic of floating point numbers.\<close>

record 'f mysql_env = "'f floats" +
  reinterpreted :: "'f \<Rightarrow> 'f"

fun make_unsigned :: "int_type \<Rightarrow> int_type" where
  "make_unsigned CharT = UCharT"
| "make_unsigned ShortT = UShortT"
| "make_unsigned IntT = UIntT"
| "make_unsigned LongT = ULongT"
| "make_unsigned LongLongT = ULongLongT"
| "make_unsigned ty = ty"

text \<open>\<open>None\<close> is a buffer that does not hold what its type says.\<close>

definition mysql_to_number :: "int_type \<Rightarrow> 'f mysql_bind \<Rightarrow> 'f sql_value option" where
  "mysql_to_number ty b =
     (case mb_buffer b of
        None \<Rightarrow> Some (Number NullNumber)
      | Some (IntBuffer m) \<Rightarrow>
          let ty' = if mb_unsigned b then make_unsigned ty else ty in Some (Number (Integer ty' (wrap ty' m)))
      | _ \<Rightarrow> None)"

definition parse_time :: "'f mysql_bind \<Rightarrow> formats \<Rightarrow> 'f sql_value option" where
  "parse_time b f =
     (case mb_buffer b of
        None \<Rightarrow> Some Null
      | Some (TimeBuffer m) \<Rightarrow>
          Some (Time \<lparr>t_value = timegm \<lparr>tm_year = wrap IntT (mt_year m - 1900), tm_mon = mt_month m - 1, tm_mday = mt_day m,
            tm_hour = mt_hour m, tm_min = mt_minute m, tm_sec = mt_second m\<rparr>, t_format = f\<rparr>)
      | _ \<Rightarrow> None)"

definition mysql_bind_value :: "'f mysql_env \<Rightarrow> 'f mysql_bind \<Rightarrow> 'f sql_value option" where
  "mysql_bind_value env b =
     (if mb_is_null b = Some True then Some Null
      else if mb_type b \<in> {T_BIT, T_TINY, T_SHORT, T_INT24, T_LONG}
      then mysql_to_number
        (if mb_buffer_length b = 1 then CharT else if mb_buffer_length b = 2 then ShortT
         else if mb_buffer_length b = 8 then LongT else IntT) b
      else if mb_type b = T_LONGLONG then mysql_to_number LongLongT b
      else if mb_type b = T_NULL then Some Null
      else if mb_type b = T_TIME then parse_time b TIME
      else if mb_type b = T_DATE then parse_time b DATE
      else if mb_type b = T_TIMESTAMP then parse_time b TIMESTAMP
      else if mb_type b = T_DATETIME then parse_time b DATETIME
      else if mb_type b = T_FLOAT
      then (case mb_buffer b of Some (FloatBuffer Float x) \<Rightarrow> Some (Number (Floating Float x)) | _ \<Rightarrow> None)
      else if mb_type b = T_DOUBLE
      then (case mb_buffer b of
              Some (FloatBuffer Double x) \<Rightarrow> Some (Number (Floating Double x))
            | Some (FloatBuffer LongDouble x) \<Rightarrow> Some (Number (Floating Double (reinterpreted env x)))
            | _ \<Rightarrow> None)
      else if mb_type b \<in> {T_TINY_BLOB, T_MEDIUM_BLOB, T_LONG_BLOB, T_BLOB}
      then (case (mb_length b, mb_buffer b) of
              (None, _) \<Rightarrow> Some (Blob [])
            | (Some n, Some (BlobBuffer bs)) \<Rightarrow> if n \<le> length bs then Some (Blob (take n bs)) else None
            | (Some n, _) \<Rightarrow> None)
      else (case mb_buffer b of Some (TextBuffer s) \<Rightarrow> Some (Text s) | _ \<Rightarrow> None))"

text \<open>The values of a row that came as text: \<open>None\<close> is a \<open>value_conversion_error\<close>.\<close>

definition mysql_text_value :: "'f floats \<Rightarrow> mysql_type \<Rightarrow> string option \<Rightarrow> nat \<Rightarrow> 'f sql_value option" where
  "mysql_text_value fl ty value n =
     (case value of
        None \<Rightarrow> Some Null
      | Some bytes \<Rightarrow>
          let s = take n (c_str bytes) in
          if ty \<in> {T_BIT, T_TINY, T_SHORT, T_INT24, T_LONG}
          then map_option (\<lambda>m. Number (Integer IntT m)) (sto_signed IntT s)
          else if ty = T_LONGLONG then map_option (\<lambda>m. Number (Integer LongLongT m)) (sto_signed LongLongT s)
          else if ty \<in> {T_NEWDATE, T_DATE, T_DATETIME, T_TIMESTAMP, T_TIME} then map_option Time (time_parse s)
          else if ty = T_FLOAT then map_option (\<lambda>x. Number (Floating Float x)) (from_text fl Float s)
          else if ty = T_DOUBLE then map_option (\<lambda>x. Number (Floating Double x)) (from_text fl Double s)
          else if ty \<in> {T_TINY_BLOB, T_MEDIUM_BLOB, T_LONG_BLOB, T_BLOB} then Some (Blob (take n bytes))
          else if ty = T_NULL then Some Null
          else Some (Text s))"

section \<open>The array of a binding\<close>

text \<open>\<open>None\<close> is an index out of range.\<close>

definition mysql_clear_value :: "nat \<Rightarrow> 'f mysql_bind list \<Rightarrow> 'f mysql_bind list option" where
  "mysql_clear_value i bs = (if i \<ge> length bs then None else Some (bs[i := zero_bind]))"

definition mysql_reallocate_value :: "nat \<Rightarrow> 'f mysql_bind list \<Rightarrow> (bool \<times> 'f mysql_bind list) option" where
  "mysql_reallocate_value index bs =
     (if index = 0 then Some (False, bs)
      else if index \<le> length bs then map_option (Pair True) (mysql_clear_value (index - 1) bs)
      else Some (True, bs @ replicate (index + 5 - length bs) zero_bind))"

definition mysql_bind_index ::
  "'f mysql_bind list \<Rightarrow> nat \<Rightarrow> 'f sql_value \<Rightarrow> statement_error + 'f mysql_bind list" where
  "mysql_bind_index bs index v =
     (case mysql_reallocate_value index bs of
        None \<Rightarrow> Inl BindingError
      | Some (False, bs') \<Rightarrow> Inr bs'
      | Some (True, bs') \<Rightarrow>
          case mysql_from_value v (bs' ! (index - 1)) of
            None \<Rightarrow> Inl BindingError
          | Some b \<Rightarrow> Inr (bs'[index - 1 := b]))"

definition mysql_num_of_bindings :: "'f mysql_bind list \<Rightarrow> nat" where
  "mysql_num_of_bindings bs = length (filter (\<lambda>b. mb_buffer b \<noteq> None) bs)"

text \<open>\<open>binding::to_value\<close>\<close>

definition mysql_value_at :: "'f mysql_env \<Rightarrow> 'f mysql_bind list \<Rightarrow> nat \<Rightarrow> 'f sql_value option" where
  "mysql_value_at env bs index =
     (if index \<ge> length bs \<or> mb_buffer (bs ! index) = None then Some Null else mysql_bind_value env (bs ! index))"

section \<open>The buffers of a result\<close>

text \<open>What \<open>prepare_binding_from_field\<close> reads of a field. A new buffer holds zeros, until a row is fetched into it.\<close>

record mysql_field =
  mf_type :: mysql_type
  mf_length :: nat
  mf_not_null :: bool
  mf_unsigned :: bool

definition field_buffer_length :: "mysql_field \<Rightarrow> nat" where
  "field_buffer_length f =
     (if mf_type f = T_FLOAT then max (mf_length f) 4
      else if mf_type f = T_DOUBLE then max (mf_length f) 8
      else if mf_type f \<in> {T_TINY, T_SHORT, T_LONG, T_LONGLONG} then max (mf_length f) 8
      else if mf_type f \<in> {T_DATETIME, T_DATE, T_TIME, T_TIMESTAMP} then 40
      else mf_length f)"

definition has_length :: "mysql_type \<Rightarrow> bool" where
  "has_length t = (t \<in> {T_STRING, T_VAR_STRING, T_VARCHAR, T_BLOB, T_TINY_BLOB, T_MEDIUM_BLOB, T_LONG_BLOB})"

definition prepare_binding_from_field :: "mysql_field \<Rightarrow> 'f mysql_bind" where
  "prepare_binding_from_field f =
     \<lparr>mb_type = mf_type f, mb_buffer = (if field_buffer_length f > 0 then Some (IntBuffer 0) else None),
      mb_buffer_length = field_buffer_length f, mb_unsigned = mf_unsigned f,
      mb_length = (if has_length (mf_type f) then Some 0 else None),
      mb_is_null = (if mf_not_null f then None else Some False)\<rparr>"

section \<open>Statements\<close>

text \<open>The client library: a code other than 0 is an error.\<close>

record ('st, 'f) mysql_lib =
  my_init :: "'st option"
  my_prepare :: "'st \<Rightarrow> string \<Rightarrow> int \<times> 'st"
  my_bind_param :: "'st \<Rightarrow> 'f mysql_bind list \<Rightarrow> int \<times> 'st"
  my_execute :: "'st \<Rightarrow> int \<times> 'st"
  my_reset :: "'st \<Rightarrow> int \<times> 'st"
  my_affected_rows :: "'st \<Rightarrow> int"
  my_insert_id :: "'st \<Rightarrow> int"

record ('st, 'f) mysql_statement =
  ms_open :: bool
  ms_stmt :: "'st option"
  ms_bindings :: "'f mysql_bind list"

text \<open>An error of \<open>prepare\<close> leaves the statement it could not prepare behind.\<close>

definition mysql_prepare ::
  "('st, 'f) mysql_lib \<Rightarrow> string \<Rightarrow> ('st, 'f) mysql_statement \<Rightarrow> statement_error option \<times> ('st, 'f) mysql_statement" where
  "mysql_prepare lib sql s =
     (if \<not> ms_open s then (Some DatabaseNotOpen, s)
      else case my_init lib of
        None \<Rightarrow> (Some DatabaseError, s)
      | Some st \<Rightarrow>
          case my_prepare lib st sql of
            (rc, st') \<Rightarrow> (if rc \<noteq> 0 then Some DatabaseError else None, s\<lparr>ms_stmt := Some st'\<rparr>))"

definition mysql_bind ::
  "('st, 'f) mysql_statement \<Rightarrow> nat \<Rightarrow> 'f sql_value \<Rightarrow> statement_error + ('st, 'f) mysql_statement" where
  "mysql_bind s index v =
     (case mysql_bind_index (ms_bindings s) index v of Inl e \<Rightarrow> Inl e | Inr bs \<Rightarrow> Inr (s\<lparr>ms_bindings := bs\<rparr>))"

definition mysql_bind_params ::
  "('st, 'f) mysql_lib \<Rightarrow> 'f mysql_bind list \<Rightarrow> 'st \<Rightarrow> statement_error + 'st" where
  "mysql_bind_params lib bs st =
     (if bs = [] then Inr st else case my_bind_param lib st bs of (rc, st') \<Rightarrow> if rc \<noteq> 0 then Inl BindingError else Inr st')"

text \<open>\<open>query\<close> gives the statement to a result set, which executes it when its first row is asked for.\<close>

definition mysql_query ::
  "('st, 'f) mysql_lib \<Rightarrow> ('st, 'f) mysql_statement \<Rightarrow> statement_error + ('st, 'f) mysql_statement" where
  "mysql_query lib s =
     (case ms_stmt s of
        None \<Rightarrow> Inl DatabaseError
      | Some st \<Rightarrow> case mysql_bind_params lib (ms_bindings s) st of Inl e \<Rightarrow> Inl e | Inr st' \<Rightarrow> Inr (s\<lparr>ms_stmt := Some st'\<rparr>))"

definition mysql_execute ::
  "('st, 'f) mysql_lib \<Rightarrow> ('st, 'f) mysql_statement \<Rightarrow> statement_error + bool \<times> ('st, 'f) mysql_statement" where
  "mysql_execute lib s =
     (case ms_stmt s of
        None \<Rightarrow> Inr (False, s)
      | Some st \<Rightarrow>
          case mysql_bind_params lib (ms_bindings s) st of
            Inl e \<Rightarrow> Inl e
          | Inr st' \<Rightarrow> case my_execute lib st' of (rc, st'') \<Rightarrow> Inr (rc = 0, s\<lparr>ms_stmt := Some st''\<rparr>))"

definition mysql_finish :: "('st, 'f) mysql_statement \<Rightarrow> ('st, 'f) mysql_statement" where
  "mysql_finish s = s\<lparr>ms_stmt := None, ms_bindings := []\<rparr>"

definition mysql_stmt_reset ::
  "('st, 'f) mysql_lib \<Rightarrow> ('st, 'f) mysql_statement \<Rightarrow> statement_error + ('st, 'f) mysql_statement" where
  "mysql_stmt_reset lib s =
     (case ms_stmt s of
        None \<Rightarrow> Inr s
      | Some st \<Rightarrow> case my_reset lib st of (rc, st') \<Rightarrow> if rc \<noteq> 0 then Inl DatabaseError else Inr (s\<lparr>ms_stmt := Some st'\<rparr>))"

definition mysql_last_number_of_changes :: "('st, 'f) mysql_lib \<Rightarrow> ('st, 'f) mysql_statement \<Rightarrow> int" where
  "mysql_last_number_of_changes lib s = (case ms_stmt s of None \<Rightarrow> 0 | Some st \<Rightarrow> my_affected_rows lib st)"

definition mysql_last_insert_id :: "('st, 'f) mysql_lib \<Rightarrow> ('st, 'f) mysql_statement \<Rightarrow> int" where
  "mysql_last_insert_id lib s = (case ms_stmt s of None \<Rightarrow> 0 | Some st \<Rightarrow> my_insert_id lib st)"

end
