(* ===== verification/MysqlProps.thy ===== *)
theory MysqlProps
  imports MysqlStatement
begin

text \<open>
  The parameters a statement of MySQL is given, the values its buffers give back, and the integers of
  rows fetched into them.
\<close>

section \<open>The array of a binding\<close>

definition mysql_param :: "'f mysql_bind list \<Rightarrow> nat \<Rightarrow> 'f mysql_bind" where
  "mysql_param bs i = (if 0 < i \<and> i \<le> length bs then bs ! (i - 1) else zero_bind)"

lemma mysql_param_Nil [simp]: "mysql_param [] i = zero_bind"
  by (auto simp: mysql_param_def)

lemma mysql_param_update:
  "0 < i \<Longrightarrow> i \<le> length bs \<Longrightarrow> mysql_param (bs[i - 1 := b]) = (mysql_param bs)(i := b)"
  by (rule ext) (auto simp: mysql_param_def nth_list_update)

lemma mysql_param_grown: "mysql_param (bs @ replicate n zero_bind) = mysql_param bs"
  by (rule ext) (auto simp: mysql_param_def nth_append)

lemma mysql_reallocated:
  assumes "0 < i"
  obtains bs' where "mysql_reallocate_value i bs = Some (True, bs')" "i \<le> length bs'"
    "mysql_param bs' = (mysql_param bs)(i := zero_bind)" "bs' ! (i - 1) = zero_bind"
proof (cases "i \<le> length bs")
  case True
  then show thesis using assms mysql_param_update [OF assms True, of zero_bind]
    by (intro that [of "bs[i - 1 := zero_bind]"]) (auto simp: mysql_reallocate_value_def mysql_clear_value_def)
next
  case False
  then have "mysql_param bs i = zero_bind" by (simp add: mysql_param_def)
  then show thesis using False assms mysql_param_grown [of bs "i + 5 - length bs"]
    by (intro that [of "bs @ replicate (i + 5 - length bs) zero_bind"])
      (auto simp: mysql_reallocate_value_def nth_append)
qed

lemma mysql_bind_accepted:
  assumes "0 < i" "mysql_from_value v zero_bind = Some b"
  shows "\<exists>bs'. mysql_bind_index bs i v = Inr bs' \<and> mysql_param bs' = (mysql_param bs)(i := b) \<and> i \<le> length bs'"
proof -
  obtain bs1 where bs1: "mysql_reallocate_value i bs = Some (True, bs1)" "i \<le> length bs1"
    "mysql_param bs1 = (mysql_param bs)(i := zero_bind)" "bs1 ! (i - 1) = zero_bind"
    by (rule mysql_reallocated [OF assms(1)])
  then show ?thesis using assms mysql_param_update [OF assms(1) bs1(2), of b] by (simp add: mysql_bind_index_def)
qed

interpretation mysql_params: driver_bind mysql_bind_index "\<lambda>v. mysql_from_value v zero_bind \<noteq> None"
  "\<lambda>v. the (mysql_from_value v zero_bind)" mysql_param "\<lambda>bs i. True" "\<lambda>bs. True"
proof
  fix bs :: "'f mysql_bind list" and v :: "'f sql_value" and i :: nat
  assume i: "0 < i"
  show "\<exists>bs'. mysql_bind_index bs i v = Inr bs' \<and> True \<and> (\<lambda>i. True) = (\<lambda>i. True) \<and>
      mysql_param bs' = (mysql_param bs)(i := the (mysql_from_value v zero_bind))" if "mysql_from_value v zero_bind \<noteq> None"
    using that mysql_bind_accepted [OF i, of v _ bs] by fastforce
  obtain bs' where "mysql_reallocate_value i bs = Some (True, bs')" "bs' ! (i - 1) = zero_bind"
    by (rule mysql_reallocated [OF i])
  then show "\<exists>e. mysql_bind_index bs i v = Inl e" if "\<not> mysql_from_value v zero_bind \<noteq> None"
    using that by (simp add: mysql_bind_index_def)
qed

text \<open>
  Binding the values of a query, from the first parameter on, gives every parameter the buffer of
  its value, whatever was bound before, and the others what they had; it raises if a value is a time
  without a date.
\<close>

theorem mysql_parameters_bound:
  "if \<forall>v\<in>set vs. mysql_from_value v zero_bind \<noteq> None
   then \<exists>bs'. bind_all mysql_bind_index 1 vs bs = Inr bs' \<and>
     (\<forall>k. mysql_param bs' k =
       (if 1 \<le> k \<and> k \<le> length vs then the (mysql_from_value (vs ! (k - 1)) zero_bind) else mysql_param bs k))
   else \<exists>e. bind_all mysql_bind_index 1 vs bs = Inl e"
  using mysql_params.bind_all_params [where s = bs and i = 1 and vs = vs]
    mysql_params.bind_all_refused [where s = bs and i = 1 and vs = vs]
  by (auto simp: less_Suc_eq_le)

section \<open>Values bound and read back\<close>

lemma mysql_read_back:
  assumes "0 < i" "mysql_from_value v zero_bind = Some b" "mysql_bind_index bs i v = Inr bs'"
  shows "mysql_value_at env bs' (i - 1) = (if mb_buffer b = None then Some Null else mysql_bind_value env b)"
proof -
  from mysql_bind_accepted [OF assms(1,2), of bs] assms(3)
  have p: "mysql_param bs' = (mysql_param bs)(i := b)" "i \<le> length bs'" by auto
  then have "bs' ! (i - 1) = b" using assms(1) by (metis fun_upd_same mysql_param_def)
  then show ?thesis using p(2) assms(1) by (auto simp: mysql_value_at_def)
qed

text \<open>The type an integer of a type is read as: the one with its width and sign.\<close>

fun mysql_read_type :: "int_type \<Rightarrow> int_type" where
  "mysql_read_type BoolT = CharT"
| "mysql_read_type WCharT = IntT"
| "mysql_read_type ty = ty"

lemma wrap_bytes: "in_range ty n \<Longrightarrow> wrap (mysql_read_type ty) (take_bit (8 * type_bytes ty) n) = n"
  by (cases ty) (auto simp: in_range_def signed_take_bit_take_bit split: if_splits)

lemma mysql_integer_buffer:
  "mysql_from_value (Number (Integer ty n)) zero_bind =
     Some \<lparr>mb_type = fst (mysql_int_type ty), mb_buffer = Some (IntBuffer (take_bit (8 * type_bytes ty) n)),
       mb_buffer_length = type_bytes ty, mb_unsigned = snd (mysql_int_type ty), mb_length = None, mb_is_null = None\<rparr>"
  by (cases ty) (simp_all add: to_cptr_def zero_bind_def)

lemma mysql_integer_back:
  assumes "in_range ty n" "mysql_from_value (Number (Integer ty n)) zero_bind = Some b"
  shows "mb_buffer b \<noteq> None" "mysql_bind_value env b = Some (Number (Integer (mysql_read_type ty) n))"
proof -
  have b: "b = \<lparr>mb_type = fst (mysql_int_type ty), mb_buffer = Some (IntBuffer (take_bit (8 * type_bytes ty) n)),
       mb_buffer_length = type_bytes ty, mb_unsigned = snd (mysql_int_type ty), mb_length = None, mb_is_null = None\<rparr>"
    using assms(2) unfolding mysql_integer_buffer by simp
  show "mb_buffer b \<noteq> None" by (simp add: b)
  have "mysql_bind_value env b =
      Some (Number (Integer (mysql_read_type ty) (wrap (mysql_read_type ty) (take_bit (8 * type_bytes ty) n))))"
    unfolding b by (cases ty) (simp_all add: mysql_bind_value_def mysql_to_number_def Let_def del: wrap.simps)
  then show "mysql_bind_value env b = Some (Number (Integer (mysql_read_type ty) n))"
    using wrap_bytes [OF assms(1)] by simp
qed

lemma year_kept: "- (2 ^ 31) \<le> y \<Longrightarrow> y < 2 ^ 31 \<Longrightarrow> wrap IntT (take_bit 32 (y + 1900) - 1900) = y"
proof -
  assume y: "- (2 ^ 31) \<le> y" "y < 2 ^ 31"
  have "take_bit 32 (take_bit 32 (y + 1900) - 1900) = take_bit 32 y"
    by (simp add: take_bit_eq_mod mod_diff_left_eq)
  then have "signed_take_bit 31 (take_bit 32 (y + 1900) - 1900) = signed_take_bit 31 y"
    by (simp add: signed_take_bit_eq_iff_take_bit_eq)
  also have "\<dots> = y" using y by (simp add: signed_take_bit_int_eq_self_iff)
  finally show ?thesis by simp
qed

lemma mysql_time_back:
  assumes "mysql_from_value (Time t) zero_bind = Some b"
  shows "mb_buffer b \<noteq> None" "mysql_bind_value env b = Some (Time t)"
proof -
  obtain u f where t: "t = \<lparr>t_value = u, t_format = f\<rparr>" by (cases t)
  from assms obtain g where g: "gmtime u = Some g" by (auto simp: set_time_def t)
  then have gb: "g = broken_down u" "- (2 ^ 31) \<le> tm_year g" "tm_year g < 2 ^ 31"
    by (auto simp: gmtime_def Let_def split: if_splits)
  have u: "timegm \<lparr>tm_year = tm_year g, tm_mon = tm_mon g, tm_mday = tm_mday g, tm_hour = tm_hour g, tm_min = tm_min g,
      tm_sec = tm_sec g\<rparr> = u"
    using timegm_broken_down [of u] unfolding gb(1) [symmetric] by (cases g) simp
  define m where "m = \<lparr>mt_year = take_bit 32 (tm_year g + 1900), mt_month = tm_mon g + 1, mt_day = tm_mday g,
      mt_hour = tm_hour g, mt_minute = tm_min g, mt_second = tm_sec g\<rparr>"
  have b: "b = zero_bind\<lparr>mb_type := mysql_time_type f, mb_buffer := Some (TimeBuffer m), mb_buffer_length := 40\<rparr>"
    using assms g by (simp add: set_time_def t m_def)
  show "mb_buffer b \<noteq> None" by (simp add: b)
  have "mysql_bind_value env b = parse_time b f"
    unfolding b by (cases f) (simp_all add: mysql_bind_value_def zero_bind_def)
  also have "\<dots> = Some (Time \<lparr>t_value = timegm \<lparr>tm_year = wrap IntT (take_bit 32 (tm_year g + 1900) - 1900), tm_mon = tm_mon g,
      tm_mday = tm_mday g, tm_hour = tm_hour g, tm_min = tm_min g, tm_sec = tm_sec g\<rparr>, t_format = f\<rparr>)"
    by (simp add: b parse_time_def m_def del: wrap.simps)
  also have "\<dots> = Some (Time t)" unfolding year_kept [OF gb(2,3)] u t ..
  finally show "mysql_bind_value env b = Some (Time t)" .
qed

text \<open>The value that comes back.\<close>

fun mysql_kept :: "'f mysql_env \<Rightarrow> 'f sql_value \<Rightarrow> 'f sql_value" where
  "mysql_kept env (Number (Integer ty n)) = Number (Integer (mysql_read_type ty) n)"
| "mysql_kept env (Number (Floating ft x)) =
     (if ft = LongDouble then Number (Floating Double (reinterpreted env x)) else Number (Floating ft x))"
| "mysql_kept env (Number NullNumber) = Null"
| "mysql_kept env (Text s) = Text (c_str s)"
| "mysql_kept env (Time t) = Time t"
| "mysql_kept env (Blob bs) = (if bs = [] then Null else Blob bs)"
| "mysql_kept env Null = Null"

lemma mysql_plain_back:
  "mysql_bind_value env (the (mysql_from_value (Text s) zero_bind)) = Some (Text (c_str s))"
  "bs \<noteq> [] \<Longrightarrow> mysql_bind_value env (the (mysql_from_value (Blob bs) zero_bind)) = Some (Blob bs)"
  "mysql_bind_value env (the (mysql_from_value (Number (Floating ft x)) zero_bind)) = Some (mysql_kept env (Number (Floating ft x)))"
  by (simp_all add: zero_bind_def mysql_bind_value_def split: float_type.split)

lemma mysql_plain_buffer:
  "mb_buffer (the (mysql_from_value (Text s) zero_bind)) \<noteq> None"
  "mb_buffer (the (mysql_from_value (Blob bs) zero_bind)) = None \<longleftrightarrow> bs = []"
  "mb_buffer (the (mysql_from_value (Number (Floating ft x)) zero_bind)) \<noteq> None"
  "mb_buffer (the (mysql_from_value Null zero_bind)) = None"
  "mb_buffer (the (mysql_from_value (Number NullNumber) zero_bind)) = None"
  by (simp_all add: zero_bind_def)

lemma mysql_back:
  assumes "value_typed v" "mysql_from_value v zero_bind = Some b"
  shows "(if mb_buffer b = None then Some Null else mysql_bind_value env b) = Some (mysql_kept env v)"
proof -
  have b: "b = the (mysql_from_value v zero_bind)" using assms(2) by simp
  show ?thesis
    using assms b
  proof (induction env v rule: mysql_kept.induct)
    case (1 env ty n)
    from 1(1) have "in_range ty n" by simp
    from mysql_integer_back [OF this 1(2)] show ?case by simp
  next
    case (5 env t)
    from mysql_time_back(1) [OF 5(2)] mysql_time_back(2) [OF 5(2), of env] show ?case by simp
  next
    case (6 env bs)
    have "mb_buffer b = None \<longleftrightarrow> bs = []" unfolding 6(3) by (rule mysql_plain_buffer(2))
    moreover have "bs \<noteq> [] \<Longrightarrow> mysql_bind_value env b = Some (Blob bs)" unfolding 6(3) by (rule mysql_plain_back(2))
    ultimately show ?case by auto
  qed (simp_all only: mysql_plain_buffer mysql_plain_back mysql_kept.simps simp_thms if_True if_False)
qed

text \<open>
  C30: What the buffers give back is the value that was bound, with its type, except that a bool is a
  \<open>char\<close> and a wide character an \<open>int\<close>, a \<open>long double\<close> is its bits read as a double, a text ends at its
  first zero character, and no bytes are null; a time keeps its second and its format.
\<close>

theorem mysql_values_read_back:
  assumes "value_typed v" "0 < i" "mysql_bind_index bs i v = Inr bs'"
  shows "mysql_value_at env bs' (i - 1) = Some (mysql_kept env v)"
proof -
  have "mysql_from_value v zero_bind \<noteq> None"
    using mysql_params.bind_refused [where v = v and i = i and s = bs] assms(2,3) by force
  then obtain b where b: "mysql_from_value v zero_bind = Some b" by auto
  show ?thesis unfolding mysql_read_back [OF assms(2) b assms(3)] by (rule mysql_back [OF assms(1) b])
qed

section \<open>Integers fetched\<close>

text \<open>
  As its documentation says, \<open>mysql_stmt_fetch\<close> writes an integer to a buffer in the width of the
  buffer's type, and says whether it is null.
\<close>

fun server_bytes :: "mysql_type \<Rightarrow> nat" where
  "server_bytes T_TINY = 1"
| "server_bytes T_SHORT = 2"
| "server_bytes T_LONG = 4"
| "server_bytes T_INT24 = 4"
| "server_bytes T_LONGLONG = 8"
| "server_bytes _ = 0"

definition fetch_integer :: "int \<Rightarrow> 'f mysql_bind \<Rightarrow> 'f mysql_bind" where
  "fetch_integer n b =
     b\<lparr>mb_buffer := Some (IntBuffer (take_bit (8 * server_bytes (mb_type b)) n)), mb_is_null := map_option (\<lambda>_. False) (mb_is_null b)\<rparr>"

lemma low_bytes: "- (2 ^ k) \<le> n \<Longrightarrow> n < 2 ^ k \<Longrightarrow> take_bit (Suc k) n = (if n < 0 then n + 2 ^ Suc k else n)" for n :: int
proof -
  assume n: "- (2 ^ k) \<le> n" "n < 2 ^ k"
  have p: "0 < (2 :: int) ^ k" by simp
  show ?thesis
  proof (cases "n < 0")
    case True
    then have "n mod 2 ^ Suc k = (n + 2 ^ Suc k) mod 2 ^ Suc k" by simp
    also have "\<dots> = n + 2 ^ Suc k" using True n p by (intro mod_pos_pos_trivial) auto
    finally show ?thesis using True by (simp add: take_bit_eq_mod)
  next
    case False
    have "n mod 2 ^ Suc k = n" using False n p by (intro mod_pos_pos_trivial) auto
    then show ?thesis using False by (simp add: take_bit_eq_mod)
  qed
qed

text \<open>Reading the low bytes of a signed integer as a wider type: a negative one gains a power of two.\<close>

lemma sign_lost:
  assumes "- (2 ^ k) \<le> n" "n < 2 ^ k" "k \<le> 31" "ty = LongT \<or> ty = IntT \<and> k \<le> 15"
  shows "wrap ty (take_bit (Suc k) n) = (if n < 0 then n + 2 ^ Suc k else n)"
proof -
  let ?m = "take_bit (Suc k) n"
  have m: "0 \<le> ?m" "?m < 2 ^ Suc k" by (simp_all only: take_bit_nonnegative take_bit_int_less_exp)
  have bound: "(2 :: int) ^ Suc k \<le> 2 ^ l" if "Suc k \<le> l" for l
    using that by (rule power_increasing) simp
  have "(2 :: int) ^ Suc k \<le> 2 ^ 32" "ty = IntT \<longrightarrow> (2 :: int) ^ Suc k \<le> 2 ^ 16"
    using bound [of 32] bound [of 16] assms(3,4) by auto
  then have "in_range ty x" if "0 \<le> x" "x < 2 ^ Suc k" for x
    using that assms(4) by auto
  from this [OF m] have "in_range ty ?m" .
  then show ?thesis using low_bytes [OF assms(1,2)] by (simp only: in_range_def)
qed

lemma mysql_integer_value:
  assumes "mb_is_null b \<noteq> Some True" "mb_type b \<in> {T_TINY, T_SHORT, T_LONG}" "3 \<le> mb_buffer_length b"
    "\<not> mb_unsigned b" "mb_buffer b = Some (IntBuffer m)"
  shows "mysql_bind_value env b =
    (let ty = if mb_buffer_length b = 8 then LongT else IntT in Some (Number (Integer ty (wrap ty m))))"
proof -
  have t: "mb_type b \<in> {T_BIT, T_TINY, T_SHORT, T_INT24, T_LONG}" using assms(2) by auto
  show ?thesis
    unfolding mysql_bind_value_def if_P [OF t] if_not_P [OF assms(1)]
    using assms(3-5) by (auto simp: mysql_to_number_def Let_def simp del: wrap.simps)
qed

lemma fetched_number:
  assumes "mf_type f \<in> {T_TINY, T_SHORT, T_LONG}" "\<not> mf_unsigned f"
  shows "mysql_bind_value env (fetch_integer n (prepare_binding_from_field f)) =
    (let ty = if mf_length f \<le> 8 then LongT else IntT
     in Some (Number (Integer ty (wrap ty (take_bit (8 * server_bytes (mf_type f)) n)))))"
proof -
  have "field_buffer_length f = max (mf_length f) 8" using assms(1) by (auto simp: field_buffer_length_def)
  then show ?thesis using assms
    by (subst mysql_integer_value) (auto simp: fetch_integer_def prepare_binding_from_field_def Let_def max_def simp del: wrap.simps)
qed

lemma fetched_long:
  "mf_type f = T_LONGLONG \<Longrightarrow> \<not> mf_unsigned f \<Longrightarrow>
    mysql_bind_value env (fetch_integer n (prepare_binding_from_field f)) =
      Some (Number (Integer LongLongT (wrap LongLongT (take_bit 64 n))))"
  by (simp add: mysql_bind_value_def fetch_integer_def prepare_binding_from_field_def mysql_to_number_def Let_def
      del: wrap.simps)

text \<open>
  C31: An integer fetched from a signed column of 8, 16 or 32 bits whose field length is at most 8 comes
  back as a \<open>long\<close> without its sign: 256, 65536 or 2 to the 32 is added to a negative one, since only
  its one, two or four bytes are written to the buffer of eight. Of longer fields, the columns of 8
  and 16 bits give an \<open>int\<close> that has lost its sign in the same way, and only a column of 32 bits gives
  its integers back as \<open>int\<close>. A column of 64 bits gives them back as \<open>long long\<close>.
\<close>

theorem mysql_small_integers_lose_sign:
  assumes "in_range (case mf_type f of T_TINY \<Rightarrow> CharT | T_SHORT \<Rightarrow> ShortT | T_LONG \<Rightarrow> IntT | _ \<Rightarrow> LongLongT) n"
    and "mf_type f \<in> {T_TINY, T_SHORT, T_LONG, T_LONGLONG}" "\<not> mf_unsigned f"
  shows "mysql_bind_value env (fetch_integer n (prepare_binding_from_field f)) =
    Some (Number (
      if mf_type f = T_LONGLONG then Integer LongLongT n
      else if mf_type f = T_LONG \<and> 8 < mf_length f then Integer IntT n
      else Integer (if mf_length f \<le> 8 then LongT else IntT)
        (if n < 0 then n + 2 ^ (8 * server_bytes (mf_type f)) else n)))"
    (is "?L = _")
proof -
  note w = fetched_number [OF _ assms(3), of env n]
  consider "mf_type f = T_TINY" "in_range CharT n" | "mf_type f = T_SHORT" "in_range ShortT n"
    | "mf_type f = T_LONG" "in_range IntT n" | "mf_type f = T_LONGLONG" "in_range LongLongT n"
    using assms(1,2) by (elim insertE emptyE) (simp_all del: in_range_iff)
  then show ?thesis
  proof cases
    case 1
    then have "wrap ty (take_bit 8 n) = (if n < 0 then n + 2 ^ 8 else n)" if "ty = LongT \<or> ty = IntT" for ty
      using sign_lost [of 7 n ty] that by (auto simp: in_range_def signed_take_bit_int_eq_self_iff)
    then show ?thesis using 1 by (simp add: w Let_def del: wrap.simps)
  next
    case 2
    then have "wrap ty (take_bit 16 n) = (if n < 0 then n + 2 ^ 16 else n)" if "ty = LongT \<or> ty = IntT" for ty
      using sign_lost [of 15 n ty] that by (auto simp: in_range_def signed_take_bit_int_eq_self_iff)
    then show ?thesis using 2 by (simp add: w Let_def del: wrap.simps)
  next
    case 3
    then have "wrap LongT (take_bit 32 n) = (if n < 0 then n + 2 ^ 32 else n)"
      using sign_lost [of 31 n LongT] by (auto simp: in_range_def signed_take_bit_int_eq_self_iff)
    moreover have "wrap IntT (take_bit 32 n) = n" using wrap_bytes [OF 3(2)] by simp
    ultimately show ?thesis using 3 by (simp add: w Let_def del: wrap.simps)
  next
    case 4
    have "?L = Some (Number (Integer LongLongT (wrap LongLongT (take_bit 64 n))))" using 4 assms(3) by (intro fetched_long)
    then show ?thesis using wrap_bytes [OF 4(2)] by (simp add: 4(1) del: wrap.simps)
  qed
qed

text \<open>
  In a row that came as text, an integer of a column of 32 bits is refused when it is beyond the
  range of an \<open>int\<close>, also when the column is unsigned; of a column of 64 bits, beyond a \<open>long long\<close>.
\<close>

theorem mysql_text_integers:
  "mysql_text_value fl T_LONG (Some (decimal n)) (length (decimal n)) =
      (if - (2 ^ 31) \<le> n \<and> n < 2 ^ 31 then Some (Number (Integer IntT n)) else None) \<and>
   mysql_text_value fl T_LONGLONG (Some (decimal n)) (length (decimal n)) =
      (if - (2 ^ 63) \<le> n \<and> n < 2 ^ 63 then Some (Number (Integer LongLongT n)) else None)"
proof -
  have "c_str (decimal n) = decimal n" by simp
  moreover have "sto_signed ty (decimal n) = (if in_range ty n then Some n else None)" for ty
    using read_decimal [of "[]" n] by (simp add: sto_signed_def)
  ultimately show ?thesis by (simp add: mysql_text_value_def)
qed

section \<open>Examples\<close>

definition no_mysql_env :: "unit mysql_env" where
  "no_mysql_env = \<lparr>from_text = (\<lambda>ft s. None), float_text = (\<lambda>x. []), of_integer = (\<lambda>ft i. ()), rounded = (\<lambda>ft x. x),
     truncated = (\<lambda>ty x. 0), float_eq = (\<lambda>x y. x = y), address = (\<lambda>b. []), reinterpreted = (\<lambda>x. x)\<rparr>"

theorem mysql_values_read_back_witness:
  "\<exists>bs. mysql_bind_index [] 2 (Number (Integer LongT (- (2 ^ 40)))) = Inr bs \<and>
     mysql_value_at no_mysql_env bs 1 = Some (Number (Integer LongT (- (2 ^ 40))))"
proof -
  obtain bs where bs: "mysql_bind_index [] 2 (Number (Integer LongT (- (2 ^ 40))) :: unit sql_value) = Inr bs"
    using mysql_bind_accepted [OF _ mysql_integer_buffer, of 2 "[]"] by auto
  have "in_range LongT (- (2 ^ 40))" by simp
  with mysql_values_read_back [OF _ _ bs, of no_mysql_env] bs show ?thesis by simp
qed

theorem mysql_small_integers_lose_sign_witness:
  "mysql_bind_value no_mysql_env (fetch_integer (- 1)
     (prepare_binding_from_field \<lparr>mf_type = T_TINY, mf_length = 4, mf_not_null = False, mf_unsigned = False\<rparr>)) =
     Some (Number (Integer LongT 255)) \<and>
   mysql_bind_value no_mysql_env (fetch_integer (- 1)
     (prepare_binding_from_field \<lparr>mf_type = T_LONG, mf_length = 5, mf_not_null = False, mf_unsigned = False\<rparr>)) =
     Some (Number (Integer LongT (2 ^ 32 - 1))) \<and>
   mysql_bind_value no_mysql_env (fetch_integer (- 1)
     (prepare_binding_from_field \<lparr>mf_type = T_LONG, mf_length = 11, mf_not_null = False, mf_unsigned = False\<rparr>)) =
     Some (Number (Integer IntT (- 1)))"
proof -
  have r: "in_range CharT (- 1)" "in_range IntT (- 1)" by (simp_all add: in_range_def)
  show ?thesis
    using r
      mysql_small_integers_lose_sign
        [of "\<lparr>mf_type = T_TINY, mf_length = 4, mf_not_null = False, mf_unsigned = False\<rparr>" "- 1" no_mysql_env]
      mysql_small_integers_lose_sign
        [of "\<lparr>mf_type = T_LONG, mf_length = 5, mf_not_null = False, mf_unsigned = False\<rparr>" "- 1" no_mysql_env]
      mysql_small_integers_lose_sign
        [of "\<lparr>mf_type = T_LONG, mf_length = 11, mf_not_null = False, mf_unsigned = False\<rparr>" "- 1" no_mysql_env]
    by simp
qed

end
