(* ===== verification/Rows.thy ===== *)
theory Rows
  imports ResultDrivers SqliteProps PgProps MysqlProps
begin

text \<open>
  \<^verbatim>\<open>row.h\<close>, \<^verbatim>\<open>row.cpp\<close>, \<^verbatim>\<open>column.cpp\<close> and the \<^verbatim>\<open>row.cpp\<close> and \<^verbatim>\<open>column.cpp\<close> of the drivers: rows, their columns by
  number and by name, the iterator over them and what loops over a row see. The method \<open>operator+=\<close> of
  the iterator, and what calls it, cannot be instantiated: it takes the minimum of two types.
\<close>

section \<open>Rows of the drivers\<close>

datatype row_error = NoSuchColumn | InvalidRow | NullPointer

text \<open>The virtual methods of a row; columns are handles, whose values are read later.\<close>

record 'c row_impl =
  ri_size :: nat
  ri_column :: "nat \<Rightarrow> row_error + 'c"
  ri_named :: "string \<Rightarrow> row_error + 'c"
  ri_column_name :: "nat \<Rightarrow> row_error + string"
  ri_is_valid :: bool

text \<open>The loop over the names of the columns, from number \<open>i\<close> on; a name may be missing.\<close>

fun find_column :: "(nat \<Rightarrow> row_error + 'c) \<Rightarrow> string \<Rightarrow> nat \<Rightarrow> string option list \<Rightarrow> row_error + 'c" where
  "find_column column name i [] = Inl NoSuchColumn"
| "find_column column name i (n # ns) = (if n = Some name then column i else find_column column name (Suc i) ns)"

definition named_column :: "(nat \<Rightarrow> row_error + 'c) \<Rightarrow> string option list \<Rightarrow> string \<Rightarrow> row_error + 'c" where
  "named_column column names name = (if name = [] then Inl NoSuchColumn else find_column column name 0 names)"

definition sqlite_row_column :: "string list \<Rightarrow> nat \<Rightarrow> row_error + nat" where
  "sqlite_row_column names n = (if n \<ge> length names then Inl NoSuchColumn else Inr n)"

definition sqlite_row_impl :: "string list \<Rightarrow> nat row_impl" where
  "sqlite_row_impl names =
     \<lparr>ri_size = length names, ri_column = sqlite_row_column names,
      ri_named = named_column (sqlite_row_column names) (map Some names),
      ri_column_name = (\<lambda>n. if n \<ge> length names then Inl NoSuchColumn else Inr (names ! n)), ri_is_valid = True\<rparr>"

definition pg_row_column :: "string list \<Rightarrow> int \<Rightarrow> nat \<Rightarrow> row_error + int \<times> nat" where
  "pg_row_column names row n = (if n \<ge> length names \<or> row = - 1 then Inl NoSuchColumn else Inr (row, n))"

definition pg_row_impl :: "string list \<Rightarrow> int \<Rightarrow> (int \<times> nat) row_impl" where
  "pg_row_impl names row =
     \<lparr>ri_size = length names, ri_column = pg_row_column names row,
      ri_named = named_column (pg_row_column names row) (map Some names),
      ri_column_name = (\<lambda>n. if n \<ge> length names then Inl NoSuchColumn else Inr (names ! n)), ri_is_valid = row \<ge> 0\<rparr>"

text \<open>A row of MySQL; the names of its fields may be missing. Only rows of statements can be invalid.\<close>

definition mysql_row_column :: "bool \<Rightarrow> string option list \<Rightarrow> nat \<Rightarrow> row_error + nat" where
  "mysql_row_column valid names n =
     (if \<not> valid then Inl InvalidRow else if n \<ge> length names then Inl NoSuchColumn else Inr n)"

definition mysql_row_impl :: "string option list \<Rightarrow> nat row_impl" where
  "mysql_row_impl names =
     \<lparr>ri_size = length names, ri_column = mysql_row_column True names,
      ri_named = named_column (mysql_row_column True names) names,
      ri_column_name = (\<lambda>n. if n \<ge> length names then Inl NoSuchColumn
        else case names ! n of None \<Rightarrow> Inl NoSuchColumn | Some s \<Rightarrow> Inr s), ri_is_valid = True\<rparr>"

text \<open>
  A row of a statement has no fields before the statement was executed (\<open>metadata_\<close>), and no buffers
  before that and after a reset (\<open>fields_\<close>).
\<close>

definition mysql_stmt_row_impl :: "bool \<Rightarrow> string option list option \<Rightarrow> nat row_impl" where
  "mysql_stmt_row_impl buffers metadata =
     (let valid = buffers \<and> metadata \<noteq> None;
          names = (case metadata of None \<Rightarrow> [] | Some ns \<Rightarrow> ns)
      in \<lparr>ri_size = length names, ri_column = mysql_row_column valid names,
          ri_named = (\<lambda>name. if \<not> valid then Inl InvalidRow else named_column (mysql_row_column valid names) names name),
          ri_column_name = (\<lambda>n. if \<not> valid then Inl InvalidRow
            else if n \<ge> length names then Inl NoSuchColumn
            else case names ! n of None \<Rightarrow> Inr [] | Some s \<Rightarrow> Inr s), ri_is_valid = valid\<rparr>)"

section \<open>Rows\<close>

text \<open>A row object may have no implementation; only some of its methods ask.\<close>

definition row_column :: "'c row_impl option \<Rightarrow> nat \<Rightarrow> row_error + 'c" where
  "row_column r n = (case r of None \<Rightarrow> Inl NullPointer | Some impl \<Rightarrow> ri_column impl n)"

definition row_named :: "'c row_impl option \<Rightarrow> string \<Rightarrow> row_error + 'c" where
  "row_named r name = (case r of None \<Rightarrow> Inl NullPointer | Some impl \<Rightarrow> ri_named impl name)"

definition row_column_name :: "'c row_impl option \<Rightarrow> nat \<Rightarrow> row_error + string" where
  "row_column_name r n = (case r of None \<Rightarrow> Inr [] | Some impl \<Rightarrow> ri_column_name impl n)"

definition row_size :: "'c row_impl option \<Rightarrow> nat" where
  "row_size r = (case r of None \<Rightarrow> 0 | Some impl \<Rightarrow> ri_size impl)"

definition row_empty :: "'c row_impl option \<Rightarrow> bool" where
  "row_empty r = (row_size r = 0)"

definition row_is_valid :: "'c row_impl option \<Rightarrow> bool" where
  "row_is_valid r = (case r of None \<Rightarrow> False | Some impl \<Rightarrow> ri_is_valid impl)"

section \<open>Iterators\<close>

text \<open>The current value of an iterator is a column, which without an implementation is \<open>None\<close>.\<close>

record 'c row_iterator =
  ci_row :: "'c row_impl option"
  ci_position :: int
  ci_currentValue :: "'c option"

definition ci_new :: "'c row_impl option \<Rightarrow> int \<Rightarrow> 'c row_iterator" where
  "ci_new r position = \<lparr>ci_row = r, ci_position = position, ci_currentValue = None\<rparr>"

definition row_begin :: "'c row_impl option \<Rightarrow> 'c row_iterator" where
  "row_begin r = ci_new r 0"

definition row_end :: "'c row_impl option \<Rightarrow> 'c row_iterator" where
  "row_end r = ci_new r (int (row_size r))"

definition set_current_value :: "int \<Rightarrow> 'c row_iterator \<Rightarrow> row_error + 'c row_iterator" where
  "set_current_value index it =
     (case ci_row it of
        None \<Rightarrow> Inr it
      | Some impl \<Rightarrow>
          if index \<ge> 0 \<and> index < int (ri_size impl)
          then (case ri_column impl (nat index) of Inl e \<Rightarrow> Inl e | Inr c \<Rightarrow> Inr (it\<lparr>ci_currentValue := Some c\<rparr>))
          else Inr (it\<lparr>ci_currentValue := None\<rparr>))"

text \<open>The position is compared as an unsigned number: a negative one is not below the size.\<close>

definition ci_advance :: "'c row_iterator \<Rightarrow> row_error + 'c row_iterator" where
  "ci_advance it =
     (case ci_row it of
        None \<Rightarrow> Inl NullPointer
      | Some impl \<Rightarrow>
          Inr (if 0 \<le> ci_position it \<and> ci_position it < int (ri_size impl)
               then it\<lparr>ci_position := ci_position it + 1\<rparr> else it))"

definition ci_retreat :: "'c row_iterator \<Rightarrow> 'c row_iterator" where
  "ci_retreat it = (if ci_position it > 0 then it\<lparr>ci_position := ci_position it - 1\<rparr> else it)"

definition ci_minus :: "'c row_iterator \<Rightarrow> int \<Rightarrow> 'c row_iterator" where
  "ci_minus it n = it\<lparr>ci_position := max (ci_position it - n) 0\<rparr>"

definition ci_eq :: "'c row_iterator \<Rightarrow> 'c row_iterator \<Rightarrow> bool" where
  "ci_eq it other = (ci_position it = ci_position other)"

definition ci_less :: "'c row_iterator \<Rightarrow> 'c row_iterator \<Rightarrow> bool" where
  "ci_less it other = (ci_position it < ci_position other)"

definition ci_greater :: "'c row_iterator \<Rightarrow> 'c row_iterator \<Rightarrow> bool" where
  "ci_greater it other = (\<not> ci_less it other)"

definition ci_distance :: "'c row_iterator \<Rightarrow> 'c row_iterator \<Rightarrow> int" where
  "ci_distance it other = (if ci_position it \<ge> ci_position other then ci_position it - ci_position other else 0)"

text \<open>A range-based loop over a row; \<open>None\<close> is an exception, or a loop that never ends.\<close>

partial_function (option) columns_loop ::
  "('c option \<Rightarrow> 'a \<Rightarrow> 'a option) \<Rightarrow> 'c row_iterator \<Rightarrow> 'c row_iterator \<Rightarrow> 'a \<Rightarrow> 'a option" where
  "columns_loop funk it stop a =
     (if ci_eq it stop then Some a
      else case set_current_value (ci_position it) it of
        Inl e \<Rightarrow> None
      | Inr it' \<Rightarrow>
          Option.bind (funk (ci_currentValue it') a) (\<lambda>a'.
            case ci_advance it' of Inl e \<Rightarrow> None | Inr it'' \<Rightarrow> columns_loop funk it'' stop a'))"

definition row_each :: "'c row_impl option \<Rightarrow> ('c option \<Rightarrow> 'a \<Rightarrow> 'a option) \<Rightarrow> 'a \<Rightarrow> 'a option" where
  "row_each r funk a = columns_loop funk (row_begin r) (row_end r) a"

section \<open>The contract of rows\<close>

text \<open>A name of a list of names that may be missing, at its first place.\<close>

definition first_named :: "string option list \<Rightarrow> string \<Rightarrow> nat \<Rightarrow> bool" where
  "first_named names name i = (i < length names \<and> names ! i = Some name \<and> Some name \<notin> set (take i names))"

lemma find_column_first:
  "first_named names name i \<Longrightarrow> find_column column name k names = column (k + i)"
proof (induction names arbitrary: k i)
  case (Cons n ns)
  then show ?case using Cons.IH [of "i - 1" "Suc k"] by (cases i) (auto simp: first_named_def)
qed (simp add: first_named_def)

lemma find_column_absent: "Some name \<notin> set names \<Longrightarrow> find_column column name k names = Inl NoSuchColumn"
  by (induction column name k names rule: find_column.induct) auto

lemma named_column_first:
  "first_named names name i \<Longrightarrow> name \<noteq> [] \<Longrightarrow> named_column column names name = column i"
  using find_column_first [of names name i column 0] by (simp add: named_column_def)

lemma first_named_exists: "Some name \<in> set names \<Longrightarrow> \<exists>i. first_named names name i"
proof -
  assume "Some name \<in> set names"
  then obtain xs ys where "names = xs @ Some name # ys" "Some name \<notin> set xs" using split_list_first by metis
  then show ?thesis by (intro exI [of _ "length xs"]) (simp add: first_named_def)
qed

locale row_columns =
  fixes impl :: "'c row_impl" and names :: "string option list" and cell :: "nat \<Rightarrow> 'c"
  assumes size: "ri_size impl = length names"
    and column: "i < length names \<Longrightarrow> ri_column impl i = Inr (cell i)"
    and beyond: "length names \<le> i \<Longrightarrow> ri_column impl i = Inl NoSuchColumn"
    and named: "ri_named impl = named_column (ri_column impl) names"
begin

lemma loop_visits:
  "i \<le> length names \<Longrightarrow> ci_row it = Some impl \<Longrightarrow> ci_position it = int i \<Longrightarrow>
   columns_loop f it (row_end (Some impl)) a = visits f (map (\<lambda>i. Some (cell i)) [i..<length names]) a"
proof (induction "length names - i" arbitrary: i it a)
  case 0
  then show ?case by (subst columns_loop.simps) (simp add: ci_eq_def row_end_def ci_new_def row_size_def size)
next
  case (Suc d)
  then have i: "i < length names" and d: "d = length names - Suc i" by simp_all
  have upt: "[i..<length names] = i # [Suc i..<length names]" using i by (rule upt_conv_Cons)
  have next_step: "columns_loop f (it\<lparr>ci_currentValue := Some (cell i), ci_position := int i + 1\<rparr>) (row_end (Some impl)) b =
      visits f (map (\<lambda>i. Some (cell i)) [Suc i..<length names]) b" for b
    using Suc.hyps(1) [OF d, of "it\<lparr>ci_currentValue := Some (cell i), ci_position := int i + 1\<rparr>" b] i Suc.prems by simp
  show ?case
    using Suc.prems i next_step unfolding upt
    by (subst columns_loop.simps)
      (simp add: ci_eq_def row_end_def ci_new_def row_size_def size set_current_value_def column ci_advance_def
        split: option.split)
qed

lemma each_visits: "row_each (Some impl) f a = visits f (map (\<lambda>i. Some (cell i)) [0..<length names]) a"
  unfolding row_each_def row_begin_def by (rule loop_visits) (simp_all add: ci_new_def)

lemma named_first: "first_named names name i \<Longrightarrow> name \<noteq> [] \<Longrightarrow> ri_named impl name = Inr (cell i)"
  using column [of i] by (simp add: named named_column_first) (simp add: first_named_def)

lemma named_absent: "name = [] \<or> Some name \<notin> set names \<Longrightarrow> ri_named impl name = Inl NoSuchColumn"
  by (auto simp: named named_column_def find_column_absent)

end

interpretation sqlite_cells: row_columns "sqlite_row_impl names" "map Some names" "\<lambda>i. i"
  for names :: "string list"
  by unfold_locales (simp_all add: sqlite_row_impl_def sqlite_row_column_def)

interpretation pg_cells: row_columns "pg_row_impl names (int row)" "map Some names" "\<lambda>i. (int row, i)"
  for names :: "string list" and row :: nat
  by unfold_locales (simp_all add: pg_row_impl_def pg_row_column_def)

interpretation mysql_cells: row_columns "mysql_row_impl names" names "\<lambda>i. i"
  for names :: "string option list"
  by unfold_locales (auto simp: mysql_row_impl_def mysql_row_column_def)

interpretation mysql_stmt_cells: row_columns "mysql_stmt_row_impl True (Some names)" names "\<lambda>i. i"
  for names :: "string option list"
  by unfold_locales (auto simp: mysql_stmt_row_impl_def mysql_row_column_def)

section \<open>Columns and their values\<close>

text \<open>\<open>value\<close> of a column object, which may have no implementation; \<open>to_value\<close> may raise.\<close>

definition column_value :: "('c \<Rightarrow> 'f sql_value option) \<Rightarrow> 'c option \<Rightarrow> 'f sql_value option" where
  "column_value to_value c = (case c of None \<Rightarrow> Some Null | Some impl \<Rightarrow> to_value impl)"

definition sqlite_names :: "('st, 'f) sqlite_lib \<Rightarrow> 'st \<Rightarrow> string list" where
  "sqlite_names lib st = map (\<lambda>i. sl_column_name lib st (int i)) [0..<nat (sl_column_count lib st)]"

definition sqlite_column_value :: "('st, 'f) sqlite_lib \<Rightarrow> 'st \<Rightarrow> nat \<Rightarrow> 'f sql_value option" where
  "sqlite_column_value lib st c = Some (sqlite_to_value lib st (int c))"

text \<open>A result of PostgreSQL: the names and types of its fields, and the fields of its rows, null or text.\<close>

record pg_result =
  pq_names :: "string list"
  pq_types :: "nat list"
  pq_tuples :: "string option list list"

definition pg_column_value :: "'f pg_env \<Rightarrow> pg_result \<Rightarrow> int \<times> nat \<Rightarrow> 'f sql_value option" where
  "pg_column_value env res c =
     (case c of
        (row, column) \<Rightarrow>
          if row < 0 then None
          else let text = case pq_tuples res ! nat row ! column of None \<Rightarrow> [] | Some s \<Rightarrow> s
               in pg_to_value env (pq_types res ! column) (Some text) (int (length text)))"

text \<open>
  A column of MySQL: the type of its field, which the library may not find, the bytes of the row and
  the lengths of its columns. One of a statement reads the buffers, if there are any.
\<close>

definition mysql_column_value ::
  "'f floats \<Rightarrow> mysql_type option list \<Rightarrow> string option list \<Rightarrow> nat list option \<Rightarrow> nat \<Rightarrow> 'f sql_value option" where
  "mysql_column_value fl types row lengths index =
     (case types ! index of
        None \<Rightarrow> None
      | Some ty \<Rightarrow> mysql_text_value fl ty (row ! index) (case lengths of None \<Rightarrow> 0 | Some ls \<Rightarrow> ls ! index))"

definition mysql_stmt_column_value ::
  "'f mysql_env \<Rightarrow> 'f mysql_bind list option \<Rightarrow> nat \<Rightarrow> 'f sql_value option" where
  "mysql_stmt_column_value env buffers position =
     (case buffers of None \<Rightarrow> Some Null | Some bs \<Rightarrow> mysql_value_at env bs position)"

text \<open>
  C23: A loop over a row visits every column once, in order, with every driver, and a row without an
  implementation has none; a row of PostgreSQL before the first, and one of a MySQL statement after a
  reset, is not visited, it raises.
\<close>

theorem rows_visit_columns:
  "row_each (Some (sqlite_row_impl names)) f a = visits f (map Some [0..<length names]) a \<and>
   row_each (Some (pg_row_impl names (int k))) g b = visits g (map (\<lambda>i. Some (int k, i)) [0..<length names]) b \<and>
   row_each (Some (mysql_row_impl ns)) f a = visits f (map Some [0..<length ns]) a \<and>
   row_each (Some (mysql_stmt_row_impl True (Some ns))) f a = visits f (map Some [0..<length ns]) a \<and>
   row_each (None :: 'c row_impl option) h c = Some c \<and>
   row_each (Some (pg_row_impl (n # names) (- 1))) g b = None \<and>
   row_each (Some (mysql_stmt_row_impl False (Some (m # ns)))) f a = None"
proof -
  note begin_end = ci_eq_def row_begin_def row_end_def ci_new_def
    row_size_def set_current_value_def
  have "row_each (None :: 'c row_impl option) h c = Some c"
    unfolding row_each_def by (subst columns_loop.simps) (simp add: begin_end)
  moreover have "row_each (Some (pg_row_impl (n # names) (- 1))) g b = None"
    unfolding row_each_def by (subst columns_loop.simps) (simp add: begin_end pg_row_impl_def pg_row_column_def)
  moreover have "row_each (Some (mysql_stmt_row_impl False (Some (m # ns)))) f a = None"
    unfolding row_each_def by (subst columns_loop.simps) (simp add: begin_end mysql_stmt_row_impl_def mysql_row_column_def)
  ultimately show ?thesis
    using sqlite_cells.each_visits [of names f a] pg_cells.each_visits [of names k g b] mysql_cells.each_visits [of ns f a]
      mysql_stmt_cells.each_visits [of ns f a]
    by simp
qed

lemma find_column_map_of:
  "find_column column name k (map Some names) =
     (case map_of (zip names [k..<k + length names]) name of None \<Rightarrow> Inl NoSuchColumn | Some i \<Rightarrow> column i)"
proof (induction names arbitrary: k)
  case (Cons n ns)
  have "[k..<k + length (n # ns)] = k # [Suc k..<Suc k + length ns]" by (simp add: upt_rec)
  then show ?case using Cons [of "Suc k"] by (simp del: upt_Suc)
qed simp

lemma sqlite_columns_zip:
  "sqlite_columns lib st =
     map (\<lambda>(n, i). (n, sqlite_to_value lib st (int i))) (zip (sqlite_names lib st) [0..<length (sqlite_names lib st)])"
  by (rule nth_equalityI) (simp_all add: sqlite_columns_def sqlite_names_def)

lemma named_map_of:
  assumes "name \<noteq> []" "\<And>i. i < length names \<Longrightarrow> column i = Inr (cell i)"
  shows "named_column column (map Some names) name =
    (case map_of (zip names [0..<length names]) name of None \<Rightarrow> Inl NoSuchColumn | Some i \<Rightarrow> Inr (cell i))"
proof (cases "map_of (zip names [0..<length names]) name")
  case None
  show ?thesis
    unfolding named_column_def find_column_map_of [of column name 0 names, unfolded add_0_left] None
    using assms(1) by simp
next
  case (Some i)
  have "i < length names" using map_of_SomeD [OF Some] by (auto simp: set_zip)
  then show ?thesis
    unfolding named_column_def find_column_map_of [of column name 0 names, unfolded add_0_left] Some
    using assms by simp
qed

lemma zip_types:
  assumes "length types = length names"
  shows "zip names (zip types [0..<length names]) = map (\<lambda>(n, i). (n, types ! i, i)) (zip names [0..<length names])"
  by (rule nth_equalityI) (simp_all add: assms)

text \<open>
  C24: A column asked for by its name is the first of that name: with SQLite its value is the one the
  row shows under the name, and an unknown name raises, as does the empty one; with PostgreSQL it is
  the field of the row, in the type of the column.
\<close>

theorem named_column_value:
  assumes "name \<noteq> []" "length (pq_types res) = length (pq_names res)"
  shows "(case row_named (Some (sqlite_row_impl (sqlite_names lib st))) name of
      Inl e \<Rightarrow> None | Inr c \<Rightarrow> sqlite_column_value lib st c) = map_of (sqlite_columns lib st) name \<and>
    (case row_named (Some (pg_row_impl (pq_names res) (int k))) name of
      Inl e \<Rightarrow> None | Inr c \<Rightarrow> pg_column_value env res c) =
      (case map_of (zip (pq_names res) (zip (pq_types res) [0..<length (pq_names res)])) name of
         None \<Rightarrow> None
       | Some (ty, i) \<Rightarrow>
           (case pq_tuples res ! k ! i of None \<Rightarrow> Some Null | Some s \<Rightarrow> pg_to_value env ty (Some s) (int (length s))))"
proof
  let ?names = "sqlite_names lib st"
  let ?found = "map_of (zip ?names [0..<length ?names]) name"
  have "row_named (Some (sqlite_row_impl ?names)) name = (case ?found of None \<Rightarrow> Inl NoSuchColumn | Some i \<Rightarrow> Inr i)"
    using named_map_of [OF assms(1), of ?names "sqlite_row_column ?names" "\<lambda>i. i"]
    by (simp add: row_named_def sqlite_row_impl_def sqlite_row_column_def)
  moreover have "map_of (sqlite_columns lib st) name = map_option (\<lambda>i. sqlite_to_value lib st (int i)) ?found"
    unfolding sqlite_columns_zip map_of_map by simp
  ultimately show "(case row_named (Some (sqlite_row_impl ?names)) name of
      Inl e \<Rightarrow> None | Inr c \<Rightarrow> sqlite_column_value lib st c) = map_of (sqlite_columns lib st) name"
    by (cases ?found) (simp_all only: option.case sum.case sqlite_column_value_def option.map)
next
  let ?names = "pq_names res"
  let ?found = "map_of (zip ?names [0..<length ?names]) name"
  have "row_named (Some (pg_row_impl ?names (int k))) name = (case ?found of None \<Rightarrow> Inl NoSuchColumn | Some i \<Rightarrow> Inr (int k, i))"
    using named_map_of [OF assms(1), of ?names "pg_row_column ?names (int k)" "\<lambda>i. (int k, i)"]
    by (simp add: row_named_def pg_row_impl_def pg_row_column_def)
  moreover have "map_of (zip ?names (zip (pq_types res) [0..<length ?names])) name =
      map_option (\<lambda>i. (pq_types res ! i, i)) ?found"
    unfolding zip_types [OF assms(2)] map_of_map by simp
  moreover have "pg_column_value env res (int k, i) =
      (case pq_tuples res ! k ! i of None \<Rightarrow> Some Null | Some s \<Rightarrow> pg_to_value env (pq_types res ! i) (Some s) (int (length s)))" for i
    by (cases "pq_tuples res ! k ! i") (simp_all add: pg_column_value_def, simp add: pg_to_value_def)
  ultimately show "(case row_named (Some (pg_row_impl ?names (int k))) name of
      Inl e \<Rightarrow> None | Inr c \<Rightarrow> pg_column_value env res c) =
      (case map_of (zip ?names (zip (pq_types res) [0..<length ?names])) name of
         None \<Rightarrow> None
       | Some (ty, i) \<Rightarrow>
           (case pq_tuples res ! k ! i of None \<Rightarrow> Some Null | Some s \<Rightarrow> pg_to_value env ty (Some s) (int (length s))))"
    by (cases ?found) (simp_all only: option.case sum.case option.map prod.case)
qed

definition example_result :: pg_result where
  "example_result =
     \<lparr>pq_names = [''a'', ''b'', ''b''], pq_types = [TEXTOID, TEXTOID, BOOLOID], pq_tuples = [[None, Some ''x'', Some ''t'']]\<rparr>"

theorem named_column_value_witness:
  "(case row_named (Some (pg_row_impl (pq_names example_result) 0)) ''b'' of
      Inl e \<Rightarrow> None | Inr c \<Rightarrow> pg_column_value no_env example_result c) = Some (Text ''x'')"
proof -
  have "map_of (zip (pq_names example_result) (zip (pq_types example_result) [0..<length (pq_names example_result)])) ''b'' =
      Some (TEXTOID, 1)"
    by (simp add: example_result_def upt_rec)
  moreover have "length (pq_types example_result) = length (pq_names example_result)" "''b'' \<noteq> []"
    by (simp_all add: example_result_def)
  ultimately show ?thesis
    using named_column_value [where name = "''b''" and res = example_result and k = 0 and env = no_env, THEN conjunct2]
    by (simp add: example_result_def pg_to_value_def c_str_def)
qed

end
