(* ===== verification/Session.thy ===== *)
theory Session
  imports Uri SqlValue MysqlResults
begin

text \<open>
  \<^verbatim>\<open>session.cpp\<close> and the \<^verbatim>\<open>session.cpp\<close> of the drivers: opening and closing a session, and the statements
  it runs as text. The connections are those of the client libraries, which are parameters; \<open>'w\<close> is
  their state. A raised exception is its message.
\<close>

section \<open>Sessions\<close>

record 'd session =
  sn_info :: uri
  sn_db :: "'d option"

definition new_session :: "uri \<Rightarrow> 'd session" where
  "new_session info = \<lparr>sn_info = info, sn_db = None\<rparr>"

definition session_is_open :: "'d session \<Rightarrow> bool" where
  "session_is_open s = (sn_db s \<noteq> None)"

text \<open>The session holds the only reference to the connection, which is closed with it.\<close>

definition close_session :: "('d \<Rightarrow> 'w \<Rightarrow> 'w) \<Rightarrow> 'd session \<Rightarrow> 'w \<Rightarrow> 'd session \<times> 'w" where
  "close_session close_db s w =
     (case sn_db s of None \<Rightarrow> (s, w) | Some conn \<Rightarrow> (s\<lparr>sn_db := None\<rparr>, close_db conn w))"

section \<open>SQLite\<close>

record ('d, 'st, 'w) sqlite_connections =
  so_open :: "string \<Rightarrow> int \<Rightarrow> 'w \<Rightarrow> int \<times> 'd option \<times> 'w"
  so_close :: "'d \<Rightarrow> 'w \<Rightarrow> 'w"
  so_errcode :: "'d \<Rightarrow> 'w \<Rightarrow> int"
  so_errmsg :: "'d \<Rightarrow> 'w \<Rightarrow> string"
  so_prepare :: "'d \<Rightarrow> string \<Rightarrow> 'w \<Rightarrow> int \<times> 'st \<times> 'w"
  so_step :: "'st \<Rightarrow> 'w \<Rightarrow> int \<times> 'w"
  so_finalize :: "'st \<Rightarrow> 'w \<Rightarrow> 'w"

definition sqlite_last_error :: "('d, 'st, 'w) sqlite_connections \<Rightarrow> 'd session \<Rightarrow> 'w \<Rightarrow> string" where
  "sqlite_last_error lib s w =
     (case sn_db s of None \<Rightarrow> [] | Some d \<Rightarrow> decimal (so_errcode lib d w) @ '': '' @ so_errmsg lib d w)"

definition sqlite_open_flags ::
  "('d, 'st, 'w) sqlite_connections \<Rightarrow> int \<Rightarrow> 'd session \<Rightarrow> 'w \<Rightarrow> string option \<times> 'd session \<times> 'w" where
  "sqlite_open_flags lib flags s w =
     (if session_is_open s then (None, s, w)
      else case so_open lib (c_str (path (sn_info s))) flags w of
        (rc, conn, w') \<Rightarrow>
          if rc \<noteq> SQLITE_OK then (Some (sqlite_last_error lib s w'), s, w') else (None, s\<lparr>sn_db := conn\<rparr>, w'))"

text \<open>\<open>SQLITE_OPEN_READWRITE\<close>, \<open>SQLITE_OPEN_CREATE\<close> and \<open>SQLITE_OPEN_URI\<close>\<close>

definition sqlite_open :: "('d, 'st, 'w) sqlite_connections \<Rightarrow> 'd session \<Rightarrow> 'w \<Rightarrow> string option \<times> 'd session \<times> 'w" where
  "sqlite_open lib = sqlite_open_flags lib (2 + 4 + 64)"

definition sqlite_session_query ::
  "('d, 'st, 'w) sqlite_connections \<Rightarrow> 'd session \<Rightarrow> string \<Rightarrow> 'w \<Rightarrow> (string + 'st sqlite_resultset) \<times> 'w" where
  "sqlite_session_query lib s sql w =
     (case sn_db s of
        None \<Rightarrow> (Inl ''session::query database not open'', w)
      | Some d \<Rightarrow> case so_prepare lib d (c_str sql) w of
          (rc, st, w') \<Rightarrow>
            (if rc \<noteq> SQLITE_OK then Inl (sqlite_last_error lib s w') else Inr \<lparr>sq_stmt = st, sq_status = - 1\<rparr>, w'))"

definition sqlite_session_execute ::
  "('d, 'st, 'w) sqlite_connections \<Rightarrow> 'd session \<Rightarrow> string \<Rightarrow> 'w \<Rightarrow> (string + bool) \<times> 'w" where
  "sqlite_session_execute lib s sql w =
     (case sn_db s of
        None \<Rightarrow> (Inl ''session::execute database not open'', w)
      | Some d \<Rightarrow> case so_prepare lib d (c_str sql) w of
          (rc, st, w1) \<Rightarrow>
            if rc \<noteq> SQLITE_OK then (Inr False, w1)
            else case so_step lib st w1 of
              (res, w2) \<Rightarrow> (Inr (res = SQLITE_OK \<or> res = SQLITE_ROW \<or> res = SQLITE_DONE), so_finalize lib st w2))"

section \<open>PostgreSQL\<close>

text \<open>Connecting may not even return a connection; results have a status and rows.\<close>

record ('d, 'v, 'w) pg_connections =
  po_connect :: "string \<Rightarrow> 'w \<Rightarrow> 'd option \<times> 'w"
  po_connected :: "'d option \<Rightarrow> 'w \<Rightarrow> bool"
  po_error :: "'d option \<Rightarrow> 'w \<Rightarrow> string"
  po_finish :: "'d option \<Rightarrow> 'w \<Rightarrow> 'w"
  po_exec :: "'d \<Rightarrow> string \<Rightarrow> 'w \<Rightarrow> int \<times> 'v columns list \<times> 'w"

definition pg_open :: "('d, 'v, 'w) pg_connections \<Rightarrow> 'd session \<Rightarrow> 'w \<Rightarrow> string option \<times> 'd session \<times> 'w" where
  "pg_open lib s w =
     (if session_is_open s then (None, s, w)
      else case po_connect lib (c_str (uri_value (sn_info s))) w of
        (conn, w') \<Rightarrow>
          if \<not> po_connected lib conn w' then (Some (po_error lib conn w'), s, po_finish lib conn w')
          else (None, s\<lparr>sn_db := conn\<rparr>, w'))"

definition pg_last_error :: "('d, 'v, 'w) pg_connections \<Rightarrow> 'd session \<Rightarrow> 'w \<Rightarrow> string" where
  "pg_last_error lib s w = (case sn_db s of None \<Rightarrow> [] | Some d \<Rightarrow> po_error lib (Some d) w)"

text \<open>\<open>PGRES_COMMAND_OK\<close> is 1 and \<open>PGRES_TUPLES_OK\<close> is 2.\<close>

definition pg_session_query ::
  "('d, 'v, 'w) pg_connections \<Rightarrow> 'd session \<Rightarrow> string \<Rightarrow> 'w \<Rightarrow> (string + 'v pg_resultset) \<times> 'w" where
  "pg_session_query lib s sql w =
     (case sn_db s of
        None \<Rightarrow> (Inl ''database is not open'', w)
      | Some d \<Rightarrow> case po_exec lib d (c_str sql) w of
          (status, tuples, w') \<Rightarrow>
            (if status \<noteq> 2 \<and> status \<noteq> 1 then Inl (pg_last_error lib s w') else Inr (pg_new tuples), w'))"

definition pg_session_execute ::
  "('d, 'v, 'w) pg_connections \<Rightarrow> 'd session \<Rightarrow> string \<Rightarrow> 'w \<Rightarrow> (string + bool) \<times> 'w" where
  "pg_session_execute lib s sql w =
     (case sn_db s of
        None \<Rightarrow> (Inl ''database is not open'', w)
      | Some d \<Rightarrow> case po_exec lib d (c_str sql) w of (status, tuples, w') \<Rightarrow> (Inr (status = 1 \<or> status = 2), w'))"

section \<open>MySQL\<close>

record ('d, 'res, 'w) mysql_connections =
  mc_init :: "'w \<Rightarrow> 'd option \<times> 'w"
  mc_connect :: "'d \<Rightarrow> string \<Rightarrow> string \<Rightarrow> string option \<Rightarrow> string \<Rightarrow> int \<Rightarrow> 'w \<Rightarrow> bool \<times> 'w"
  mc_close :: "'d \<Rightarrow> 'w \<Rightarrow> 'w"
  mc_errno :: "'d \<Rightarrow> 'w \<Rightarrow> int"
  mc_error :: "'d \<Rightarrow> 'w \<Rightarrow> string"
  mc_real_query :: "'d \<Rightarrow> string \<Rightarrow> 'w \<Rightarrow> int \<times> 'w"
  mc_store_result :: "'d \<Rightarrow> 'w \<Rightarrow> 'res option \<times> 'w"
  mc_field_count :: "'d \<Rightarrow> 'w \<Rightarrow> nat"

definition mysql_port :: "uri \<Rightarrow> int option" where
  "mysql_port info = (if port info = [] then Some 3306 else map_option (wrap UIntT) (sto_signed IntT (port info)))"

definition mysql_open :: "('d, 'res, 'w) mysql_connections \<Rightarrow> 'd session \<Rightarrow> 'w \<Rightarrow> string option \<times> 'd session \<times> 'w" where
  "mysql_open lib s w =
     (if session_is_open s then (None, s, w)
      else case mc_init lib w of
        (None, w1) \<Rightarrow> (Some ''out of memory connecting to mysql'', s, w1)
      | (Some conn, w1) \<Rightarrow>
          let info = sn_info s
          in case mysql_port info of
            None \<Rightarrow> (Some (''unable to parse port '' @ port info), s, mc_close lib conn w1)
          | Some p \<Rightarrow>
              (case mc_connect lib conn (c_str (host info)) (c_str (user info))
                  (if password info = [] then None else Some (c_str (password info))) (c_str (path info)) p w1 of
                (ok, w2) \<Rightarrow>
                  if \<not> ok
                  then (Some (''No connection could be made to the database: '' @ mc_error lib conn w2), s, mc_close lib conn w2)
                  else (None, s\<lparr>sn_db := Some conn\<rparr>, w2)))"

definition mysql_last_error :: "('d, 'res, 'w) mysql_connections \<Rightarrow> 'd session \<Rightarrow> 'w \<Rightarrow> string" where
  "mysql_last_error lib s w =
     (case sn_db s of None \<Rightarrow> [] | Some d \<Rightarrow> decimal (mc_errno lib d w) @ '': '' @ mc_error lib d w)"

definition mysql_session_query ::
  "('d, 'res, 'w) mysql_connections \<Rightarrow> 'd session \<Rightarrow> string \<Rightarrow> 'w \<Rightarrow> (string + ('res, 'r) mysql_resultset) \<times> 'w" where
  "mysql_session_query lib s sql w =
     (case sn_db s of
        None \<Rightarrow> (Inl ''database is not open'', w)
      | Some d \<Rightarrow> case mc_real_query lib d sql w of
          (rc, w1) \<Rightarrow>
            if rc \<noteq> 0 then (Inl (mysql_last_error lib s w1), w1)
            else case mc_store_result lib d w1 of
              (res, w2) \<Rightarrow>
                (if res = None \<and> mc_field_count lib d w2 \<noteq> 0 then Inl (mysql_last_error lib s w2)
                 else Inr \<lparr>mr_res = res, mr_row = None, mr_open = session_is_open s\<rparr>, w2))"

definition mysql_session_execute ::
  "('d, 'res, 'w) mysql_connections \<Rightarrow> 'd session \<Rightarrow> string \<Rightarrow> 'w \<Rightarrow> (string + bool) \<times> 'w" where
  "mysql_session_execute lib s sql w =
     (case sn_db s of
        None \<Rightarrow> (Inl ''database is not open'', w)
      | Some d \<Rightarrow> case mc_real_query lib d sql w of (rc, w') \<Rightarrow> (Inr (rc = 0), w'))"

section \<open>Connections held\<close>

text \<open>Calls on a session, with the number of calls of \<open>open\<close> that raised.\<close>

datatype session_call = Open | Close

fun session_run ::
  "('d session \<Rightarrow> 'w \<Rightarrow> string option \<times> 'd session \<times> 'w) \<Rightarrow> ('d \<Rightarrow> 'w \<Rightarrow> 'w) \<Rightarrow> session_call list \<Rightarrow>
    'd session \<Rightarrow> 'w \<Rightarrow> nat \<times> 'd session \<times> 'w" where
  "session_run open_db close_db [] s w = (0, s, w)"
| "session_run open_db close_db (Open # calls) s w =
     (case open_db s w of
        (e, s1, w1) \<Rightarrow>
          case session_run open_db close_db calls s1 w1 of (n, s2, w2) \<Rightarrow> (if e = None then n else Suc n, s2, w2))"
| "session_run open_db close_db (Close # calls) s w =
     (case close_session close_db s w of (s1, w1) \<Rightarrow> session_run open_db close_db calls s1 w1)"

definition held :: "'d session \<Rightarrow> nat" where
  "held s = (if session_is_open s then 1 else 0)"

text \<open>
  What a session relies on: opening takes one connection, unless there is one, or raises and keeps
  \<open>lost\<close> connections (that nobody can close any more); closing returns the connection.
\<close>

definition counts_connections ::
  "('d session \<Rightarrow> 'w \<Rightarrow> string option \<times> 'd session \<times> 'w) \<Rightarrow> ('d \<Rightarrow> 'w \<Rightarrow> 'w) \<Rightarrow> ('w \<Rightarrow> nat) \<Rightarrow> nat \<Rightarrow> bool" where
  "counts_connections open_db close_db live lost =
     ((\<forall>s w e s' w'. open_db s w = (e, s', w') \<longrightarrow>
        (if session_is_open s then e = None \<and> s' = s \<and> w' = w
         else if e = None then session_is_open s' \<and> live w' = Suc (live w)
         else s' = s \<and> live w' = live w + lost)) \<and>
      (\<forall>d w. live (close_db d w) = live w - 1))"

lemma connections_held:
  assumes "counts_connections open_db close_db live lost"
  shows "session_run open_db close_db calls s w = (n, s', w') \<Longrightarrow> held s \<le> live w \<Longrightarrow>
    held s' \<le> live w' \<and> live w' + held s = live w + lost * n + held s'"
proof (induction calls arbitrary: s w n)
  case (Cons call calls)
  show ?case
  proof (cases call)
    case Open
    obtain e s1 w1 where o: "open_db s w = (e, s1, w1)" by (cases "open_db s w") auto
    obtain m where r: "session_run open_db close_db calls s1 w1 = (m, s', w')" and n: "n = (if e = None then m else Suc m)"
      using Cons.prems(1) Open o by (cases "session_run open_db close_db calls s1 w1") auto
    have step: "if session_is_open s then e = None \<and> s1 = s \<and> w1 = w
         else if e = None then session_is_open s1 \<and> live w1 = Suc (live w) else s1 = s \<and> live w1 = live w + lost"
      using assms o unfolding counts_connections_def by blast
    then have "held s1 \<le> live w1" using Cons.prems(2) by (auto simp: held_def split: if_splits)
    from Cons.IH [OF r this] show ?thesis
      using step n by (auto simp: held_def split: if_splits)
  next
    case Close
    obtain s1 w1 where c: "close_session close_db s w = (s1, w1)" by (cases "close_session close_db s w") auto
    have "live (close_db d w) = live w - 1" for d w using assms unfolding counts_connections_def by blast
    then have step: "held s1 = 0" "live w1 + held s = live w"
      using c Cons.prems(2) by (auto simp: close_session_def held_def session_is_open_def split: option.splits)
    have "session_run open_db close_db calls s1 w1 = (n, s', w')" using Cons.prems(1) Close c by simp
    from Cons.IH [OF this] show ?thesis using step by simp
  qed
qed simp

text \<open>
  The documentation of the libraries: how many connections there are after a call. A handle of SQLite
  has to be closed also when opening failed (there is enough memory).
\<close>

definition mysql_connections_documented :: "('d, 'res, 'w) mysql_connections \<Rightarrow> ('w \<Rightarrow> nat) \<Rightarrow> bool" where
  "mysql_connections_documented lib live =
     ((\<forall>w. case mc_init lib w of (None, w') \<Rightarrow> live w' = live w | (Some d, w') \<Rightarrow> live w' = Suc (live w)) \<and>
      (\<forall>d h u pw db p w. live (snd (mc_connect lib d h u pw db p w)) = live w) \<and>
      (\<forall>d w. live (mc_close lib d w) = live w - 1))"

definition pg_connections_documented :: "('d, 'v, 'w) pg_connections \<Rightarrow> ('w \<Rightarrow> nat) \<Rightarrow> bool" where
  "pg_connections_documented lib live =
     ((\<forall>t w. case po_connect lib t w of (None, w') \<Rightarrow> live w' = live w | (Some d, w') \<Rightarrow> live w' = Suc (live w)) \<and>
      (\<forall>w. \<not> po_connected lib None w) \<and>
      (\<forall>w. live (po_finish lib None w) = live w) \<and> (\<forall>d w. live (po_finish lib (Some d) w) = live w - 1))"

definition sqlite_connections_documented :: "('d, 'st, 'w) sqlite_connections \<Rightarrow> ('w \<Rightarrow> nat) \<Rightarrow> bool" where
  "sqlite_connections_documented lib live =
     ((\<forall>t flags w. case so_open lib t flags w of (rc, conn, w') \<Rightarrow> conn \<noteq> None \<and> live w' = Suc (live w)) \<and>
      (\<forall>d w. live (so_close lib d w) = live w - 1))"

lemma mysql_counts:
  assumes "mysql_connections_documented lib live"
  shows "counts_connections (mysql_open lib) (mc_close lib) live 0"
  unfolding counts_connections_def
proof (intro conjI allI impI)
  fix s :: "'a session" and w e s' w'
  assume o: "mysql_open lib s w = (e, s', w')"
  note doc = assms [unfolded mysql_connections_documented_def]
  show "if session_is_open s then e = None \<and> s' = s \<and> w' = w
        else if e = None then session_is_open s' \<and> live w' = Suc (live w) else s' = s \<and> live w' = live w + 0"
  proof (cases "session_is_open s")
    case False
    obtain conn w1 where i: "mc_init lib w = (conn, w1)" by fastforce
    show ?thesis
    proof (cases conn)
      case None
      then show ?thesis using o False i doc [THEN conjunct1, THEN spec [of _ w]] by (auto simp: mysql_open_def)
    next
      case (Some d)
      have w1: "live w1 = Suc (live w)" using doc [THEN conjunct1, THEN spec [of _ w]] i Some by simp
      show ?thesis
      proof (cases "mysql_port (sn_info s)")
        case None
        then show ?thesis using o False i Some w1 doc by (auto simp: mysql_open_def)
      next
        case port: (Some p)
        obtain ok w2 where c: "mc_connect lib d (c_str (host (sn_info s))) (c_str (user (sn_info s)))
            (if password (sn_info s) = [] then None else Some (c_str (password (sn_info s)))) (c_str (path (sn_info s))) p w1 = (ok, w2)"
          by fastforce
        have "live w2 = live w1" "live (mc_close lib d w2) = live w2 - 1" using doc c by (metis snd_conv)+
        then show ?thesis using o False i Some port w1 c
          by (cases ok) (auto simp: mysql_open_def session_is_open_def Let_def)
      qed
    qed
  qed (use o in \<open>simp add: mysql_open_def\<close>)
qed (use assms in \<open>simp add: mysql_connections_documented_def\<close>)

lemma pg_counts:
  assumes "pg_connections_documented lib live"
  shows "counts_connections (pg_open lib) (\<lambda>d. po_finish lib (Some d)) live 0"
  unfolding counts_connections_def
proof (intro conjI allI impI)
  fix s :: "'a session" and w e s' w'
  assume o: "pg_open lib s w = (e, s', w')"
  note doc = assms [unfolded pg_connections_documented_def]
  obtain conn w1 where c: "po_connect lib (c_str (uri_value (sn_info s))) w = (conn, w1)" by fastforce
  have "case po_connect lib (c_str (uri_value (sn_info s))) w of
      (None, w') \<Rightarrow> live w' = live w | (Some d, w') \<Rightarrow> live w' = Suc (live w)"
    by (rule doc [THEN conjunct1, THEN spec, THEN spec])
  then have w1: "live w1 = live w + (if conn = None then 0 else 1)" by (simp add: c split: option.splits)
  have bad: "\<not> po_connected lib None w1" "live (po_finish lib None w1) = live w1" using doc by simp_all
  show "if session_is_open s then e = None \<and> s' = s \<and> w' = w
        else if e = None then session_is_open s' \<and> live w' = Suc (live w) else s' = s \<and> live w' = live w + 0"
  proof (cases conn)
    case None
    then show ?thesis using o c w1 bad by (cases "session_is_open s") (auto simp: pg_open_def)
  next
    case (Some d)
    have "live (po_finish lib (Some d) w1) = live w1 - 1" using doc by simp
    then show ?thesis using o c w1 Some
      by (cases "session_is_open s"; cases "po_connected lib (Some d) w1") (auto simp: pg_open_def session_is_open_def)
  qed
qed (use assms in \<open>simp add: pg_connections_documented_def\<close>)

lemma sqlite_counts:
  assumes "sqlite_connections_documented lib live"
  shows "counts_connections (sqlite_open lib) (so_close lib) live 1"
  unfolding counts_connections_def
proof (intro conjI allI impI)
  fix s :: "'a session" and w e s' w'
  assume o: "sqlite_open lib s w = (e, s', w')"
  obtain rc conn w1 where c: "so_open lib (c_str (path (sn_info s))) (2 + 4 + 64) w = (rc, conn, w1)" by (metis prod.exhaust)
  have "case (rc, conn, w1) of (rc, conn, w') \<Rightarrow> conn \<noteq> None \<and> live w' = Suc (live w)"
    using assms c unfolding sqlite_connections_documented_def by metis
  then show "if session_is_open s then e = None \<and> s' = s \<and> w' = w
        else if e = None then session_is_open s' \<and> live w' = Suc (live w) else s' = s \<and> live w' = live w + 1"
    using o c by (auto simp: sqlite_open_def sqlite_open_flags_def session_is_open_def split: if_splits)
qed (use assms in \<open>simp add: sqlite_connections_documented_def\<close>)

text \<open>
  C36: Whatever calls of \<open>open\<close> and \<open>close\<close> a new session gets, and whichever of them raise, it holds one
  connection while it is open and none otherwise, with MySQL and PostgreSQL. With SQLite every \<open>open\<close>
  that raised leaves another one behind: the handle of the failed attempt is never closed.
\<close>

theorem sessions_hold_one_connection:
  fixes mysql :: "('d, 'res, 'w) mysql_connections" and postgres :: "('e, 'v, 'x) pg_connections"
    and sqlite :: "('f, 'st, 'y) sqlite_connections"
  assumes "mysql_connections_documented mysql lm" "pg_connections_documented postgres lp"
    and "sqlite_connections_documented sqlite ls"
  shows "(case session_run (mysql_open mysql) (mc_close mysql) calls (new_session u) w of
        (n, s, w') \<Rightarrow> lm w' = lm w + held s) \<and>
    (case session_run (pg_open postgres) (\<lambda>d. po_finish postgres (Some d)) calls (new_session u) x of
        (n, s, x') \<Rightarrow> lp x' = lp x + held s) \<and>
    (case session_run (sqlite_open sqlite) (so_close sqlite) calls (new_session u) y of
        (n, s, y') \<Rightarrow> ls y' = ls y + n + held s)"
proof -
  have new: "held (new_session u :: 'c session) = 0" for u :: uri
    by (simp add: held_def new_session_def session_is_open_def)
  show ?thesis
    using connections_held [OF mysql_counts [OF assms(1)], of calls "new_session u" w]
      connections_held [OF pg_counts [OF assms(2)], of calls "new_session u" x]
      connections_held [OF sqlite_counts [OF assms(3)], of calls "new_session u" y]
    by (auto simp: new)
qed

text \<open>Libraries that count their connections; connecting succeeds when it is said to.\<close>

definition mysql_counting :: "bool \<Rightarrow> (unit, unit, nat) mysql_connections" where
  "mysql_counting works =
     \<lparr>mc_init = (\<lambda>w. (Some (), Suc w)), mc_connect = (\<lambda>d h u pw db p w. (works, w)), mc_close = (\<lambda>d w. w - 1),
      mc_errno = (\<lambda>d w. 0), mc_error = (\<lambda>d w. []), mc_real_query = (\<lambda>d sql w. (1, w)),
      mc_store_result = (\<lambda>d w. (None, w)), mc_field_count = (\<lambda>d w. 0)\<rparr>"

definition pg_counting :: "bool \<Rightarrow> (unit, unit, nat) pg_connections" where
  "pg_counting works =
     \<lparr>po_connect = (\<lambda>t w. (Some (), Suc w)), po_connected = (\<lambda>conn w. conn \<noteq> None \<and> works), po_error = (\<lambda>conn w. []),
      po_finish = (\<lambda>conn w. case conn of None \<Rightarrow> w | Some d \<Rightarrow> w - 1), po_exec = (\<lambda>d sql w. (7, [], w))\<rparr>"

definition sqlite_counting :: "bool \<Rightarrow> (unit, unit, nat) sqlite_connections" where
  "sqlite_counting works =
     \<lparr>so_open = (\<lambda>t flags w. (if works then SQLITE_OK else 14, Some (), Suc w)), so_close = (\<lambda>d w. w - 1),
      so_errcode = (\<lambda>d w. 0), so_errmsg = (\<lambda>d w. []), so_prepare = (\<lambda>d sql w. (1, (), w)), so_step = (\<lambda>st w. (1, w)),
      so_finalize = (\<lambda>st w. w)\<rparr>"

theorem sessions_hold_one_connection_witness:
  "(case session_run (mysql_open (mysql_counting True)) (mc_close (mysql_counting True)) [Open, Open, Close, Open] (new_session empty_uri) 5 of
      (n, s, w) \<Rightarrow> w = 6) \<and>
   (case session_run (sqlite_open (sqlite_counting False)) (so_close (sqlite_counting False)) [Open, Open, Close, Open] (new_session empty_uri) 0 of
      (n, s, w) \<Rightarrow> w = 3)"
proof -
  have "mysql_connections_documented (mysql_counting True) id" "pg_connections_documented (pg_counting False) id"
    "sqlite_connections_documented (sqlite_counting False) id"
    by (simp_all add: mysql_connections_documented_def mysql_counting_def pg_connections_documented_def pg_counting_def
        sqlite_connections_documented_def sqlite_counting_def)
  from sessions_hold_one_connection [OF this, where calls = "[Open, Open, Close, Open]" and u = empty_uri and w = 5 and x = 0 and y = 0]
  show ?thesis
    by (simp add: mysql_counting_def sqlite_counting_def mysql_open_def sqlite_open_def sqlite_open_flags_def held_def
        session_is_open_def new_session_def close_session_def mysql_port_def empty_uri_def Let_def)
qed

end
