(* ===== verification/SessionColumns.thy ===== *)
theory SessionColumns
  imports Session Schema ValueProps
begin

text \<open>
  \<open>get_columns_for_schema\<close> of the three drivers: what a session asks the database about a table, and the
  column definitions it makes of the rows. What the database answers to a prepared statement is a
  parameter, as are the rows of a statement of MySQL and SQLite.
\<close>

section \<open>Reading rows\<close>

text \<open>
  \<open>row[name]\<close>, and \<open>as\<close> with a text and with a bool, which is that the number as an \<open>int\<close> is not 0;
  \<open>None\<close> is an exception.
\<close>

definition named_text :: "'f floats \<Rightarrow> 'f sql_value columns \<Rightarrow> string \<Rightarrow> string option" where
  "named_text fl row name = Option.bind (map_of row name) (as_text fl)"

definition named_bool :: "'f floats \<Rightarrow> 'f sql_value columns \<Rightarrow> string \<Rightarrow> bool option" where
  "named_bool fl row name =
     Option.bind (map_of row name) (\<lambda>v. map_option (\<lambda>n. as_integral fl IntT n \<noteq> 0) (as_number fl v))"

text \<open>\<open>while (rs->next())\<close> over the rows that are left.\<close>

partial_function (option) rows_loop ::
  "('s, 'r, 'v) resultset_impl \<Rightarrow> ('v \<Rightarrow> 'a \<Rightarrow> 'a option) \<Rightarrow> 's \<Rightarrow> 'a \<Rightarrow> 'a option" where
  "rows_loop impl body s a =
     Option.bind (im_next impl s) (\<lambda>(res, s').
       if res then Option.bind (body (im_read impl (im_current_row impl s') s') a) (rows_loop impl body s')
       else Some a)"

text \<open>\<open>std::find_if\<close> over a result set: the iterator it returns, and the cursor.\<close>

partial_function (option) find_loop ::
  "('s, 'r, 'v) resultset_impl \<Rightarrow> ('v \<Rightarrow> bool option) \<Rightarrow> 'r rs_iterator \<Rightarrow> 's \<Rightarrow> ('r rs_iterator \<times> 's) option" where
  "find_loop impl pred it s =
     (if it_pos it = - 1 then Some (it, s)
      else case it_value it of
        None \<Rightarrow> None
      | Some r \<Rightarrow>
          Option.bind (pred (im_read impl r s)) (\<lambda>found.
            if found then Some (it, s)
            else Option.bind (it_advance impl it s) (\<lambda>(it', s'). find_loop impl pred it' s')))"

definition rs_find ::
  "('s, 'r, 'v) resultset_impl \<Rightarrow> ('v \<Rightarrow> bool option) \<Rightarrow> 's \<Rightarrow> ('r rs_iterator \<times> 's) option" where
  "rs_find impl pred s = Option.bind (rs_begin impl s) (\<lambda>(it, s'). find_loop impl pred it s')"

context cursor begin

lemma rows_visits: "good s \<Longrightarrow> rows_loop impl body s a = visits body (ahead s) a"
proof (induction "ahead s" arbitrary: s a)
  case Nil
  then show ?case using next_end [OF Nil(2)] by (subst rows_loop.simps) auto
next
  case (Cons v vs)
  obtain s' where s': "im_next impl s = Some (True, s')" "good s'" "ahead s' = vs" "im_read impl (im_current_row impl s') s' = v"
    using next_row [OF Cons.prems] Cons.hyps(2) by metis
  have "rows_loop impl body s a = Option.bind (body v a) (rows_loop impl body s')"
    by (subst rows_loop.simps) (simp add: s')
  moreover have "rows_loop impl body s' b = visits body vs b" for b using Cons.hyps(1) [of s' b] s' by simp
  ultimately show ?case by (simp flip: Cons.hyps(2)) (cases "body v a"; simp)
qed

lemma find_loop_finds:
  "good s \<Longrightarrow> at it s \<Longrightarrow> \<forall>v \<in> set (from_here it s). pred v = Some (p v) \<Longrightarrow>
   \<exists>it' s'. find_loop impl pred it s = Some (it', s') \<and> good s' \<and> selected s' = selected s \<and>
     (it_pos it' \<noteq> - 1) = (\<exists>v \<in> set (from_here it s). p v)"
proof (induction "from_here it s" arbitrary: it s)
  case Nil
  then have "it_pos it = - 1" by (auto simp: from_here_def at_def split: option.splits if_splits)
  then show ?case using Nil by (subst find_loop.simps) (simp flip: Nil.hyps)
next
  case (Cons v vs)
  have pos: "it_pos it \<noteq> - 1" using Cons.prems(2) Cons.hyps(2) by (auto simp: at_def from_here_def)
  then obtain r where r: "it_value it = Some r" "im_read impl r s = v" "vs = ahead s" "0 \<le> it_pos it"
    using Cons.prems(2) Cons.hyps(2) by (auto simp: at_def from_here_def split: option.splits)
  have v: "pred v = Some (p v)" using Cons.prems(3) by (simp flip: Cons.hyps(2))
  show ?case
  proof (cases "p v")
    case True
    then show ?thesis using Cons.prems pos r v by (subst find_loop.simps) (auto simp flip: Cons.hyps(2))
  next
    case False
    obtain it' s' where n: "it_advance impl it s = Some (it', s')" "good s'" "selected s' = selected s" "at it' s'" "vs = from_here it' s'"
      using advance_ok [OF Cons.prems(1) r(4)] r(3) by auto
    have "\<forall>v \<in> set (from_here it' s'). pred v = Some (p v)" using Cons.prems(3) n(5) by (simp flip: Cons.hyps(2))
    from Cons.hyps(1) [OF n(5) n(2,4) this] show ?thesis
      using n False pos r v by (subst find_loop.simps) (auto simp flip: Cons.hyps(2))
  qed
qed

lemma find_finds:
  assumes "good s" "\<forall>v \<in> set (selected s). pred v = Some (p v)"
  shows "\<exists>it s'. rs_find impl pred s = Some (it, s') \<and> good s' \<and> selected s' = selected s \<and>
    (it_pos it \<noteq> - 1) = (\<exists>v \<in> set (selected s). p v)"
proof -
  obtain it s1 where b: "rs_begin impl s = Some (it, s1)" "good s1" "selected s1 = selected s" "at it s1" "from_here it s1 = selected s"
    using begin_ok [OF assms(1)] by auto
  then show ?thesis using find_loop_finds [OF b(2,4), of pred p] assms(2) by (simp add: rs_find_def)
qed

end

section \<open>SQLite\<close>

definition sqlite_column ::
  "'f floats \<Rightarrow> 'f sql_value columns \<Rightarrow> column_definition list \<Rightarrow> column_definition list option" where
  "sqlite_column fl row cols =
     Option.bind (named_text fl row ''name'') (\<lambda>name.
     Option.bind (named_bool fl row ''pk'') (\<lambda>pk.
     Option.bind (named_text fl row ''type'') (\<lambda>type.
     Option.bind (named_text fl row ''dflt_value'') (\<lambda>default_value.
       Some (cols @ [\<lparr>col_name = name, col_pk = pk, col_autoincrement = pk, col_type = type, col_default = default_value\<rparr>])))))"

definition sqlite_get_columns ::
  "('d, 'st, 'w) sqlite_connections \<Rightarrow> ('st, 'f sql_value) sqlite_api \<Rightarrow> 'f floats \<Rightarrow> 'd session \<Rightarrow> 'w \<Rightarrow> string \<Rightarrow>
    column_definition list option" where
  "sqlite_get_columns lib api fl s w tableName =
     (if tableName = [] then None
      else case fst (sqlite_session_query lib s (''pragma table_info('' @ tableName @ '')'') w) of
        Inl e \<Rightarrow> None
      | Inr rs \<Rightarrow> rows_loop (sqlite_impl api) (sqlite_column fl) rs [])"

section \<open>MySQL\<close>

definition mysql_pk_sql :: string where
  "mysql_pk_sql =
     ''SELECT tc.table_schema, tc.table_name, kc.column_name '' @
     ''FROM information_schema.table_constraints tc '' @
     ''JOIN information_schema.key_column_usage kc ON kc.table_name = tc.table_name'' @
     '' AND kc.table_schema = tc.table_schema '' @
     ''WHERE tc.constraint_type = 'PRIMARY KEY' AND tc.table_name = ?'' @
     '' AND tc.table_schema = ? '' @
     ''ORDER BY tc.table_schema, tc.table_name,'' @
     '' kc.position_in_unique_constraint;''"

definition mysql_col_sql :: string where
  "mysql_col_sql =
     ''SELECT column_name, data_type, extra, column_default '' @
     ''FROM information_schema.columns '' @
     ''WHERE table_name = ? AND table_schema = ?;''"

text \<open>\<open>ready\<close> is a statement of a text with its parameters bound, as \<open>query\<close> leaves it.\<close>

definition mysql_primary_keys ::
  "('st, 'f sql_value) mysql_fetch_api \<Rightarrow> 'f floats \<Rightarrow> (string \<Rightarrow> string list \<Rightarrow> 'st option) \<Rightarrow> string \<Rightarrow> string \<Rightarrow>
    string list option" where
  "mysql_primary_keys api fl ready dbName tableName =
     Option.bind (ready mysql_pk_sql [tableName, dbName]) (\<lambda>st.
       map_option snd (rs_each (mysql_stmt_impl api)
         (outside (mysql_stmt_impl api) (\<lambda>row keys. map_option (\<lambda>k. keys @ [k]) (named_text fl row ''column_name'')))
         \<lparr>mq_stmt = st, mq_status = INVALID\<rparr> []))"

definition mysql_column ::
  "'f floats \<Rightarrow> string list \<Rightarrow> 'f sql_value columns \<Rightarrow> column_definition list \<Rightarrow> column_definition list option" where
  "mysql_column fl pks row cols =
     Option.bind (named_text fl row ''column_name'') (\<lambda>name.
       if name = [] then Some cols
       else
         Option.bind (if name \<in> set pks
             then map_option (\<lambda>extra. (True, extra = ''auto_increment'')) (named_text fl row ''extra'')
             else Some (False, False)) (\<lambda>(pk, auto).
         Option.bind (named_text fl row ''data_type'') (\<lambda>type.
         Option.bind (named_text fl row ''column_default'') (\<lambda>default_value.
           Some (cols @ [\<lparr>col_name = name, col_pk = pk, col_autoincrement = auto, col_type = type, col_default = default_value\<rparr>])))))"

definition mysql_get_columns ::
  "('st, 'f sql_value) mysql_fetch_api \<Rightarrow> 'f floats \<Rightarrow> (string \<Rightarrow> string list \<Rightarrow> 'st option) \<Rightarrow> 'd session \<Rightarrow> string \<Rightarrow> string \<Rightarrow>
    column_definition list option" where
  "mysql_get_columns api fl ready s dbName tableName =
     (if \<not> session_is_open s then Some []
      else
        Option.bind (mysql_primary_keys api fl ready dbName tableName) (\<lambda>pks.
        Option.bind (ready mysql_col_sql [tableName, dbName]) (\<lambda>st.
          map_option snd (rs_each (mysql_stmt_impl api) (outside (mysql_stmt_impl api) (mysql_column fl pks))
            \<lparr>mq_stmt = st, mq_status = INVALID\<rparr> []))))"

section \<open>PostgreSQL\<close>

definition pg_pk_sql :: string where
  "pg_pk_sql =
     ''SELECT tc.table_schema, tc.table_name, kc.column_name '' @
     ''FROM information_schema.table_constraints tc '' @
     ''JOIN information_schema.key_column_usage kc ON kc.table_name = '' @
     ''tc.table_name AND kc.table_schema = tc.table_schema '' @
     ''WHERE tc.constraint_type = 'PRIMARY KEY' AND tc.table_name = $1 '' @
     ''ORDER BY tc.table_schema, tc.table_name, kc.position_in_unique_constraint''"

definition pg_col_sql :: string where
  "pg_col_sql =
     ''SELECT column_name, data_type, pg_get_serial_sequence($1, column_name) as serial, column_default '' @
     ''FROM information_schema.columns WHERE table_name = $1''"

text \<open>The result with the keys is searched from its first row for every column; its cursor is kept.\<close>

definition pg_column ::
  "'f floats \<Rightarrow> 'f sql_value columns \<Rightarrow> 'f sql_value pg_resultset \<times> column_definition list \<Rightarrow>
    ('f sql_value pg_resultset \<times> column_definition list) option" where
  "pg_column fl row a =
     (case a of
        (pks, cols) \<Rightarrow>
          Option.bind (named_text fl row ''column_name'') (\<lambda>name.
            if name = [] then Some (pks, cols)
            else
              Option.bind (rs_find pg_impl (\<lambda>key. map_option (\<lambda>t. t = name) (named_text fl key ''column_name'')) pks)
                (\<lambda>(it, keys).
              Option.bind (if it_pos it \<noteq> it_pos (rs_end pg_impl keys)
                  then map_option (\<lambda>serial. (True, serial \<noteq> [])) (named_text fl row ''serial'')
                  else Some (False, False)) (\<lambda>(pk, auto).
              Option.bind (named_text fl row ''data_type'') (\<lambda>type.
              Option.bind (named_text fl row ''column_default'') (\<lambda>default_value.
                Some (keys, cols @ [\<lparr>col_name = name, col_pk = pk, col_autoincrement = auto, col_type = type,
                  col_default = default_value\<rparr>])))))))"

text \<open>\<open>ask\<close> is the answer to a statement with its parameters.\<close>

definition pg_get_columns ::
  "'f floats \<Rightarrow> (string \<Rightarrow> string list \<Rightarrow> 'f sql_value columns list option) \<Rightarrow> 'd session \<Rightarrow> string \<Rightarrow>
    column_definition list option" where
  "pg_get_columns fl ask s tableName =
     (if \<not> session_is_open s then Some []
      else
        Option.bind (ask pg_pk_sql [tableName]) (\<lambda>keys.
        Option.bind (ask pg_col_sql [tableName]) (\<lambda>rows.
          map_option (\<lambda>(s', keys', cols). cols)
            (rs_each pg_impl (outside pg_impl (pg_column fl)) (pg_new rows) (pg_new keys, [])))))"

section \<open>Tables\<close>

text \<open>
  A column of a table as the databases describe it, in the rows they answer with; absent texts are null.
  The place in the key is a number of 16 bits, as SQLite has at most 32767 columns in a table.
\<close>

record catalog_column =
  cc_name :: string
  cc_key :: "16 word"
  cc_type :: string
  cc_extra :: "string option"
  cc_default :: "string option"

definition cell :: "string option \<Rightarrow> 'f sql_value" where
  "cell t = (case t of None \<Rightarrow> Null | Some s \<Rightarrow> Text s)"

text \<open>\<open>pk\<close> is 0, or the place of the column in the key.\<close>

definition sqlite_row_of :: "catalog_column \<Rightarrow> 'f sql_value columns" where
  "sqlite_row_of c =
     [(''name'', Text (cc_name c)), (''type'', Text (cc_type c)), (''dflt_value'', cell (cc_default c)),
      (''pk'', Number (Integer LongLongT (int (unat (cc_key c)))))]"

definition mysql_row_of :: "catalog_column \<Rightarrow> 'f sql_value columns" where
  "mysql_row_of c =
     [(''column_name'', Text (cc_name c)), (''data_type'', Text (cc_type c)), (''extra'', cell (cc_extra c)),
      (''column_default'', cell (cc_default c))]"

text \<open>The driver of PostgreSQL makes null of an empty text; \<open>cc_extra\<close> is the name of the sequence of the column.\<close>

definition pg_cell :: "string option \<Rightarrow> 'f sql_value" where
  "pg_cell t = (if t = None \<or> t = Some [] then Null else cell t)"

definition pg_row_of :: "catalog_column \<Rightarrow> 'f sql_value columns" where
  "pg_row_of c =
     [(''column_name'', pg_cell (Some (cc_name c))), (''data_type'', pg_cell (Some (cc_type c))),
      (''serial'', pg_cell (cc_extra c)), (''column_default'', pg_cell (cc_default c))]"

definition key_row_of :: "string \<Rightarrow> 'f sql_value columns" where
  "key_row_of k = [(''column_name'', Text k)]"

definition text_or_null :: "string option \<Rightarrow> string" where
  "text_or_null t = (case t of None \<Rightarrow> ''NULL'' | Some s \<Rightarrow> s)"

definition pg_text_or_null :: "string option \<Rightarrow> string" where
  "pg_text_or_null t = (if t = Some [] then ''NULL'' else text_or_null t)"

definition column_of :: "bool \<Rightarrow> bool \<Rightarrow> string \<Rightarrow> catalog_column \<Rightarrow> column_definition" where
  "column_of key auto dflt c =
     \<lparr>col_name = cc_name c, col_pk = key, col_autoincrement = auto, col_type = cc_type c, col_default = dflt\<rparr>"

lemma as_text_cell [simp]: "as_text fl (cell t) = Some (text_or_null t)"
  by (cases t) (simp_all add: cell_def text_or_null_def)

lemma as_text_pg_cell [simp]: "as_text fl (pg_cell t) = Some (pg_text_or_null t)"
  by (auto simp: pg_cell_def text_or_null_def pg_text_or_null_def)

lemma visits_snoc: "visits (\<lambda>v cols. Some (cols @ [f v])) vs cols = Some (cols @ map f vs)"
  by (induction vs arbitrary: cols) auto

lemma visits_cong_map:
  "(\<And>c a. c \<in> set cs \<Longrightarrow> f (g c) a = h c a) \<Longrightarrow> visits f (map g cs) a = visits h cs a"
  by (induction cs arbitrary: a) (auto cong: Option.bind_cong)

text \<open>Bools of SQLite: any place in the key is true.\<close>

lemma sqlite_column_row:
  "sqlite_column fl (sqlite_row_of c) cols =
     Some (cols @ [column_of (cc_key c \<noteq> 0) (cc_key c \<noteq> 0) (text_or_null (cc_default c)) c])"
proof -
  have "0 \<le> uint (cc_key c)" "uint (cc_key c) < 65536" using unsigned_less [of "cc_key c"] by simp_all
  then have "- 2147483648 \<le> uint (cc_key c) \<and> uint (cc_key c) < 2147483648" by (intro conjI; linarith)
  then have "wrap IntT (int (unat (cc_key c))) = int (unat (cc_key c))"
    by (simp add: signed_take_bit_int_eq_self_iff)
  then show ?thesis
    by (simp add: sqlite_column_def sqlite_row_of_def named_text_def named_bool_def column_of_def uint_0_iff del: wrap.simps)
qed

lemma mysql_column_row:
  "cc_name c \<noteq> [] \<Longrightarrow> mysql_column fl ks (mysql_row_of c) cols =
     Some (cols @ [column_of (cc_name c \<in> set ks) (cc_name c \<in> set ks \<and> cc_extra c = Some ''auto_increment'')
       (text_or_null (cc_default c)) c])"
  by (cases "cc_extra c")
    (simp_all add: mysql_column_def mysql_row_of_def named_text_def column_of_def text_or_null_def)

lemma pg_column_row:
  assumes "cc_name c \<noteq> []" "cc_type c \<noteq> []" "pg_good keys" "pg_stmt keys = map key_row_of ks"
  shows "\<exists>keys'. pg_column fl (pg_row_of c) (keys, cols) =
      Some (keys', cols @ [column_of (cc_name c \<in> set ks) (cc_name c \<in> set ks)
        (pg_text_or_null (cc_default c)) c]) \<and>
      pg_good keys' \<and> pg_stmt keys' = map key_row_of ks"
proof -
  let ?pred = "\<lambda>key. map_option (\<lambda>t. t = cc_name c) (named_text fl key ''column_name'')"
  have "\<forall>v \<in> set (pg_stmt keys). ?pred v = Some (v = key_row_of (cc_name c))"
    by (auto simp: assms(4) key_row_of_def named_text_def)
  from pg.find_finds [OF assms(3) this] obtain it keys' where
    f: "rs_find pg_impl ?pred keys = Some (it, keys')" "pg_good keys'" "pg_stmt keys' = pg_stmt keys"
      "(it_pos it \<noteq> - 1) = (\<exists>v \<in> set (pg_stmt keys). v = key_row_of (cc_name c))"
    by auto
  have "(it_pos it \<noteq> - 1) = (cc_name c \<in> set ks)" unfolding f(4) assms(4) by (auto simp: key_row_of_def)
  moreover have "pg_text_or_null (Some (cc_name c)) = cc_name c" "pg_text_or_null (Some (cc_type c)) = cc_type c"
    "pg_text_or_null (cc_extra c) \<noteq> []"
    using assms(1,2) by (auto simp: pg_text_or_null_def text_or_null_def split: option.splits)
  ultimately show ?thesis using f assms(1,4)
    by (simp add: pg_column_def pg_row_of_def named_text_def rs_end_def it_new_def column_of_def)
qed

section \<open>What a session says of a table\<close>

lemma sqlite_described:
  assumes "sqlite_contract api all todo" "todo st = map sqlite_row_of cs"
  shows "rows_loop (sqlite_impl api) (sqlite_column fl) \<lparr>sq_stmt = st, sq_status = - 1\<rparr> [] =
    Some (map (\<lambda>c. column_of (cc_key c \<noteq> 0) (cc_key c \<noteq> 0) (text_or_null (cc_default c)) c) cs)"
proof -
  have "rows_loop (sqlite_impl api) (sqlite_column fl) \<lparr>sq_stmt = st, sq_status = - 1\<rparr> [] =
      visits (sqlite_column fl) (map sqlite_row_of cs) []"
    using cursor.rows_visits [OF sqlite_cursor [OF assms(1)] TrueI, of "sqlite_column fl" "\<lparr>sq_stmt = st, sq_status = - 1\<rparr>" "[]"]
      assms(2) by (simp add: sqlite_ahead_def)
  also have "\<dots> = visits (\<lambda>c cols. Some (cols @ [column_of (cc_key c \<noteq> 0) (cc_key c \<noteq> 0) (text_or_null (cc_default c)) c])) cs []"
    by (rule visits_cong_map) (rule sqlite_column_row)
  finally show ?thesis by (simp add: visits_snoc)
qed

text \<open>A loop over a new result of a MySQL statement.\<close>

lemma mysql_each:
  assumes "fetch_documented stmts rows ahead" "visits f (rows st) a = Some b"
  shows "map_option snd (rs_each (mysql_stmt_impl stmts) (outside (mysql_stmt_impl stmts) f)
    \<lparr>mq_stmt = st, mq_status = INVALID\<rparr> a) = Some b"
  using cursor.each_visits [OF mysql_stmt_cursor [OF assms(1)], of "\<lparr>mq_stmt = st, mq_status = INVALID\<rparr>" f a] assms(2)
  by auto

lemma mysql_described:
  assumes "fetch_documented stmts rows ahead" "session_is_open s" "\<forall>c \<in> set cs. cc_name c \<noteq> []"
    and "ready mysql_pk_sql [t, db] = Some kst" "rows kst = map key_row_of ks"
    and "ready mysql_col_sql [t, db] = Some cst" "rows cst = map mysql_row_of cs"
  shows "mysql_get_columns stmts fl ready s db t =
    Some (map (\<lambda>c. column_of (cc_name c \<in> set ks) (cc_name c \<in> set ks \<and> cc_extra c = Some ''auto_increment'')
      (text_or_null (cc_default c)) c) cs)"
proof -
  have "visits (\<lambda>row keys. map_option (\<lambda>k. keys @ [k]) (named_text fl row ''column_name'')) (map key_row_of ks) [] =
      visits (\<lambda>k keys. Some (keys @ [k])) ks []"
    by (rule visits_cong_map) (simp add: key_row_of_def named_text_def)
  then have "visits (\<lambda>row keys. map_option (\<lambda>k. keys @ [k]) (named_text fl row ''column_name'')) (rows kst) [] = Some ks"
    using visits_snoc [of "\<lambda>k. k" ks "[]"] assms(5) by simp
  from mysql_each [OF assms(1) this] have keys: "mysql_primary_keys stmts fl ready db t = Some ks"
    using assms(4) by (simp add: mysql_primary_keys_def)
  let ?def = "\<lambda>c. column_of (cc_name c \<in> set ks) (cc_name c \<in> set ks \<and> cc_extra c = Some ''auto_increment'')
    (text_or_null (cc_default c)) c"
  have "visits (mysql_column fl ks) (map mysql_row_of cs) [] = visits (\<lambda>c cols. Some (cols @ [?def c])) cs []"
    by (rule visits_cong_map, rule mysql_column_row) (use assms(3) in simp)
  then have "visits (mysql_column fl ks) (rows cst) [] = Some (map ?def cs)"
    unfolding assms(7) by (simp add: visits_snoc)
  from mysql_each [OF assms(1) this] show ?thesis using assms(2,6) keys by (simp add: mysql_get_columns_def)
qed

lemma pg_columns_visited:
  "\<forall>c \<in> set cs. cc_name c \<noteq> [] \<and> cc_type c \<noteq> [] \<Longrightarrow> pg_good keys \<Longrightarrow> pg_stmt keys = map key_row_of ks \<Longrightarrow>
   \<exists>keys'. visits (pg_column fl) (map pg_row_of cs) (keys, cols) =
     Some (keys', cols @ map (\<lambda>c. column_of (cc_name c \<in> set ks) (cc_name c \<in> set ks)
       (pg_text_or_null (cc_default c)) c) cs)"
proof (induction cs arbitrary: keys cols)
  case (Cons c cs)
  obtain keys' where k: "pg_column fl (pg_row_of c) (keys, cols) =
      Some (keys', cols @ [column_of (cc_name c \<in> set ks) (cc_name c \<in> set ks)
        (pg_text_or_null (cc_default c)) c])"
      "pg_good keys'" "pg_stmt keys' = map key_row_of ks"
    using pg_column_row [of c keys ks fl cols] Cons.prems by auto
  have "\<forall>c \<in> set cs. cc_name c \<noteq> [] \<and> cc_type c \<noteq> []" using Cons.prems(1) by simp
  from Cons.IH [OF this k(2,3), of "cols @ [column_of (cc_name c \<in> set ks) (cc_name c \<in> set ks)
      (pg_text_or_null (cc_default c)) c]"]
  show ?case using k(1) by simp
qed simp

lemma pg_described:
  assumes "session_is_open s" "\<forall>c \<in> set cs. cc_name c \<noteq> [] \<and> cc_type c \<noteq> []"
    and "ask pg_pk_sql [t] = Some (map key_row_of ks)" "ask pg_col_sql [t] = Some (map pg_row_of cs)"
  shows "pg_get_columns fl ask s t =
    Some (map (\<lambda>c. column_of (cc_name c \<in> set ks) (cc_name c \<in> set ks)
      (pg_text_or_null (cc_default c)) c) cs)"
proof -
  obtain keys' where v: "visits (pg_column fl) (map pg_row_of cs) (pg_new (map key_row_of ks), []) =
      Some (keys', map (\<lambda>c. column_of (cc_name c \<in> set ks) (cc_name c \<in> set ks)
        (pg_text_or_null (cc_default c)) c) cs)"
    using pg_columns_visited [OF assms(2), of "pg_new (map key_row_of ks)" ks fl "[]"] by (auto simp: pg_good_def pg_new_def)
  have "pg_good (pg_new (map pg_row_of cs))" by (simp add: pg_good_def pg_new_def)
  from pg.each_visits [OF this, of "pg_column fl" "(pg_new (map key_row_of ks), [])"] show ?thesis
    using assms v by (auto simp: pg_get_columns_def pg_new_def)
qed

text \<open>
  C35: An open session describes a table by its columns in their order, with their names and types; the
  keys are the columns the database says are keys. A column counts its keys up with SQLite if it is a
  key, with MySQL if it is one and the database says so. With PostgreSQL every key does, also one without
  a sequence: the missing name of the sequence is a null, which reads NULL and is not empty. Likewise a
  missing default value reads NULL. A session that is not open describes nothing.
\<close>

theorem tables_described:
  fixes s :: "'d session" and m :: "'e session" and p :: "'g session"
  assumes "t \<noteq> []" "\<forall>c \<in> set cs. cc_name c \<noteq> [] \<and> cc_type c \<noteq> []"
    and sqlite: "sqlite_contract api all todo" "todo st = map sqlite_row_of cs"
      "fst (sqlite_session_query lib s (''pragma table_info('' @ t @ '')'') w) = Inr \<lparr>sq_stmt = st, sq_status = - 1\<rparr>"
    and mysql: "fetch_documented stmts rows ahead" "session_is_open m"
      "ready mysql_pk_sql [t, db] = Some kst" "rows kst = map key_row_of ks"
      "ready mysql_col_sql [t, db] = Some cst" "rows cst = map mysql_row_of cs"
    and postgres: "session_is_open p" "ask pg_pk_sql [t] = Some (map key_row_of ks)" "ask pg_col_sql [t] = Some (map pg_row_of cs)"
  shows "sqlite_get_columns lib api fl s w t =
      Some (map (\<lambda>c. column_of (cc_key c \<noteq> 0) (cc_key c \<noteq> 0) (text_or_null (cc_default c)) c) cs) \<and>
    mysql_get_columns stmts fl ready m db t =
      Some (map (\<lambda>c. column_of (cc_name c \<in> set ks) (cc_name c \<in> set ks \<and> cc_extra c = Some ''auto_increment'')
        (text_or_null (cc_default c)) c) cs) \<and>
    pg_get_columns fl ask p t =
      Some (map (\<lambda>c. column_of (cc_name c \<in> set ks) (cc_name c \<in> set ks) (pg_text_or_null (cc_default c)) c) cs) \<and>
    sqlite_get_columns lib api fl (s\<lparr>sn_db := None\<rparr>) w t = None \<and>
    mysql_get_columns stmts fl ready (m\<lparr>sn_db := None\<rparr>) db t = Some [] \<and>
    pg_get_columns fl ask (p\<lparr>sn_db := None\<rparr>) t = Some []"
proof (intro conjI)
  have names: "\<forall>c \<in> set cs. cc_name c \<noteq> []" using assms(2) by simp
  show "sqlite_get_columns lib api fl s w t =
      Some (map (\<lambda>c. column_of (cc_key c \<noteq> 0) (cc_key c \<noteq> 0) (text_or_null (cc_default c)) c) cs)"
    using sqlite_described [OF sqlite(1,2), of fl] sqlite(3) assms(1) by (simp add: sqlite_get_columns_def)
  show "mysql_get_columns stmts fl ready m db t =
      Some (map (\<lambda>c. column_of (cc_name c \<in> set ks) (cc_name c \<in> set ks \<and> cc_extra c = Some ''auto_increment'')
        (text_or_null (cc_default c)) c) cs)"
    by (rule mysql_described [where ready = ready and t = t and db = db and ks = ks and cs = cs, OF mysql(1,2) names mysql(3-6)])
  show "pg_get_columns fl ask p t =
      Some (map (\<lambda>c. column_of (cc_name c \<in> set ks) (cc_name c \<in> set ks) (pg_text_or_null (cc_default c)) c) cs)"
    by (rule pg_described [where ask = ask and t = t and ks = ks and cs = cs, OF postgres(1) assms(2) postgres(2,3)])
qed (simp_all add: sqlite_get_columns_def sqlite_session_query_def mysql_get_columns_def pg_get_columns_def session_is_open_def)

text \<open>A table whose key is a text, without a sequence, asked of libraries that have it.\<close>

definition example_columns :: "catalog_column list" where
  "example_columns =
     [\<lparr>cc_name = ''code'', cc_key = 1, cc_type = ''text'', cc_extra = None, cc_default = None\<rparr>,
      \<lparr>cc_name = ''n'', cc_key = 0, cc_type = ''int'', cc_extra = None, cc_default = Some ''7''\<rparr>]"

definition sqlite_answering :: "'st \<Rightarrow> (unit, 'st, nat) sqlite_connections" where
  "sqlite_answering st =
     \<lparr>so_open = (\<lambda>t flags w. (SQLITE_OK, Some (), w)), so_close = (\<lambda>d w. w), so_errcode = (\<lambda>d w. 0), so_errmsg = (\<lambda>d w. []),
      so_prepare = (\<lambda>d sql w. (SQLITE_OK, st, w)), so_step = (\<lambda>st w. (1, w)), so_finalize = (\<lambda>st w. w)\<rparr>"

theorem tables_described_witness:
  "pg_get_columns no_floats (\<lambda>sql params. Some (if sql = pg_pk_sql then [key_row_of ''code''] else map pg_row_of example_columns))
     \<lparr>sn_info = empty_uri, sn_db = Some ()\<rparr> ''t'' =
   Some [\<lparr>col_name = ''code'', col_pk = True, col_autoincrement = True, col_type = ''text'', col_default = ''NULL''\<rparr>,
     \<lparr>col_name = ''n'', col_pk = False, col_autoincrement = False, col_type = ''int'', col_default = ''7''\<rparr>]"
proof -
  let ?s = "\<lparr>sn_info = empty_uri, sn_db = Some ()\<rparr>"
  have sql: "pg_pk_sql \<noteq> pg_col_sql" "mysql_pk_sql \<noteq> mysql_col_sql"
    by (simp_all add: pg_pk_sql_def pg_col_sql_def mysql_pk_sql_def mysql_col_sql_def)
  have "\<forall>c \<in> set example_columns. cc_name c \<noteq> [] \<and> cc_type c \<noteq> []" by (simp add: example_columns_def)
  from tables_described [OF _ this listed_contract _ _ fetched_documented, where
      t = "''t''" and st = "(map sqlite_row_of example_columns, 0)" and lib = "sqlite_answering (map sqlite_row_of example_columns, 0)" and
      s = ?s and w = 0 and m = ?s and p = ?s and db = "''d''" and ks = "[''code'']" and
      ready = "\<lambda>sql params. Some (if sql = mysql_pk_sql then [key_row_of ''code''] else map mysql_row_of example_columns, 0)" and
      ask = "\<lambda>sql params. Some (if sql = pg_pk_sql then [key_row_of ''code''] else map pg_row_of example_columns)" and
      kst = "([key_row_of ''code''], 0)" and cst = "(map mysql_row_of example_columns, 0)" and fl = no_floats]
  show ?thesis
    using sql [symmetric]
    by (simp add: session_is_open_def sqlite_session_query_def sqlite_answering_def example_columns_def column_of_def
        pg_text_or_null_def text_or_null_def)
qed

end
