(* ===== verification/Spec2Isabelle.thy ===== *)
theory Spec2Isabelle
  imports Examples FrameExamples DynSections Menu SqlExamples Uri Transactions TimeProps
    ResultDrivers MysqlResults OperatorLiterals SqliteProps PgProps MysqlProps Rows SessionColumns
begin

text \<open>
  \<^bold>\<open>Verification of libcoda-db\<close>

  The repository is a C++ library that builds SQL statements and runs them on SQLite, PostgreSQL and
  MySQL (\<^verbatim>\<open>src/src\<close>), with its documentation as a web site whose pages carry JavaScript of their own
  (\<^verbatim>\<open>src/html\<close>): a symbol search, folding sections and a menu. Both are modelled: the JavaScript but
  for third-party code, the C++ from the text of a condition up to saving and finding records, with the
  values, the bindings of the drivers, the rows they return, times, addresses and transactions.

  \<^bold>\<open>Conventions.\<close> Every definition translates the function it is named after. An exception is \<open>None\<close> (or an
  \<open>Inl\<close> where several failures are told apart), state is a record that is passed and returned,
  objects that are copied are values, JavaScript strings are lists of 16-bit code units, C++ strings
  are lists of characters. Loops without a structural measure are functions with a measure
  (\<open>NavNext\<close>, \<open>NavPrev\<close>, the offset chains, the walk of \<open>FindChildElement\<close>), or partial functions where
  they may not end (\<open>returning_loop\<close>, \<open>rs_loop\<close>, \<open>rows_loop\<close>, \<open>find_loop\<close>, \<open>columns_loop\<close>, \<open>eq_blob\<close>), whose end is proved, or its
  absence; no fuel is used in the model of the code. Interfaces are locales, each interpreted on the
  model: \<open>generator\<close> (text made on demand and kept), \<open>executed\<close> and \<open>modified\<close> (queries with a kept text
  and a prepared statement), \<open>handler_machine\<close> (event handlers that keep an invariant and raise
  only on events that are not enabled),
  token codes that respect prefixes, \<open>driver_bind\<close> (statements that store what is bound), \<open>cursor\<close>
  (drivers that move through selected rows) and \<open>row_columns\<close> (rows with numbered and named columns).

  \<^bold>\<open>The search of the documentation\<close> (\<^verbatim>\<open>search.js\<close>, \<^verbatim>\<open>searchdata.js\<close>, the tables of the index). The
  page has a search field, a menu of filters and a window with a frame. The search box reacts to
  focus, keys, timers and the choice of a filter; a search opens a result page in the frame, whose
  script builds rows from a table and shows those whose identifier starts with the escaped query;
  keys then move the focus between rows, members and the search field.
  \<^item> \<open>JsString\<close>, \<open>JsNumber\<close>, \<open>UrlCodec\<close>: what the script uses of strings, of numbers in comparisons, and
    of \<open>escape\<close> and \<open>unescape\<close>, inverse to each other.
  \<^item> \<open>SearchId\<close>: \<open>convertToId\<close> keeps and reflects prefixes. \<open>Geometry\<close>: positions of elements.
  \<^item> \<open>Dom\<close>, \<open>ResultsPage\<close>: documents as trees with siblings, \<open>createResults\<close>, \<open>FindChildElement\<close>,
    \<open>Toggle\<close>, \<open>Search\<close> of the result page. \<open>ResultsWalk\<close>: the pointer walk ends and finds the first
    block of members in document order. \<open>ResultsShape\<close>, \<open>ResultsSearch\<close>: the page \<open>createResults\<close> builds,
    and the rows a query shows.
  \<^item> \<open>ResultsNav\<close>, \<open>FrameKeys\<close>: the keys of the frame walk the visible stops; \<open>FrameKeys\<close> also joins the
    page and the frame into one machine that raises only when Down is pressed past the last filter.
  \<^item> \<open>SearchBox\<close>, \<open>SearchBoxSafety\<close>, \<open>SearchIndex\<close>, \<open>SearchBoxProps\<close>: every method of the search box,
    sessions of user actions and timers, what is scheduled and what is not cancelled.
  \<^item> \<open>IndexTables\<close>, \<open>IndexAll\<close>, \<open>IndexFunctions\<close>: the tables of this site. \<open>SearchSite\<close>: which page a text
    opens, and that a listed symbol is found by each of its prefixes. \<open>SymbolTables\<close>, \<open>DoxygenSite\<close>: the
    tables agree with the index but for two symbols; three tables are left from an older index and no
    search opens them. \<open>Examples\<close>, \<open>FrameExamples\<close>: instances.

  \<^bold>\<open>The other scripts.\<close> \<open>DynSections\<close> (\<^verbatim>\<open>dynsections.js\<close>): folding trees and blocks, striping. \<open>Menu\<close>
  (\<^verbatim>\<open>menu.js\<close>, \<^verbatim>\<open>menudata.js\<close>): the printed menu can be read back.

  \<^bold>\<open>The database library.\<close> A query object has parts (table, columns, conditions, limits), bound values,
  a text that is kept until a part changes, and a statement that is kept until the query is dirty.
  \<^item> \<open>SqlClause\<close> (\<^verbatim>\<open>sql_generator.cpp\<close>, \<^verbatim>\<open>where_clause.cpp\<close>, \<^verbatim>\<open>join_clause.cpp\<close>): texts of clauses.
  \<^item> \<open>SqlQuery\<close> (\<^verbatim>\<open>query.cpp\<close>, the operators and the builder of \<^verbatim>\<open>where_clause.cpp\<close>): binding, preparing,
    which the database may refuse, and the locale of queries whose statement is \<open>current\<close>.
  \<^item> \<open>SelectQuery\<close>, \<open>SelectProps\<close> (\<^verbatim>\<open>select_query.cpp\<close>): the cached query implements the uncached one; each
    placeholder of a condition stands for its value; what \<open>count\<close> leaves behind, and what an execution that
    was refused.
  \<^item> \<open>Drivers\<close>, \<open>ModifyQueries\<close>, \<open>ModifyProps\<close> (\<^verbatim>\<open>insert_query.cpp\<close>, \<^verbatim>\<open>update_query.cpp\<close>,
    \<^verbatim>\<open>delete_query.cpp\<close>, \<^verbatim>\<open>modify_query.cpp\<close>): the statements run, when their text is generated.
  \<^item> \<open>Schema\<close> (\<^verbatim>\<open>schema.cpp\<close>, \<^verbatim>\<open>schema_factory.cpp\<close>), \<open>Records\<close>, \<open>RecordProps\<close> (\<^verbatim>\<open>record.cpp\<close>): the
    statements by which a record is counted, updated, inserted and removed. \<open>RecordFind\<close> (\<^verbatim>\<open>record.h\<close>): the
    finders, and that they return a record for every row. \<open>SqlExamples\<close>: instances.
  \<^item> \<open>OperatorLiterals\<close> (\<^verbatim>\<open>where_clause.cpp\<close>): conditions written with \<open>operator "" _op\<close>.
  \<^item> \<open>SqlTime\<close>, \<open>TimeProps\<close> (\<^verbatim>\<open>sql_time.cpp\<close>): printing and parsing times, with the functions of the C library
    as the GNU library documents them; the round trip.
  \<^item> \<open>SqlValue\<close>, \<open>ValueProps\<close> (\<^verbatim>\<open>sql_number\<close>, \<^verbatim>\<open>sql_value.cpp\<close>): numbers at their widths, values, conversions
    and comparisons; conversions to integers, numbers survive their text, comparing bytes does not end.
  \<^item> \<open>DriverBind\<close> (the loop of \<open>query::prepare\<close>) over \<open>SqliteStatement\<close>, \<open>PgStatement\<close> and \<open>MysqlStatement\<close>
    (\<^verbatim>\<open>statement.cpp\<close>, \<^verbatim>\<open>binding.cpp\<close>, \<^verbatim>\<open>column.cpp\<close> of the drivers): what reaches the client library and what
    is read back. \<open>SqliteProps\<close>, \<open>PgProps\<close>, \<open>MysqlProps\<close>: every value is bound under its number; which values
    come back as they were, and as what the others do.
  \<^item> \<open>ResultSet\<close> (\<^verbatim>\<open>resultset.h\<close>, \<^verbatim>\<open>resultset.cpp\<close>), \<open>ResultDrivers\<close>, \<open>MysqlResults\<close> (\<^verbatim>\<open>resultset.cpp\<close> of the
    drivers): iterators and the one cursor they share; loops visit every row, those that ask the result
    set while they run do not. \<open>Rows\<close> (\<^verbatim>\<open>row.h\<close>, \<^verbatim>\<open>row.cpp\<close>, \<^verbatim>\<open>column.cpp\<close>): columns by number, by name and
    in loops.
  \<^item> \<open>Uri\<close> (\<^verbatim>\<open>uri.cpp\<close>, \<^verbatim>\<open>sqldb.cpp\<close>): parsing addresses and choosing the driver. \<open>Transactions\<close>
    (\<^verbatim>\<open>transaction.cpp\<close> and the three drivers): transaction objects on one connection.
  \<^item> \<open>Session\<close>, \<open>SessionColumns\<close> (\<^verbatim>\<open>session.cpp\<close> and those of the drivers): opening, closing, statements run
    as text, and the columns of a table; a session holds one connection while it is open, and describes a
    table by what the database says of it. \<open>Schema\<close> takes these columns as its parameter.

  \<^bold>\<open>Parameters.\<close> Code that is not in the repository is a parameter: the layout of the browser, the
  lower-casing of characters beyond ASCII, floating point arithmetic and formats, which statements a
  database takes (\<open>taken\<close>) and what it answers, and the client libraries, whose documented behaviour is a hypothesis with an instance
  that meets it: that the statements the library sends start and end transactions, and savepoints
  keep them (\<open>documented\<close>), how many connections there are after a call (\<open>mysql_connections_documented\<close> and the
  like), that rows come one after the other (\<open>sqlite_contract\<close>, \<open>results_documented\<close>, \<open>fetch_documented\<close>),
  that binding stores the value (\<open>binds_documented\<close>), that a column holds what was bound, and null for what is not a number
  (\<open>column_holds\<close>),
  that an integer is fetched in the width of its column (\<open>fetch_integer\<close>).

  \<^bold>\<open>Not modelled.\<close> jQuery and the SmartMenus plugin (third-party, minified); wide strings; copies and moves of queries, bindings and
  statements; named parameters mapped by regular expressions, which the build leaves off.

  \<^bold>\<open>Limits.\<close> Memory is not exhausted and pointers are valid; widths are those of 64-bit Linux.
\<close>

end
